(* ===== verification/Go_Errors.thy ===== *)
theory Go_Errors
  imports Main
begin

text \<open>
  The sentinel errors of the domain packages, one enumeration per package (\<open>service_error\<close>
  gathers the small packages \<open>network\<close>, \<open>monitoring\<close>, \<open>webhook\<close>, \<open>notification\<close>,
  \<open>keyrotation\<close> and \<open>events\<close>), and the abbreviations by which the theories name them as the
  code does. A wrapped error (\<open>fmt.Errorf\<close> with the verb \<open>%w\<close>) is the sentinel that
  \<open>errors.Is\<close> finds in it; the text around it is not modelled.
\<close>

datatype identity_error =
    IdUnauthorized | IdInsufficientPermission | IdResourceForbidden | IdInvalidCredentials
  | IdAccountDisabled | IdUserNotFound | IdUsernameExists | IdEmailExists | IdTokenInvalid
  | IdTokenExpired | IdRefreshTokenInvalid | IdRefreshTokenReused | IdTOTPInvalid
  | IdTOTPNotEnabled | IdTOTPAlreadyEnabled | IdRoleNotFound | IdPermissionNotFound
  | IdAPIKeyNotFound | IdAPIKeyInvalid | IdAPIKeyExpired | IdAPIKeyRevoked

datatype ipam_error =
    IpamIPPoolNotFound | IpamIPPoolAlreadyExists | IpamIPPoolExhausted | IpamIPAlreadyAllocated
  | IpamIPAllocationNotFound | IpamInvalidCIDR

datatype job_error =
    JobJobNotFound | JobJobAlreadyClaimed | JobJobCannotCancel | JobJobCannotRetry

datatype node_error =
    NodeNodeNotFound | NodeNodeAlreadyExists | NodeNodeRevoked | NodeNodeOffline
  | NodeEnrollmentTokenInvalid | NodeEnrollmentTokenExpired | NodeEnrollmentTokenUsed
  | NodeInvalidCSR | NodeCertMismatch | NodeCommandRejected | NodeNoEligibleNodes

datatype billing_error =
    BillPlanNotFound | BillPlanInactive | BillPlanSlugExists | BillInvalidPlanSpec
  | BillInvalidSubscription | BillSubscriptionNotFound | BillSubscriptionAlreadyExists
  | BillQuotaExceeded | BillQuotaNotFound | BillInvoiceNotFound | BillInvalidInvoiceState
  | BillDuplicateIdempotencyKey | BillPaymentFailed

datatype compute_error =
    CompInstanceNotFound | CompInstanceAlreadyExists | CompInstanceRunning | CompInstanceStopped
  | CompUnsupportedInstanceType | CompInvalidSpec | CompInstanceOperationFailed
  | CompInvalidPowerAction | CompInvalidPath | CompFileTooLarge | CompSessionNotFound
  | CompInstanceNotRunning

datatype template_error =
    TmplTemplateNotFound | TmplTemplateSlugExists | TmplImageArtifactNotFound
  | TmplNoCompatibleImage | TmplInvalidFingerprint | TmplFingerprintMismatch
  | TmplInvalidTemplateSpec | TmplInvalidImageSpec | TmplInvalidCloudInit
  | TmplCloudInitOversized | TmplTemplateInstanceType | TmplInsufficientDisk
  | TmplInsufficientMemory

datatype storage_error =
    StorStoragePoolNotFound | StorStoragePoolAlreadyExists | StorStoragePoolFull
  | StorInvalidStoragePoolSpec | StorUnsupportedDriver | StorVolumeNotFound
  | StorVolumeAlreadyExists | StorVolumeAttached | StorVolumeNotAttached | StorVolumeInUse
  | StorInvalidVolumeSpec | StorVolumeResizeDownNotAllowed | StorVolumeSnapshotNotFound
  | StorVolumeSnapshotAlreadyExists

datatype backup_error =
    BakBackupNotFound | BakPolicyNotFound | BakInvalidBackupState | BakBackupCorrupted
  | BakCannotDeleteLastGoodBackup | BakRestoreFailed | BakUnauthorizedBackupAccess
  | BakObjectNotFound | BakCorruptedObject

datatype migration_error =
    MigMigrationNotFound | MigMigrationInProgress | MigInvalidMigrationState
  | MigIncompatibleDestination | MigInsufficientCapacity | MigPreflightCheckFailed

datatype service_error =
    SvcFirewallRuleNotFound | SvcInvalidPortRange | SvcInvalidProtocol | SvcInvalidRule
  | SvcThresholdNotFound | SvcAlertEventNotFound | SvcInvalidOperator | SvcInvalidThresholdSpec
  | SvcUnsupportedMetricName | SvcWebhookNotFound | SvcDeliveryNotFound | SvcInvalidWebhookURL
  | SvcSSRFBlocked | SvcUnauthorizedTenant | SvcNotificationNotFound | SvcInvalidPreference
  | SvcKeyNotFound | SvcKeyAlreadyRevoked | SvcInvalidGracePeriod | SvcEventNotFound | SvcEventBusClosed

datatype ssrf_error =
    SsrfProhibitedScheme | SsrfProhibitedHostname | SsrfProhibitedIP | SsrfDNSResolution

text \<open>
  \<open>ErrText\<close> is an \<open>errors.New\<close> without a sentinel, \<open>ErrDeadlineExceeded\<close> the error of an
  expired context, \<open>Panic\<close> a run-time panic.
\<close>

datatype go_error =
    IdentityErr identity_error
  | IpamErr ipam_error
  | JobErr job_error
  | NodeErr node_error
  | BillingErr billing_error
  | ComputeErr compute_error
  | TemplateErr template_error
  | StorageErr storage_error
  | BackupErr backup_error
  | MigrationErr migration_error
  | ServiceErr service_error
  | SsrfErr ssrf_error
  | ErrDeadlineExceeded
  | ErrText string
  | Panic

abbreviation ErrUnauthorized :: go_error where
  "ErrUnauthorized \<equiv> IdentityErr IdUnauthorized"

abbreviation ErrInsufficientPermission :: go_error where
  "ErrInsufficientPermission \<equiv> IdentityErr IdInsufficientPermission"

abbreviation ErrResourceForbidden :: go_error where
  "ErrResourceForbidden \<equiv> IdentityErr IdResourceForbidden"

abbreviation ErrInvalidCredentials :: go_error where
  "ErrInvalidCredentials \<equiv> IdentityErr IdInvalidCredentials"

abbreviation ErrAccountDisabled :: go_error where
  "ErrAccountDisabled \<equiv> IdentityErr IdAccountDisabled"

abbreviation ErrUserNotFound :: go_error where
  "ErrUserNotFound \<equiv> IdentityErr IdUserNotFound"

abbreviation ErrUsernameExists :: go_error where
  "ErrUsernameExists \<equiv> IdentityErr IdUsernameExists"

abbreviation ErrEmailExists :: go_error where
  "ErrEmailExists \<equiv> IdentityErr IdEmailExists"

abbreviation ErrTokenInvalid :: go_error where
  "ErrTokenInvalid \<equiv> IdentityErr IdTokenInvalid"

abbreviation ErrTokenExpired :: go_error where
  "ErrTokenExpired \<equiv> IdentityErr IdTokenExpired"

abbreviation ErrRefreshTokenInvalid :: go_error where
  "ErrRefreshTokenInvalid \<equiv> IdentityErr IdRefreshTokenInvalid"

abbreviation ErrRefreshTokenReused :: go_error where
  "ErrRefreshTokenReused \<equiv> IdentityErr IdRefreshTokenReused"

abbreviation ErrTOTPInvalid :: go_error where
  "ErrTOTPInvalid \<equiv> IdentityErr IdTOTPInvalid"

abbreviation ErrTOTPNotEnabled :: go_error where
  "ErrTOTPNotEnabled \<equiv> IdentityErr IdTOTPNotEnabled"

abbreviation ErrTOTPAlreadyEnabled :: go_error where
  "ErrTOTPAlreadyEnabled \<equiv> IdentityErr IdTOTPAlreadyEnabled"

abbreviation ErrRoleNotFound :: go_error where
  "ErrRoleNotFound \<equiv> IdentityErr IdRoleNotFound"

abbreviation ErrPermissionNotFound :: go_error where
  "ErrPermissionNotFound \<equiv> IdentityErr IdPermissionNotFound"

abbreviation ErrAPIKeyNotFound :: go_error where
  "ErrAPIKeyNotFound \<equiv> IdentityErr IdAPIKeyNotFound"

abbreviation ErrAPIKeyInvalid :: go_error where
  "ErrAPIKeyInvalid \<equiv> IdentityErr IdAPIKeyInvalid"

abbreviation ErrAPIKeyExpired :: go_error where
  "ErrAPIKeyExpired \<equiv> IdentityErr IdAPIKeyExpired"

abbreviation ErrAPIKeyRevoked :: go_error where
  "ErrAPIKeyRevoked \<equiv> IdentityErr IdAPIKeyRevoked"

abbreviation ErrIPPoolNotFound :: go_error where
  "ErrIPPoolNotFound \<equiv> IpamErr IpamIPPoolNotFound"

abbreviation ErrIPPoolAlreadyExists :: go_error where
  "ErrIPPoolAlreadyExists \<equiv> IpamErr IpamIPPoolAlreadyExists"

abbreviation ErrIPPoolExhausted :: go_error where
  "ErrIPPoolExhausted \<equiv> IpamErr IpamIPPoolExhausted"

abbreviation ErrIPAlreadyAllocated :: go_error where
  "ErrIPAlreadyAllocated \<equiv> IpamErr IpamIPAlreadyAllocated"

abbreviation ErrIPAllocationNotFound :: go_error where
  "ErrIPAllocationNotFound \<equiv> IpamErr IpamIPAllocationNotFound"

abbreviation ErrInvalidCIDR :: go_error where
  "ErrInvalidCIDR \<equiv> IpamErr IpamInvalidCIDR"

abbreviation ErrJobNotFound :: go_error where
  "ErrJobNotFound \<equiv> JobErr JobJobNotFound"

abbreviation ErrJobAlreadyClaimed :: go_error where
  "ErrJobAlreadyClaimed \<equiv> JobErr JobJobAlreadyClaimed"

abbreviation ErrJobCannotCancel :: go_error where
  "ErrJobCannotCancel \<equiv> JobErr JobJobCannotCancel"

abbreviation ErrJobCannotRetry :: go_error where
  "ErrJobCannotRetry \<equiv> JobErr JobJobCannotRetry"

abbreviation ErrNodeNotFound :: go_error where
  "ErrNodeNotFound \<equiv> NodeErr NodeNodeNotFound"

abbreviation ErrNodeAlreadyExists :: go_error where
  "ErrNodeAlreadyExists \<equiv> NodeErr NodeNodeAlreadyExists"

abbreviation ErrNodeRevoked :: go_error where
  "ErrNodeRevoked \<equiv> NodeErr NodeNodeRevoked"

abbreviation ErrNodeOffline :: go_error where
  "ErrNodeOffline \<equiv> NodeErr NodeNodeOffline"

abbreviation ErrEnrollmentTokenInvalid :: go_error where
  "ErrEnrollmentTokenInvalid \<equiv> NodeErr NodeEnrollmentTokenInvalid"

abbreviation ErrEnrollmentTokenExpired :: go_error where
  "ErrEnrollmentTokenExpired \<equiv> NodeErr NodeEnrollmentTokenExpired"

abbreviation ErrEnrollmentTokenUsed :: go_error where
  "ErrEnrollmentTokenUsed \<equiv> NodeErr NodeEnrollmentTokenUsed"

abbreviation ErrInvalidCSR :: go_error where
  "ErrInvalidCSR \<equiv> NodeErr NodeInvalidCSR"

abbreviation ErrCertMismatch :: go_error where
  "ErrCertMismatch \<equiv> NodeErr NodeCertMismatch"

abbreviation ErrCommandRejected :: go_error where
  "ErrCommandRejected \<equiv> NodeErr NodeCommandRejected"

abbreviation ErrNoEligibleNodes :: go_error where
  "ErrNoEligibleNodes \<equiv> NodeErr NodeNoEligibleNodes"

abbreviation ErrPlanNotFound :: go_error where
  "ErrPlanNotFound \<equiv> BillingErr BillPlanNotFound"

abbreviation ErrPlanInactive :: go_error where
  "ErrPlanInactive \<equiv> BillingErr BillPlanInactive"

abbreviation ErrPlanSlugExists :: go_error where
  "ErrPlanSlugExists \<equiv> BillingErr BillPlanSlugExists"

abbreviation ErrInvalidPlanSpec :: go_error where
  "ErrInvalidPlanSpec \<equiv> BillingErr BillInvalidPlanSpec"

abbreviation ErrInvalidSubscription :: go_error where
  "ErrInvalidSubscription \<equiv> BillingErr BillInvalidSubscription"

abbreviation ErrSubscriptionNotFound :: go_error where
  "ErrSubscriptionNotFound \<equiv> BillingErr BillSubscriptionNotFound"

abbreviation ErrSubscriptionAlreadyExists :: go_error where
  "ErrSubscriptionAlreadyExists \<equiv> BillingErr BillSubscriptionAlreadyExists"

abbreviation ErrQuotaExceeded :: go_error where
  "ErrQuotaExceeded \<equiv> BillingErr BillQuotaExceeded"

abbreviation ErrQuotaNotFound :: go_error where
  "ErrQuotaNotFound \<equiv> BillingErr BillQuotaNotFound"

abbreviation ErrInvoiceNotFound :: go_error where
  "ErrInvoiceNotFound \<equiv> BillingErr BillInvoiceNotFound"

abbreviation ErrInvalidInvoiceState :: go_error where
  "ErrInvalidInvoiceState \<equiv> BillingErr BillInvalidInvoiceState"

abbreviation ErrDuplicateIdempotencyKey :: go_error where
  "ErrDuplicateIdempotencyKey \<equiv> BillingErr BillDuplicateIdempotencyKey"

abbreviation ErrPaymentFailed :: go_error where
  "ErrPaymentFailed \<equiv> BillingErr BillPaymentFailed"

abbreviation ErrInstanceNotFound :: go_error where
  "ErrInstanceNotFound \<equiv> ComputeErr CompInstanceNotFound"

abbreviation ErrInstanceAlreadyExists :: go_error where
  "ErrInstanceAlreadyExists \<equiv> ComputeErr CompInstanceAlreadyExists"

abbreviation ErrInstanceRunning :: go_error where
  "ErrInstanceRunning \<equiv> ComputeErr CompInstanceRunning"

abbreviation ErrInstanceStopped :: go_error where
  "ErrInstanceStopped \<equiv> ComputeErr CompInstanceStopped"

abbreviation ErrUnsupportedInstanceType :: go_error where
  "ErrUnsupportedInstanceType \<equiv> ComputeErr CompUnsupportedInstanceType"

abbreviation ErrInvalidSpec :: go_error where
  "ErrInvalidSpec \<equiv> ComputeErr CompInvalidSpec"

abbreviation ErrInstanceOperationFailed :: go_error where
  "ErrInstanceOperationFailed \<equiv> ComputeErr CompInstanceOperationFailed"

abbreviation ErrInvalidPowerAction :: go_error where
  "ErrInvalidPowerAction \<equiv> ComputeErr CompInvalidPowerAction"

abbreviation ErrInvalidPath :: go_error where
  "ErrInvalidPath \<equiv> ComputeErr CompInvalidPath"

abbreviation ErrFileTooLarge :: go_error where
  "ErrFileTooLarge \<equiv> ComputeErr CompFileTooLarge"

abbreviation ErrSessionNotFound :: go_error where
  "ErrSessionNotFound \<equiv> ComputeErr CompSessionNotFound"

abbreviation ErrInstanceNotRunning :: go_error where
  "ErrInstanceNotRunning \<equiv> ComputeErr CompInstanceNotRunning"

abbreviation ErrTemplateNotFound :: go_error where
  "ErrTemplateNotFound \<equiv> TemplateErr TmplTemplateNotFound"

abbreviation ErrTemplateSlugExists :: go_error where
  "ErrTemplateSlugExists \<equiv> TemplateErr TmplTemplateSlugExists"

abbreviation ErrImageArtifactNotFound :: go_error where
  "ErrImageArtifactNotFound \<equiv> TemplateErr TmplImageArtifactNotFound"

abbreviation ErrNoCompatibleImage :: go_error where
  "ErrNoCompatibleImage \<equiv> TemplateErr TmplNoCompatibleImage"

abbreviation ErrInvalidFingerprint :: go_error where
  "ErrInvalidFingerprint \<equiv> TemplateErr TmplInvalidFingerprint"

abbreviation ErrFingerprintMismatch :: go_error where
  "ErrFingerprintMismatch \<equiv> TemplateErr TmplFingerprintMismatch"

abbreviation ErrInvalidTemplateSpec :: go_error where
  "ErrInvalidTemplateSpec \<equiv> TemplateErr TmplInvalidTemplateSpec"

abbreviation ErrInvalidImageSpec :: go_error where
  "ErrInvalidImageSpec \<equiv> TemplateErr TmplInvalidImageSpec"

abbreviation ErrInvalidCloudInit :: go_error where
  "ErrInvalidCloudInit \<equiv> TemplateErr TmplInvalidCloudInit"

abbreviation ErrCloudInitOversized :: go_error where
  "ErrCloudInitOversized \<equiv> TemplateErr TmplCloudInitOversized"

abbreviation ErrTemplateInstanceType :: go_error where
  "ErrTemplateInstanceType \<equiv> TemplateErr TmplTemplateInstanceType"

abbreviation ErrInsufficientDisk :: go_error where
  "ErrInsufficientDisk \<equiv> TemplateErr TmplInsufficientDisk"

abbreviation ErrInsufficientMemory :: go_error where
  "ErrInsufficientMemory \<equiv> TemplateErr TmplInsufficientMemory"

abbreviation ErrStoragePoolNotFound :: go_error where
  "ErrStoragePoolNotFound \<equiv> StorageErr StorStoragePoolNotFound"

abbreviation ErrStoragePoolAlreadyExists :: go_error where
  "ErrStoragePoolAlreadyExists \<equiv> StorageErr StorStoragePoolAlreadyExists"

abbreviation ErrStoragePoolFull :: go_error where
  "ErrStoragePoolFull \<equiv> StorageErr StorStoragePoolFull"

abbreviation ErrInvalidStoragePoolSpec :: go_error where
  "ErrInvalidStoragePoolSpec \<equiv> StorageErr StorInvalidStoragePoolSpec"

abbreviation ErrUnsupportedDriver :: go_error where
  "ErrUnsupportedDriver \<equiv> StorageErr StorUnsupportedDriver"

abbreviation ErrVolumeNotFound :: go_error where
  "ErrVolumeNotFound \<equiv> StorageErr StorVolumeNotFound"

abbreviation ErrVolumeAlreadyExists :: go_error where
  "ErrVolumeAlreadyExists \<equiv> StorageErr StorVolumeAlreadyExists"

abbreviation ErrVolumeAttached :: go_error where
  "ErrVolumeAttached \<equiv> StorageErr StorVolumeAttached"

abbreviation ErrVolumeNotAttached :: go_error where
  "ErrVolumeNotAttached \<equiv> StorageErr StorVolumeNotAttached"

abbreviation ErrVolumeInUse :: go_error where
  "ErrVolumeInUse \<equiv> StorageErr StorVolumeInUse"

abbreviation ErrInvalidVolumeSpec :: go_error where
  "ErrInvalidVolumeSpec \<equiv> StorageErr StorInvalidVolumeSpec"

abbreviation ErrVolumeResizeDownNotAllowed :: go_error where
  "ErrVolumeResizeDownNotAllowed \<equiv> StorageErr StorVolumeResizeDownNotAllowed"

abbreviation ErrVolumeSnapshotNotFound :: go_error where
  "ErrVolumeSnapshotNotFound \<equiv> StorageErr StorVolumeSnapshotNotFound"

abbreviation ErrVolumeSnapshotAlreadyExists :: go_error where
  "ErrVolumeSnapshotAlreadyExists \<equiv> StorageErr StorVolumeSnapshotAlreadyExists"

abbreviation ErrBackupNotFound :: go_error where
  "ErrBackupNotFound \<equiv> BackupErr BakBackupNotFound"

abbreviation ErrPolicyNotFound :: go_error where
  "ErrPolicyNotFound \<equiv> BackupErr BakPolicyNotFound"

abbreviation ErrInvalidBackupState :: go_error where
  "ErrInvalidBackupState \<equiv> BackupErr BakInvalidBackupState"

abbreviation ErrBackupCorrupted :: go_error where
  "ErrBackupCorrupted \<equiv> BackupErr BakBackupCorrupted"

abbreviation ErrCannotDeleteLastGoodBackup :: go_error where
  "ErrCannotDeleteLastGoodBackup \<equiv> BackupErr BakCannotDeleteLastGoodBackup"

abbreviation ErrRestoreFailed :: go_error where
  "ErrRestoreFailed \<equiv> BackupErr BakRestoreFailed"

abbreviation ErrUnauthorizedBackupAccess :: go_error where
  "ErrUnauthorizedBackupAccess \<equiv> BackupErr BakUnauthorizedBackupAccess"

abbreviation ErrObjectNotFound :: go_error where
  "ErrObjectNotFound \<equiv> BackupErr BakObjectNotFound"

abbreviation ErrCorruptedObject :: go_error where
  "ErrCorruptedObject \<equiv> BackupErr BakCorruptedObject"

abbreviation ErrMigrationNotFound :: go_error where
  "ErrMigrationNotFound \<equiv> MigrationErr MigMigrationNotFound"

abbreviation ErrMigrationInProgress :: go_error where
  "ErrMigrationInProgress \<equiv> MigrationErr MigMigrationInProgress"

abbreviation ErrInvalidMigrationState :: go_error where
  "ErrInvalidMigrationState \<equiv> MigrationErr MigInvalidMigrationState"

abbreviation ErrIncompatibleDestination :: go_error where
  "ErrIncompatibleDestination \<equiv> MigrationErr MigIncompatibleDestination"

abbreviation ErrInsufficientCapacity :: go_error where
  "ErrInsufficientCapacity \<equiv> MigrationErr MigInsufficientCapacity"

abbreviation ErrPreflightCheckFailed :: go_error where
  "ErrPreflightCheckFailed \<equiv> MigrationErr MigPreflightCheckFailed"

abbreviation ErrFirewallRuleNotFound :: go_error where
  "ErrFirewallRuleNotFound \<equiv> ServiceErr SvcFirewallRuleNotFound"

abbreviation ErrInvalidPortRange :: go_error where
  "ErrInvalidPortRange \<equiv> ServiceErr SvcInvalidPortRange"

abbreviation ErrInvalidProtocol :: go_error where
  "ErrInvalidProtocol \<equiv> ServiceErr SvcInvalidProtocol"

abbreviation ErrInvalidRule :: go_error where
  "ErrInvalidRule \<equiv> ServiceErr SvcInvalidRule"

abbreviation ErrThresholdNotFound :: go_error where
  "ErrThresholdNotFound \<equiv> ServiceErr SvcThresholdNotFound"

abbreviation ErrAlertEventNotFound :: go_error where
  "ErrAlertEventNotFound \<equiv> ServiceErr SvcAlertEventNotFound"

abbreviation ErrInvalidOperator :: go_error where
  "ErrInvalidOperator \<equiv> ServiceErr SvcInvalidOperator"

abbreviation ErrInvalidThresholdSpec :: go_error where
  "ErrInvalidThresholdSpec \<equiv> ServiceErr SvcInvalidThresholdSpec"

abbreviation ErrUnsupportedMetricName :: go_error where
  "ErrUnsupportedMetricName \<equiv> ServiceErr SvcUnsupportedMetricName"

abbreviation ErrWebhookNotFound :: go_error where
  "ErrWebhookNotFound \<equiv> ServiceErr SvcWebhookNotFound"

abbreviation ErrDeliveryNotFound :: go_error where
  "ErrDeliveryNotFound \<equiv> ServiceErr SvcDeliveryNotFound"

abbreviation ErrInvalidWebhookURL :: go_error where
  "ErrInvalidWebhookURL \<equiv> ServiceErr SvcInvalidWebhookURL"

abbreviation ErrSSRFBlocked :: go_error where
  "ErrSSRFBlocked \<equiv> ServiceErr SvcSSRFBlocked"

abbreviation ErrUnauthorizedTenant :: go_error where
  "ErrUnauthorizedTenant \<equiv> ServiceErr SvcUnauthorizedTenant"

abbreviation ErrNotificationNotFound :: go_error where
  "ErrNotificationNotFound \<equiv> ServiceErr SvcNotificationNotFound"

abbreviation ErrInvalidPreference :: go_error where
  "ErrInvalidPreference \<equiv> ServiceErr SvcInvalidPreference"

abbreviation ErrKeyNotFound :: go_error where
  "ErrKeyNotFound \<equiv> ServiceErr SvcKeyNotFound"

abbreviation ErrKeyAlreadyRevoked :: go_error where
  "ErrKeyAlreadyRevoked \<equiv> ServiceErr SvcKeyAlreadyRevoked"

abbreviation ErrInvalidGracePeriod :: go_error where
  "ErrInvalidGracePeriod \<equiv> ServiceErr SvcInvalidGracePeriod"

abbreviation ErrEventNotFound :: go_error where
  "ErrEventNotFound \<equiv> ServiceErr SvcEventNotFound"

abbreviation ErrProhibitedScheme :: go_error where
  "ErrProhibitedScheme \<equiv> SsrfErr SsrfProhibitedScheme"

abbreviation ErrProhibitedHostname :: go_error where
  "ErrProhibitedHostname \<equiv> SsrfErr SsrfProhibitedHostname"

abbreviation ErrProhibitedIP :: go_error where
  "ErrProhibitedIP \<equiv> SsrfErr SsrfProhibitedIP"

abbreviation ErrDNSResolution :: go_error where
  "ErrDNSResolution \<equiv> SsrfErr SsrfDNSResolution"

abbreviation ErrEventBusClosed :: go_error where
  "ErrEventBusClosed \<equiv> ServiceErr SvcEventBusClosed"

end
