(* ===== verification/Aurora_Prelude.thy ===== *)
theory Aurora_Prelude
  imports Go_Errors
begin

text \<open>
  Shared vocabulary of the development: Go's scalar conventions (instants, durations,
  64-bit wrap-around, dynamically typed values), the iteration order of a Go map, results
  with the sentinel errors of \<open>Go_Errors\<close>, string helpers of the packages \<open>strings\<close>,
  \<open>strconv\<close> and \<open>fmt\<close>, and the generic lemmas and locales the components use.

  Conventions used by every theory:
  \<^item> a method of a repository or service is a function that takes the state and returns the
    new state with its result; the mutex a Go method holds for its whole body makes that body
    one atomic step;
  \<^item> \<open>time.Now()\<close> is the argument \<open>now\<close>, and the several clock readings of one method body
    are taken as one instant; \<open>uuid.NewString()\<close> is an argument, the identifier it returns;
  \<^item> a \<open>for range\<close> over a map takes the visiting order as an argument \<open>ks\<close>: Go leaves the
    order open, so a theorem is about every \<open>ks\<close> with \<open>iterates m ks\<close>.
\<close>

named_theorems repo_simps
  \<open>unfolding rules for repository operations\<close>

named_theorems step_inv
  \<open>invariant preservation, one rule per operation\<close>

section \<open>Instants, durations and 64-bit integers\<close>

type_synonym gtime = int
type_synonym duration = int

definition second :: duration where
  "second = 1000000000"

definition minute :: duration where
  "minute = 60 * second"

definition hour :: duration where
  "hour = 60 * minute"

definition day :: duration where
  "day = 24 * hour"

text \<open>The zero \<open>time.Time\<close> is 1 January of year 1, in nanoseconds since the Unix epoch.\<close>

definition zero_time :: gtime where
  "zero_time = - 62135596800000000000"

definition max_int64 :: int where
  "max_int64 = 9223372036854775807"

definition min_int64 :: int where
  "min_int64 = - 9223372036854775808"

text \<open>\<open>Time.Sub\<close> saturates at the ends of the 64-bit duration range.\<close>

definition time_sub :: "gtime \<Rightarrow> gtime \<Rightarrow> duration" where
  "time_sub t u = max min_int64 (min max_int64 (t - u))"

text \<open>Two's complement wrap-around of an \<open>int64\<close> result.\<close>

definition wrap64 :: "int \<Rightarrow> int" where
  "wrap64 x = (x + 9223372036854775808) mod 18446744073709551616 - 9223372036854775808"

definition int64 :: "int \<Rightarrow> bool" where
  "int64 x \<longleftrightarrow> min_int64 \<le> x \<and> x \<le> max_int64"

lemma wrap64_id [simp]: "int64 x \<Longrightarrow> wrap64 x = x"
  by (simp add: wrap64_def int64_def min_int64_def max_int64_def)

lemma wrap64_pos: "0 \<le> x \<Longrightarrow> x \<le> max_int64 \<Longrightarrow> wrap64 x = x"
  by (rule wrap64_id) (simp add: int64_def min_int64_def)

lemma int64_wrap64 [simp]: "int64 (wrap64 x)"
proof -
  have "0 \<le> (x + 9223372036854775808) mod 18446744073709551616"
    by simp
  moreover have "(x + 9223372036854775808) mod 18446744073709551616 < 18446744073709551616"
    by simp
  ultimately show ?thesis
    by (simp add: wrap64_def int64_def min_int64_def max_int64_def)
qed

lemma wrap64_add_left: "wrap64 (wrap64 x + y) = wrap64 (x + y)"
proof -
  have "wrap64 x + y + 9223372036854775808 = (x + 9223372036854775808) mod 18446744073709551616 + y"
    unfolding wrap64_def by linarith
  then have "(wrap64 x + y + 9223372036854775808) mod 18446744073709551616 =
      (x + 9223372036854775808 + y) mod 18446744073709551616"
    by (simp only: mod_add_left_eq)
  also have "x + 9223372036854775808 + y = x + y + 9223372036854775808" by simp
  finally show ?thesis by (simp only: wrap64_def [of "wrap64 x + y"] wrap64_def [of "x + y"])
qed

lemma time_sub_small:
  "min_int64 \<le> t - u \<Longrightarrow> t - u \<le> max_int64 \<Longrightarrow> time_sub t u = t - u"
  by (simp add: time_sub_def)

lemma time_sub_self [simp]: "time_sub t t = 0"
  by (simp add: time_sub_def max_int64_def min_int64_def)

lemma time_sub_ge_iff:
  "min_int64 < w \<Longrightarrow> w \<le> max_int64 \<Longrightarrow> w \<le> time_sub t u \<longleftrightarrow> w \<le> t - u"
  by (auto simp: time_sub_def max_int64_def min_int64_def)

lemma time_sub_gt_iff:
  "min_int64 \<le> w \<Longrightarrow> w < max_int64 \<Longrightarrow> w < time_sub t u \<longleftrightarrow> w < t - u"
  by (auto simp: time_sub_def max_int64_def min_int64_def)

text \<open>Go's integer division truncates towards zero.\<close>

definition quot :: "int \<Rightarrow> int \<Rightarrow> int" where
  "quot a b = sgn a * sgn b * (\<bar>a\<bar> div \<bar>b\<bar>)"

lemma quot_nonneg [simp]: "0 \<le> a \<Longrightarrow> 0 < b \<Longrightarrow> quot a b = a div b"
  by (cases "a = 0") (simp_all add: quot_def)

lemma quot_mult_le: "0 < b \<Longrightarrow> 0 \<le> a \<Longrightarrow> quot a b * b \<le> a"
  by (simp add: minus_mod_eq_div_mult [symmetric])

section \<open>Dynamically typed values\<close>

text \<open>The values that \<open>map[string]interface{}\<close> payloads, details and capabilities carry.\<close>

datatype gval =
    GNil
  | GStr string
  | GBool bool
  | GInt int
  | GList "gval list"
  | GObj "(string \<times> gval) list"

type_synonym gobj = "(string \<times> gval) list"

text \<open>A type assertion \<open>x, ok := m[k].(string)\<close>, and the same for \<open>bool\<close>.\<close>

definition get_str :: "gobj \<Rightarrow> string \<Rightarrow> string option" where
  "get_str m k = (case map_of m k of Some (GStr s) \<Rightarrow> Some s | _ \<Rightarrow> None)"

definition get_bool :: "gobj \<Rightarrow> string \<Rightarrow> bool option" where
  "get_bool m k = (case map_of m k of Some (GBool b) \<Rightarrow> Some b | _ \<Rightarrow> None)"

section \<open>Ranging over a Go map\<close>

definition iterates :: "('k \<rightharpoonup> 'v) \<Rightarrow> 'k list \<Rightarrow> bool" where
  "iterates m ks \<longleftrightarrow> distinct ks \<and> set ks = dom m"

definition vals :: "('k \<rightharpoonup> 'v) \<Rightarrow> 'k list \<Rightarrow> 'v list" where
  "vals m ks = List.map_filter m ks"

lemma vals_Nil [simp]: "vals m [] = []"
  by (simp add: vals_def map_filter_simps)

lemma vals_Cons [simp]:
  "vals m (k # ks) = (case m k of None \<Rightarrow> vals m ks | Some v \<Rightarrow> v # vals m ks)"
  by (simp add: vals_def map_filter_simps split: option.splits)

lemma set_vals: "set (vals m ks) = {v. \<exists>k \<in> set ks. m k = Some v}"
  by (induction ks) (auto split: option.splits)

lemma vals_upd_other [simp]: "k \<notin> set ks \<Longrightarrow> vals (m(k := x)) ks = vals m ks"
  by (induction ks) (auto split: option.splits)

lemma iterates_dom: "iterates m ks \<Longrightarrow> set ks = dom m"
  by (simp add: iterates_def)

lemma iterates_distinct: "iterates m ks \<Longrightarrow> distinct ks"
  by (simp add: iterates_def)

lemma iterates_empty [simp]: "iterates Map.empty ks \<longleftrightarrow> ks = []"
  by (auto simp: iterates_def)

lemma set_vals_ran: "iterates m ks \<Longrightarrow> set (vals m ks) = ran m"
  by (auto simp: set_vals iterates_def ran_def)

lemma list_ex_vals: "iterates m ks \<Longrightarrow> list_ex P (vals m ks) \<longleftrightarrow> (\<exists>v \<in> ran m. P v)"
  by (simp add: list_ex_iff set_vals_ran)

lemma vals_in: "m k = Some v \<Longrightarrow> k \<in> set ks \<Longrightarrow> v \<in> set (vals m ks)"
  by (auto simp: set_vals)

text \<open>A loop over a map whose body looks for the first key with a property.\<close>

definition find_key :: "('k \<rightharpoonup> 'v) \<Rightarrow> ('v \<Rightarrow> bool) \<Rightarrow> 'k list \<Rightarrow> 'k option" where
  "find_key m P ks = List.find (\<lambda>k. case m k of None \<Rightarrow> False | Some v \<Rightarrow> P v) ks"

lemma find_key_Some:
  assumes "find_key m P ks = Some k"
  obtains v where "k \<in> set ks" "m k = Some v" "P v"
  using assms unfolding find_key_def
  by (auto simp: find_Some_iff set_conv_nth split: option.splits)

lemma find_key_None:
  "find_key m P ks = None \<longleftrightarrow> (\<forall>k \<in> set ks. \<forall>v. m k = Some v \<longrightarrow> \<not> P v)"
  by (auto simp: find_key_def find_None_iff split: option.splits)

section \<open>Results\<close>

type_synonym 'a result = "go_error + 'a"

definition is_ok :: "'a result \<Rightarrow> bool" where
  "is_ok r \<longleftrightarrow> (case r of Inl _ \<Rightarrow> False | Inr _ \<Rightarrow> True)"

lemma is_ok_simps [simp]: "is_ok (Inr x)" "\<not> is_ok (Inl e)"
  by (simp_all add: is_ok_def)

section \<open>Strings\<close>

definition lower_char :: "char \<Rightarrow> char" where
  "lower_char c =
     (if (65 :: nat) \<le> of_char c \<and> of_char c \<le> (90 :: nat) then char_of (of_char c + 32 :: nat) else c)"

text \<open>\<open>strings.ToLower\<close> and \<open>strings.EqualFold\<close> on ASCII text.\<close>

definition to_lower :: "string \<Rightarrow> string" where
  "to_lower s = map lower_char s"

definition equal_fold :: "string \<Rightarrow> string \<Rightarrow> bool" where
  "equal_fold s t \<longleftrightarrow> to_lower s = to_lower t"

text \<open>\<open>strings.TrimSpace\<close>, \<open>HasPrefix\<close>, \<open>Contains\<close> and \<open>Split\<close> on one separator character.\<close>

definition is_space :: "char \<Rightarrow> bool" where
  "is_space c = ((of_char c :: nat) \<in> {9, 10, 11, 12, 13, 32})"

definition trim_space :: "string \<Rightarrow> string" where
  "trim_space s = rev (dropWhile is_space (rev (dropWhile is_space s)))"

definition upper_char :: "char \<Rightarrow> char" where
  "upper_char c =
     (if (97 :: nat) \<le> of_char c \<and> of_char c \<le> (122 :: nat) then char_of (of_char c - 32 :: nat) else c)"

text \<open>The character class \<open>[a-z0-9]\<close>.\<close>

definition slug_char :: "char \<Rightarrow> bool" where
  "slug_char c =
     (let n = of_char c :: nat in (97 \<le> n \<and> n \<le> 122) \<or> (48 \<le> n \<and> n \<le> 57))"

definition has_prefix :: "string \<Rightarrow> string \<Rightarrow> bool" where
  "has_prefix s p \<longleftrightarrow> take (length p) s = p"

definition has_suffix :: "string \<Rightarrow> string \<Rightarrow> bool" where
  "has_suffix s p \<longleftrightarrow> length p \<le> length s \<and> drop (length s - length p) s = p"

definition trim_suffix :: "string \<Rightarrow> string \<Rightarrow> string" where
  "trim_suffix s p = (if has_suffix s p then take (length s - length p) s else s)"

lemma has_suffix_iff: "has_suffix s p \<longleftrightarrow> (\<exists>q. s = q @ p)"
proof
  assume "has_suffix s p"
  then have "s = take (length s - length p) s @ p" by (metis append_take_drop_id has_suffix_def)
  then show "\<exists>q. s = q @ p" by blast
qed (auto simp: has_suffix_def)

lemma trim_suffix_append [simp]: "trim_suffix (q @ p) p = q"
  by (simp add: trim_suffix_def has_suffix_def)

lemma has_prefix_iff: "has_prefix s p \<longleftrightarrow> (\<exists>q. s = p @ q)"
  by (metis append_eq_conv_conj append_take_drop_id has_prefix_def)

fun contains :: "string \<Rightarrow> string \<Rightarrow> bool" where
  "contains [] p \<longleftrightarrow> p = []"
| "contains (c # s) p \<longleftrightarrow> has_prefix (c # s) p \<or> contains s p"

fun split_on :: "char \<Rightarrow> string \<Rightarrow> string list" where
  "split_on c [] = [[]]"
| "split_on c (x # xs) =
     (if x = c then [] # split_on c xs
      else (case split_on c xs of [] \<Rightarrow> [[x]] | y # ys \<Rightarrow> (x # y) # ys))"

text \<open>
  The page of a listing: \<open>matching[offset:end]\<close> with the defaults of the repositories. A
  negative offset, or an end below it after the sum wrapped around, is out of range.
\<close>

definition page :: "int \<Rightarrow> int \<Rightarrow> 'a list \<Rightarrow> go_error + 'a list" where
  "page offset limit xs =
     (let n = int (length xs)
      in if n \<le> offset then Inr []
         else let limit = (if limit \<le> 0 then 50 else limit);
                  e = wrap64 (offset + limit);
                  e = (if n < e then n else e)
              in if offset < 0 \<or> e < offset then Inl Panic
                 else Inr (take (nat (e - offset)) (drop (nat offset) xs)))"

text \<open>The page of the repositories without a default limit: a limit of zero or less is no limit.\<close>

definition slice_page :: "int \<Rightarrow> int \<Rightarrow> 'a list \<Rightarrow> go_error + 'a list" where
  "slice_page offset limit xs =
     (let n = int (length xs)
      in if n \<le> offset then Inr []
         else let e = (if 0 < limit \<and> wrap64 (offset + limit) < n then wrap64 (offset + limit) else n)
              in if offset < 0 \<or> e < offset then Inl Panic
                 else Inr (take (nat (e - offset)) (drop (nat offset) xs)))"

lemma slice_page_subset: "slice_page offset limit xs = Inr ys \<Longrightarrow> set ys \<subseteq> set xs"
  by (auto simp: slice_page_def Let_def split: if_splits dest: in_set_takeD in_set_dropD)

text \<open>The verb \<open>%d\<close>: decimal digits, most significant first.\<close>

fun nat_digits :: "nat \<Rightarrow> string" where
  "nat_digits n =
     (if n < 10 then [char_of (n + 48)] else nat_digits (n div 10) @ [char_of (n mod 10 + 48)])"

declare nat_digits.simps [simp del]

definition show_int :: "int \<Rightarrow> string" where
  "show_int i = (if i < 0 then ''-'' @ nat_digits (nat (- i)) else nat_digits (nat i))"

lemma nat_digits_nonempty [simp]: "nat_digits n \<noteq> []"
  by (subst nat_digits.simps) simp

text \<open>A separator that does not occur in the two heads splits two joined strings alike.\<close>

lemma split_at_separator:
  assumes "xs @ c # ys = xs' @ c # ys'" and "c \<notin> set xs" and "c \<notin> set xs'"
  shows "xs = xs' \<and> ys = ys'"
  using assms
proof (induction xs arbitrary: xs')
  case Nil
  then show ?case by (cases xs') auto
next
  case (Cons x xs)
  then show ?case by (cases xs') auto
qed

section \<open>Invariants of state machines\<close>

text \<open>
  A component with state and operations: \<open>step\<close> relates the state before and after one
  operation. An invariant that every step keeps holds after any sequence of steps.
\<close>

locale invariant_machine =
  fixes step :: "'s \<Rightarrow> 's \<Rightarrow> bool"
    and inv :: "'s \<Rightarrow> bool"
  assumes step_keeps: "inv s \<Longrightarrow> step s t \<Longrightarrow> inv t"
begin

lemma steps_keep: "step\<^sup>*\<^sup>* s t \<Longrightarrow> inv s \<Longrightarrow> inv t"
  by (induction rule: rtranclp_induct) (auto intro: step_keeps)

end

end
