(* ===== verification/RateLimit.thy ===== *)
theory RateLimit
  imports Aurora_Prelude
begin

text \<open>
  API rate limiting: the rules and the service of \<open>internal/app/ratelimit/service.go\<close> over the
  port \<open>ratelimit.Limiter\<close>, and the in-memory limiter of
  \<open>internal/infra/memory/ratelimit_repo.go\<close>. The port is the locale \<open>limiter\<close>, interpreted on
  the in-memory limiter.
\<close>

section \<open>Data\<close>

record rl_result =
  rl_allowed :: bool
  rl_limit :: int
  rl_remaining :: int
  rl_reset_after :: duration

record rule =
  rule_name :: string
  rule_limit :: int
  rule_window :: duration
  rule_prefix :: string

record memory_bucket =
  tokens :: int
  max_tokens :: int
  last_refill :: gtime
  window :: duration

type_synonym limiter_state = "string \<rightharpoonup> memory_bucket"

text \<open>The predefined production rules.\<close>

definition predefined_rules :: "rule list" where
  "predefined_rules =
    [\<lparr>rule_name = ''auth_attempts'', rule_limit = 10, rule_window = minute, rule_prefix = ''auth''\<rparr>,
     \<lparr>rule_name = ''token_refresh'', rule_limit = 30, rule_window = minute, rule_prefix = ''refresh''\<rparr>,
     \<lparr>rule_name = ''instance_create'', rule_limit = 15, rule_window = minute, rule_prefix = ''inst_create''\<rparr>,
     \<lparr>rule_name = ''instance_delete'', rule_limit = 20, rule_window = minute, rule_prefix = ''inst_del''\<rparr>,
     \<lparr>rule_name = ''console_session'', rule_limit = 10, rule_window = minute, rule_prefix = ''console''\<rparr>,
     \<lparr>rule_name = ''webhook_create'', rule_limit = 10, rule_window = minute, rule_prefix = ''wh_create''\<rparr>,
     \<lparr>rule_name = ''admin_mutations'', rule_limit = 60, rule_window = minute, rule_prefix = ''admin''\<rparr>]"

section \<open>The in-memory limiter\<close>

definition bucket_key :: "string \<Rightarrow> string \<Rightarrow> string" where
  "bucket_key prefix key = prefix @ '':'' @ key"

definition new_bucket :: "gtime \<Rightarrow> rule \<Rightarrow> memory_bucket" where
  "new_bucket now r =
     \<lparr>tokens = rule_limit r, max_tokens = rule_limit r, last_refill = now, window = rule_window r\<rparr>"

definition refill :: "gtime \<Rightarrow> memory_bucket \<Rightarrow> memory_bucket" where
  "refill now b =
     (if time_sub now (last_refill b) \<ge> window b
      then b\<lparr>tokens := max_tokens b, last_refill := now\<rparr> else b)"

definition allow :: "gtime \<Rightarrow> string \<Rightarrow> rule \<Rightarrow> limiter_state \<Rightarrow> limiter_state \<times> rl_result" where
  "allow now key r st =
     (let bk = bucket_key (rule_prefix r) key;
          b0 = (case st bk of Some b \<Rightarrow> b | None \<Rightarrow> new_bucket now r);
          elapsed = time_sub now (last_refill b0);
          b = refill now b0
      in if tokens b > 0
         then (st(bk \<mapsto> b\<lparr>tokens := tokens b - 1\<rparr>),
               \<lparr>rl_allowed = True, rl_limit = rule_limit r, rl_remaining = tokens b - 1,
                rl_reset_after = window b - elapsed\<rparr>)
         else (st(bk \<mapsto> b),
               \<lparr>rl_allowed = False, rl_limit = rule_limit r, rl_remaining = 0,
                rl_reset_after = window b - elapsed\<rparr>))"

definition limiter_reset :: "string \<Rightarrow> string \<Rightarrow> limiter_state \<Rightarrow> limiter_state" where
  "limiter_reset key prefix st = st(bucket_key prefix key := None)"

section \<open>The service\<close>

text \<open>\<open>None\<close> is a service built with a nil limiter.\<close>

definition check_limit ::
  "gtime \<Rightarrow> string \<Rightarrow> rule \<Rightarrow> limiter_state option \<Rightarrow> limiter_state option \<times> rl_result" where
  "check_limit now key r lim =
     (case lim of
        None \<Rightarrow> (None, \<lparr>rl_allowed = True, rl_limit = rule_limit r, rl_remaining = rule_limit r,
                        rl_reset_after = 0\<rparr>)
      | Some st \<Rightarrow> (let (st', res) = allow now key r st in (Some st', res)))"

definition reset_limit ::
  "string \<Rightarrow> string \<Rightarrow> limiter_state option \<Rightarrow> limiter_state option" where
  "reset_limit key prefix lim = map_option (limiter_reset key prefix) lim"

section \<open>The bucket of a key\<close>

text \<open>
  What \<open>allow\<close> does to its own bucket, seen as a counter of the tokens left in the window
  that is open at \<open>now\<close>.
\<close>

definition left_at :: "gtime \<Rightarrow> rule \<Rightarrow> memory_bucket option \<Rightarrow> int" where
  "left_at now r ob = (case ob of None \<Rightarrow> rule_limit r | Some b \<Rightarrow> tokens (refill now b))"

definition bucket_ok :: "rule \<Rightarrow> memory_bucket \<Rightarrow> bool" where
  "bucket_ok r b \<longleftrightarrow> 0 \<le> tokens b \<and> tokens b \<le> max_tokens b \<and>
     max_tokens b = rule_limit r \<and> window b = rule_window r"

lemma bucket_key_inj:
  assumes "bucket_key p k = bucket_key p' k'" and "CHR '':'' \<notin> set p" and "CHR '':'' \<notin> set p'"
  shows "p = p' \<and> k = k'"
  using split_at_separator [of p "CHR '':''" k p' k'] assms by (simp add: bucket_key_def)

lemma predefined_prefixes: "r \<in> set predefined_rules \<Longrightarrow> CHR '':'' \<notin> set (rule_prefix r)"
  by (auto simp: predefined_rules_def)

lemma new_bucket_ok: "0 \<le> rule_limit r \<Longrightarrow> bucket_ok r (new_bucket now r)"
  by (simp add: bucket_ok_def new_bucket_def)

lemma refill_ok: "bucket_ok r b \<Longrightarrow> bucket_ok r (refill now b)"
  by (auto simp: bucket_ok_def refill_def)

lemma refill_new [simp]: "tokens (refill now (new_bucket now r)) = rule_limit r"
  by (simp add: refill_def new_bucket_def)

lemma allow_allowed:
  "rl_allowed (snd (allow now key r st)) \<longleftrightarrow>
     0 < left_at now r (st (bucket_key (rule_prefix r) key))"
  by (simp add: allow_def Let_def left_at_def split: option.splits)

lemma allow_other:
  "k \<noteq> bucket_key (rule_prefix r) key \<Longrightarrow> fst (allow now key r st) k = st k"
  by (simp add: allow_def Let_def split: option.splits)

lemma allow_bucket:
  "fst (allow now key r st) (bucket_key (rule_prefix r) key) =
     Some ((refill now (case st (bucket_key (rule_prefix r) key) of Some b \<Rightarrow> b | None \<Rightarrow> new_bucket now r))
           \<lparr>tokens := left_at now r (st (bucket_key (rule_prefix r) key))
              - (if rl_allowed (snd (allow now key r st)) then 1 else 0)\<rparr>)"
  by (simp add: allow_def Let_def left_at_def split: option.splits)

lemma refill_same_window:
  assumes "0 < window b" and "window b \<le> max_int64" and "t - last_refill b < window b"
  shows "refill t b = b"
proof -
  have "\<not> window b \<le> time_sub t (last_refill b)"
    using time_sub_ge_iff [of "window b" t "last_refill b"] assms
    by (simp add: min_int64_def)
  then show ?thesis by (simp add: refill_def)
qed

lemma refill_new_window:
  assumes "0 < window b" and "window b \<le> max_int64" and "window b \<le> t - last_refill b"
  shows "refill t b = b\<lparr>tokens := max_tokens b, last_refill := t\<rparr>"
  using time_sub_ge_iff [of "window b" t "last_refill b"] assms
  by (simp add: refill_def min_int64_def)

text \<open>A run of requests for one key under one rule; the results are in request order.\<close>

fun run_allow ::
  "string \<Rightarrow> rule \<Rightarrow> gtime list \<Rightarrow> limiter_state \<Rightarrow> limiter_state \<times> bool list" where
  "run_allow key r [] st = (st, [])"
| "run_allow key r (t # ts) st =
     (let (st', res) = allow t key r st; (st'', rs) = run_allow key r ts st'
      in (st'', rl_allowed res # rs))"

lemma length_run_allow [simp]: "length (snd (run_allow key r ts st)) = length ts"
  by (induction ts arbitrary: st) (simp_all add: Let_def split_beta)

text \<open>
  Inside one window the bucket counts down from what is left and then refuses.
\<close>

lemma run_allow_countdown:
  assumes "st (bucket_key (rule_prefix r) key) = Some b"
    and "0 < window b" and "window b \<le> max_int64" and "0 \<le> tokens b"
    and "\<forall>t \<in> set ts. t - last_refill b < window b"
  shows "snd (run_allow key r ts st) = map (\<lambda>i. int i < tokens b) [0..<length ts]"
  using assms
proof (induction ts arbitrary: st b)
  case (Cons t ts)
  let ?k = "bucket_key (rule_prefix r) key"
  obtain st' res where a: "allow t key r st = (st', res)" by force
  have same: "refill t b = b" using Cons.prems by (intro refill_same_window) auto
  have al: "rl_allowed res \<longleftrightarrow> 0 < tokens b"
    using allow_allowed [of t key r st] Cons.prems(1) same by (simp add: a left_at_def)
  have b': "st' ?k = Some (b\<lparr>tokens := tokens b - (if 0 < tokens b then 1 else 0)\<rparr>)"
    using allow_bucket [of t key r st] Cons.prems(1) same al by (simp add: a left_at_def)
  have "snd (run_allow key r ts st') =
      map (\<lambda>i. int i < tokens b - (if 0 < tokens b then 1 else 0)) [0..<length ts]"
    using Cons.IH [of st', OF b'] Cons.prems by simp
  moreover have "[0..<length (t # ts)] = 0 # map Suc [0..<length ts]"
    by (simp add: map_Suc_upt upt_conv_Cons del: upt_Suc)
  ultimately show ?case
    using al Cons.prems(4) by (auto simp: a split: prod.splits)
qed simp

section \<open>The port as a locale\<close>

text \<open>
  A limiter for one rule: \<open>left\<close> is the number of requests a key may still make at an
  instant. A request is admitted exactly when something is left, and takes one unit.
\<close>

locale limiter =
  fixes invar :: "'s \<Rightarrow> bool"
    and left :: "'s \<Rightarrow> gtime \<Rightarrow> string \<Rightarrow> int"
    and req :: "gtime \<Rightarrow> string \<Rightarrow> 's \<Rightarrow> 's \<times> rl_result"
    and clear :: "string \<Rightarrow> 's \<Rightarrow> 's"
    and cap :: int
  assumes req_allowed: "rl_allowed (snd (req now key s)) \<longleftrightarrow> 0 < left s now key"
    and req_left: "invar s \<Longrightarrow> left (fst (req now key s)) now key =
          left s now key - (if 0 < left s now key then 1 else 0)"
    and req_frame: "key' \<noteq> key \<Longrightarrow> left (fst (req now key s)) t key' = left s t key'"
    and clear_left: "left (clear key s) now key = cap"
    and req_invar: "invar s \<Longrightarrow> invar (fst (req now key s))"
begin

fun burst :: "gtime \<Rightarrow> string \<Rightarrow> nat \<Rightarrow> 's \<Rightarrow> nat" where
  "burst now key 0 s = 0"
| "burst now key (Suc n) s =
     (if rl_allowed (snd (req now key s)) then 1 else 0) + burst now key n (fst (req now key s))"

lemma burst_le: "invar s \<Longrightarrow> burst now key n s = min n (nat (left s now key))"
proof (induction n arbitrary: s)
  case (Suc n)
  then have "burst now key n (fst (req now key s)) = min n (nat (left (fst (req now key s)) now key))"
    by (simp add: req_invar)
  then show ?case using Suc.prems by (simp add: req_allowed req_left) arith
qed simp

lemma clear_admits: "0 < cap \<Longrightarrow> rl_allowed (snd (req now key (clear key s)))"
  by (simp add: req_allowed clear_left)

end

definition windows_positive :: "rule \<Rightarrow> limiter_state \<Rightarrow> bool" where
  "windows_positive r st \<longleftrightarrow> 0 < rule_window r \<and> (\<forall>k b. st k = Some b \<longrightarrow> 0 < window b)"

definition left_of :: "rule \<Rightarrow> limiter_state \<Rightarrow> gtime \<Rightarrow> string \<Rightarrow> int" where
  "left_of r st now key = left_at now r (st (bucket_key (rule_prefix r) key))"

lemma refill_refill: "0 < window b \<Longrightarrow> refill now ((refill now b)\<lparr>tokens := x\<rparr>) = (refill now b)\<lparr>tokens := x\<rparr>"
  by (simp add: refill_def)

lemma left_of_allow:
  assumes "windows_positive r st"
  shows "left_of r (fst (allow now key r st)) now key =
           left_of r st now key - (if 0 < left_of r st now key then 1 else 0)"
proof -
  have "0 < window (case st (bucket_key (rule_prefix r) key) of Some b \<Rightarrow> b | None \<Rightarrow> new_bucket now r)"
    using assms by (auto simp: windows_positive_def new_bucket_def split: option.splits)
  then show ?thesis
    by (simp add: left_of_def allow_bucket allow_allowed) (simp add: left_at_def refill_refill)
qed

lemma windows_positive_allow:
  assumes "windows_positive r st"
  shows "windows_positive r (fst (allow now key r st))"
proof -
  have "0 < window b" if "fst (allow now key r st) k = Some b" for k b
  proof (cases "k = bucket_key (rule_prefix r) key")
    case True
    then show ?thesis
      using that assms allow_bucket [of now key r st]
      by (auto simp: windows_positive_def refill_def new_bucket_def split: option.splits)
  next
    case False
    then show ?thesis using that assms by (simp add: allow_other windows_positive_def)
  qed
  with assms show ?thesis by (simp add: windows_positive_def)
qed

interpretation mem: limiter "windows_positive r" "left_of r" "\<lambda>now key. allow now key r"
    "\<lambda>key. limiter_reset key (rule_prefix r)" "rule_limit r" for r
proof unfold_locales
  show "key' \<noteq> key \<Longrightarrow> left_of r (fst (allow now key r s)) t key' = left_of r s t key'" for key key' now s t
    by (simp add: left_of_def allow_other bucket_key_def)
qed (simp_all add: left_of_def [symmetric] allow_allowed left_of_allow windows_positive_allow
      limiter_reset_def, simp_all add: left_of_def left_at_def)

section \<open>Properties\<close>

text \<open>A window admits exactly its limit: for a rule with a positive limit and window and a key
  without a bucket, of any requests at instants that start at \<open>t\<close> and stay below \<open>t\<close> plus the
  window, the first \<open>limit\<close> are admitted and all later ones refused.\<close>

theorem window_admits_limit:
  assumes "st (bucket_key (rule_prefix r) key) = None" and "0 < rule_limit r"
    and "0 < rule_window r" and "rule_window r \<le> max_int64"
    and "\<forall>u \<in> set ts. t \<le> u \<and> u < t + rule_window r"
  shows "snd (run_allow key r (t # ts) st) = map (\<lambda>i. int i < rule_limit r) [0..<length (t # ts)]"
proof -
  let ?k = "bucket_key (rule_prefix r) key"
  define b where "b = (new_bucket t r)\<lparr>tokens := rule_limit r - 1\<rparr>"
  obtain st' res where a: "allow t key r st = (st', res)" by force
  have al: "rl_allowed res" using allow_allowed [of t key r st] assms(1,2) by (simp add: a left_at_def)
  have "refill t (new_bucket t r) = new_bucket t r"
    using assms(3) by (simp add: refill_def new_bucket_def)
  then have b': "st' ?k = Some b"
    using allow_bucket [of t key r st] assms(1) al by (simp add: a left_at_def b_def)
  have "snd (run_allow key r ts st') = map (\<lambda>i. int i < rule_limit r - 1) [0..<length ts]"
    using run_allow_countdown [of st' r key b ts, OF b'] assms
    by (fastforce simp: b_def new_bucket_def)
  moreover have "[0..<length (t # ts)] = 0 # map Suc [0..<length ts]"
    by (simp add: map_Suc_upt upt_conv_Cons del: upt_Suc)
  ultimately show ?thesis
    using al assms(2) by (auto simp: a split: prod.splits)
qed

theorem window_admits_limit_witness:
  "snd (run_allow ''10.0.0.7'' (hd predefined_rules) (0 # [5, 9]) Map.empty) = [True, True, True]"
proof -
  have "snd (run_allow ''10.0.0.7'' (hd predefined_rules) (0 # [5, 9]) Map.empty) =
      map (\<lambda>i. int i < rule_limit (hd predefined_rules)) [0..<length (0 # [5, 9 :: int])]"
    by (rule window_admits_limit)
      (simp_all add: predefined_rules_def minute_def second_def max_int64_def)
  then show ?thesis by (simp add: predefined_rules_def upt_rec)
qed

text \<open>Keys under the predefined rules do not interfere: a request under one rule and key
  changes the remaining allowance of another rule and key only if both the rule prefix and the
  key are the same; and a reset gives its key the full allowance again.\<close>

theorem rules_do_not_interfere:
  assumes "r \<in> set predefined_rules" and "r' \<in> set predefined_rules"
    and "rule_prefix r \<noteq> rule_prefix r' \<or> key \<noteq> key'"
  shows "left_of r' (fst (allow now key r st)) t key' = left_of r' st t key' \<and>
         left_of r' (limiter_reset key (rule_prefix r) st) t key' = left_of r' st t key' \<and>
         left_of r (limiter_reset key (rule_prefix r) st) t key = rule_limit r"
proof -
  have "bucket_key (rule_prefix r') key' \<noteq> bucket_key (rule_prefix r) key"
    using bucket_key_inj predefined_prefixes assms by metis
  then show ?thesis
    by (simp add: left_of_def allow_other limiter_reset_def) (simp add: left_at_def)
qed

theorem rules_do_not_interfere_witness:
  "left_of (predefined_rules ! 1) (fst (allow 3 ''u1'' (hd predefined_rules) Map.empty)) 3 ''u1'' = 30"
proof -
  have "left_of (predefined_rules ! 1) (fst (allow 3 ''u1'' (hd predefined_rules) Map.empty)) 3 ''u1'' =
      left_of (predefined_rules ! 1) Map.empty 3 ''u1''"
    using rules_do_not_interfere
      [of "hd predefined_rules" "predefined_rules ! 1" "''u1''" "''u1''" 3 Map.empty 3]
    by (simp add: predefined_rules_def)
  then show ?thesis by (simp add: left_of_def left_at_def predefined_rules_def)
qed

text \<open>A burst of simultaneous requests for one key is admitted up to what the key has left and
  no further, from any state whose buckets have positive windows.\<close>

theorem burst_bounded:
  assumes "windows_positive r st"
  shows "length (filter id (snd (run_allow key r (replicate n now) st))) =
           min n (nat (left_of r st now key))"
proof -
  have "length (filter id (snd (run_allow key r (replicate n now) st))) = mem.burst r now key n st"
    for st
    by (induction n arbitrary: st) (simp_all add: Let_def split_beta)
  then show ?thesis using mem.burst_le [OF assms] by simp
qed

theorem burst_bounded_witness:
  "length (filter id (snd (run_allow ''k'' (hd predefined_rules) (replicate 25 4) Map.empty))) = 10"
proof -
  have "windows_positive (hd predefined_rules) Map.empty"
    by (simp add: windows_positive_def predefined_rules_def minute_def second_def)
  from burst_bounded [OF this, of "''k''" 25 4] show ?thesis
    by (simp add: left_of_def left_at_def predefined_rules_def)
qed

end
