(* ===== verification/Identity.thy ===== *)
theory Identity
  imports Aurora_Prelude
begin

text \<open>
  Subjects, resources and the access decision: \<open>internal/domain/identity/user.go\<close> and
  \<open>internal/app/authz/authorizer.go\<close>. The port \<open>identity.Authorizer\<close> is the locale
  \<open>authorizer\<close>, interpreted on \<open>authorize\<close>, the model of \<open>DynamicAuthorizer.Authorize\<close>.
\<close>

section \<open>Data\<close>

record subject =
  sub_type :: string
  sub_id :: string
  sub_user :: string
  sub_username :: string
  sub_email :: string
  sub_roles :: "string list"
  sub_permissions :: "string list"
  sub_scopes :: "string list"

record resource =
  res_type :: string
  res_id :: string
  res_owner :: string
  res_location :: string

section \<open>Permission and role checks\<close>

definition scope_allows :: "string \<Rightarrow> string list \<Rightarrow> bool" where
  "scope_allows code scopes \<longleftrightarrow> list_ex (\<lambda>sc. sc = code \<or> sc = ''*'') scopes"

fun permission_loop :: "string \<Rightarrow> string list \<Rightarrow> string list \<Rightarrow> bool" where
  "permission_loop code scopes [] = False"
| "permission_loop code scopes (p # ps) =
     (if p = code \<or> p = ''*''
      then (if scopes \<noteq> [] then scope_allows code scopes else True)
      else permission_loop code scopes ps)"

definition has_permission :: "subject \<Rightarrow> string \<Rightarrow> bool" where
  "has_permission s code =
     (if list_ex (\<lambda>r. r = ''superadmin'') (sub_roles s) then True
      else permission_loop code (sub_scopes s) (sub_permissions s))"

fun has_role_loop :: "string \<Rightarrow> string list \<Rightarrow> bool" where
  "has_role_loop role [] = False"
| "has_role_loop role (r # rs) = (if r = role then True else has_role_loop role rs)"

definition has_role :: "subject \<Rightarrow> string \<Rightarrow> bool" where
  "has_role s role = has_role_loop role (sub_roles s)"

definition is_superadmin :: "subject \<Rightarrow> bool" where
  "is_superadmin s = has_role s ''superadmin''"

section \<open>The authorizer\<close>

definition is_admin_or_operator :: "subject \<Rightarrow> bool" where
  "is_admin_or_operator s = list_ex (\<lambda>r. r = ''admin'' \<or> r = ''operator'') (sub_roles s)"

definition authorize :: "subject option \<Rightarrow> string \<Rightarrow> resource option \<Rightarrow> go_error option" where
  "authorize sub action resource =
     (case sub of
        None \<Rightarrow> Some ErrUnauthorized
      | Some s \<Rightarrow>
          if list_ex (\<lambda>r. r = ''superadmin'') (sub_roles s) then None
          else if \<not> has_permission s action then Some ErrInsufficientPermission
          else if sub_scopes s \<noteq> [] \<and> \<not> scope_allows action (sub_scopes s)
          then Some ErrInsufficientPermission
          else (case resource of
                  None \<Rightarrow> None
                | Some r \<Rightarrow>
                    if res_owner r \<noteq> '''' \<and> \<not> is_admin_or_operator s
                       \<and> res_owner r \<noteq> sub_user s
                    then Some ErrResourceForbidden
                    else None))"

section \<open>Characterisations\<close>

lemma has_role_iff [simp]: "has_role s role \<longleftrightarrow> role \<in> set (sub_roles s)"
proof -
  have "has_role_loop role rs \<longleftrightarrow> role \<in> set rs" for rs
    by (induction rs) auto
  then show ?thesis by (simp add: has_role_def)
qed

lemma is_superadmin_iff: "is_superadmin s \<longleftrightarrow> ''superadmin'' \<in> set (sub_roles s)"
  by (simp add: is_superadmin_def)

lemma scope_allows_iff: "scope_allows code scs \<longleftrightarrow> code \<in> set scs \<or> ''*'' \<in> set scs"
  by (auto simp: scope_allows_def list_ex_iff)

lemma permission_loop_iff:
  "permission_loop code scs ps \<longleftrightarrow>
     (code \<in> set ps \<or> ''*'' \<in> set ps) \<and> (scs = [] \<or> scope_allows code scs)"
  by (induction ps) auto

lemma has_permission_iff:
  "has_permission s code \<longleftrightarrow>
     is_superadmin s \<or>
     ((code \<in> set (sub_permissions s) \<or> ''*'' \<in> set (sub_permissions s)) \<and>
      (sub_scopes s = [] \<or> scope_allows code (sub_scopes s)))"
  by (auto simp: has_permission_def is_superadmin_iff permission_loop_iff list_ex_iff)

definition owner_ok :: "subject \<Rightarrow> resource option \<Rightarrow> bool" where
  "owner_ok s res \<longleftrightarrow>
     (case res of None \<Rightarrow> True
      | Some r \<Rightarrow> res_owner r = '''' \<or> is_admin_or_operator s \<or> res_owner r = sub_user s)"

lemma authorize_none_iff:
  "authorize (Some s) action res = None \<longleftrightarrow>
     is_superadmin s \<or> (has_permission s action \<and> owner_ok s res)"
  by (auto simp: authorize_def is_superadmin_iff has_permission_iff owner_ok_def list_ex_iff
      split: option.splits)

section \<open>The port as a locale\<close>

text \<open>
  What the services rely on: nobody is authorised without a subject, a superadmin always is,
  and a subject that is neither superadmin nor staff is never authorised on a resource that
  another tenant owns.
\<close>

locale authorizer =
  fixes auth :: "subject option \<Rightarrow> string \<Rightarrow> resource option \<Rightarrow> go_error option"
  assumes auth_nil: "auth None action res \<noteq> None"
    and auth_superadmin: "is_superadmin s \<Longrightarrow> auth (Some s) action res = None"
    and auth_permission: "auth (Some s) action res = None \<Longrightarrow> has_permission s action"
    and auth_owner: "auth (Some s) action res = None \<Longrightarrow> is_superadmin s \<or> owner_ok s res"
begin

lemma tenant_isolation:
  assumes "auth sub action (Some r) = None" and "res_owner r \<noteq> ''''"
  shows "\<exists>s. sub = Some s \<and>
           (is_superadmin s \<or> is_admin_or_operator s \<or> res_owner r = sub_user s)"
proof -
  from assms(1) obtain s where s: "sub = Some s"
    using auth_nil by (cases sub) auto
  with assms auth_owner [of s action "Some r"] show ?thesis
    by (auto simp: owner_ok_def)
qed

lemma scoped_key:
  assumes "auth (Some s) action res = None" and "sub_roles s = []" and "sub_scopes s \<noteq> []"
  shows "scope_allows action (sub_scopes s)"
  using auth_permission [OF assms(1)] assms(2,3)
  by (simp add: has_permission_iff is_superadmin_iff)

end

interpretation dyn: authorizer authorize
proof unfold_locales
  show "authorize None action res \<noteq> None" for action res
    by (simp add: authorize_def)
qed (auto simp: authorize_none_iff has_permission_iff)

section \<open>Properties\<close>

text \<open>
  C20. Tenant isolation: when the authorizer lets a subject act on a resource that has an
  owner, the subject is a superadmin, is staff (admin or operator) or owns the resource, and
  in each case but the first it holds a permission for the action.
\<close>

theorem authorize_tenant_isolation:
  assumes "authorize sub action (Some r) = None" and "res_owner r \<noteq> ''''"
  shows "\<exists>s. sub = Some s \<and>
     (is_superadmin s \<or>
      (has_permission s action \<and> (is_admin_or_operator s \<or> res_owner r = sub_user s)))"
  using dyn.tenant_isolation [OF assms] dyn.auth_permission assms(1)
  by (auto simp: authorize_none_iff owner_ok_def)

definition sample_subject :: "string list \<Rightarrow> subject" where
  "sample_subject scopes =
     \<lparr>sub_type = ''apikey'', sub_id = ''k1'', sub_user = ''alice'', sub_username = ''alice'',
      sub_email = '''', sub_roles = [], sub_permissions = [''instance:read'', ''instance:power''],
      sub_scopes = scopes\<rparr>"

definition sample_vm :: resource where
  "sample_vm = \<lparr>res_type = ''instance'', res_id = ''vm1'', res_owner = ''alice'', res_location = ''''\<rparr>"

theorem authorize_tenant_isolation_witness:
  "authorize (Some (sample_subject [])) ''instance:read'' (Some sample_vm) = None \<and>
   has_permission (sample_subject []) ''instance:read''"
proof -
  have a: "authorize (Some (sample_subject [])) ''instance:read'' (Some sample_vm) = None"
    by (simp add: authorize_none_iff has_permission_iff owner_ok_def sample_subject_def sample_vm_def)
  from authorize_tenant_isolation [OF a] a show ?thesis
    by (auto simp: sample_vm_def sample_subject_def has_permission_iff)
qed

text \<open>
  Scope confinement: a key with scopes is authorised for an action exactly when the
  owner's permissions and the key's scopes both allow it (each by name or by \<open>*\<close>) and the
  ownership check passes, so that adding scopes never gives more than the owner has, and a
  request outside the scopes fails with the permission error whoever owns the resource.
\<close>

theorem scoped_key_confined:
  assumes "\<not> is_superadmin s" and "sub_scopes s \<noteq> []"
  shows "(authorize (Some s) action res = None \<longleftrightarrow>
            authorize (Some (s\<lparr>sub_scopes := []\<rparr>)) action res = None \<and>
            (action \<in> set (sub_scopes s) \<or> ''*'' \<in> set (sub_scopes s)))
       \<and> (action \<notin> set (sub_scopes s) \<and> ''*'' \<notin> set (sub_scopes s) \<longrightarrow>
            authorize (Some s) action res = Some ErrInsufficientPermission)"
proof -
  have o: "owner_ok (s\<lparr>sub_scopes := []\<rparr>) res = owner_ok s res"
    by (simp add: owner_ok_def is_admin_or_operator_def split: option.splits)
  have "authorize (Some s) action res = None \<longleftrightarrow>
          authorize (Some (s\<lparr>sub_scopes := []\<rparr>)) action res = None \<and>
          (action \<in> set (sub_scopes s) \<or> ''*'' \<in> set (sub_scopes s))"
    using assms o
    by (auto simp: authorize_none_iff has_permission_iff is_superadmin_iff scope_allows_iff)
  moreover have "authorize (Some s) action res = Some ErrInsufficientPermission"
    if "action \<notin> set (sub_scopes s)" "''*'' \<notin> set (sub_scopes s)"
    using assms that
    by (auto simp: authorize_def is_superadmin_iff has_permission_iff scope_allows_iff list_ex_iff)
  ultimately show ?thesis by blast
qed

theorem scoped_key_confined_witness:
  "authorize (Some (sample_subject [''instance:read''])) ''instance:power'' (Some sample_vm) =
     Some ErrInsufficientPermission"
  using scoped_key_confined [of "sample_subject [''instance:read'']" "''instance:power''"]
  by (simp add: sample_subject_def is_superadmin_iff)

section \<open>Strangers\<close>

text \<open>A subject that is neither staff nor the owner of a resource, and the errors it meets.\<close>

definition stranger :: "subject \<Rightarrow> string \<Rightarrow> bool" where
  "stranger s owner \<longleftrightarrow> owner \<noteq> '''' \<and> owner \<noteq> sub_user s \<and> \<not> is_superadmin s \<and> \<not> is_admin_or_operator s"

definition access_error :: "go_error \<Rightarrow> bool" where
  "access_error e \<longleftrightarrow> e = ErrInsufficientPermission \<or> e = ErrResourceForbidden"

definition denied :: "'a result \<Rightarrow> bool" where
  "denied x \<longleftrightarrow> (case x of Inl e \<Rightarrow> access_error e | Inr _ \<Rightarrow> False)"

definition refused :: "go_error option \<Rightarrow> bool" where
  "refused x \<longleftrightarrow> (case x of Some e \<Rightarrow> access_error e | None \<Rightarrow> False)"

lemma authorize_stranger:
  assumes "stranger s (res_owner r)"
  shows "\<exists>e. authorize (Some s) action (Some r) = Some e \<and> access_error e"
  using assms by (auto simp: stranger_def authorize_def is_superadmin_iff list_ex_iff access_error_def)

end
