(* ===== verification/Job_Store.thy ===== *)
theory Job_Store
  imports Identity
begin

text \<open>
  Durable jobs: the domain type of \<open>internal/domain/job/job.go\<close> and the in-memory repository
  of \<open>internal/infra/memory/job_repo.go\<close> with its leases. A job is claimed by a worker for
  the length of a lease, renewed while it runs, and ends succeeded, failed or canceled; a
  failed attempt is retried while the retry budget lasts.
\<close>

section \<open>Data\<close>

text \<open>\<open>JUnset\<close> is the empty status of a job literal that names none.\<close>

datatype job_status =
  JUnset | JPending | JRunning | JRetrying | JSucceeded | JFailed | JCanceled

definition is_terminal :: "job_status \<Rightarrow> bool" where
  "is_terminal s \<longleftrightarrow> s = JSucceeded \<or> s = JFailed \<or> s = JCanceled"

record job =
  j_id :: string
  j_tenant :: string
  j_type :: string
  j_rtype :: string
  j_rid :: string
  j_status :: job_status
  j_payload :: string
  j_result :: string
  j_error :: string
  j_retries :: int
  j_max :: int
  j_next :: "gtime option"
  j_worker :: string
  j_until :: "gtime option"
  j_created :: gtime
  j_started :: "gtime option"
  j_completed :: "gtime option"
  j_progress :: int

record job_attempt =
  at_id :: string
  at_job :: string
  at_number :: int
  at_worker :: string
  at_error :: string
  at_started :: gtime
  at_finished :: "gtime option"

record worker_lease =
  wl_worker :: string
  wl_host :: string
  wl_pid :: int
  wl_status :: string
  wl_heartbeat :: gtime
  wl_expires :: gtime
  wl_created :: gtime

record job_store =
  jobs :: "string \<rightharpoonup> job"
  attempts :: "string \<Rightarrow> job_attempt list"
  leases :: "string \<rightharpoonup> worker_lease"

definition empty_job_store :: job_store where
  "empty_job_store = \<lparr>jobs = Map.empty, attempts = (\<lambda>_. []), leases = Map.empty\<rparr>"

definition job_resource :: "job \<Rightarrow> resource" where
  "job_resource j = \<lparr>res_type = ''job'', res_id = j_id j, res_owner = j_tenant j, res_location = ''''\<rparr>"

section \<open>Operations of the job repository\<close>

definition job_defaults :: "gtime \<Rightarrow> string \<Rightarrow> job \<Rightarrow> job" where
  "job_defaults now uuid j =
     (let j = (if j_id j = '''' then j\<lparr>j_id := uuid\<rparr> else j);
          j = (if j_created j = zero_time then j\<lparr>j_created := now\<rparr> else j);
          j = (if j_status j = JUnset then j\<lparr>j_status := JPending\<rparr> else j)
      in if j_max j = 0 then j\<lparr>j_max := 3\<rparr> else j)"

definition job_create :: "gtime \<Rightarrow> string \<Rightarrow> job \<Rightarrow> job_store \<Rightarrow> job_store \<times> job" where
  "job_create now uuid j st =
     (let j' = job_defaults now uuid j in (st\<lparr>jobs := (jobs st)(j_id j' \<mapsto> j')\<rparr>, j'))"

definition job_get :: "string \<Rightarrow> job_store \<Rightarrow> job result" where
  "job_get jid st = (case jobs st jid of None \<Rightarrow> Inl ErrJobNotFound | Some j \<Rightarrow> Inr j)"

record job_filter =
  jf_tenant :: string
  jf_type :: string
  jf_status :: job_status
  jf_rtype :: string
  jf_rid :: string
  jf_limit :: int
  jf_offset :: int

definition job_matches :: "job_filter \<Rightarrow> job \<Rightarrow> bool" where
  "job_matches f j \<longleftrightarrow>
     \<not> (jf_tenant f \<noteq> '''' \<and> j_tenant j \<noteq> jf_tenant f) \<and>
     \<not> (jf_type f \<noteq> '''' \<and> j_type j \<noteq> jf_type f) \<and>
     \<not> (jf_status f \<noteq> JUnset \<and> j_status j \<noteq> jf_status f) \<and>
     \<not> (jf_rtype f \<noteq> '''' \<and> j_rtype j \<noteq> jf_rtype f) \<and>
     \<not> (jf_rid f \<noteq> '''' \<and> j_rid j \<noteq> jf_rid f)"

text \<open>
  \<open>sort.Slice\<close> with a "newer first" comparison: \<open>srt\<close> is the arrangement the library picks,
  any permutation in which no element is newer than one before it.
\<close>

definition newest_first :: "(job list \<Rightarrow> job list) \<Rightarrow> bool" where
  "newest_first srt \<longleftrightarrow>
     (\<forall>xs. set (srt xs) = set xs \<and> length (srt xs) = length xs \<and>
           sorted_wrt (\<lambda>a b. \<not> j_created a < j_created b) (srt xs))"

definition job_list ::
  "(job list \<Rightarrow> job list) \<Rightarrow> job_filter \<Rightarrow> string list \<Rightarrow> job_store \<Rightarrow> (job list \<times> int) result" where
  "job_list srt f ks st =
     (let matched = srt (filter (job_matches f) (vals (jobs st) ks));
          total = int (length matched)
      in if jf_offset f \<ge> total then Inr ([], total)
         else let end = jf_offset f + jf_limit f;
                  end = (if jf_limit f \<le> 0 \<or> end > total then total else end)
              in if jf_offset f < 0 \<or> end < jf_offset f then Inl Panic
                 else Inr (take (nat end - nat (jf_offset f)) (drop (nat (jf_offset f)) matched),
                           total))"

definition claimable :: "gtime \<Rightarrow> string list \<Rightarrow> job \<Rightarrow> bool" where
  "claimable now types j =
     (if types \<noteq> [] \<and> j_type j \<notin> set types then False
      else if j_status j = JPending then True
      else if j_status j = JRetrying
      then (case j_next j of None \<Rightarrow> True | Some t \<Rightarrow> t < now \<or> now = t)
      else if j_status j = JRunning
      then (case j_until j of None \<Rightarrow> False | Some t \<Rightarrow> t < now)
      else False)"

definition take_job :: "gtime \<Rightarrow> string \<Rightarrow> duration \<Rightarrow> job \<Rightarrow> job" where
  "take_job now worker lease j =
     (let j = j\<lparr>j_status := JRunning, j_worker := worker, j_until := Some (now + lease)\<rparr>
      in case j_started j of None \<Rightarrow> j\<lparr>j_started := Some now\<rparr> | Some _ \<Rightarrow> j)"

definition claim_next_pending ::
  "gtime \<Rightarrow> string \<Rightarrow> duration \<Rightarrow> string list \<Rightarrow> string list \<Rightarrow> job_store \<Rightarrow> job_store \<times> job option" where
  "claim_next_pending now worker lease types ks st =
     (case find_key (jobs st) (claimable now types) ks of
        None \<Rightarrow> (st, None)
      | Some k \<Rightarrow>
          (case jobs st k of
             None \<Rightarrow> (st, None)
           | Some j \<Rightarrow> let j' = take_job now worker lease j
                      in (st\<lparr>jobs := (jobs st)(k \<mapsto> j')\<rparr>, Some j')))"

text \<open>The update shared by the methods that look a job up and change it in place.\<close>

definition modify_job ::
  "string \<Rightarrow> (job \<Rightarrow> go_error + job) \<Rightarrow> job_store \<Rightarrow> job_store \<times> go_error option" where
  "modify_job jid f st =
     (case jobs st jid of
        None \<Rightarrow> (st, Some ErrJobNotFound)
      | Some j \<Rightarrow> (case f j of Inl e \<Rightarrow> (st, Some e)
                          | Inr j' \<Rightarrow> (st\<lparr>jobs := (jobs st)(jid \<mapsto> j')\<rparr>, None)))"

definition renew_lease ::
  "gtime \<Rightarrow> string \<Rightarrow> string \<Rightarrow> duration \<Rightarrow> job_store \<Rightarrow> job_store \<times> go_error option" where
  "renew_lease now jid worker lease =
     modify_job jid (\<lambda>j. if j_worker j \<noteq> worker then Inl ErrJobAlreadyClaimed
                        else Inr (j\<lparr>j_until := Some (now + lease)\<rparr>))"

definition update_progress :: "string \<Rightarrow> int \<Rightarrow> job_store \<Rightarrow> job_store \<times> go_error option" where
  "update_progress jid p = modify_job jid (\<lambda>j. Inr (j\<lparr>j_progress := p\<rparr>))"

definition mark_running :: "gtime \<Rightarrow> string \<Rightarrow> string \<Rightarrow> job_store \<Rightarrow> job_store \<times> go_error option" where
  "mark_running now jid worker =
     modify_job jid (\<lambda>j. Inr (j\<lparr>j_status := JRunning, j_worker := worker, j_started := Some now\<rparr>))"

definition mark_succeeded :: "gtime \<Rightarrow> string \<Rightarrow> string \<Rightarrow> job_store \<Rightarrow> job_store \<times> go_error option" where
  "mark_succeeded now jid res =
     modify_job jid (\<lambda>j. Inr (j\<lparr>j_status := JSucceeded, j_result := res, j_error := '''',
       j_progress := 100, j_completed := Some now, j_worker := '''', j_until := None\<rparr>))"

definition fail_job :: "gtime \<Rightarrow> string \<Rightarrow> duration option \<Rightarrow> job \<Rightarrow> job" where
  "fail_job now err retry j =
     (let j = j\<lparr>j_error := err, j_retries := j_retries j + 1\<rparr>
      in case retry of
           Some d \<Rightarrow>
             if j_retries j \<le> j_max j
             then j\<lparr>j_status := JRetrying, j_next := Some (now + d), j_worker := '''', j_until := None\<rparr>
             else j\<lparr>j_status := JFailed, j_completed := Some now, j_worker := '''', j_until := None\<rparr>
         | None \<Rightarrow>
             j\<lparr>j_status := JFailed, j_completed := Some now, j_worker := '''', j_until := None\<rparr>)"

definition mark_failed ::
  "gtime \<Rightarrow> string \<Rightarrow> string \<Rightarrow> duration option \<Rightarrow> job_store \<Rightarrow> job_store \<times> go_error option" where
  "mark_failed now jid err retry = modify_job jid (\<lambda>j. Inr (fail_job now err retry j))"

definition mark_canceled :: "gtime \<Rightarrow> string \<Rightarrow> string \<Rightarrow> job_store \<Rightarrow> job_store \<times> go_error option" where
  "mark_canceled now jid reason =
     modify_job jid (\<lambda>j. if is_terminal (j_status j) then Inl ErrJobCannotCancel
       else Inr (j\<lparr>j_status := JCanceled, j_error := reason, j_completed := Some now,
                  j_worker := '''', j_until := None\<rparr>))"

definition record_attempt :: "string \<Rightarrow> job_attempt \<Rightarrow> job_store \<Rightarrow> job_store" where
  "record_attempt uuid a st =
     (let a = (if at_id a = '''' then a\<lparr>at_id := uuid\<rparr> else a)
      in st\<lparr>attempts := (attempts st)(at_job a := attempts st (at_job a) @ [a])\<rparr>)"

definition abandoned :: "gtime \<Rightarrow> job \<Rightarrow> bool" where
  "abandoned cutoff j \<longleftrightarrow>
     j_status j = JRunning \<and> (case j_until j of None \<Rightarrow> False | Some t \<Rightarrow> t < cutoff)"

definition release_job :: "job \<Rightarrow> job" where
  "release_job j = j\<lparr>j_status := JPending, j_worker := '''', j_until := None\<rparr>"

fun reclaim_loop :: "gtime \<Rightarrow> string list \<Rightarrow> (string \<rightharpoonup> job) \<Rightarrow> int \<Rightarrow> (string \<rightharpoonup> job) \<times> int" where
  "reclaim_loop cutoff [] m n = (m, n)"
| "reclaim_loop cutoff (k # ks) m n =
     (case m k of
        Some j \<Rightarrow> if abandoned cutoff j then reclaim_loop cutoff ks (m(k \<mapsto> release_job j)) (n + 1)
                  else reclaim_loop cutoff ks m n
      | None \<Rightarrow> reclaim_loop cutoff ks m n)"

definition reclaim_abandoned :: "gtime \<Rightarrow> string list \<Rightarrow> job_store \<Rightarrow> job_store \<times> int" where
  "reclaim_abandoned cutoff ks st =
     (let (m, n) = reclaim_loop cutoff ks (jobs st) 0 in (st\<lparr>jobs := m\<rparr>, n))"

section \<open>Operations of the lease repository\<close>

definition register_or_heartbeat :: "worker_lease \<Rightarrow> job_store \<Rightarrow> job_store" where
  "register_or_heartbeat l st = st\<lparr>leases := (leases st)(wl_worker l \<mapsto> l)\<rparr>"

definition stale_workers :: "gtime \<Rightarrow> string list \<Rightarrow> job_store \<Rightarrow> worker_lease list" where
  "stale_workers cutoff ks st = filter (\<lambda>l. wl_heartbeat l < cutoff) (vals (leases st) ks)"

definition deregister :: "string \<Rightarrow> job_store \<Rightarrow> job_store" where
  "deregister worker st = st\<lparr>leases := (leases st)(worker := None)\<rparr>"

section \<open>Lemmas on single operations\<close>

lemmas modify_ops = renew_lease_def update_progress_def mark_running_def mark_succeeded_def
  mark_failed_def mark_canceled_def

lemma modify_job_other [simp]: "k \<noteq> jid \<Longrightarrow> jobs (fst (modify_job jid f st)) k = jobs st k"
  by (simp add: modify_job_def split: option.splits sum.splits)

lemma modify_job_same:
  "jobs (fst (modify_job jid f st)) jid =
     (case jobs st jid of None \<Rightarrow> None
      | Some j \<Rightarrow> Some (case f j of Inl e \<Rightarrow> j | Inr j' \<Rightarrow> j'))"
  by (simp add: modify_job_def split: option.splits sum.splits)

lemma reclaim_loop_jobs:
  "distinct ks \<Longrightarrow> fst (reclaim_loop cutoff ks m n) k =
     (if k \<in> set ks then map_option (\<lambda>j. if abandoned cutoff j then release_job j else j) (m k)
      else m k)"
  by (induction ks arbitrary: m n) (auto split: option.splits)

lemma reclaim_loop_count:
  "distinct ks \<Longrightarrow>
   snd (reclaim_loop cutoff ks m n) = n + int (length (filter (abandoned cutoff) (vals m ks)))"
  by (induction ks arbitrary: m n) (auto split: option.splits)

lemma claim_Some:
  assumes "claim_next_pending now worker lease types ks st = (st', Some j')"
  obtains k j where "k \<in> set ks" "jobs st k = Some j" "claimable now types j"
    "j' = take_job now worker lease j" "st' = st\<lparr>jobs := (jobs st)(k \<mapsto> j')\<rparr>"
  using assms unfolding claim_next_pending_def
  by (auto simp: Let_def split: option.splits elim!: find_key_Some)

lemma claim_jobs:
  "jobs (fst (claim_next_pending now worker lease types ks st)) k = jobs st k \<or>
   (\<exists>j. jobs st k = Some j \<and> claimable now types j \<and>
        jobs (fst (claim_next_pending now worker lease types ks st)) k = Some (take_job now worker lease j))"
  unfolding claim_next_pending_def
  by (auto simp: Let_def split: option.splits elim!: find_key_Some)

section \<open>The lock invariant\<close>

text \<open>
  A running job is held by a worker until some instant, any other job by nobody; and a job
  waiting for a retry still has retry budget.
\<close>

definition job_ok :: "job \<Rightarrow> bool" where
  "job_ok j \<longleftrightarrow>
     (j_status j = JRunning \<longrightarrow> j_worker j \<noteq> '''' \<and> j_until j \<noteq> None) \<and>
     (j_status j \<noteq> JRunning \<longrightarrow> j_worker j = '''' \<and> j_until j = None) \<and>
     (j_status j = JRetrying \<longrightarrow> j_retries j \<le> j_max j \<and> j_next j \<noteq> None) \<and>
     j_status j \<noteq> JUnset"

definition store_ok :: "job_store \<Rightarrow> bool" where
  "store_ok st \<longleftrightarrow> (\<forall>k j. jobs st k = Some j \<longrightarrow> job_ok j \<and> j_id j = k)"

lemma modify_ok:
  assumes "store_ok st" and "\<And>j j'. job_ok j \<Longrightarrow> f j = Inr j' \<Longrightarrow> job_ok j' \<and> j_id j' = j_id j"
  shows "store_ok (fst (modify_job jid f st))"
  using assms unfolding store_ok_def modify_job_def
  by (auto split: option.splits sum.splits if_splits)

lemma fail_job_ok: "job_ok (fail_job now err retry j) \<and> j_id (fail_job now err retry j) = j_id j"
  by (auto simp: fail_job_def Let_def job_ok_def split: option.splits)

lemma take_job_simps [simp]:
  "j_status (take_job now w d j) = JRunning" "j_worker (take_job now w d j) = w"
  "j_until (take_job now w d j) = Some (now + d)" "j_id (take_job now w d j) = j_id j"
  "j_type (take_job now w d j) = j_type j" "j_tenant (take_job now w d j) = j_tenant j"
  "j_retries (take_job now w d j) = j_retries j" "j_max (take_job now w d j) = j_max j"
  by (simp_all add: take_job_def Let_def split: option.splits)

lemma take_job_ok: "w \<noteq> '''' \<Longrightarrow> job_ok (take_job now w d j)"
  by (simp add: job_ok_def)

lemma release_job_ok: "job_ok (release_job j) \<and> j_id (release_job j) = j_id j"
  by (simp add: release_job_def job_ok_def)

lemma claim_ok [step_inv]:
  assumes "store_ok st" and "w \<noteq> ''''"
  shows "store_ok (fst (claim_next_pending now w d types ks st))"
  unfolding store_ok_def
proof (intro allI impI)
  fix k j
  assume "jobs (fst (claim_next_pending now w d types ks st)) k = Some j"
  with claim_jobs [of now w d types ks st k] assms show "job_ok j \<and> j_id j = k"
    by (auto simp: store_ok_def take_job_ok)
qed

lemma renew_ok [step_inv]:
  assumes "store_ok st" and "w \<noteq> ''''"
  shows "store_ok (fst (renew_lease now jid w d st))"
  unfolding renew_lease_def
  by (rule modify_ok [OF assms(1)]) (use assms(2) in \<open>auto simp: job_ok_def split: if_splits\<close>)

lemma progress_ok [step_inv]: "store_ok st \<Longrightarrow> store_ok (fst (update_progress jid p st))"
  unfolding update_progress_def by (erule modify_ok) (auto simp: job_ok_def)

lemma succeeded_ok [step_inv]: "store_ok st \<Longrightarrow> store_ok (fst (mark_succeeded now jid r st))"
  unfolding mark_succeeded_def by (erule modify_ok) (auto simp: job_ok_def)

lemma failed_ok [step_inv]: "store_ok st \<Longrightarrow> store_ok (fst (mark_failed now jid e d st))"
  unfolding mark_failed_def by (erule modify_ok) (auto simp: fail_job_ok)

lemma canceled_ok [step_inv]: "store_ok st \<Longrightarrow> store_ok (fst (mark_canceled now jid r st))"
  unfolding mark_canceled_def by (erule modify_ok) (auto simp: job_ok_def split: if_splits)

lemma reclaim_jobs:
  "iterates (jobs st) ks \<Longrightarrow> jobs (fst (reclaim_abandoned cutoff ks st)) k =
     map_option (\<lambda>j. if abandoned cutoff j then release_job j else j) (jobs st k)"
  by (auto simp: reclaim_abandoned_def split_beta reclaim_loop_jobs iterates_def domIff
      split: option.splits)

lemma reclaim_ok [step_inv]:
  "store_ok st \<Longrightarrow> iterates (jobs st) ks \<Longrightarrow> store_ok (fst (reclaim_abandoned cutoff ks st))"
  by (auto simp: store_ok_def reclaim_jobs release_job_ok)

lemma attempt_ok [step_inv]: "store_ok st \<Longrightarrow> store_ok (record_attempt uuid a st)"
  by (simp add: store_ok_def record_attempt_def Let_def)

lemma lease_ok [step_inv]: "store_ok st \<Longrightarrow> store_ok (register_or_heartbeat l st)"
  by (simp add: store_ok_def register_or_heartbeat_def)

lemma deregister_ok [step_inv]: "store_ok st \<Longrightarrow> store_ok (deregister w st)"
  by (simp add: store_ok_def deregister_def)

lemma create_ok [step_inv]:
  assumes "store_ok st" and "job_ok (job_defaults now uuid j)"
  shows "store_ok (fst (job_create now uuid j st))"
  using assms by (auto simp: store_ok_def job_create_def Let_def)

end
