(* ===== verification/Audit_Trail.thy ===== *)
theory Audit_Trail
  imports Aurora_Prelude
begin

text \<open>
  The tamper-evident audit trail: \<open>internal/domain/audit/audit.go\<close> and the in-memory
  repository of \<open>internal/infra/memory/memory_repos.go\<close>. Each entry carries a hash of its
  own fields and of the previous entry's hash. SHA-256 with hex encoding is the argument
  \<open>sha\<close> and \<open>json.Marshal\<close> of the details the argument \<open>js\<close>; no property of either is
  assumed except where a theorem names it. The services of the other theories append to
  a trail of \<open>Record\<close> calls; \<open>record_all\<close> runs such a trail against this repository.
\<close>

section \<open>Data\<close>

record audit_log =
  al_id :: int
  al_actor :: "string option"
  al_ip :: string
  al_agent :: string
  al_action :: string
  al_rtype :: string
  al_rid :: "string option"
  al_request :: string
  al_status :: int
  al_details :: gobj
  al_severity :: string
  al_prev :: string
  al_hash :: string
  al_created :: gtime

text \<open>A log literal in the services sets a few fields and leaves the others zero.\<close>

definition empty_log :: audit_log where
  "empty_log = \<lparr>al_id = 0, al_actor = None, al_ip = '''', al_agent = '''', al_action = '''',
     al_rtype = '''', al_rid = None, al_request = '''', al_status = 0, al_details = [],
     al_severity = '''', al_prev = '''', al_hash = '''', al_created = zero_time\<rparr>"

record audit_store =
  logs :: "audit_log list"
  counter :: int

definition empty_audit :: audit_store where
  "empty_audit = \<lparr>logs = [], counter = 0\<rparr>"

section \<open>Hashing an entry\<close>

definition opt_str :: "string option \<Rightarrow> string" where
  "opt_str x = (case x of None \<Rightarrow> '''' | Some s \<Rightarrow> s)"

definition payload :: "(gobj \<Rightarrow> string) \<Rightarrow> audit_log \<Rightarrow> string" where
  "payload js a =
     al_prev a @ ''|'' @ opt_str (al_actor a) @ ''|'' @ al_ip a @ ''|'' @ al_action a @ ''|''
     @ al_rtype a @ ''|'' @ opt_str (al_rid a) @ ''|'' @ al_request a @ ''|''
     @ show_int (al_status a) @ ''|'' @ al_severity a @ ''|'' @ js (al_details a) @ ''|''
     @ show_int (al_created a)"

definition compute_hash :: "(string \<Rightarrow> string) \<Rightarrow> (gobj \<Rightarrow> string) \<Rightarrow> audit_log \<Rightarrow> string" where
  "compute_hash sha js a = sha (payload js a)"

definition verify_hash :: "(string \<Rightarrow> string) \<Rightarrow> (gobj \<Rightarrow> string) \<Rightarrow> audit_log \<Rightarrow> bool" where
  "verify_hash sha js a = (if al_hash a = '''' then True else compute_hash sha js a = al_hash a)"

section \<open>The repository\<close>

definition audit_record ::
  "(string \<Rightarrow> string) \<Rightarrow> (gobj \<Rightarrow> string) \<Rightarrow> gtime \<Rightarrow> audit_log \<Rightarrow> audit_store \<Rightarrow> audit_store" where
  "audit_record sha js now log st =
     (let n = counter st + 1;
          c = log\<lparr>al_id := n\<rparr>;
          c = (if al_created c = zero_time then c\<lparr>al_created := now\<rparr> else c);
          c = (if al_severity c = '''' then c\<lparr>al_severity := ''info''\<rparr> else c);
          c = (if logs st \<noteq> [] then c\<lparr>al_prev := al_hash (last (logs st))\<rparr> else c);
          c = c\<lparr>al_hash := compute_hash sha js c\<rparr>
      in st\<lparr>counter := n, logs := logs st @ [c]\<rparr>)"

record audit_filter =
  af_actor :: string
  af_action :: string
  af_rtype :: string
  af_rid :: string
  af_severity :: string
  af_from :: "gtime option"
  af_to :: "gtime option"
  af_limit :: int
  af_offset :: int

definition audit_matches :: "audit_filter \<Rightarrow> audit_log \<Rightarrow> bool" where
  "audit_matches f l \<longleftrightarrow>
     \<not> (af_actor f \<noteq> '''' \<and> (al_actor l = None \<or> al_actor l \<noteq> Some (af_actor f))) \<and>
     \<not> (af_action f \<noteq> '''' \<and> al_action l \<noteq> af_action f) \<and>
     \<not> (af_rtype f \<noteq> '''' \<and> al_rtype l \<noteq> af_rtype f) \<and>
     \<not> (af_rid f \<noteq> '''' \<and> (al_rid l = None \<or> al_rid l \<noteq> Some (af_rid f))) \<and>
     \<not> (af_severity f \<noteq> '''' \<and> al_severity l \<noteq> af_severity f) \<and>
     (case af_from f of None \<Rightarrow> True | Some t \<Rightarrow> \<not> al_created l < t) \<and>
     (case af_to f of None \<Rightarrow> True | Some t \<Rightarrow> \<not> t < al_created l)"

definition audit_list_filtered ::
  "audit_filter \<Rightarrow> audit_store \<Rightarrow> (audit_log list \<times> int) result" where
  "audit_list_filtered f st =
     (let matching = filter (audit_matches f) (rev (logs st));
          total = int (length matching)
      in if af_offset f \<ge> total then Inr ([], total)
         else let limit = (if af_limit f \<le> 0 then 50 else af_limit f);
                  end = af_offset f + limit;
                  end = (if end > total then total else end)
              in if af_offset f < 0 \<or> end < af_offset f then Inl Panic
                 else Inr (take (nat end - nat (af_offset f)) (drop (nat (af_offset f)) matching),
                           total))"

definition get_latest_log :: "audit_store \<Rightarrow> audit_log option" where
  "get_latest_log st = (if logs st = [] then None else Some (last (logs st)))"

text \<open>
  The loop of \<open>VerifyChainIntegrity\<close>: \<open>prev\<close> is the entry at index \<open>i - 1\<close>, if any. The
  result is the identifier of the first entry that fails, or \<open>None\<close>.
\<close>

fun verify_loop ::
  "(string \<Rightarrow> string) \<Rightarrow> (gobj \<Rightarrow> string) \<Rightarrow> audit_log option \<Rightarrow> audit_log list \<Rightarrow> int option" where
  "verify_loop sha js prev [] = None"
| "verify_loop sha js prev (l # ls) =
     (if \<not> verify_hash sha js l then Some (al_id l)
      else if (case prev of None \<Rightarrow> False | Some p \<Rightarrow> al_prev l \<noteq> al_hash p) then Some (al_id l)
      else verify_loop sha js (Some l) ls)"

definition chain_start :: "nat \<Rightarrow> int \<Rightarrow> nat" where
  "chain_start n limit = (if limit > 0 \<and> int n > limit then n - nat limit else 0)"

definition before_start :: "audit_log list \<Rightarrow> nat \<Rightarrow> audit_log option" where
  "before_start ls start = (if start > 0 then Some (ls ! (start - 1)) else None)"

definition verify_chain_integrity ::
  "(string \<Rightarrow> string) \<Rightarrow> (gobj \<Rightarrow> string) \<Rightarrow> audit_store \<Rightarrow> int \<Rightarrow> bool \<times> int" where
  "verify_chain_integrity sha js st limit =
     (if logs st = [] then (True, 0)
      else let n = length (logs st);
               start = chain_start n limit
           in case verify_loop sha js (before_start (logs st) start) (drop start (logs st)) of
                Some i \<Rightarrow> (False, i)
              | None \<Rightarrow> (True, int (n - start)))"

fun record_all ::
  "(string \<Rightarrow> string) \<Rightarrow> (gobj \<Rightarrow> string) \<Rightarrow> (gtime \<times> audit_log) list \<Rightarrow> audit_store \<Rightarrow> audit_store"
where
  "record_all sha js [] st = st"
| "record_all sha js ((now, l) # ls) st = record_all sha js ls (audit_record sha js now l st)"

section \<open>The chain invariant\<close>

definition chain_ok :: "(string \<Rightarrow> string) \<Rightarrow> (gobj \<Rightarrow> string) \<Rightarrow> audit_log list \<Rightarrow> bool" where
  "chain_ok sha js ls \<longleftrightarrow>
     (\<forall>i < length ls. al_hash (ls ! i) = compute_hash sha js (ls ! i)) \<and>
     (\<forall>i. Suc i < length ls \<longrightarrow> al_prev (ls ! Suc i) = al_hash (ls ! i))"

definition audit_inv :: "(string \<Rightarrow> string) \<Rightarrow> (gobj \<Rightarrow> string) \<Rightarrow> audit_store \<Rightarrow> bool" where
  "audit_inv sha js st \<longleftrightarrow>
     chain_ok sha js (logs st) \<and> counter st = int (length (logs st)) \<and>
     map al_id (logs st) = map (\<lambda>i. int i + 1) [0..<length (logs st)]"

lemma compute_hash_upd [simp]: "compute_hash sha js (c\<lparr>al_hash := h\<rparr>) = compute_hash sha js c"
  by (simp add: compute_hash_def payload_def)

lemma audit_record_logs:
  obtains c where "logs (audit_record sha js now l st) = logs st @ [c]"
    and "al_hash c = compute_hash sha js c"
    and "logs st \<noteq> [] \<Longrightarrow> al_prev c = al_hash (last (logs st))"
    and "al_id c = counter st + 1"
    and "counter (audit_record sha js now l st) = counter st + 1"
  by (rule that) (auto simp: audit_record_def Let_def)

lemma chain_ok_snoc:
  assumes "chain_ok sha js ls" and "al_hash c = compute_hash sha js c"
    and "ls \<noteq> [] \<Longrightarrow> al_prev c = al_hash (last ls)"
  shows "chain_ok sha js (ls @ [c])"
proof -
  have "al_prev c = al_hash (ls ! i)" if "Suc i = length ls" for i
    using assms(3) that by (cases ls rule: rev_cases) auto
  with assms(1,2) show ?thesis
    by (auto simp: chain_ok_def nth_append less_Suc_eq)
qed

lemma audit_inv_empty: "audit_inv sha js empty_audit"
  by (simp add: audit_inv_def empty_audit_def chain_ok_def)

lemma audit_inv_record [step_inv]:
  assumes "audit_inv sha js st"
  shows "audit_inv sha js (audit_record sha js now l st)"
proof -
  obtain c where c: "logs (audit_record sha js now l st) = logs st @ [c]"
    "al_hash c = compute_hash sha js c"
    "logs st \<noteq> [] \<Longrightarrow> al_prev c = al_hash (last (logs st))"
    "al_id c = counter st + 1" "counter (audit_record sha js now l st) = counter st + 1"
    using audit_record_logs by blast
  with assms show ?thesis
    by (simp add: audit_inv_def chain_ok_snoc)
qed

lemma audit_inv_record_all: "audit_inv sha js st \<Longrightarrow> audit_inv sha js (record_all sha js ls st)"
  by (induction sha js ls st rule: record_all.induct) (simp_all add: audit_inv_record)

lemma length_record_all: "length (logs (record_all sha js ls st)) = length (logs st) + length ls"
proof (induction sha js ls st rule: record_all.induct)
  case (2 sha js now l ls st)
  then show ?case by (simp add: audit_record_def Let_def)
qed simp

section \<open>Verification succeeds on a chain\<close>

lemma verify_loop_chain:
  assumes "\<forall>i < length ls. al_hash (ls ! i) = compute_hash sha js (ls ! i)"
    and "\<forall>i. Suc i < length ls \<longrightarrow> al_prev (ls ! Suc i) = al_hash (ls ! i)"
    and "\<And>p. prev = Some p \<Longrightarrow> ls \<noteq> [] \<Longrightarrow> al_prev (hd ls) = al_hash p"
  shows "verify_loop sha js prev ls = None"
  using assms
proof (induction ls arbitrary: prev)
  case (Cons l ls)
  have "verify_loop sha js (Some l) ls = None"
  proof (rule Cons.IH)
    show "\<forall>i < length ls. al_hash (ls ! i) = compute_hash sha js (ls ! i)"
      using Cons.prems(1) by (metis Suc_less_eq length_Cons nth_Cons_Suc)
    show "\<forall>i. Suc i < length ls \<longrightarrow> al_prev (ls ! Suc i) = al_hash (ls ! i)"
      using Cons.prems(2) by (metis Suc_less_eq length_Cons nth_Cons_Suc)
    show "al_prev (hd ls) = al_hash p" if "Some l = Some p" "ls \<noteq> []" for p
      using Cons.prems(2) [rule_format, of 0] that by (cases ls) auto
  qed
  moreover have "verify_hash sha js l"
    using Cons.prems(1) by (auto simp: verify_hash_def)
  ultimately show ?case
    using Cons.prems(3) by (auto split: option.splits)
qed simp

lemma verify_chain_ok:
  assumes "chain_ok sha js (logs st)"
  shows "verify_chain_integrity sha js st limit =
           (True, int (length (logs st) - chain_start (length (logs st)) limit))"
proof -
  let ?s = "chain_start (length (logs st)) limit"
  have "verify_loop sha js (before_start (logs st) ?s) (drop ?s (logs st)) = None"
  proof (rule verify_loop_chain)
    show "al_prev (hd (drop ?s (logs st))) = al_hash p"
      if "before_start (logs st) ?s = Some p" "drop ?s (logs st) \<noteq> []" for p
    proof -
      from that have "?s > 0" "?s < length (logs st)" "p = logs st ! (?s - 1)"
        by (auto simp: before_start_def split: if_splits)
      then show ?thesis
        using assms [unfolded chain_ok_def] by (cases ?s) (auto simp: hd_drop_conv_nth)
    qed
  qed (use assms in \<open>auto simp: chain_ok_def\<close>)
  then show ?thesis
    by (auto simp: verify_chain_integrity_def Let_def)
qed

section \<open>What verification binds\<close>

lemma verify_loop_None:
  assumes "verify_loop sha js prev ls = None"
  shows "(\<forall>i < length ls. verify_hash sha js (ls ! i)) \<and>
         (\<forall>i. Suc i < length ls \<longrightarrow> al_prev (ls ! Suc i) = al_hash (ls ! i))"
  using assms
proof (induction ls arbitrary: prev)
  case (Cons l ls)
  then have v: "verify_hash sha js l" and n: "verify_loop sha js (Some l) ls = None"
    by (auto split: if_splits)
  have hd: "al_prev (ls ! 0) = al_hash l" if "ls \<noteq> []"
    using n that by (cases ls) (auto split: if_splits)
  show ?case
    using Cons.IH [OF n] v hd by (auto simp: nth_Cons split: nat.splits)
qed simp

definition sealed :: "audit_log list \<Rightarrow> bool" where
  "sealed ls \<longleftrightarrow> (\<forall>l \<in> set ls. al_hash l \<noteq> '''' \<and> CHR ''|'' \<notin> set (al_prev l))"

lemma payload_prev:
  assumes "payload js a = payload js b"
    and "CHR ''|'' \<notin> set (al_prev a)" and "CHR ''|'' \<notin> set (al_prev b)"
  shows "al_prev a = al_prev b"
proof -
  have "\<exists>r. payload js a = al_prev a @ CHR ''|'' # r" for a
    by (simp add: payload_def)
  then obtain r r' where "payload js a = al_prev a @ CHR ''|'' # r"
    "payload js b = al_prev b @ CHR ''|'' # r'" by blast
  with assms show ?thesis by (metis split_at_separator)
qed

text \<open>
  Two verified trails of the same length that end in the same hash agree on the hashed
  payload of every entry: by induction from the newest entry to the oldest, since a payload
  starts with the previous entry's hash.
\<close>

lemma verified_trails_agree:
  assumes len: "length A = length B"
    and vA: "verify_loop sha js None A = None" and vB: "verify_loop sha js None B = None"
    and sA: "sealed A" and sB: "sealed B"
    and inj: "inj_on sha (payload js ` (set A \<union> set B))"
    and last: "A \<noteq> [] \<Longrightarrow> al_hash (last A) = al_hash (last B)"
    and i: "i < length A"
  shows "payload js (A ! i) = payload js (B ! i) \<and> al_hash (A ! i) = al_hash (B ! i)"
proof -
  note fA = verify_loop_None [OF vA] and fB = verify_loop_None [OF vB]
  have pay: "payload js (A ! j) = payload js (B ! j)"
    if "al_hash (A ! j) = al_hash (B ! j)" "j < length A" for j
  proof -
    have "sha (payload js (A ! j)) = sha (payload js (B ! j))"
      using that fA fB sA sB len
      by (metis compute_hash_def nth_mem sealed_def verify_hash_def)
    then show ?thesis
      using inj that len by (auto simp: inj_on_def)
  qed
  have "d < length A \<Longrightarrow> al_hash (A ! (length A - 1 - d)) = al_hash (B ! (length A - 1 - d))" for d
  proof (induction d)
    case 0
    then have "A \<noteq> []" and "B \<noteq> []" using len by auto
    then show ?case using last len by (simp add: last_conv_nth)
  next
    case (Suc d)
    define k where "k = length A - 1 - Suc d"
    have k: "length A - 1 - d = Suc k" "Suc k < length A"
      using Suc.prems by (auto simp: k_def)
    with Suc have h: "al_hash (A ! Suc k) = al_hash (B ! Suc k)" by simp
    then have "al_prev (A ! Suc k) = al_prev (B ! Suc k)"
      using payload_prev pay [OF h k(2)] k sA sB len by (metis nth_mem sealed_def)
    then have "al_hash (A ! k) = al_hash (B ! k)" using fA fB k len by simp
    then show ?case by (simp only: k_def)
  qed
  from this [of "length A - 1 - i"] i have "al_hash (A ! i) = al_hash (B ! i)" by simp
  with pay i show ?thesis by blast
qed

definition hex_digest :: "(string \<Rightarrow> string) \<Rightarrow> bool" where
  "hex_digest sha \<longleftrightarrow> (\<forall>x. sha x \<noteq> '''' \<and> CHR ''|'' \<notin> set (sha x))"

lemma hd_record_all: "logs st \<noteq> [] \<Longrightarrow> hd (logs (record_all sha js ls st)) = hd (logs st)"
proof (induction sha js ls st rule: record_all.induct)
  case (2 sha js now l ls st)
  then show ?case by (simp add: audit_record_def Let_def)
qed simp

lemma chain_sealed:
  assumes "hex_digest sha" and "chain_ok sha js ls" and "ls \<noteq> [] \<Longrightarrow> al_prev (hd ls) = ''''"
  shows "sealed ls"
proof -
  have hash: "al_hash (ls ! i) \<noteq> '''' \<and> CHR ''|'' \<notin> set (al_hash (ls ! i))" if "i < length ls" for i
    using assms(1,2) that by (simp add: hex_digest_def chain_ok_def compute_hash_def)
  have "CHR ''|'' \<notin> set (al_prev (ls ! i))" if "i < length ls" for i
  proof (cases i)
    case 0
    with that assms(3) show ?thesis by (cases ls) auto
  next
    case (Suc j)
    with that assms(2) hash [of j] show ?thesis by (simp add: chain_ok_def)
  qed
  with hash show ?thesis by (auto simp: sealed_def in_set_conv_nth)
qed

lemma record_all_sealed:
  assumes "hex_digest sha" and "\<forall>(t, l) \<in> set ls. al_prev l = ''''"
  shows "sealed (logs (record_all sha js ls empty_audit))"
proof (rule chain_sealed [OF assms(1)])
  show "chain_ok sha js (logs (record_all sha js ls empty_audit))"
    using audit_inv_record_all [OF audit_inv_empty] by (simp add: audit_inv_def)
  show "al_prev (hd (logs (record_all sha js ls empty_audit))) = ''''"
    if "logs (record_all sha js ls empty_audit) \<noteq> []"
    using that assms(2)
    by (cases ls) (auto simp: hd_record_all audit_record_def Let_def empty_audit_def)
qed

section \<open>Properties\<close>

text \<open>C22. Whatever sequence of entries the services record, starting from an empty store, the
  repository's own chain verification succeeds on the result for every \<open>limit\<close> and reports
  the number of entries it looked at.\<close>

theorem audit_trail_verifies:
  "verify_chain_integrity sha js (record_all sha js ls empty_audit) limit =
     (True, if limit > 0 \<and> limit < int (length ls) then limit else int (length ls))"
proof -
  have inv: "audit_inv sha js (record_all sha js ls empty_audit)"
    by (rule audit_inv_record_all [OF audit_inv_empty])
  have len: "length (logs (record_all sha js ls empty_audit)) = length ls"
    by (simp add: length_record_all) (simp add: empty_audit_def)
  show ?thesis
    using verify_chain_ok [of sha js "record_all sha js ls empty_audit" limit] inv
    by (auto simp: audit_inv_def len chain_start_def)
qed


definition witness_sha :: "string \<Rightarrow> string" where
  "witness_sha x = map (\<lambda>c. if c = CHR ''|'' then CHR ''x'' else c) x @ ''0''"

definition witness_log :: audit_log where
  "witness_log = empty_log\<lparr>al_action := ''auth.login.success'', al_status := 200, al_created := 5\<rparr>"

abbreviation (input) witness_js :: "gobj \<Rightarrow> string" where
  "witness_js \<equiv> \<lambda>_. ''{}''"

abbreviation (input) witness_trail :: "string \<Rightarrow> audit_store" where
  "witness_trail ua \<equiv> record_all witness_sha witness_js [(7, witness_log\<lparr>al_agent := ua\<rparr>)] empty_audit"


text \<open>The user agent of an entry is not covered by the hash: whatever value an entry's user
  agent is overwritten with, verification gives the same answer as before.\<close>

theorem audit_user_agent_unprotected:
  "verify_chain_integrity sha js (st\<lparr>logs := (logs st)[i := (logs st ! i)\<lparr>al_agent := ua\<rparr>]\<rparr>) limit =
   verify_chain_integrity sha js st limit"
proof -
  define f where "f l = l\<lparr>al_agent := ua\<rparr>" for l :: audit_log
  have same: "verify_hash sha js (f l) = verify_hash sha js l" "al_id (f l) = al_id l"
    "al_prev (f l) = al_prev l" "al_hash (f l) = al_hash l" for l
    by (simp_all add: f_def verify_hash_def compute_hash_def payload_def)
  have loop: "verify_loop sha js p' (xs[k := f (xs ! k)]) = verify_loop sha js p xs"
    if "map_option al_hash p' = map_option al_hash p" for xs k p p'
    using that
  proof (induction xs arbitrary: k p p')
    case (Cons x xs)
    have id: "verify_loop sha js (Some (f x)) xs = verify_loop sha js (Some x) xs"
      by (cases xs) (simp_all add: same)
    from Cons show ?case
      by (cases k) (auto simp: same id split: option.splits)
  qed simp
  have upd: "drop n ((logs st)[i := f (logs st ! i)]) =
      (if i < n then drop n (logs st)
       else (drop n (logs st))[i - n := f (drop n (logs st) ! (i - n))])" for n
    by (cases "i < length (logs st)") (simp_all add: drop_update_swap list_update_beyond)
  have bef: "map_option al_hash (before_start ((logs st)[i := f (logs st ! i)]) n) =
      map_option al_hash (before_start (logs st) n)" if "n \<le> length (logs st)" for n
  proof -
    have "al_hash ((logs st)[i := f (logs st ! i)] ! k) = al_hash (logs st ! k)" for k
      by (cases "i < length (logs st)") (auto simp: nth_list_update same list_update_beyond)
    then show ?thesis by (simp add: before_start_def)
  qed
  have "verify_loop sha js (before_start ((logs st)[i := f (logs st ! i)]) n)
          (drop n ((logs st)[i := f (logs st ! i)])) =
        verify_loop sha js (before_start (logs st) n) (drop n (logs st))"
    if "n \<le> length (logs st)" for n
    using loop [OF bef [OF that], of "drop n (logs st)" "i - n"]
      loop [OF bef [OF that], of "drop n (logs st)" "length (logs st)"]
    by (simp add: upd list_update_beyond)
  then show ?thesis
    by (simp add: verify_chain_integrity_def f_def [symmetric] chain_start_def Let_def)
qed

end
