(* ===== verification/Domain_Events.thy ===== *)
theory Domain_Events
  imports Audit_Trail
begin

text \<open>
  The event record of \<open>internal/domain/events/event.go\<close>, and the two trails a service
  leaves behind: the audit entries it records and the events it publishes. A publisher and
  an audit repository are configured, as in \<open>cmd/aurora-server/main.go\<close>, and their error
  results are ignored by the callers.
\<close>

record dom_event =
  ev_tenant :: string
  ev_type :: string
  ev_rtype :: string
  ev_rid :: string
  ev_actor :: string
  ev_payload :: gobj

record trails =
  tr_audit :: "(gtime \<times> audit_log) list"
  tr_events :: "dom_event list"

definition empty_trails :: trails where
  "empty_trails = \<lparr>tr_audit = [], tr_events = []\<rparr>"

definition log_audit :: "gtime \<Rightarrow> audit_log \<Rightarrow> trails \<Rightarrow> trails" where
  "log_audit now l t = t\<lparr>tr_audit := tr_audit t @ [(now, l)]\<rparr>"

definition publish :: "dom_event \<Rightarrow> trails \<Rightarrow> trails" where
  "publish e t = t\<lparr>tr_events := tr_events t @ [e]\<rparr>"

end
