(* ===== verification/Float64.thy ===== *)
theory Float64
  imports Complex_Main "HOL-Library.Log_Nat"
begin

text \<open>
  Go's \<open>float64\<close> arithmetic. A finite double is the rational number it denotes, and an
  operation is the exact rational result rounded to 53 significant bits, ties to even, as
  IEEE 754 prescribes. The exponent is unbounded: overflow to infinity, subnormals, NaN and
  the sign of zero are outside the model, and so is the fusing of a product with a sum that
  Go allows on some processors. All quantities of the program (cores, bytes, hours,
  percentages) are far inside the normal range.
\<close>

type_synonym f64 = rat

section \<open>Rounding\<close>

text \<open>The exponent of a positive rational: the \<open>e\<close> with \<open>2 powi e \<le> x < 2 powi (e + 1)\<close>.\<close>

definition exponent :: "rat \<Rightarrow> int" where
  "exponent x =
     (let (a, b) = quotient_of x;
          k = int (floorlog 2 (nat a)) - int (floorlog 2 (nat b))
      in if 2 powi k \<le> x then k else k - 1)"

definition round_even :: "rat \<Rightarrow> int" where
  "round_even m =
     (let f = \<lfloor>m\<rfloor>; d = m - of_int f
      in if d < 1 / 2 then f else if 1 / 2 < d then f + 1 else if even f then f else f + 1)"

definition round_pos :: "rat \<Rightarrow> f64" where
  "round_pos x = of_int (round_even (x * 2 powi (52 - exponent x))) * 2 powi (exponent x - 52)"

definition rnd :: "rat \<Rightarrow> f64" where
  "rnd x = (if x = 0 then 0 else if 0 < x then round_pos x else - round_pos (- x))"

section \<open>Operations\<close>

definition f_of_int :: "int \<Rightarrow> f64" where
  "f_of_int i = rnd (of_int i)"

definition f_add :: "f64 \<Rightarrow> f64 \<Rightarrow> f64" where
  "f_add x y = rnd (x + y)"

definition f_sub :: "f64 \<Rightarrow> f64 \<Rightarrow> f64" where
  "f_sub x y = rnd (x - y)"

definition f_mul :: "f64 \<Rightarrow> f64 \<Rightarrow> f64" where
  "f_mul x y = rnd (x * y)"

definition f_div :: "f64 \<Rightarrow> f64 \<Rightarrow> f64" where
  "f_div x y = rnd (x / y)"

text \<open>\<open>int64(x)\<close> truncates towards zero; \<open>math.Round\<close> rounds half away from zero.\<close>

definition f_trunc :: "f64 \<Rightarrow> int" where
  "f_trunc x = (if 0 \<le> x then \<lfloor>x\<rfloor> else - \<lfloor>- x\<rfloor>)"

definition math_round :: "f64 \<Rightarrow> int" where
  "math_round x = (if 0 \<le> x then \<lfloor>x + 1 / 2\<rfloor> else - \<lfloor>- x + 1 / 2\<rfloor>)"

section \<open>Rounding to an integer\<close>

lemma round_even_of_int [simp]: "round_even (of_int i) = i"
  by (simp add: round_even_def)

lemma round_even_bounds: "\<lfloor>m\<rfloor> \<le> round_even m \<and> round_even m \<le> \<lfloor>m\<rfloor> + 1"
  by (simp add: round_even_def Let_def)

lemma round_even_mono: "x \<le> y \<Longrightarrow> round_even x \<le> round_even y"
proof -
  assume le: "x \<le> y"
  then have fl: "\<lfloor>x\<rfloor> \<le> \<lfloor>y\<rfloor>" by (rule floor_mono)
  show ?thesis
  proof (cases "\<lfloor>x\<rfloor> = \<lfloor>y\<rfloor>")
    case True
    with le show ?thesis by (auto simp: round_even_def Let_def)
  next
    case False
    with fl have "\<lfloor>x\<rfloor> + 1 \<le> \<lfloor>y\<rfloor>" by simp
    with round_even_bounds [of x] round_even_bounds [of y] show ?thesis by linarith
  qed
qed

section \<open>The exponent\<close>

lemma powi_mono: "i \<le> j \<Longrightarrow> (2 :: rat) powi i \<le> 2 powi j"
  by (rule power_int_increasing) auto

lemma floorlog_powi:
  assumes "0 < c"
  shows "(2 :: rat) powi (int (floorlog 2 (nat c)) - 1) \<le> of_int c \<and>
         of_int c < (2 :: rat) powi int (floorlog 2 (nat c))"
proof -
  define m where "m = floorlog 2 (nat c)"
  have "2 ^ (m - 1) \<le> nat c \<and> nat c < 2 ^ m"
    using floorlog_bounds [of "nat c" 2] assms by (simp add: m_def)
  then have le: "2 ^ (m - 1) \<le> c" and less: "c < 2 ^ m"
    using assms by (simp_all add: nat_less_iff le_nat_iff)
  have "0 < m"
    using assms floorlog_eq_zero_iff [of 2 "nat c"] by (simp add: m_def)
  then have "int m - 1 = int (m - 1)" by simp
  moreover have "(2 :: rat) ^ (m - 1) \<le> of_int c"
    using le by (metis of_int_le_iff of_int_numeral of_int_power)
  moreover have "of_int c < (2 :: rat) ^ m"
    using less by (metis of_int_less_iff of_int_numeral of_int_power)
  ultimately show ?thesis
    by (simp add: m_def [symmetric] power_int_of_nat del: of_nat_diff)
qed

lemma powi_add: "(2 :: rat) powi (i + j) = 2 powi i * 2 powi j"
  by (simp add: power_int_add)

lemma exponent_bounds:
  assumes "0 < x"
  shows "2 powi exponent x \<le> x \<and> x < 2 powi (exponent x + 1)"
proof -
  obtain a b where q: "quotient_of x = (a, b)" by force
  have x: "x = of_int a / of_int b" and b: "0 < b"
    using quotient_of_div [OF q] quotient_of_denom_pos [OF q] by auto
  with assms have a: "0 < a" by (simp add: zero_less_divide_iff)
  define m n where "m = int (floorlog 2 (nat a))" and "n = int (floorlog 2 (nat b))"
  have A: "2 powi (m - 1) \<le> (of_int a :: rat)" "of_int a < (2 :: rat) powi m"
    and B: "2 powi (n - 1) \<le> (of_int b :: rat)" "of_int b < (2 :: rat) powi n"
    using floorlog_powi [OF a] floorlog_powi [OF b] by (auto simp: m_def n_def)
  have "of_int a < 2 powi (m - n + 1) * (2 :: rat) powi (n - 1)"
    using A(2) by (simp add: powi_add [symmetric])
  also have "\<dots> \<le> 2 powi (m - n + 1) * of_int b"
    using B(1) by (simp add: mult_left_mono)
  finally have up: "x < 2 powi (m - n + 1)"
    using b by (simp add: x divide_less_eq)
  have "2 powi (m - n - 1) * of_int b \<le> 2 powi (m - n - 1) * (2 :: rat) powi n"
    using B(2) by (simp add: mult_left_mono)
  also have "\<dots> \<le> of_int a"
    using A(1) by (simp add: powi_add [symmetric])
  finally have lo: "2 powi (m - n - 1) \<le> x"
    using b by (simp add: x le_divide_eq)
  have "exponent x = (if 2 powi (m - n) \<le> x then m - n else m - n - 1)"
    by (simp add: exponent_def q m_def n_def)
  with up lo show ?thesis by simp
qed

lemma exponent_mono:
  assumes "0 < x" and "x \<le> y"
  shows "exponent x \<le> exponent y"
proof -
  have "2 powi exponent x < (2 :: rat) powi (exponent y + 1)"
    using exponent_bounds [of x] exponent_bounds [of y] assms by simp
  then show ?thesis
    using powi_mono [of "exponent y + 1" "exponent x"] by linarith
qed

section \<open>Rounding is monotone and exact on small integers\<close>

lemma scaled_bounds:
  assumes "0 < x"
  shows "2 ^ 52 \<le> x * 2 powi (52 - exponent x) \<and> x * 2 powi (52 - exponent x) \<le> 2 ^ 53"
proof -
  have p: "0 < (2 :: rat) powi (52 - exponent x)" by simp
  have "2 powi exponent x * 2 powi (52 - exponent x) \<le> x * 2 powi (52 - exponent x)"
    and "x * 2 powi (52 - exponent x) \<le> 2 powi (exponent x + 1) * 2 powi (52 - exponent x)"
    using exponent_bounds [OF assms] p by (auto intro!: mult_right_mono)
  then show ?thesis by (simp add: powi_add [symmetric])
qed

lemma round_pos_bounds:
  assumes "0 < x"
  shows "2 powi exponent x \<le> round_pos x \<and> round_pos x \<le> 2 powi (exponent x + 1)"
proof -
  let ?m = "x * 2 powi (52 - exponent x)"
  have "round_even (of_int (2 ^ 52)) \<le> round_even ?m"
    and "round_even ?m \<le> round_even (of_int (2 ^ 53))"
    using scaled_bounds [OF assms] by (auto intro!: round_even_mono)
  then have "(of_int (2 ^ 52) :: rat) \<le> of_int (round_even ?m)"
    and "of_int (round_even ?m) \<le> (of_int (2 ^ 53) :: rat)"
    by (simp_all only: round_even_of_int of_int_le_iff)
  then have r: "(2 :: rat) powi 52 \<le> of_int (round_even ?m)"
    "of_int (round_even ?m) \<le> (2 :: rat) powi 53"
    by simp_all
  have "(2 :: rat) powi 52 * 2 powi (exponent x - 52) \<le> round_pos x"
    and "round_pos x \<le> (2 :: rat) powi 53 * 2 powi (exponent x - 52)"
    unfolding round_pos_def using r by (auto intro!: mult_right_mono)
  then show ?thesis by (simp only: powi_add [symmetric]) (simp add: algebra_simps)
qed

lemma round_pos_mono:
  assumes "0 < x" and "x \<le> y"
  shows "round_pos x \<le> round_pos y"
proof (cases "exponent x = exponent y")
  case True
  have "round_even (x * 2 powi (52 - exponent y)) \<le> round_even (y * 2 powi (52 - exponent y))"
    using assms by (intro round_even_mono mult_right_mono) auto
  then show ?thesis by (simp add: round_pos_def True mult_right_mono)
next
  case False
  then have "exponent x + 1 \<le> exponent y"
    using exponent_mono [OF assms] by simp
  from powi_mono [OF this] show ?thesis
    using round_pos_bounds [of x] round_pos_bounds [of y] assms by simp
qed

lemma round_pos_positive: "0 < x \<Longrightarrow> 0 < round_pos x"
  using round_pos_bounds [of x] less_le_trans [of 0 "2 powi exponent x" "round_pos x"] by simp

lemma rnd_0 [simp]: "rnd 0 = 0"
  by (simp add: rnd_def)

lemma rnd_uminus: "rnd (- x) = - rnd x"
  by (simp add: rnd_def)

lemma rnd_mono: "x \<le> y \<Longrightarrow> rnd x \<le> rnd y"
proof -
  assume le: "x \<le> y"
  consider "0 < x" | "x \<le> 0" "0 \<le> y" | "y < 0" using le by linarith
  then show ?thesis
  proof cases
    case 1
    with le show ?thesis by (simp add: rnd_def round_pos_mono)
  next
    case 2
    then show ?thesis
      using round_pos_positive [of "- x"] round_pos_positive [of y] by (auto simp: rnd_def)
  next
    case 3
    with le round_pos_mono [of "- y" "- x"] show ?thesis by (simp add: rnd_def)
  qed
qed

lemma rnd_nonneg: "0 \<le> x \<Longrightarrow> 0 \<le> rnd x"
  using rnd_mono [of 0 x] by simp

lemma round_pos_exact:
  assumes "x * 2 powi (52 - exponent x) = of_int i"
  shows "round_pos x = x"
proof -
  have "round_pos x = x * (2 powi (52 - exponent x) * 2 powi (exponent x - 52))"
    using assms by (simp add: round_pos_def)
  then show ?thesis by (simp add: powi_add [symmetric])
qed

lemma rnd_of_nat_small:
  assumes "0 < i" and "i < 2 ^ 53"
  shows "rnd (of_int i) = of_int i"
proof -
  let ?e = "exponent (of_int i)"
  have "(2 :: rat) powi ?e \<le> of_int i"
    using exponent_bounds [of "of_int i"] assms by simp
  also have "(of_int i :: rat) < of_int (2 ^ 53)"
    using assms(2) by (simp only: of_int_less_iff)
  finally have "(2 :: rat) powi ?e < 2 powi 53" by simp
  then have "?e \<le> 52" using powi_mono [of 53 ?e] by linarith
  then obtain k where k: "52 - ?e = int k" by (metis zero_le_imp_eq_int diff_ge_0_iff_ge)
  have "of_int i * (2 :: rat) powi (52 - ?e) = of_int (i * 2 ^ k)"
    by (simp add: k)
  from round_pos_exact [OF this] show ?thesis using assms(1) by (simp add: rnd_def)
qed

lemma rnd_of_int_small: "\<bar>i\<bar> < 2 ^ 53 \<Longrightarrow> rnd (of_int i) = of_int i"
  using rnd_of_nat_small [of i] rnd_of_nat_small [of "- i"] rnd_uminus [of "of_int (- i)"]
  by (cases i "0 :: int" rule: linorder_cases) auto

lemma f_of_int_small: "\<bar>i\<bar> < 2 ^ 53 \<Longrightarrow> f_of_int i = of_int i"
  by (simp add: f_of_int_def rnd_of_int_small)

lemma f_of_int_mono: "i \<le> j \<Longrightarrow> f_of_int i \<le> f_of_int j"
  by (simp add: f_of_int_def rnd_mono)

lemma math_round_mono: "x \<le> y \<Longrightarrow> math_round x \<le> math_round y"
proof -
  assume le: "x \<le> y"
  have "0 \<le> \<lfloor>z + 1 / 2\<rfloor>" if "0 \<le> z" for z :: rat
    using that by simp
  then show ?thesis
    using le floor_mono [of "x + 1 / 2" "y + 1 / 2"] floor_mono [of "- y + 1 / 2" "- x + 1 / 2"]
    by (cases "0 \<le> x"; cases "0 \<le> y") (auto simp: math_round_def intro: order_trans [of _ 0])
qed

lemma floor_half [simp]: "\<lfloor>of_int i + 1 / 2 :: rat\<rfloor> = i"
  by (rule floor_unique) simp_all

lemma math_round_of_int [simp]: "math_round (of_int i) = i"
  using floor_half [of "- i"] by (simp add: math_round_def)

section \<open>Scaling by powers of two\<close>

lemma exponent_unique:
  assumes "2 powi e \<le> x" and "x < 2 powi (e + 1)"
  shows "exponent x = e"
proof -
  have "0 < x" using assms(1) less_le_trans [of 0 "2 powi e" x] by simp
  from exponent_bounds [OF this] have b: "2 powi exponent x \<le> x" "x < 2 powi (exponent x + 1)"
    by auto
  have "\<not> e + 1 \<le> exponent x"
    using powi_mono [of "e + 1" "exponent x"] assms(2) b(1) by linarith
  moreover have "\<not> exponent x + 1 \<le> e"
    using powi_mono [of "exponent x + 1" e] assms(1) b(2) by linarith
  ultimately show ?thesis by linarith
qed

lemma round_pos_scale:
  assumes "0 < x"
  shows "round_pos (x * 2 powi k) = round_pos x * 2 powi k"
proof -
  have e: "exponent (x * 2 powi k) = exponent x + k"
  proof (rule exponent_unique)
    show "2 powi (exponent x + k) \<le> x * 2 powi k"
      using exponent_bounds [OF assms] by (simp add: powi_add mult_right_mono)
    have "x * 2 powi k < 2 powi (exponent x + 1) * 2 powi k"
      using exponent_bounds [OF assms] by simp
    then show "x * 2 powi k < 2 powi (exponent x + k + 1)"
      by (simp add: powi_add [symmetric] algebra_simps)
  qed
  have "x * 2 powi k * 2 powi (52 - (exponent x + k)) = x * (2 powi k * 2 powi (52 - (exponent x + k)))"
    by (simp only: mult.assoc)
  also have "\<dots> = x * 2 powi (52 - exponent x)"
    by (simp add: powi_add [symmetric])
  finally have m: "x * 2 powi k * 2 powi (52 - (exponent x + k)) = x * 2 powi (52 - exponent x)" .
  have "exponent x + k - 52 = (exponent x - 52) + k" by simp
  then show ?thesis
    by (simp only: round_pos_def e m) (simp only: powi_add mult.assoc)
qed

lemma rnd_scale: "rnd (x * 2 powi k) = rnd x * 2 powi k"
proof -
  have p: "0 < (2 :: rat) powi k" by simp
  then have "0 < x * (2 :: rat) powi k \<longleftrightarrow> 0 < x" by (metis mult_pos_pos zero_less_mult_pos2)
  then show ?thesis
    using round_pos_scale [of x k] round_pos_scale [of "- x" k]
    by (auto simp: rnd_def)
qed

lemma rnd_quarters: "\<bar>i\<bar> < 2 ^ 53 \<Longrightarrow> rnd (of_int i / 4) = of_int i / 4"
  using rnd_scale [of "of_int i" "- 2"] rnd_of_int_small [of i]
  by (simp add: power_int_def power2_eq_square)

text \<open>Evaluation by the simplifier: the exponent is given, and its two bounds are checked.\<close>

lemma rnd_eval:
  assumes "2 powi e \<le> x" and "x < 2 powi (e + 1)"
  shows "rnd x = of_int (round_even (x * 2 powi (52 - e))) * 2 powi (e - 52)"
proof -
  have "0 < x" using assms(1) less_le_trans [of 0 "2 powi e" x] by simp
  then show ?thesis
    using exponent_unique [OF assms] by (simp add: rnd_def round_pos_def)
qed

lemma floor_rat_numeral [simp]:
  "\<lfloor>numeral a / numeral b :: rat\<rfloor> = numeral a div numeral b"
  using floor_divide_of_int_eq [of "numeral a" "numeral b", where 'a = rat] by simp

lemmas f64_eval = power_int_def round_even_def Let_def power_one_over

end
