(* ===== verification/Job_Engine.thy ===== *)
theory Job_Engine
  imports Job_Store Domain_Events Float64
begin

text \<open>
  The distributed job engine of \<open>internal/app/job/engine.go\<close>: submission, tenant-checked
  queries, cancellation, retry, execution of a claimed job by its handler, backoff, and the
  heartbeat that reclaims abandoned jobs. A handler is a function of the job that reports
  progress and ends with a result, an error or a panic. The goroutines are not modelled as
  such: their repository calls are the steps of \<open>job_step\<close>, in any interleaving.
\<close>

section \<open>Data\<close>

datatype outcome = HOk string | HErr string | HPanic string

type_synonym handler = "job \<Rightarrow> int list \<times> outcome"

record engine =
  e_store :: job_store
  e_trails :: trails
  e_worker :: string
  e_lease :: duration
  e_handlers :: "string \<rightharpoonup> handler"

definition new_engine :: "string \<Rightarrow> job_store \<Rightarrow> engine" where
  "new_engine worker st =
     \<lparr>e_store = st, e_trails = empty_trails, e_worker = worker, e_lease = 30 * second,
      e_handlers = Map.empty\<rparr>"

definition register_handler :: "string \<Rightarrow> handler \<Rightarrow> engine \<Rightarrow> engine" where
  "register_handler ty h e = e\<lparr>e_handlers := (e_handlers e)(ty \<mapsto> h)\<rparr>"

section \<open>Requests\<close>

definition submit_event :: "job \<Rightarrow> dom_event" where
  "submit_event j = \<lparr>ev_tenant = j_tenant j, ev_type = ''job.'' @ j_type j @ ''.submitted'',
     ev_rtype = ''job'', ev_rid = j_id j, ev_actor = j_tenant j,
     ev_payload = [(''jobType'', GStr (j_type j)), (''resourceType'', GStr (j_rtype j)),
                   (''resourceId'', GStr (j_rid j))]\<rparr>"

definition submit_log :: "gtime \<Rightarrow> job \<Rightarrow> audit_log" where
  "submit_log now j = empty_log\<lparr>al_actor := Some (j_tenant j),
     al_action := ''job.'' @ j_type j @ ''.submitted'', al_rtype := ''job'',
     al_rid := Some (j_id j), al_details := [(''jobType'', GStr (j_type j))], al_created := now\<rparr>"

definition submit :: "gtime \<Rightarrow> string \<Rightarrow> subject option \<Rightarrow> job \<Rightarrow> engine \<Rightarrow> engine \<times> job" where
  "submit now uuid sub j e =
     (let j = (if j_tenant j = ''''
               then j\<lparr>j_tenant := (case sub of Some s \<Rightarrow> sub_user s | None \<Rightarrow> ''system'')\<rparr> else j);
          (st, j) = job_create now uuid j (e_store e);
          t = log_audit now (submit_log now j) (publish (submit_event j) (e_trails e))
      in (e\<lparr>e_store := st, e_trails := t\<rparr>, j))"

text \<open>The check that \<open>GetJob\<close>, \<open>CancelJob\<close> and \<open>RetryJob\<close> make for a given action.\<close>

definition job_check :: "subject option \<Rightarrow> string \<Rightarrow> job \<Rightarrow> go_error option" where
  "job_check sub action j =
     (case sub of
        None \<Rightarrow> None
      | Some s \<Rightarrow> if is_superadmin s then None
                  else authorize sub action (Some (job_resource j)))"

definition get_job :: "subject option \<Rightarrow> string \<Rightarrow> engine \<Rightarrow> job result" where
  "get_job sub jid e =
     (case job_get jid (e_store e) of
        Inl err \<Rightarrow> Inl err
      | Inr j \<Rightarrow> (case job_check sub ''job:read'' j of Some err \<Rightarrow> Inl err | None \<Rightarrow> Inr j))"

definition list_jobs ::
  "(job list \<Rightarrow> job list) \<Rightarrow> subject option \<Rightarrow> job_filter \<Rightarrow> string list \<Rightarrow> engine \<Rightarrow>
   (job list \<times> int) result" where
  "list_jobs srt sub f ks e =
     (let f = (case sub of
                 Some s \<Rightarrow> if \<not> is_superadmin s then f\<lparr>jf_tenant := sub_user s\<rparr> else f
               | None \<Rightarrow> f)
      in job_list srt f ks (e_store e))"

definition cancel_event :: "string \<Rightarrow> job \<Rightarrow> dom_event" where
  "cancel_event reason j = \<lparr>ev_tenant = j_tenant j, ev_type = ''job.canceled'', ev_rtype = ''job'',
     ev_rid = j_id j, ev_actor = '''', ev_payload = [(''reason'', GStr reason)]\<rparr>"

definition cancel_job ::
  "gtime \<Rightarrow> subject option \<Rightarrow> string \<Rightarrow> string \<Rightarrow> engine \<Rightarrow> engine \<times> go_error option" where
  "cancel_job now sub jid reason e =
     (case get_job sub jid e of
        Inl err \<Rightarrow> (e, Some err)
      | Inr j \<Rightarrow>
          (case job_check sub ''job:manage'' j of
             Some err \<Rightarrow> (e, Some err)
           | None \<Rightarrow>
               (case mark_canceled now jid reason (e_store e) of
                  (st, Some err) \<Rightarrow> (e\<lparr>e_store := st\<rparr>, Some err)
                | (st, None) \<Rightarrow> (e\<lparr>e_store := st,
                     e_trails := publish (cancel_event reason j) (e_trails e)\<rparr>, None))))"

definition reset_for_retry :: "job \<Rightarrow> job" where
  "reset_for_retry j = j\<lparr>j_status := JPending, j_error := '''', j_progress := 0, j_next := None,
     j_worker := '''', j_until := None\<rparr>"

definition retry_job ::
  "gtime \<Rightarrow> string \<Rightarrow> subject option \<Rightarrow> string \<Rightarrow> engine \<Rightarrow> engine \<times> job result" where
  "retry_job now uuid sub jid e =
     (case get_job sub jid e of
        Inl err \<Rightarrow> (e, Inl err)
      | Inr j \<Rightarrow>
          (case job_check sub ''job:manage'' j of
             Some err \<Rightarrow> (e, Inl err)
           | None \<Rightarrow>
               if j_status j \<noteq> JFailed \<and> j_status j \<noteq> JCanceled then (e, Inl ErrJobCannotRetry)
               else let (st, j') = job_create now uuid (reset_for_retry j) (e_store e)
                    in (e\<lparr>e_store := st\<rparr>, Inr j')))"

section \<open>Execution\<close>

definition base_delays :: "duration list" where
  "base_delays = [5 * second, 30 * second, 2 * minute, 10 * minute, 30 * minute]"

definition delay_index :: "int \<Rightarrow> nat" where
  "delay_index attempt =
     (let idx = attempt - 1;
          idx = (if idx < 0 then 0 else idx);
          idx = (if idx \<ge> int (length base_delays) then int (length base_delays) - 1 else idx)
      in nat idx)"

text \<open>\<open>u\<close> is the value of \<open>rand.Float64()\<close>, at least 0 and below 1.\<close>

definition calculate_backoff :: "int \<Rightarrow> f64 \<Rightarrow> duration" where
  "calculate_backoff attempt u =
     (let base = base_delays ! delay_index attempt;
          jitter = f_mul (f_of_int base) (f_add (rnd (8 / 10)) (f_mul (rnd (4 / 10)) u))
      in math_round jitter)"

definition exec_error :: "outcome \<Rightarrow> string option" where
  "exec_error out =
     (case out of HOk _ \<Rightarrow> None | HErr err \<Rightarrow> Some err
      | HPanic v \<Rightarrow> Some (''panic in job handler: '' @ v))"

definition job_event :: "string \<Rightarrow> gobj \<Rightarrow> job \<Rightarrow> dom_event" where
  "job_event ty p j = \<lparr>ev_tenant = j_tenant j, ev_type = ty, ev_rtype = ''job'', ev_rid = j_id j,
     ev_actor = '''', ev_payload = p\<rparr>"

text \<open>
  What a worker does once the handler of job copy \<open>j\<close> has ended: record the attempt, then
  mark the job failed (with a retry delay) or succeeded, and publish.
\<close>

definition finish_job ::
  "gtime \<Rightarrow> gtime \<Rightarrow> string \<Rightarrow> f64 \<Rightarrow> job \<Rightarrow> outcome \<Rightarrow> engine \<Rightarrow> engine" where
  "finish_job started now uuid u j out e =
     (let a = \<lparr>at_id = uuid, at_job = j_id j, at_number = j_retries j + 1, at_worker = e_worker e,
               at_error = '''', at_started = started, at_finished = Some now\<rparr>
      in case exec_error out of
           Some err \<Rightarrow>
             let st = record_attempt uuid (a\<lparr>at_error := err\<rparr>) (e_store e);
                 retry_in = calculate_backoff (j_retries j + 1) u;
                 (st, _) = mark_failed now (j_id j) err (Some retry_in) st
             in e\<lparr>e_store := st,
                  e_trails := publish (job_event ''job.failed'' [(''error'', GStr err)] j) (e_trails e)\<rparr>
         | None \<Rightarrow>
             let st = record_attempt uuid a (e_store e);
                 (st, _) = mark_succeeded now (j_id j) (case out of HOk r \<Rightarrow> r | _ \<Rightarrow> '''') st
             in e\<lparr>e_store := st,
                  e_trails := publish (job_event ''job.succeeded'' [] j) (e_trails e)\<rparr>)"

definition report_progress :: "string \<Rightarrow> int list \<Rightarrow> job_store \<Rightarrow> job_store" where
  "report_progress jid ps st = fold (\<lambda>p s. fst (update_progress jid p s)) ps st"

definition execute_job ::
  "gtime \<Rightarrow> gtime \<Rightarrow> string \<Rightarrow> f64 \<Rightarrow> job \<Rightarrow> engine \<Rightarrow> engine" where
  "execute_job started now uuid u j e =
     (case e_handlers e (j_type j) of
        None \<Rightarrow>
          e\<lparr>e_store := fst (mark_failed now (j_id j)
                 (''no handler registered for job type '' @ j_type j) None (e_store e))\<rparr>
      | Some h \<Rightarrow>
          (let (ps, out) = h j;
               e = e\<lparr>e_store := report_progress (j_id j) ps (e_store e)\<rparr>
           in finish_job started now uuid u j out e))"

definition process_next_job ::
  "gtime \<Rightarrow> gtime \<Rightarrow> string \<Rightarrow> f64 \<Rightarrow> string list \<Rightarrow> string list \<Rightarrow> engine \<Rightarrow> engine" where
  "process_next_job started now uuid u types ks e =
     (if types = [] then e
      else case claim_next_pending started (e_worker e) (e_lease e) types ks (e_store e) of
             (st, None) \<Rightarrow> e\<lparr>e_store := st\<rparr>
           | (st, Some j) \<Rightarrow> execute_job started now uuid u j (e\<lparr>e_store := st\<rparr>))"

definition heartbeat_tick :: "gtime \<Rightarrow> string \<Rightarrow> int \<Rightarrow> string list \<Rightarrow> engine \<Rightarrow> engine" where
  "heartbeat_tick now host pid ks e =
     (let st = register_or_heartbeat
           \<lparr>wl_worker = e_worker e, wl_host = host, wl_pid = pid, wl_status = ''active'',
            wl_heartbeat = now, wl_expires = now + 15 * second, wl_created = now\<rparr> (e_store e);
          (st, _) = reclaim_abandoned (now - e_lease e) ks st
      in e\<lparr>e_store := st\<rparr>)"

definition close_engine :: "engine \<Rightarrow> engine" where
  "close_engine e = e\<lparr>e_store := deregister (e_worker e) (e_store e)\<rparr>"

section \<open>Interleavings\<close>

text \<open>
  One repository call by any client of the engine: a request handler, a worker between claim
  and completion, a lease renewer or the recovery loop. A submitted job is a fresh literal
  that no worker holds.
\<close>

inductive job_step :: "job_store \<Rightarrow> job_store \<Rightarrow> bool" where
  submit: "j_status j = JUnset \<Longrightarrow> j_worker j = '''' \<Longrightarrow> j_until j = None \<Longrightarrow>
    job_step st (fst (job_create now uuid j st))"
| claim: "w \<noteq> '''' \<Longrightarrow> job_step st (fst (claim_next_pending now w d types ks st))"
| renew: "w \<noteq> '''' \<Longrightarrow> job_step st (fst (renew_lease now jid w d st))"
| progress: "job_step st (fst (update_progress jid p st))"
| succeed: "job_step st (fst (mark_succeeded now jid r st))"
| fail: "job_step st (fst (mark_failed now jid err d st))"
| cancel: "job_step st (fst (mark_canceled now jid reason st))"
| retry: "jobs st jid = Some j \<Longrightarrow> is_terminal (j_status j) \<Longrightarrow>
    job_step st (fst (job_create now uuid (reset_for_retry j) st))"
| attempt: "job_step st (record_attempt uuid a st)"
| reclaim: "iterates (jobs st) ks \<Longrightarrow> job_step st (fst (reclaim_abandoned cutoff ks st))"
| heartbeat: "job_step st (register_or_heartbeat l st)"
| leave: "job_step st (deregister w st)"

lemma fresh_job_ok:
  "j_status j = JUnset \<Longrightarrow> j_worker j = '''' \<Longrightarrow> j_until j = None \<Longrightarrow>
   job_ok (job_defaults now uuid j)"
  by (simp add: job_defaults_def job_ok_def Let_def)

lemma reset_job_ok: "job_ok (job_defaults now uuid (reset_for_retry j))"
  by (simp add: job_defaults_def reset_for_retry_def job_ok_def Let_def)

lemma empty_store_ok: "store_ok empty_job_store"
  by (simp add: store_ok_def empty_job_store_def)

lemma job_step_ok: "job_step st st' \<Longrightarrow> store_ok st \<Longrightarrow> store_ok st'"
  by (induction rule: job_step.induct) (simp_all add: step_inv fresh_job_ok reset_job_ok)

interpretation jobs: invariant_machine job_step store_ok
  by unfold_locales (rule job_step_ok)

section \<open>A lease excludes other workers\<close>

definition held :: "string \<Rightarrow> string \<Rightarrow> gtime \<Rightarrow> job_store \<Rightarrow> bool" where
  "held k w u st \<longleftrightarrow> store_ok st \<and>
     (\<exists>j. jobs st k = Some j \<and> j_status j = JRunning \<and> j_worker j = w \<and> j_until j = Some u)"

text \<open>
  What everybody else may do while worker \<open>w\<close> holds job \<open>k\<close> until \<open>u\<close>: claim before the
  lease ends, renew other leases, report progress, finish or cancel other jobs, submit jobs
  under other identifiers, and reclaim with a cutoff that is not past the lease.
\<close>

inductive other_step :: "string \<Rightarrow> string \<Rightarrow> gtime \<Rightarrow> job_store \<Rightarrow> job_store \<Rightarrow> bool"
  for k w u where
  o_claim: "w' \<noteq> '''' \<Longrightarrow> now \<le> u \<Longrightarrow>
    other_step k w u st (fst (claim_next_pending now w' d types ks st))"
| o_renew: "w' \<noteq> '''' \<Longrightarrow> w' \<noteq> w \<or> jid \<noteq> k \<Longrightarrow> other_step k w u st (fst (renew_lease now jid w' d st))"
| o_progress: "other_step k w u st (fst (update_progress jid p st))"
| o_succeed: "jid \<noteq> k \<Longrightarrow> other_step k w u st (fst (mark_succeeded now jid r st))"
| o_fail: "jid \<noteq> k \<Longrightarrow> other_step k w u st (fst (mark_failed now jid err d st))"
| o_cancel: "jid \<noteq> k \<Longrightarrow> other_step k w u st (fst (mark_canceled now jid reason st))"
| o_submit: "j_status j = JUnset \<Longrightarrow> j_worker j = '''' \<Longrightarrow> j_until j = None \<Longrightarrow>
    j_id (job_defaults now uuid j) \<noteq> k \<Longrightarrow> other_step k w u st (fst (job_create now uuid j st))"
| o_attempt: "other_step k w u st (record_attempt uuid a st)"
| o_reclaim: "iterates (jobs st) ks \<Longrightarrow> cutoff \<le> u \<Longrightarrow>
    other_step k w u st (fst (reclaim_abandoned cutoff ks st))"
| o_heartbeat: "other_step k w u st (register_or_heartbeat l st)"

lemma other_step_is_step: "other_step k w u st st' \<Longrightarrow> job_step st st'"
  by (induction rule: other_step.induct) (auto intro: job_step.intros)

lemma held_not_claimable:
  "j_status j = JRunning \<Longrightarrow> j_until j = Some u \<Longrightarrow> now \<le> u \<Longrightarrow> \<not> claimable now types j"
  by (simp add: claimable_def)

lemma other_step_held:
  assumes "other_step k w u st st'" and "held k w u st"
  shows "held k w u st'"
proof -
  have ok: "store_ok st'"
    using job_step_ok [OF other_step_is_step [OF assms(1)]] assms(2) by (simp add: held_def)
  from assms(2) obtain j where j: "jobs st k = Some j" "j_status j = JRunning" "j_worker j = w"
    "j_until j = Some u" by (auto simp: held_def)
  from assms(1) have "\<exists>j. jobs st' k = Some j \<and> j_status j = JRunning \<and> j_worker j = w \<and> j_until j = Some u"
  proof cases
    case (o_claim w' now d types ks)
    with claim_jobs [of now w' d types ks st k] held_not_claimable [of j u now types] j
    show ?thesis by auto
  next
    case (o_renew w' jid now d)
    with j show ?thesis by (cases "jid = k") (auto simp: renew_lease_def modify_job_same)
  next
    case (o_progress jid p)
    with j show ?thesis by (cases "jid = k") (auto simp: update_progress_def modify_job_same)
  next
    case (o_reclaim ks cutoff)
    with j show ?thesis by (auto simp: reclaim_jobs abandoned_def)
  qed (use j in \<open>auto simp: modify_ops job_create_def Let_def record_attempt_def
        register_or_heartbeat_def\<close>)
  with ok show ?thesis by (simp add: held_def)
qed

interpretation lease: invariant_machine "other_step k w u" "held k w u" for k w u
  by unfold_locales (rule other_step_held)

lemma claim_holds:
  assumes "claim_next_pending t w d types ks st = (st', Some j')" and "store_ok st" and "w \<noteq> ''''"
  shows "held (j_id j') w (t + d) st'"
proof -
  obtain k j where c: "jobs st k = Some j" "j' = take_job t w d j"
    "st' = st\<lparr>jobs := (jobs st)(k \<mapsto> j')\<rparr>"
    by (rule claim_Some [OF assms(1)])
  have "k = j_id j'" using assms(2) c by (simp add: store_ok_def)
  moreover have "store_ok st'"
    using claim_ok [OF assms(2,3), of t d types ks] assms(1) by simp
  ultimately show ?thesis using c by (simp add: held_def)
qed

section \<open>Backoff\<close>

text \<open>The two literals 0.8 and 0.4 as doubles.\<close>

lemma eight_tenths: "rnd (8 / 10) = 3602879701896397 / 4503599627370496"
  by (subst rnd_eval [of "- 1"]) (simp_all add: f64_eval)

lemma four_tenths: "rnd (4 / 10) = 3602879701896397 / 9007199254740992"
  by (subst rnd_eval [of "- 2"]) (simp_all add: f64_eval)

lemma jitter_bounds:
  assumes "0 \<le> u" and "u < 1"
  shows "8 / 10 \<le> f_add (rnd (8 / 10)) (f_mul (rnd (4 / 10)) u)"
    and "f_add (rnd (8 / 10)) (f_mul (rnd (4 / 10)) u) \<le> 5404319552844596 / 4503599627370496"
proof -
  let ?a = "rnd (8 / 10)" and ?b = "rnd (4 / 10)"
  have fix_a: "rnd ?a = ?a" and fix_b: "rnd ?b = ?b"
    unfolding eight_tenths four_tenths
    by (subst rnd_eval [of "- 1"]; simp add: f64_eval) (subst rnd_eval [of "- 2"]; simp add: f64_eval)
  have p: "0 \<le> f_mul ?b u" unfolding f_mul_def four_tenths using assms by (simp add: rnd_nonneg)
  have "?b * u \<le> ?b" unfolding four_tenths using assms by simp
  then have q: "f_mul ?b u \<le> ?b" using rnd_mono [of "?b * u" ?b] fix_b by (simp add: f_mul_def)
  have "?a \<le> f_add ?a (f_mul ?b u)"
    using rnd_mono [of ?a "?a + f_mul ?b u"] p fix_a by (simp add: f_add_def)
  moreover have "8 / 10 \<le> ?a" unfolding eight_tenths by simp
  ultimately show "8 / 10 \<le> f_add ?a (f_mul ?b u)" by (rule order_trans [rotated])
  have "f_add ?a (f_mul ?b u) \<le> rnd (?a + ?b)"
    using q by (simp add: f_add_def rnd_mono)
  also have "rnd (?a + ?b) = 5404319552844596 / 4503599627370496"
    unfolding eight_tenths four_tenths by (subst rnd_eval [of 0]) (simp_all add: f64_eval)
  finally show "f_add ?a (f_mul ?b u) \<le> 5404319552844596 / 4503599627370496" .
qed

lemma jittered_rounds:
  fixes b :: int
  assumes "0 < b" and "b \<le> 4000000000000" and "8 / 10 \<le> g" and "g \<le> 5404319552844596 / 4503599627370496"
  shows "8 * b \<le> math_round (f_mul (f_of_int (10 * b)) g)"
    and "math_round (f_mul (f_of_int (10 * b)) g) \<le> 12 * b"
proof -
  have fb: "f_of_int (10 * b) = of_int (10 * b)" using assms by (intro f_of_int_small) simp
  have "of_int (10 * b) * (8 / 10) \<le> of_int (10 * b) * g"
    using assms by (intro mult_left_mono) simp_all
  then have "of_int (8 * b) \<le> of_int (10 * b) * g" by simp
  from rnd_mono [OF this] have "of_int (8 * b) \<le> f_mul (f_of_int (10 * b)) g"
    using rnd_of_int_small [of "8 * b"] assms by (simp add: f_mul_def fb)
  from math_round_mono [OF this] show "8 * b \<le> math_round (f_mul (f_of_int (10 * b)) g)"
    by (simp only: math_round_of_int)
  have bq: "(of_int b :: rat) \<le> 4000000000000"
    using assms(2) of_int_le_iff [of b 4000000000000, where 'a = rat] by simp
  have "of_int (10 * b) * g \<le> of_int (10 * b) * (5404319552844596 / 4503599627370496)"
    using assms by (intro mult_left_mono) simp_all
  also have "\<dots> \<le> of_int (48 * b + 1) / 4"
    using assms(1) bq by (simp add: field_simps)
  finally have "of_int (10 * b) * g \<le> of_int (48 * b + 1) / 4" .
  from rnd_mono [OF this] have "f_mul (f_of_int (10 * b)) g \<le> of_int (48 * b + 1) / 4"
    using rnd_quarters [of "48 * b + 1"] assms(1,2) by (simp only: f_mul_def fb) simp
  from math_round_mono [OF this]
  have "math_round (f_mul (f_of_int (10 * b)) g) \<le> math_round (of_int (48 * b + 1) / 4)" .
  also have "math_round (of_int (48 * b + 1) / 4) = 12 * b"
  proof -
    have "\<lfloor>of_int (48 * b + 1) / 4 + 1 / 2 :: rat\<rfloor> = 12 * b"
      by (rule floor_unique) (simp_all add: field_simps)
    moreover have "0 \<le> (of_int (48 * b + 1) / 4 :: rat)" using assms(1) by simp
    ultimately show ?thesis by (simp only: math_round_def if_True)
  qed
  finally show "math_round (f_mul (f_of_int (10 * b)) g) \<le> 12 * b" .
qed

lemma base_delay_range:
  "\<exists>b. base_delays ! delay_index attempt = 10 * b \<and> 0 < b \<and> b \<le> 4000000000000"
proof -
  have "delay_index attempt < length base_delays"
    by (simp add: delay_index_def base_delays_def Let_def nat_less_iff)
  then have "delay_index attempt \<in> {0, 1, 2, 3, 4}"
    by (auto simp: base_delays_def)
  moreover have "second = 10 * 100000000" "minute = 10 * 6000000000"
    by (simp_all add: second_def minute_def)
  ultimately show ?thesis
    by (auto simp: base_delays_def intro: exI [of _ 500000000] exI [of _ 3000000000]
        exI [of _ 12000000000] exI [of _ 60000000000] exI [of _ 180000000000])
qed

section \<open>Worker rounds\<close>

lemma report_progress_other: "k \<noteq> jid \<Longrightarrow> jobs (report_progress jid ps st) k = jobs st k"
  by (induction ps arbitrary: st) (simp_all add: report_progress_def update_progress_def)

lemma report_progress_same:
  "jobs st jid = Some j \<Longrightarrow>
   jobs (report_progress jid ps st) jid = Some (j\<lparr>j_progress := last (j_progress j # ps)\<rparr>)"
  by (induction ps arbitrary: st j)
    (simp_all add: report_progress_def update_progress_def modify_job_same)

lemma report_progress_attempts [simp]: "attempts (report_progress jid ps st) = attempts st"
  by (induction ps arbitrary: st)
    (simp_all add: report_progress_def update_progress_def modify_job_def split: option.splits)

definition job_after :: "gtime \<Rightarrow> f64 \<Rightarrow> outcome \<Rightarrow> job \<Rightarrow> job" where
  "job_after now u out j =
     (case out of
        HOk r \<Rightarrow> j\<lparr>j_status := JSucceeded, j_result := r, j_error := '''', j_progress := 100,
                   j_completed := Some now, j_worker := '''', j_until := None\<rparr>
      | HErr err \<Rightarrow> fail_job now err (Some (calculate_backoff (j_retries j + 1) u)) j
      | HPanic v \<Rightarrow> fail_job now (''panic in job handler: '' @ v)
                     (Some (calculate_backoff (j_retries j + 1) u)) j)"

lemma finish_job_jobs:
  assumes "jobs (e_store e) (j_id j) = Some j'" and "j_retries j' = j_retries j"
  shows "jobs (e_store (finish_job started now uuid u j out e)) =
         (jobs (e_store e))(j_id j \<mapsto> job_after now u out j')"
  using assms
  by (cases out)
    (simp_all add: finish_job_def exec_error_def job_after_def mark_failed_def mark_succeeded_def
      modify_job_def record_attempt_def Let_def split_beta)

lemma finish_job_attempts:
  "attempts (e_store (finish_job started now uuid u j out e)) =
     (attempts (e_store e))(j_id j := attempts (e_store e) (j_id j) @
       [\<lparr>at_id = uuid, at_job = j_id j, at_number = j_retries j + 1, at_worker = e_worker e,
         at_error = (case exec_error out of None \<Rightarrow> '''' | Some err \<Rightarrow> err),
         at_started = started, at_finished = Some now\<rparr>])"
  by (cases out)
    (simp_all add: finish_job_def exec_error_def mark_failed_def mark_succeeded_def
      modify_job_def record_attempt_def Let_def split_beta split: option.splits)

section \<open>Properties\<close>

text \<open>A job literal as the services build it, for the concrete instances below.\<close>

definition sample_job :: "string \<Rightarrow> job" where
  "sample_job tenant =
     \<lparr>j_id = ''j1'', j_tenant = tenant, j_type = ''backup'', j_rtype = ''vm'', j_rid = ''vm1'',
      j_status = JUnset, j_payload = '''', j_result = '''', j_error = '''', j_retries = 0, j_max = 0,
      j_next = None, j_worker = '''', j_until = None, j_created = zero_time, j_started = None,
      j_completed = None, j_progress = 0\<rparr>"

definition sample_store :: job_store where
  "sample_store = fst (job_create 100 ''x'' (sample_job ''alice'') empty_job_store)"

lemma sample_store_ok: "store_ok sample_store"
  unfolding sample_store_def by (intro create_ok empty_store_ok fresh_job_ok) (simp_all add: sample_job_def)

lemma sample_store_jobs:
  "jobs sample_store = [''j1'' \<mapsto> (sample_job ''alice'')\<lparr>j_created := 100, j_status := JPending, j_max := 3\<rparr>]"
  by (simp add: sample_store_def job_create_def job_defaults_def sample_job_def Let_def
      empty_job_store_def)

text \<open>
  C23. After any interleaving of submissions, claims, renewals, progress reports, completions,
  failures, cancellations, retries and reclaims, a job has a holder and a lease end exactly
  when it is running, a job waiting for a retry has budget left and a retry time, and every
  job is stored under its own identifier.
\<close>

theorem jobs_always_locked_consistently:
  assumes "job_step\<^sup>*\<^sup>* empty_job_store st"
  shows "store_ok st"
  using assms by (rule jobs.steps_keep) (rule empty_store_ok)

theorem jobs_always_locked_consistently_witness: "store_ok sample_store"
proof (rule jobs_always_locked_consistently)
  show "job_step\<^sup>*\<^sup>* empty_job_store sample_store"
    unfolding sample_store_def
    by (intro r_into_rtranclp job_step.submit) (simp_all add: sample_job_def)
qed

text \<open>
  C2. A lease is exclusive: once a worker has claimed a job, no sequence of calls by anybody
  else that leaves the job alone (claims up to the end of the lease, renewals, submissions,
  completions of other jobs, reclaims up to that instant) lets another claim return the same
  job before the lease ends, and the job is still recorded as running under its holder.
\<close>

theorem lease_is_exclusive:
  assumes "claim_next_pending t w d types ks st = (st', Some j)" and "store_ok st" and "w \<noteq> ''''"
    and "(other_step (j_id j) w (t + d))\<^sup>*\<^sup>* st' st''"
    and "claim_next_pending now w' d' types' ks' st'' = (st3, Some j')" and "now \<le> t + d"
  shows "j_id j' \<noteq> j_id j \<and> held (j_id j) w (t + d) st''"
proof -
  have h: "held (j_id j) w (t + d) st''"
    using assms(4) claim_holds [OF assms(1-3)] by (rule lease.steps_keep)
  obtain k i where c: "jobs st'' k = Some i" "claimable now types' i" "j' = take_job now w' d' i"
    by (rule claim_Some [OF assms(5)])
  have "k = j_id j'" using h c by (simp add: held_def store_ok_def)
  with h c assms(6) held_not_claimable [of i "t + d" now types'] show ?thesis
    by (auto simp: held_def)
qed

definition sample_two :: job_store where
  "sample_two = fst (job_create 100 ''x'' ((sample_job ''bob'')\<lparr>j_id := ''j2''\<rparr>) sample_store)"

lemma sample_two_ok: "store_ok sample_two"
  unfolding sample_two_def
  by (intro create_ok sample_store_ok fresh_job_ok) (simp_all add: sample_job_def)

lemmas sample_two_eval = sample_two_def sample_store_def job_create_def job_defaults_def
  sample_job_def Let_def empty_job_store_def claim_next_pending_def find_key_def claimable_def
  take_job_def

theorem lease_is_exclusive_witness:
  "\<exists>st' j st3 j'.
     claim_next_pending 1000 ''w1'' 30 [''backup''] [''j1'', ''j2''] sample_two = (st', Some j) \<and>
     claim_next_pending 1010 ''w2'' 30 [''backup''] [''j1'', ''j2''] st' = (st3, Some j') \<and>
     j_id j' \<noteq> j_id j \<and> held (j_id j) ''w1'' (1000 + 30) st'"
proof -
  obtain st' j where c1:
    "claim_next_pending 1000 ''w1'' 30 [''backup''] [''j1'', ''j2''] sample_two = (st', Some j)"
    by (simp add: sample_two_eval)
  then obtain st3 j' where c2:
    "claim_next_pending 1010 ''w2'' 30 [''backup''] [''j1'', ''j2''] st' = (st3, Some j')"
    by (auto simp: sample_two_eval)
  have "j_id j' \<noteq> j_id j \<and> held (j_id j) ''w1'' (1000 + 30) st'"
    by (rule lease_is_exclusive [OF c1 sample_two_ok _ _ c2]) simp_all
  with c1 c2 show ?thesis by blast
qed

text \<open>
  C24. One round of a worker: the claimed job was claimable, and when its handler ends the job
  is succeeded with the handler's result, or (after an error or a panic) retrying or failed
  with the backoff of this attempt; exactly one attempt is recorded, under the next attempt
  number; and no other job changes.
\<close>

theorem worker_round:
  assumes "claim_next_pending started (e_worker e) (e_lease e) types ks (e_store e) = (st, Some j)"
    and "store_ok (e_store e)" and "types \<noteq> []"
    and "e_handlers e (j_type j) = Some h" and "h j = (ps, out)"
  shows "\<exists>i. jobs (e_store e) (j_id j) = Some i \<and> claimable started types i \<and>
     jobs (e_store (process_next_job started now uuid u types ks e)) =
       (jobs (e_store e))(j_id j \<mapsto> job_after now u out (j\<lparr>j_progress := last (j_progress j # ps)\<rparr>)) \<and>
     map at_number (attempts (e_store (process_next_job started now uuid u types ks e)) (j_id j)) =
       map at_number (attempts (e_store e) (j_id j)) @ [j_retries i + 1]"
proof -
  obtain k i where c: "jobs (e_store e) k = Some i" "claimable started types i"
    "j = take_job started (e_worker e) (e_lease e) i" "st = (e_store e)\<lparr>jobs := (jobs (e_store e))(k \<mapsto> j)\<rparr>"
    by (rule claim_Some [OF assms(1)])
  have k: "k = j_id j" using assms(2) c by (simp add: store_ok_def)
  let ?e = "e\<lparr>e_store := report_progress (j_id j) ps st\<rparr>"
  have p: "process_next_job started now uuid u types ks e = finish_job started now uuid u j out ?e"
    using assms by (simp add: process_next_job_def execute_job_def)
  have j: "jobs st (j_id j) = Some j" using c k by simp
  have J: "jobs (e_store ?e) = (jobs (e_store e))(j_id j \<mapsto> j\<lparr>j_progress := last (j_progress j # ps)\<rparr>)"
    using report_progress_same [OF j, of ps] c(4) k
    by (intro ext) (simp add: report_progress_other)
  then have f: "jobs (e_store (finish_job started now uuid u j out ?e)) =
      (jobs (e_store e))(j_id j \<mapsto> job_after now u out (j\<lparr>j_progress := last (j_progress j # ps)\<rparr>))"
    by (subst finish_job_jobs [of _ _ "j\<lparr>j_progress := last (j_progress j # ps)\<rparr>"]) simp_all
  moreover have "map at_number (attempts (e_store (finish_job started now uuid u j out ?e)) (j_id j)) =
      map at_number (attempts (e_store e) (j_id j)) @ [j_retries i + 1]"
    using c by (simp add: finish_job_attempts)
  ultimately show ?thesis using c k p by simp
qed

definition sample_engine :: engine where
  "sample_engine = register_handler ''backup'' (\<lambda>j. ([10, 60], HOk (j_rid j)))
     (new_engine ''w1'' sample_store)"

theorem worker_round_witness:
  "\<exists>j. jobs (e_store (process_next_job 1000 2000 ''a1'' 0 [''backup''] [''j1''] sample_engine)) ''j1'' = Some j
       \<and> j_status j = JSucceeded \<and> j_result j = ''vm1''"
proof -
  obtain st j where c: "claim_next_pending 1000 (e_worker sample_engine) (e_lease sample_engine)
      [''backup''] [''j1''] (e_store sample_engine) = (st, Some j)"
      and j: "j_id j = ''j1''" "j_type j = ''backup''" "j_rid j = ''vm1''"
    by (simp add: sample_engine_def register_handler_def new_engine_def claim_next_pending_def
        find_key_def sample_store_jobs sample_job_def claimable_def take_job_def Let_def)
  have ok: "store_ok (e_store sample_engine)"
    by (simp add: sample_engine_def register_handler_def new_engine_def sample_store_ok)
  have h: "e_handlers sample_engine (j_type j) = Some (\<lambda>j. ([10, 60], HOk (j_rid j)))"
    by (simp add: sample_engine_def register_handler_def new_engine_def j)
  show ?thesis
    using worker_round [OF c ok _ h refl, of 2000 "''a1''" 0] j by (auto simp: job_after_def)
qed

definition failed_rounds :: "(gtime \<times> string \<times> duration \<times> string \<times> duration) list \<Rightarrow> job \<Rightarrow> job" where
  "failed_rounds rs j =
     fold (\<lambda>(now, w, l, err, d) j. fail_job now err (Some d) (take_job now w l j)) rs j"

lemma fail_job_simps [simp]:
  "j_retries (fail_job now err r j) = j_retries j + 1" "j_max (fail_job now err r j) = j_max j"
  by (simp_all add: fail_job_def Let_def split: option.splits)

lemma failed_rounds_counts:
  "j_retries (failed_rounds rs j) = j_retries j + int (length rs) \<and> j_max (failed_rounds rs j) = j_max j"
  by (induction rs rule: rev_induct) (auto simp: failed_rounds_def)

text \<open>
  The retry budget: after \<open>n\<close> rounds of claim and failure from a job with \<open>retries\<close> used
  out of \<open>max\<close>, the job waits for a retry exactly when \<open>retries + n \<le> max\<close>; otherwise it is
  failed, and no worker can claim it at any later time.
\<close>

theorem retry_budget:
  assumes "rs \<noteq> []"
  shows "j_status (failed_rounds rs j) =
           (if j_retries j + int (length rs) \<le> j_max j then JRetrying else JFailed)
         \<and> (j_max j < j_retries j + int (length rs) \<longrightarrow> \<not> claimable now types (failed_rounds rs j))"
proof -
  from assms obtain rs' t w l err d where rs: "rs = rs' @ [(t, w, l, err, d)]"
    by (metis append_butlast_last_id prod_cases5)
  have "failed_rounds rs j = fail_job t err (Some d) (take_job t w l (failed_rounds rs' j))"
    by (simp add: rs failed_rounds_def)
  then show ?thesis
    using failed_rounds_counts [of rs' j] by (simp add: rs fail_job_def Let_def claimable_def)
qed

theorem retry_budget_witness:
  "j_status (failed_rounds [(1, ''w'', 30, ''e'', 5), (40, ''w'', 30, ''e'', 5)]
     ((sample_job ''alice'')\<lparr>j_max := 1\<rparr>)) = JFailed"
  using retry_budget [of "[(1, ''w'', 30, ''e'', 5), (40, ''w'', 30, ''e'', 5)]"
      "(sample_job ''alice'')\<lparr>j_max := 1\<rparr>" 0 "[]"]
  by (simp add: sample_job_def)

text \<open>
  The retry delay, computed in floating point and rounded to nanoseconds, is within 20
  percent of the base delay of the attempt, for every value the random generator can return.
\<close>

theorem backoff_within_jitter:
  assumes "0 \<le> u" and "u < 1"
  shows "8 * base_delays ! delay_index attempt \<le> 10 * calculate_backoff attempt u
       \<and> 10 * calculate_backoff attempt u \<le> 12 * base_delays ! delay_index attempt"
proof -
  obtain b where b: "base_delays ! delay_index attempt = 10 * b" "0 < b" "b \<le> 4000000000000"
    using base_delay_range by blast
  show ?thesis
    using jittered_rounds [OF b(2,3) jitter_bounds [OF assms]]
    unfolding calculate_backoff_def Let_def b(1) by simp
qed

theorem backoff_within_jitter_witness:
  "8 * base_delays ! delay_index 2 \<le> 10 * calculate_backoff 2 (1 / 2)
   \<and> 10 * calculate_backoff 2 (1 / 2) \<le> 12 * base_delays ! delay_index 2
   \<and> base_delays ! delay_index 2 = 30 * second"
  using backoff_within_jitter [of "1 / 2" 2] by (simp add: base_delays_def delay_index_def Let_def)

lemma job_check_foreign:
  assumes "\<not> is_superadmin s" and "\<not> is_admin_or_operator s"
    and "j_tenant j \<noteq> ''''" and "j_tenant j \<noteq> sub_user s"
  shows "job_check (Some s) action j \<noteq> None"
  using assms dyn.tenant_isolation [of "Some s" action "job_resource j"]
  by (auto simp: job_check_def job_resource_def)

text \<open>
  Tenant isolation: a subject that is neither superadmin nor staff gets an error from
  reading, canceling or retrying a job of another tenant, the engine state does not change,
  and every job a listing returns belongs to the subject.
\<close>

theorem job_tenant_isolation:
  assumes "\<not> is_superadmin s" and "\<not> is_admin_or_operator s" and "sub_user s \<noteq> ''''"
    and "jobs (e_store e) jid = Some j" and "j_tenant j \<noteq> ''''" and "j_tenant j \<noteq> sub_user s"
  shows "\<not> is_ok (get_job (Some s) jid e)
       \<and> fst (cancel_job now (Some s) jid reason e) = e \<and> snd (cancel_job now (Some s) jid reason e) \<noteq> None
       \<and> fst (retry_job now uuid (Some s) jid e) = e \<and> \<not> is_ok (snd (retry_job now uuid (Some s) jid e))
       \<and> (newest_first srt \<longrightarrow> list_jobs srt (Some s) f ks e = Inr (js, cnt) \<longrightarrow>
            (\<forall>j \<in> set js. j_tenant j = sub_user s))"
proof -
  have g: "\<not> is_ok (get_job (Some s) jid e)"
    using job_check_foreign [OF assms(1,2,5,6)] assms(4)
    by (auto simp: get_job_def job_get_def split: option.splits)
  have "j_tenant i = sub_user s"
    if "newest_first srt" "list_jobs srt (Some s) f ks e = Inr (js, cnt)" "i \<in> set js" for i
  proof -
    have "i \<in> set (srt (filter (job_matches (f\<lparr>jf_tenant := sub_user s\<rparr>)) (vals (jobs (e_store e)) ks)))"
      using that assms(1)
      by (auto simp: list_jobs_def job_list_def Let_def split: if_splits dest!: in_set_takeD in_set_dropD)
    then have "job_matches (f\<lparr>jf_tenant := sub_user s\<rparr>) i"
      using that(1) by (auto simp: newest_first_def)
    with assms(3) show ?thesis by (simp add: job_matches_def)
  qed
  then show ?thesis
    using g by (auto simp: cancel_job_def retry_job_def split: sum.splits)
qed

definition bob :: subject where
  "bob = \<lparr>sub_type = ''user'', sub_id = ''bob'', sub_user = ''bob'', sub_username = ''bob'',
     sub_email = '''', sub_roles = [''customer''], sub_permissions = [''*''], sub_scopes = []\<rparr>"

theorem job_tenant_isolation_witness:
  "\<not> is_ok (get_job (Some bob) ''j1'' sample_engine)
   \<and> fst (cancel_job 5 (Some bob) ''j1'' ''x'' sample_engine) = sample_engine
   \<and> job_list (\<lambda>xs. xs) \<lparr>jf_tenant = ''bob'', jf_type = '''', jf_status = JUnset, jf_rtype = '''',
        jf_rid = '''', jf_limit = 10, jf_offset = 0\<rparr> [''j1''] (e_store sample_engine) = Inr ([], 0)"
proof -
  have j: "jobs (e_store sample_engine) ''j1'' =
      Some ((sample_job ''alice'')\<lparr>j_created := 100, j_status := JPending, j_max := 3\<rparr>)"
    by (simp add: sample_engine_def register_handler_def new_engine_def sample_store_jobs)
  have "\<not> is_superadmin bob" "\<not> is_admin_or_operator bob" "sub_user bob \<noteq> ''''"
    by (simp_all add: bob_def is_superadmin_iff is_admin_or_operator_def)
  from job_tenant_isolation [OF this j, of 5 "''x''" "''y''"] j show ?thesis
    by (auto simp: sample_job_def bob_def job_list_def job_matches_def)
qed

text \<open>
  Recovery: one heartbeat releases exactly the running jobs whose lease ended more than a
  lease length ago, so that any worker registered for their type can claim them at once,
  leaves every other job as it is, and counts the released ones.
\<close>

theorem heartbeat_recovers:
  assumes "iterates (jobs (e_store e)) ks"
  shows "jobs (e_store (heartbeat_tick now host pid ks e)) k =
           map_option (\<lambda>j. if abandoned (now - e_lease e) j then release_job j else j) (jobs (e_store e) k)
       \<and> (\<forall>j. j_type j \<in> set types \<longrightarrow> claimable t types (release_job j))
       \<and> snd (reclaim_abandoned cutoff ks (e_store e)) =
           int (length (filter (abandoned cutoff) (vals (jobs (e_store e)) ks)))"
proof -
  let ?st = "register_or_heartbeat
    \<lparr>wl_worker = e_worker e, wl_host = host, wl_pid = pid, wl_status = ''active'',
     wl_heartbeat = now, wl_expires = now + 15 * second, wl_created = now\<rparr> (e_store e)"
  have "jobs ?st = jobs (e_store e)" by (simp add: register_or_heartbeat_def)
  then show ?thesis
    using reclaim_jobs [of ?st ks "now - e_lease e" k] assms
      reclaim_loop_count [of ks cutoff "jobs (e_store e)" 0]
    by (auto simp: heartbeat_tick_def Let_def split_beta release_job_def claimable_def
        reclaim_abandoned_def iterates_def)
qed

theorem heartbeat_recovers_witness:
  "jobs (e_store (heartbeat_tick 5000 ''h'' 1 [''j1''] sample_engine)) ''j1'' \<noteq> None"
  using heartbeat_recovers [of sample_engine "[''j1'']" 5000 "''h''" 1 "''j1''" "[]" 0 0]
  by (simp add: sample_engine_def register_handler_def new_engine_def sample_store_jobs iterates_def)

text \<open>
  Cancellation is not final: when a running job is canceled while its handler is still at
  work, the successful end of the handler overwrites the canceled status with succeeded, and
  the reason of the cancellation is lost.
\<close>

theorem canceled_job_succeeds:
  assumes "jobs (e_store e) (j_id j) = Some j" and "j_status j = JRunning"
  shows "\<exists>c. jobs (e_store (fst (cancel_job t None (j_id j) reason e))) (j_id j) = Some c
           \<and> j_status c = JCanceled \<and> j_error c = reason
       \<and> (\<exists>f. jobs (e_store (finish_job t0 now uuid u j (HOk r) (fst (cancel_job t None (j_id j) reason e)))) (j_id j) = Some f
           \<and> j_status f = JSucceeded \<and> j_error f = '''')"
proof -
  let ?e = "fst (cancel_job t None (j_id j) reason e)"
  have c: "jobs (e_store ?e) (j_id j) = Some (j\<lparr>j_status := JCanceled, j_error := reason,
      j_completed := Some t, j_worker := '''', j_until := None\<rparr>)"
    using assms by (simp add: cancel_job_def get_job_def job_get_def job_check_def mark_canceled_def
        modify_job_def is_terminal_def)
  show ?thesis
    using finish_job_jobs [OF c, of t0 now uuid u "HOk r"] c by (simp add: job_after_def)
qed

theorem canceled_job_succeeds_witness:
  "\<exists>j f. j_status j = JRunning \<and>
     jobs (e_store (finish_job 0 9 ''a'' 0 j (HOk ''ok'') (fst (cancel_job 5 None ''j1'' ''stop''
        (sample_engine\<lparr>e_store := sample_store\<lparr>jobs := [''j1'' \<mapsto> j]\<rparr>\<rparr>))))) ''j1'' = Some f
     \<and> j_status f = JSucceeded"
proof -
  let ?j = "take_job 1 ''w1'' 30 (sample_job ''alice'')"
  have i: "j_id ?j = ''j1''" and st: "j_status ?j = JRunning" by (simp_all add: sample_job_def)
  have "jobs (e_store (sample_engine\<lparr>e_store := sample_store\<lparr>jobs := [''j1'' \<mapsto> ?j]\<rparr>\<rparr>)) (j_id ?j) = Some ?j"
    by (simp add: sample_job_def)
  from canceled_job_succeeds [OF this st, of 5 "''stop''" 0 9 "''a''" 0 "''ok''"] st
  show ?thesis unfolding i by blast
qed

end
