(* ===== verification/Ipv4.thy ===== *)
theory Ipv4
  imports Aurora_Prelude "HOL-Library.Word"
begin

unbundle bit_operations_syntax

text \<open>
  What the address management uses of Go's package \<open>net\<close>: \<open>ParseIP\<close>, \<open>ParseCIDR\<close>,
  \<open>IPNet.Contains\<close>, \<open>IPNet.String\<close>, \<open>IP.To4\<close> and \<open>IP.String\<close>. A \<open>net.IP\<close> is its 16-byte form,
  a 128-bit word, in which an IPv4 address is an IPv4-mapped one; a network is \<open>Net4\<close> or
  \<open>Net6\<close> with the masked address and the prefix length. Text of IPv6 addresses is
  read and written by the two functions of the parameter \<open>v6\<close>.
\<close>

section \<open>Addresses\<close>

record v6_text =
  v6_parse :: "string \<Rightarrow> 128 word option"
  v6_show :: "128 word \<Rightarrow> string"

datatype ip_net = Net4 "32 word" nat | Net6 "128 word" nat

definition mapped4 :: "32 word \<Rightarrow> 128 word" where
  "mapped4 a = 0xFFFF00000000 OR ucast a"

definition to4 :: "128 word \<Rightarrow> 32 word option" where
  "to4 x = (if drop_bit 32 x = 0xFFFF then Some (ucast x) else None)"

text \<open>The big-endian bytes of an address.\<close>

definition octet :: "nat \<Rightarrow> 32 word \<Rightarrow> nat" where
  "octet k a = unat (drop_bit (8 * k) a) mod 256"

definition show4 :: "32 word \<Rightarrow> string" where
  "show4 a = nat_digits (octet 3 a) @ ''.'' @ nat_digits (octet 2 a) @ ''.'' @
             nat_digits (octet 1 a) @ ''.'' @ nat_digits (octet 0 a)"

definition digit :: "char \<Rightarrow> nat option" where
  "digit c = (let n = of_char c :: nat in if 48 \<le> n \<and> n \<le> 57 then Some (n - 48) else None)"

text \<open>
  The field parser of \<open>net/netip\<close>. The state is: at the start or behind a dot, the value and
  the number of digits of the current octet, the octets read.
\<close>

fun parse4_loop :: "string \<Rightarrow> bool \<Rightarrow> nat \<Rightarrow> nat \<Rightarrow> nat list \<Rightarrow> nat list option" where
  "parse4_loop [] sep v dl fs = (if length fs < 3 then None else Some (fs @ [v]))"
| "parse4_loop (c # cs) sep v dl fs =
     (case digit c of
        Some d \<Rightarrow>
          if dl = 1 \<and> v = 0 then None
          else if v * 10 + d > 255 then None
          else parse4_loop cs False (v * 10 + d) (dl + 1) fs
      | None \<Rightarrow>
          if c = CHR ''.'' then
            if sep \<or> cs = [] then None
            else if length fs = 3 then None
            else parse4_loop cs True 0 0 (fs @ [v])
          else None)"

definition word4 :: "nat list \<Rightarrow> 32 word" where
  "word4 os = of_nat (foldl (\<lambda>n k. 256 * n + k) 0 os)"

definition parse4 :: "string \<Rightarrow> 32 word option" where
  "parse4 s = map_option word4 (parse4_loop s True 0 0 [])"

text \<open>The first of the characters dot, colon and percent decides the family.\<close>

definition family :: "string \<Rightarrow> char option" where
  "family s = List.find (\<lambda>c. c = CHR ''.'' \<or> c = CHR '':'' \<or> c = CHR ''%'') s"

definition parse_ip :: "v6_text \<Rightarrow> string \<Rightarrow> 128 word option" where
  "parse_ip v6 s =
     (if family s = Some (CHR ''.'') then map_option mapped4 (parse4 s)
      else if family s = Some (CHR '':'') then v6_parse v6 s
      else None)"

section \<open>Networks\<close>

text \<open>\<open>dtoi\<close>: a decimal number that takes the whole text and stays below \<open>0xFFFFFF\<close>.\<close>

fun dtoi_loop :: "string \<Rightarrow> nat \<Rightarrow> nat option" where
  "dtoi_loop [] n = Some n"
| "dtoi_loop (c # cs) n =
     (case digit c of
        None \<Rightarrow> None
      | Some d \<Rightarrow> if n * 10 + d \<ge> 16777215 then None else dtoi_loop cs (n * 10 + d))"

definition dtoi :: "string \<Rightarrow> nat option" where
  "dtoi s = (if s = [] then None else dtoi_loop s 0)"

definition mask4 :: "nat \<Rightarrow> 32 word" where
  "mask4 n = NOT (mask (32 - n))"

definition mask6 :: "nat \<Rightarrow> 128 word" where
  "mask6 n = NOT (mask (128 - n))"

definition parse_cidr :: "v6_text \<Rightarrow> string \<Rightarrow> (128 word \<times> ip_net) option" where
  "parse_cidr v6 s =
     (if CHR ''/'' \<notin> set s then None
      else let addr = takeWhile (\<lambda>c. c \<noteq> CHR ''/'') s;
               msk = tl (dropWhile (\<lambda>c. c \<noteq> CHR ''/'') s)
           in if family addr = Some (CHR ''.'') then
                (case (parse4 addr, dtoi msk) of
                   (Some a, Some n) \<Rightarrow>
                     if n > 32 then None else Some (mapped4 a, Net4 (a AND mask4 n) n)
                 | _ \<Rightarrow> None)
              else if family addr = Some (CHR '':'') then
                (case (v6_parse v6 addr, dtoi msk) of
                   (Some a, Some n) \<Rightarrow> if n > 128 then None else Some (a, Net6 (a AND mask6 n) n)
                 | _ \<Rightarrow> None)
              else None)"

definition net_to4 :: "ip_net \<Rightarrow> 32 word option" where
  "net_to4 nt = (case nt of Net4 a n \<Rightarrow> Some a | Net6 a n \<Rightarrow> to4 a)"

definition net_bits :: "ip_net \<Rightarrow> nat" where
  "net_bits nt = (case nt of Net4 a n \<Rightarrow> n | Net6 a n \<Rightarrow> n)"

text \<open>Both methods first bring an IPv4-mapped network to its 4-byte form.\<close>

definition net_contains :: "ip_net \<Rightarrow> 128 word \<Rightarrow> bool" where
  "net_contains nt x =
     (case nt of
        Net4 a n \<Rightarrow> (case to4 x of None \<Rightarrow> False | Some y \<Rightarrow> a AND mask4 n = y AND mask4 n)
      | Net6 a n \<Rightarrow>
          (case to4 a of
             Some b \<Rightarrow> (case to4 x of None \<Rightarrow> False
                        | Some y \<Rightarrow> b AND mask4 (n - 96) = y AND mask4 (n - 96))
           | None \<Rightarrow> to4 x = None \<and> a AND mask6 n = x AND mask6 n))"

definition net_string :: "v6_text \<Rightarrow> ip_net \<Rightarrow> string" where
  "net_string v6 nt =
     (case nt of
        Net4 a n \<Rightarrow> show4 a @ ''/'' @ nat_digits n
      | Net6 a n \<Rightarrow> (case to4 a of Some b \<Rightarrow> show4 b @ ''/'' @ nat_digits (n - 96)
                     | None \<Rightarrow> v6_show v6 a @ ''/'' @ nat_digits n))"

section \<open>Decimal digits\<close>

lemma nat_digits_small: "n < 10 \<Longrightarrow> nat_digits n = [char_of (n + 48)]"
  by (subst nat_digits.simps) simp

lemma nat_digits_snoc: "0 < n \<Longrightarrow> d < 10 \<Longrightarrow> nat_digits (n * 10 + d) = nat_digits n @ [char_of (d + 48)]"
  by (subst nat_digits.simps) simp

lemma digit_char [simp]: "d < 10 \<Longrightarrow> digit (char_of (d + 48)) = Some d"
  by (simp add: digit_def Let_def)

lemma digit_SomeD: "digit c = Some d \<Longrightarrow> d < 10 \<and> c = char_of (d + 48)"
  by (auto simp: digit_def Let_def split: if_splits)

lemma digit_dot [simp]: "digit (CHR ''.'') = None"
  by (simp add: digit_def Let_def)

lemma digit_slash [simp]: "digit (CHR ''/'') = None"
  by (simp add: digit_def Let_def)

lemma digits_are_digits: "c \<in> set (nat_digits n) \<Longrightarrow> digit c \<noteq> None"
proof (induction n rule: nat_digits.induct)
  case (1 n)
  then show ?case by (subst (asm) (2) nat_digits.simps) (auto split: if_splits)
qed

section \<open>Dotted decimal text is canonical\<close>

text \<open>The digits of an octet, read one after the other.\<close>

lemma parse4_digits:
  assumes "n \<le> 255"
  shows "parse4_loop (nat_digits n @ cs) sep 0 0 fs =
         parse4_loop cs False n (length (nat_digits n)) fs"
proof -
  consider "n < 10" | "10 \<le> n" "n < 100" | "100 \<le> n" by linarith
  then show ?thesis
  proof cases
    case 1
    then show ?thesis by (simp add: nat_digits_small)
  next
    case 2
    then have d: "nat_digits n = [char_of (n div 10 + 48), char_of (n mod 10 + 48)]"
      by (subst nat_digits.simps) (simp add: nat_digits_small)
    from 2 show ?thesis by (simp add: d) linarith
  next
    case 3
    with assms have "n div 10 div 10 < 10" by simp
    then have d: "nat_digits n = [char_of (n div 10 div 10 + 48), char_of (n div 10 mod 10 + 48), char_of (n mod 10 + 48)]"
      using 3 by (subst nat_digits.simps, subst nat_digits.simps) (simp add: nat_digits_small)
    have "n div 10 div 10 * 10 + n div 10 mod 10 = n div 10" "n div 10 * 10 + n mod 10 = n"
      by simp_all
    moreover have "0 < n div 10 div 10" using 3 by simp
    moreover have "n div 10 \<le> 255" using assms by simp
    ultimately show ?thesis using assms \<open>n div 10 div 10 < 10\<close>
      by (simp add: d del: mod_div_trivial div_mult_mod_eq)
  qed
qed

lemma parse4_loop_show:
  assumes "a \<le> 255" "b \<le> 255" "c \<le> 255" "d \<le> 255"
  shows "parse4_loop (nat_digits a @ ''.'' @ nat_digits b @ ''.'' @ nat_digits c @ ''.'' @ nat_digits d)
           True 0 0 [] = Some [a, b, c, d]"
  using assms parse4_digits [of d "[]" True "[a, b, c]"]
  by (simp add: parse4_digits)

fun dotted :: "nat list \<Rightarrow> string" where
  "dotted [] = []"
| "dotted [k] = nat_digits k"
| "dotted (k # ks) = nat_digits k @ ''.'' @ dotted ks"

definition dots :: "nat list \<Rightarrow> string" where
  "dots fs = concat (map (\<lambda>k. nat_digits k @ ''.'') fs)"

lemma dotted_snoc: "dotted (fs @ [v]) = dots fs @ nat_digits v"
  unfolding dots_def by (induction fs rule: dotted.induct) auto

lemma parse4_loop_sound:
  assumes "parse4_loop cs sep v dl fs = Some os"
    and "if sep then dl = 0 \<and> v = 0 \<and> (cs = [] \<longrightarrow> length fs < 3) else dl = length (nat_digits v) \<and> v \<le> 255"
    and "\<forall>k \<in> set fs. k \<le> 255" and "length fs \<le> 3"
  shows "dots fs @ (if sep then [] else nat_digits v) @ cs = dotted os \<and> length os = 4 \<and> (\<forall>k \<in> set os. k \<le> 255)"
  using assms
proof (induction cs sep v dl fs rule: parse4_loop.induct)
  case (1 sep v dl fs)
  then show ?case by (auto simp: dotted_snoc split: if_splits)
next
  case (2 c cs sep v dl fs)
  show ?case
  proof (cases "digit c")
    case None
    with 2 have c: "c = CHR ''.''" "\<not> sep" "cs \<noteq> []" "length fs < 3"
      "parse4_loop cs True 0 0 (fs @ [v]) = Some os" by (auto split: if_splits)
    moreover have "dots (fs @ [v]) @ cs = dotted os \<and> length os = 4 \<and> (\<forall>k \<in> set os. k \<le> 255)"
      using 2(1) [OF None] c 2(4,5) by simp
    ultimately show ?thesis by (simp add: dots_def)
  next
    case (Some d)
    with 2(3) have g: "\<not> (dl = 1 \<and> v = 0)" "v * 10 + d \<le> 255"
      "parse4_loop cs False (v * 10 + d) (dl + 1) fs = Some os" by (auto split: if_splits)
    have d: "d < 10" "c = char_of (d + 48)" using digit_SomeD [OF Some] by auto
    have n: "nat_digits (v * 10 + d) = (if sep then [] else nat_digits v) @ [c]"
    proof (cases sep)
      case True
      with 2(4) d show ?thesis by (simp add: nat_digits_small)
    next
      case False
      with 2(4) g(1) have "0 < v" by (cases "v = 0") (auto simp: nat_digits_small)
      with d False show ?thesis by (simp add: nat_digits_snoc)
    qed
    then have "dl + 1 = length (nat_digits (v * 10 + d))" using 2(4) by (auto split: if_splits)
    then show ?thesis using 2(2) [OF Some] g 2(5,6) n by auto
  qed
qed

lemma octet_le [simp]: "octet k a \<le> 255"
  by (simp add: octet_def)

lemma octet_div: "octet k a = unat a div 256 ^ k mod 256"
proof -
  have "unat (drop_bit (8 * k) a) = drop_bit (8 * k) (unat a)" by (rule unat_drop_bit_eq)
  then show ?thesis by (simp only: octet_def drop_bit_eq_div power_mult) simp
qed

lemma octet_div_simps:
  "octet 0 a = unat a mod 256" "octet 1 a = unat a div 256 mod 256"
  "octet 2 a = unat a div 256 div 256 mod 256" "octet 3 a = unat a div 256 div 256 div 256 mod 256"
  by (simp_all add: octet_div power2_eq_square power3_eq_cube div_mult2_eq [symmetric])

lemma base256: "d < 256 \<Longrightarrow> (256 * x + d) div 256 = (x :: nat) \<and> (256 * x + d) mod 256 = d"
  by simp

lemma word4_octets: "word4 [octet 3 a, octet 2 a, octet 1 a, octet 0 a] = a"
proof -
  have "unat a < 4294967296" using unsigned_less [of a] by simp
  then have "unat a div 256 div 256 div 256 < 256" by (simp add: div_mult2_eq [symmetric])
  then have "256 * (256 * (256 * octet 3 a + octet 2 a) + octet 1 a) + octet 0 a = unat a"
    by (simp only: octet_div_simps mod_less mult_div_mod_eq)
  then show ?thesis by (simp add: word4_def del: of_nat_add of_nat_mult)
qed

lemma octets_word4:
  assumes "a \<le> 255" "b \<le> 255" "c \<le> 255" "d \<le> 255"
  shows "octet 3 (word4 [a, b, c, d]) = a \<and> octet 2 (word4 [a, b, c, d]) = b \<and>
         octet 1 (word4 [a, b, c, d]) = c \<and> octet 0 (word4 [a, b, c, d]) = d"
proof -
  let ?n = "256 * (256 * (256 * a + b) + c) + d"
  have "word4 [a, b, c, d] = of_nat ?n" by (simp add: word4_def del: of_nat_add of_nat_mult)
  moreover have "?n < 4294967296" using assms by simp
  ultimately have u: "unat (word4 [a, b, c, d]) = ?n" by (simp only: unat_of_nat) simp
  show ?thesis
    using assms base256 [of b a] base256 [of c "256 * a + b"] base256 [of d "256 * (256 * a + b) + c"]
    by (simp only: octet_div_simps u) simp
qed

lemma parse4_show4: "parse4 (show4 a) = Some a"
  using parse4_loop_show [of "octet 3 a" "octet 2 a" "octet 1 a" "octet 0 a"] word4_octets [of a]
  by (simp add: parse4_def show4_def)

lemma parse4_sound:
  assumes "parse4 s = Some a"
  shows "s = show4 a"
proof -
  from assms obtain os where p: "parse4_loop s True 0 0 [] = Some os" and a: "a = word4 os"
    by (auto simp: parse4_def)
  from parse4_loop_sound [OF p] have os: "s = dotted os" "length os = 4" "\<forall>k \<in> set os. k \<le> 255"
    by (auto simp: dots_def)
  then obtain x y z w where "os = [x, y, z, w]"
    by (auto simp: numeral_eq_Suc length_Suc_conv)
  with os octets_word4 [of x y z w] show ?thesis by (simp add: a show4_def)
qed

lemma show4_inj: "show4 a = show4 b \<longleftrightarrow> a = b"
  by (metis option.inject parse4_show4)

section \<open>Counting on words\<close>

lemma unat_succ:
  fixes i stop :: "32 word"
  assumes "i < stop"
  shows "unat (i + 1) = unat i + 1"
proof -
  have "unat i + 1 < 2 ^ 32"
    using assms unsigned_less [of stop, where 'a = nat] by (simp add: word_less_nat_alt)
  then show ?thesis using unat_add_lem [of i 1] by simp
qed

lemma unat_gap:
  fixes i stop :: "32 word"
  assumes "i < stop"
  shows "unat (stop - (i + 1)) < unat (stop - i)"
proof -
  have "i + 1 \<le> stop" "i \<le> stop"
    using assms unat_succ [OF assms] by (simp_all add: word_less_nat_alt word_le_nat_alt)
  then show ?thesis
    using assms unat_succ [OF assms] by (simp add: unat_sub word_less_nat_alt)
qed

section \<open>Network text\<close>

lemma set_show4: "c \<in> set (show4 a) \<Longrightarrow> digit c \<noteq> None \<or> c = CHR ''.''"
  unfolding show4_def using digits_are_digits by fastforce

lemma slash_not_in_show4 [simp]: "CHR ''/'' \<notin> set (show4 a)"
  using set_show4 [of "CHR ''/''" a] by auto

lemma dot_in_show4: "CHR ''.'' \<in> set (show4 a)"
  by (simp add: show4_def)

lemma digit_not_sep: "digit c \<noteq> None \<Longrightarrow> c \<noteq> CHR '':'' \<and> c \<noteq> CHR ''%''"
  by (auto simp: digit_def Let_def)

lemma family_show4 [simp]: "family (show4 a) = Some (CHR ''.'')"
proof -
  have "List.find (\<lambda>c. c = CHR ''.'' \<or> c = CHR '':'' \<or> c = CHR ''%'') cs = Some (CHR ''.'')"
    if "\<forall>c \<in> set cs. digit c \<noteq> None \<or> c = CHR ''.''" "CHR ''.'' \<in> set cs" for cs
    using that digit_not_sep by (induction cs) auto
  then show ?thesis using set_show4 dot_in_show4 by (simp add: family_def)
qed

lemma parse_ip_show4 [simp]: "parse_ip v6 (show4 a) = Some (mapped4 a)"
  by (simp add: parse_ip_def parse4_show4)

lemma to4_mapped4 [simp]: "to4 (mapped4 a) = Some a"
proof -
  have "drop_bit 32 (ucast a :: 128 word) = 0"
    by (rule bit_word_eqI) (auto simp: bit_drop_bit_eq bit_ucast_iff dest: bit_imp_le_length)
  then have "drop_bit 32 (mapped4 a) = 0xFFFF" by (simp add: mapped4_def)
  moreover have "ucast (mapped4 a) = a"
  proof (rule bit_word_eqI)
    fix n assume "n < LENGTH(32)"
    have "(0xFFFF00000000 :: 128 word) = push_bit 32 0xFFFF" by simp
    then have "\<not> bit (0xFFFF00000000 :: 128 word) n"
      using \<open>n < LENGTH(32)\<close> by (simp only: bit_push_bit_iff) simp
    then show "bit (ucast (mapped4 a) :: 32 word) n = bit a n"
      using \<open>n < LENGTH(32)\<close> by (simp add: mapped4_def bit_ucast_iff bit_or_iff)
  qed
  ultimately show ?thesis by (simp add: to4_def)
qed

lemma dtoi_loop_append:
  "dtoi_loop (xs @ ys) n = (case dtoi_loop xs n of None \<Rightarrow> None | Some k \<Rightarrow> dtoi_loop ys k)"
  by (induction xs arbitrary: n) (auto split: option.splits)

lemma dtoi_loop_digits: "n < 16777215 \<Longrightarrow> dtoi_loop (nat_digits n) 0 = Some n"
proof (induction n rule: nat_digits.induct)
  case (1 n)
  show ?case
  proof (cases "n < 10")
    case False
    with 1 have "dtoi_loop (nat_digits (n div 10)) 0 = Some (n div 10)" by simp
    with 1 False show ?thesis
      by (subst nat_digits.simps) (simp add: dtoi_loop_append)
  qed (simp add: nat_digits_small)
qed

lemma dtoi_digits [simp]: "n < 16777215 \<Longrightarrow> dtoi (nat_digits n) = Some n"
  by (simp add: dtoi_def dtoi_loop_digits)

lemma take_while_slash: "CHR ''/'' \<notin> set xs \<Longrightarrow> takeWhile (\<lambda>c. c \<noteq> CHR ''/'') (xs @ CHR ''/'' # ys) = xs
    \<and> dropWhile (\<lambda>c. c \<noteq> CHR ''/'') (xs @ CHR ''/'' # ys) = CHR ''/'' # ys"
  by (induction xs) auto

lemma parse_cidr_string:
  assumes "n \<le> 32" and "a AND mask4 n = a"
  shows "parse_cidr v6 (show4 a @ ''/'' @ nat_digits n) = Some (mapped4 a, Net4 a n)"
  using assms take_while_slash [OF slash_not_in_show4, of a "nat_digits n"]
  by (simp add: parse_cidr_def Let_def parse4_show4)

text \<open>A network as the parser returns it: masked, and with a prefix length in range.\<close>

definition net_ok :: "ip_net \<Rightarrow> bool" where
  "net_ok nt = (case nt of Net4 a n \<Rightarrow> n \<le> 32 \<and> a AND mask4 n = a
                | Net6 a n \<Rightarrow> n \<le> 128 \<and> a AND mask6 n = a)"

lemma parse_cidr_ok: "parse_cidr v6 s = Some (x, nt) \<Longrightarrow> net_ok nt"
  by (auto simp: parse_cidr_def net_ok_def Let_def and.assoc split: if_splits option.splits)

lemma net_contains4: "net_contains (Net4 a n) (mapped4 b) \<longleftrightarrow> a AND mask4 n = b AND mask4 n"
  by (simp add: net_contains_def)

section \<open>Properties\<close>

text \<open>
  Dotted decimal text is canonical: the parser accepts exactly the texts that the printer
  produces (no leading zeros, four octets up to 255), and reading gives back the address. So
  comparing the texts of IPv4 addresses, as the allocation maps do, compares the addresses.
\<close>

theorem ipv4_text_canonical: "parse4 s = Some a \<longleftrightarrow> s = show4 a"
  using parse4_show4 parse4_sound by blast

text \<open>
  A network survives being stored as text: what \<open>ParseCIDR\<close> made of any IPv4 text, written
  by \<open>IPNet.String\<close> and parsed again, is the same network with the same prefix length.
\<close>

theorem cidr_text_roundtrip:
  assumes "parse_cidr v6 s = Some (x, Net4 a n)"
  shows "parse_cidr v6 (net_string v6 (Net4 a n)) = Some (mapped4 a, Net4 a n)"
  using parse_cidr_ok [OF assms] parse_cidr_string [of n a]
  by (simp add: net_ok_def net_string_def)

definition no_v6 :: v6_text where
  "no_v6 = \<lparr>v6_parse = (\<lambda>_. None), v6_show = (\<lambda>_. '''')\<rparr>"

theorem cidr_text_roundtrip_witness:
  "parse_cidr no_v6 ''10.0.0.9/30'' = Some (mapped4 0x0A000009, Net4 0x0A000008 30) \<and>
   parse_cidr no_v6 (net_string no_v6 (Net4 0x0A000008 30)) = Some (mapped4 0x0A000008, Net4 0x0A000008 30)"
proof -
  have "parse4 ''10.0.0.9'' = Some 0x0A000009"
    by (simp add: parse4_def digit_def Let_def word4_def)
  moreover have "(0x0A000009 :: 32 word) AND mask4 30 = 0x0A000008"
    by (simp add: mask4_def mask_eq_exp_minus_1)
  ultimately have "parse_cidr no_v6 ''10.0.0.9/30'' = Some (mapped4 0x0A000009, Net4 0x0A000008 30)"
    by (simp add: parse_cidr_def family_def dtoi_def digit_def Let_def)
  from cidr_text_roundtrip [OF this] this show ?thesis by simp
qed

end
