(* ===== verification/Ipam.thy ===== *)
theory Ipam
  imports Ipv4 Identity Domain_Events Float64
begin

unbundle bit_operations_syntax

text \<open>
  Address management: the pools and allocations of \<open>internal/domain/ipam\<close>, the in-memory
  repositories of \<open>internal/infra/memory/ipam_repo.go\<close> and the service of
  \<open>internal/app/ipam/service.go\<close>, which picks the lowest free host address of a pool.
\<close>

section \<open>Data\<close>

record ip_pool =
  ip_id :: string
  ip_name :: string
  ip_location :: string
  ip_version :: int
  ip_cidr :: string
  ip_gateway :: string
  ip_dns :: "string list"
  ip_vlan :: "int option"
  ip_private :: bool
  ip_created :: gtime
  ip_updated :: gtime

record ip_alloc =
  ia_id :: string
  ia_pool :: string
  ia_instance :: "string option"
  ia_address :: string
  ia_mac :: string
  ia_iface :: string
  ia_reserved :: bool
  ia_notes :: string
  ia_allocated :: gtime
  ia_released :: "gtime option"

record pool_utilization =
  pu_pool :: string
  pu_cidr :: string
  pu_total :: int
  pu_allocated :: int
  pu_reserved :: int
  pu_free :: int
  pu_usage :: f64

record ipam =
  im_pools :: "string \<rightharpoonup> ip_pool"
  im_allocs :: "string \<rightharpoonup> ip_alloc"
  im_trails :: trails

definition empty_ipam :: ipam where
  "empty_ipam = \<lparr>im_pools = Map.empty, im_allocs = Map.empty, im_trails = empty_trails\<rparr>"

definition pool_resource :: "ip_pool \<Rightarrow> resource" where
  "pool_resource p = \<lparr>res_type = ''ip_pool'', res_id = ip_id p, res_owner = '''', res_location = ''''\<rparr>"

definition alloc_resource :: "ip_alloc \<Rightarrow> resource" where
  "alloc_resource a = \<lparr>res_type = ''ip_allocation'', res_id = ia_id a, res_owner = '''', res_location = ''''\<rparr>"

definition contains_ip :: "v6_text \<Rightarrow> ip_pool \<Rightarrow> string \<Rightarrow> bool" where
  "contains_ip v6 p s =
     (case parse_cidr v6 (ip_cidr p) of
        None \<Rightarrow> False
      | Some (_, nt) \<Rightarrow> (case parse_ip v6 s of None \<Rightarrow> False | Some x \<Rightarrow> net_contains nt x))"

section \<open>Pool repository\<close>

definition pool_create ::
  "gtime \<Rightarrow> string \<Rightarrow> string list \<Rightarrow> ip_pool \<Rightarrow> ipam \<Rightarrow> ipam \<times> ip_pool result" where
  "pool_create now uuid ks p st =
     (if list_ex (\<lambda>q. ip_cidr q = ip_cidr p) (vals (im_pools st) ks)
      then (st, Inl ErrIPPoolAlreadyExists)
      else let p = (if ip_id p = '''' then p\<lparr>ip_id := uuid\<rparr> else p);
               p = p\<lparr>ip_created := now, ip_updated := now\<rparr>
           in (st\<lparr>im_pools := (im_pools st)(ip_id p \<mapsto> p)\<rparr>, Inr p))"

definition pool_get :: "string \<Rightarrow> ipam \<Rightarrow> ip_pool result" where
  "pool_get pid st = (case im_pools st pid of None \<Rightarrow> Inl ErrIPPoolNotFound | Some p \<Rightarrow> Inr p)"

definition pool_get_by_cidr :: "string \<Rightarrow> string list \<Rightarrow> ipam \<Rightarrow> ip_pool result" where
  "pool_get_by_cidr cidr ks st =
     (case List.find (\<lambda>p. ip_cidr p = cidr) (vals (im_pools st) ks) of
        None \<Rightarrow> Inl ErrIPPoolNotFound | Some p \<Rightarrow> Inr p)"

definition pool_list :: "string \<Rightarrow> string list \<Rightarrow> ipam \<Rightarrow> ip_pool list" where
  "pool_list loc ks st = filter (\<lambda>p. loc = '''' \<or> ip_location p = loc) (vals (im_pools st) ks)"

definition pool_delete :: "string \<Rightarrow> ipam \<Rightarrow> ipam \<times> go_error option" where
  "pool_delete pid st =
     (if im_pools st pid = None then (st, Some ErrIPPoolNotFound)
      else (st\<lparr>im_pools := (im_pools st)(pid := None)\<rparr>, None))"

section \<open>Allocation repository\<close>

definition active :: "ip_alloc \<Rightarrow> bool" where
  "active a \<longleftrightarrow> ia_released a = None"

definition alloc_create ::
  "gtime \<Rightarrow> string \<Rightarrow> string list \<Rightarrow> ip_alloc \<Rightarrow> ipam \<Rightarrow> ipam \<times> ip_alloc result" where
  "alloc_create now uuid ks a st =
     (if list_ex (\<lambda>x. ia_address x = ia_address a \<and> active x) (vals (im_allocs st) ks)
      then (st, Inl ErrIPAlreadyAllocated)
      else let a = (if ia_id a = '''' then a\<lparr>ia_id := uuid\<rparr> else a);
               a = a\<lparr>ia_allocated := now, ia_released := None\<rparr>
           in (st\<lparr>im_allocs := (im_allocs st)(ia_id a \<mapsto> a)\<rparr>, Inr a))"

definition alloc_get :: "string \<Rightarrow> ipam \<Rightarrow> ip_alloc result" where
  "alloc_get aid st = (case im_allocs st aid of None \<Rightarrow> Inl ErrIPAllocationNotFound | Some a \<Rightarrow> Inr a)"

definition alloc_get_by_ip :: "string \<Rightarrow> string list \<Rightarrow> ipam \<Rightarrow> ip_alloc result" where
  "alloc_get_by_ip ip ks st =
     (case List.find (\<lambda>a. ia_address a = ip \<and> active a) (vals (im_allocs st) ks) of
        None \<Rightarrow> Inl ErrIPAllocationNotFound | Some a \<Rightarrow> Inr a)"

definition list_by_pool :: "string \<Rightarrow> string list \<Rightarrow> ipam \<Rightarrow> ip_alloc list" where
  "list_by_pool pid ks st = filter (\<lambda>a. ia_pool a = pid \<and> active a) (vals (im_allocs st) ks)"

definition list_by_instance :: "string \<Rightarrow> string list \<Rightarrow> ipam \<Rightarrow> ip_alloc list" where
  "list_by_instance iid ks st =
     filter (\<lambda>a. ia_instance a = Some iid \<and> active a) (vals (im_allocs st) ks)"

definition alloc_release :: "gtime \<Rightarrow> string \<Rightarrow> ipam \<Rightarrow> ipam \<times> go_error option" where
  "alloc_release now aid st =
     (case im_allocs st aid of
        None \<Rightarrow> (st, Some ErrIPAllocationNotFound)
      | Some a \<Rightarrow> (st\<lparr>im_allocs := (im_allocs st)(aid \<mapsto> a\<lparr>ia_released := Some now\<rparr>)\<rparr>, None))"

definition alloc_delete :: "string \<Rightarrow> ipam \<Rightarrow> ipam \<times> go_error option" where
  "alloc_delete aid st =
     (if im_allocs st aid = None then (st, Some ErrIPAllocationNotFound)
      else (st\<lparr>im_allocs := (im_allocs st)(aid := None)\<rparr>, None))"

section \<open>Searching for a free address\<close>

text \<open>
  The loop \<open>for i := uint32(1); i < totalHosts-1; i++\<close>, on 32-bit words: \<open>start + i\<close> wraps.
\<close>

function search_ip :: "32 word \<Rightarrow> 32 word \<Rightarrow> (string \<Rightarrow> bool) \<Rightarrow> 32 word \<Rightarrow> string result" where
  "search_ip start stop taken i =
     (if i < stop then
        (if \<not> taken (show4 (start + i)) then Inr (show4 (start + i))
         else search_ip start stop taken (i + 1))
      else Inl ErrIPPoolExhausted)"
  by auto
termination
  by (relation "measure (\<lambda>(start, stop, taken, i). unat (stop - i))") (simp_all add: unat_gap)

declare search_ip.simps [simp del]

text \<open>A prefix longer than 32 bits makes the shift count negative, which panics.\<close>

definition find_next_available_ip :: "v6_text \<Rightarrow> string \<Rightarrow> (string \<Rightarrow> bool) \<Rightarrow> string result" where
  "find_next_available_ip v6 cidr taken =
     (case parse_cidr v6 cidr of
        None \<Rightarrow> Inl ErrInvalidCIDR
      | Some (_, nt) \<Rightarrow>
          (case net_to4 nt of
             None \<Rightarrow> Inl ErrIPPoolExhausted
           | Some start \<Rightarrow>
               if net_bits nt > 32 then Inl Panic
               else search_ip start (push_bit (32 - net_bits nt) 1 - 1) taken 1))"

definition calculate_total_host_ips :: "ip_net \<Rightarrow> int" where
  "calculate_total_host_ips nt =
     (if net_to4 nt \<noteq> None then
        (if net_bits nt \<ge> 31 then 2 else 2 ^ (32 - net_bits nt) - 2)
      else 65536)"

section \<open>The service\<close>

definition ipam_log :: "gtime \<Rightarrow> string \<Rightarrow> subject option \<Rightarrow> string \<Rightarrow> string \<Rightarrow> ipam \<Rightarrow> ipam" where
  "ipam_log now action sub rtype rid st =
     st\<lparr>im_trails := log_audit now (empty_log\<lparr>al_action := action,
          al_actor := map_option sub_user sub, al_rtype := rtype, al_rid := Some rid,
          al_created := now\<rparr>) (im_trails st)\<rparr>"

record create_pool_request =
  cp_name :: string
  cp_location :: string
  cp_cidr :: string
  cp_gateway :: string
  cp_dns :: "string list"
  cp_vlan :: "int option"
  cp_private :: bool

definition create_pool ::
  "v6_text \<Rightarrow> gtime \<Rightarrow> string \<Rightarrow> string list \<Rightarrow> subject option \<Rightarrow> create_pool_request \<Rightarrow> ipam \<Rightarrow>
   ipam \<times> ip_pool result" where
  "create_pool v6 now uuid ks sub req st =
     (case authorize sub ''ipam:manage'' None of
        Some err \<Rightarrow> (st, Inl err)
      | None \<Rightarrow>
          (case parse_cidr v6 (cp_cidr req) of
             None \<Rightarrow> (st, Inl ErrInvalidCIDR)
           | Some (ip, nt) \<Rightarrow>
               if (case parse_ip v6 (cp_gateway req) of
                     None \<Rightarrow> True | Some g \<Rightarrow> \<not> net_contains nt g)
               then (st, Inl (ErrText (''gateway '' @ cp_gateway req @ '' is not within cidr '' @ cp_cidr req)))
               else
                 (let pool = \<lparr>ip_id = '''', ip_name = cp_name req, ip_location = cp_location req,
                        ip_version = (if to4 ip = None then 6 else 4), ip_cidr = net_string v6 nt,
                        ip_gateway = cp_gateway req,
                        ip_dns = (if cp_dns req = [] then [''1.1.1.1'', ''8.8.8.8''] else cp_dns req),
                        ip_vlan = cp_vlan req, ip_private = cp_private req,
                        ip_created = now, ip_updated = now\<rparr>
                  in case pool_create now uuid ks pool st of
                       (st, Inl err) \<Rightarrow> (st, Inl err)
                     | (st, Inr pool) \<Rightarrow>
                         (ipam_log now ''ipam:pool:create'' sub ''ip_pool'' (ip_id pool) st, Inr pool))))"

definition list_pools :: "string list \<Rightarrow> subject option \<Rightarrow> string \<Rightarrow> ipam \<Rightarrow> ip_pool list result" where
  "list_pools ks sub loc st =
     (case authorize sub ''ipam:read'' None of
        Some err \<Rightarrow> Inl err | None \<Rightarrow> Inr (pool_list loc ks st))"

definition get_pool_utilization :: "v6_text \<Rightarrow> string list \<Rightarrow> ip_pool \<Rightarrow> ipam \<Rightarrow> pool_utilization result" where
  "get_pool_utilization v6 ks p st =
     (let allocs = list_by_pool (ip_id p) ks st
      in case parse_cidr v6 (ip_cidr p) of
           None \<Rightarrow> Inl (ErrText ''invalid CIDR address'')
         | Some (_, nt) \<Rightarrow>
             (let tot = calculate_total_host_ips nt;
                  reserved = int (length (filter ia_reserved allocs));
                  allocated = int (length (filter (\<lambda>a. \<not> ia_reserved a) allocs));
                  free = tot - (allocated + reserved);
                  free = (if free < 0 then 0 else free);
                  pct = (if tot > 0
                         then f_mul (f_div (f_of_int (allocated + reserved)) (f_of_int tot)) 100 else 0)
              in Inr \<lparr>pu_pool = ip_id p, pu_cidr = ip_cidr p, pu_total = tot,
                      pu_allocated = allocated, pu_reserved = reserved, pu_free = free,
                      pu_usage = f_div (f_of_int (math_round (f_mul pct 100))) 100\<rparr>))"

definition get_pool ::
  "v6_text \<Rightarrow> string list \<Rightarrow> subject option \<Rightarrow> string \<Rightarrow> ipam \<Rightarrow> (ip_pool \<times> pool_utilization) result" where
  "get_pool v6 ks sub pid st =
     (case authorize sub ''ipam:read'' None of
        Some err \<Rightarrow> Inl err
      | None \<Rightarrow>
          (case pool_get pid st of
             Inl err \<Rightarrow> Inl err
           | Inr p \<Rightarrow> (case get_pool_utilization v6 ks p st of
                          Inl err \<Rightarrow> Inl err | Inr u \<Rightarrow> Inr (p, u))))"

text \<open>The set of texts the allocation map of \<open>AllocateIP\<close> holds.\<close>

definition taken_ips :: "ip_pool \<Rightarrow> string \<Rightarrow> string list \<Rightarrow> ipam \<Rightarrow> string \<Rightarrow> bool" where
  "taken_ips p pid ks st s \<longleftrightarrow>
     s = ip_gateway p \<or> list_ex (\<lambda>a. ia_address a = s) (list_by_pool pid ks st)"

definition allocate_ip ::
  "v6_text \<Rightarrow> gtime \<Rightarrow> string \<Rightarrow> string list \<Rightarrow> subject option \<Rightarrow> string \<Rightarrow> string option \<Rightarrow> string \<Rightarrow> bool \<Rightarrow>
   string \<Rightarrow> ipam \<Rightarrow> ipam \<times> ip_alloc result" where
  "allocate_ip v6 now uuid ks sub pid inst iface reserved notes st =
     (case authorize sub ''ipam:manage'' None of
        Some err \<Rightarrow> (st, Inl err)
      | None \<Rightarrow>
          (case pool_get pid st of
             Inl err \<Rightarrow> (st, Inl err)
           | Inr p \<Rightarrow>
               (case find_next_available_ip v6 (ip_cidr p) (taken_ips p pid ks st) of
                  Inl err \<Rightarrow> (st, Inl err)
                | Inr ip \<Rightarrow>
                    (let a = \<lparr>ia_id = '''', ia_pool = pid, ia_instance = inst, ia_address = ip,
                           ia_mac = '''', ia_iface = (if iface = '''' then ''eth0'' else iface),
                           ia_reserved = reserved, ia_notes = notes, ia_allocated = now,
                           ia_released = None\<rparr>
                     in case alloc_create now uuid ks a st of
                          (st, Inl err) \<Rightarrow> (st, Inl err)
                        | (st, Inr a) \<Rightarrow>
                            (ipam_log now ''ipam:ip:allocate'' sub ''ip_allocation'' (ia_id a) st, Inr a)))))"

definition release_ip :: "gtime \<Rightarrow> subject option \<Rightarrow> string \<Rightarrow> ipam \<Rightarrow> ipam \<times> go_error option" where
  "release_ip now sub aid st =
     (case authorize sub ''ipam:manage'' None of
        Some err \<Rightarrow> (st, Some err)
      | None \<Rightarrow>
          (case alloc_get aid st of
             Inl err \<Rightarrow> (st, Some err)
           | Inr a \<Rightarrow>
               (case alloc_release now aid st of
                  (st, Some err) \<Rightarrow> (st, Some err)
                | (st, None) \<Rightarrow>
                    (ipam_log now ''ipam:ip:release'' sub ''ip_allocation'' (ia_id a) st, None))))"

definition list_allocations :: "string list \<Rightarrow> subject option \<Rightarrow> string \<Rightarrow> ipam \<Rightarrow> ip_alloc list result" where
  "list_allocations ks sub pid st =
     (case authorize sub ''ipam:read'' None of
        Some err \<Rightarrow> Inl err | None \<Rightarrow> Inr (list_by_pool pid ks st))"

section \<open>Host addresses\<close>

definition host_ip :: "32 word \<Rightarrow> nat \<Rightarrow> string" where
  "host_ip a k = show4 (a + of_nat k)"

text \<open>Host numbers of a prefix: neither the network address nor the broadcast address.\<close>

definition hosts :: "nat \<Rightarrow> nat list" where
  "hosts n = [1..<2 ^ (32 - n) - 1]"

lemma search_ip_find:
  "search_ip start stop taken i =
     (case List.find (\<lambda>k. \<not> taken (host_ip start k)) [unat i..<unat stop] of
        None \<Rightarrow> Inl ErrIPPoolExhausted | Some k \<Rightarrow> Inr (host_ip start k))"
proof (induction start stop taken i rule: search_ip.induct)
  case (1 start stop taken i)
  show ?case
  proof (cases "i < stop")
    case True
    then have "[unat i..<unat stop] = unat i # [unat (i + 1)..<unat stop]"
      using unat_succ [OF True] by (simp add: word_less_nat_alt upt_conv_Cons)
    with 1 True show ?thesis by (subst search_ip.simps) (simp add: host_ip_def)
  next
    case False
    then have "unat stop \<le> unat i" by (simp add: word_less_nat_alt)
    with False show ?thesis by (subst search_ip.simps) simp
  qed
qed

lemma host_count: "n \<le> 32 \<Longrightarrow> unat (push_bit (32 - n) 1 - 1 :: 32 word) = 2 ^ (32 - n) - 1"
proof -
  assume "n \<le> 32"
  have "(push_bit (32 - n) 1 - 1 :: 32 word) = mask (32 - n)" by (simp add: mask_eq_exp_minus_1)
  moreover have "unat (mask (32 - n) :: 32 word) = mask (32 - n)"
    by (rule bit_eqI) (auto simp: bit_simps)
  ultimately show ?thesis by (simp add: mask_eq_exp_minus_1)
qed

lemma find_next_net4:
  assumes "parse_cidr v6 cidr = Some (x, Net4 a n)"
  shows "find_next_available_ip v6 cidr taken =
     (case List.find (\<lambda>k. \<not> taken (host_ip a k)) (hosts n) of
        None \<Rightarrow> Inl ErrIPPoolExhausted | Some k \<Rightarrow> Inr (host_ip a k))"
proof -
  have "n \<le> 32" using parse_cidr_ok [OF assms] by (simp add: net_ok_def)
  then show ?thesis
    using assms host_count [of n]
    by (simp add: find_next_available_ip_def net_to4_def net_bits_def search_ip_find hosts_def
        del: push_bit_of_1)
qed

lemma host_range: "k \<in> set (hosts n) \<longleftrightarrow> 1 \<le> k \<and> k < 2 ^ (32 - n) - 1"
  by (auto simp: hosts_def)

lemma host_below: "k \<in> set (hosts n) \<Longrightarrow> k < 4294967296"
proof -
  assume "k \<in> set (hosts n)"
  then have "k < 2 ^ (32 - n)" by (auto simp: hosts_def)
  also have "\<dots> \<le> 2 ^ 32" by (rule power_increasing) auto
  finally show ?thesis by simp
qed

lemma of_nat_small_inj:
  "i < 4294967296 \<Longrightarrow> k < 4294967296 \<Longrightarrow> (of_nat i :: 32 word) = of_nat k \<longleftrightarrow> i = k"
  by (simp add: word_of_nat_eq_iff take_bit_nat_eq_self)

lemma host_in_net:
  assumes "a AND mask4 n = a" and "n \<le> 32" and "k < 2 ^ (32 - n)"
  shows "(a + of_nat k) AND mask4 n = a"
proof -
  have low: "\<not> bit (of_nat k :: 32 word) i" if "32 - n \<le> i" for i
  proof -
    have "k < 2 ^ i" using assms(3) that by (meson less_le_trans one_le_numeral power_increasing)
    then have "\<not> bit k i" by (simp add: bit_iff_odd)
    then show ?thesis by (simp add: bit_of_nat_iff)
  qed
  have high: "\<not> bit a i" if "i < 32 - n" for i
  proof
    assume "bit a i"
    with assms(1) have "bit (mask4 n) i" by (metis bit_and_iff)
    with that show False by (simp add: mask4_def bit_simps)
  qed
  have "a AND of_nat k = 0"
    using low high by (intro bit_eqI) (metis bit_and_iff bit_0_eq bot_apply bot_bool_def linorder_not_le)
  then have "a + of_nat k = a OR of_nat k" by (rule disjunctive_add_eq_or)
  moreover have "(of_nat k :: 32 word) AND mask4 n = 0"
    using low by (intro bit_eqI) (auto simp: mask4_def bit_simps not_le [symmetric])
  ultimately show ?thesis using assms(1) by (simp add: bit.conj_disj_distrib2)
qed

lemma host_not_ends:
  assumes "k \<in> set (hosts n)" and "n \<le> 32"
  shows "host_ip a k \<noteq> show4 a" and "host_ip a k \<noteq> show4 (a + mask (32 - n))"
proof -
  have k: "1 \<le> k" "k < 2 ^ (32 - n) - 1" "k < 4294967296"
    using assms host_below by (auto simp: host_range)
  then have "(of_nat k :: 32 word) \<noteq> of_nat 0" by (subst of_nat_small_inj) auto
  then show "host_ip a k \<noteq> show4 a" by (simp add: host_ip_def show4_inj)
  have m: "(mask (32 - n) :: 32 word) = of_nat (2 ^ (32 - n) - 1)"
    by (simp add: mask_eq_exp_minus_1 of_nat_diff)
  have "(2 :: nat) ^ (32 - n) \<le> 2 ^ 32" by (rule power_increasing) auto
  then have "(of_nat k :: 32 word) \<noteq> of_nat (2 ^ (32 - n) - 1)"
    using k by (subst of_nat_small_inj) (auto simp del: of_nat_diff)
  then show "host_ip a k \<noteq> show4 (a + mask (32 - n))" by (simp add: host_ip_def show4_inj m)
qed

section \<open>Allocation\<close>

lemma taken_ips_iff:
  "iterates (im_allocs st) ks \<Longrightarrow>
   taken_ips p pid ks st s \<longleftrightarrow>
     s = ip_gateway p \<or> (\<exists>a \<in> ran (im_allocs st). ia_pool a = pid \<and> active a \<and> ia_address a = s)"
  by (auto simp: taken_ips_def list_by_pool_def list_ex_iff set_vals_ran)

lemma alloc_create_Inr:
  assumes "alloc_create now uuid ks a st = (st', Inr a')" and "iterates (im_allocs st) ks"
  shows "st' = st\<lparr>im_allocs := (im_allocs st)(ia_id a' \<mapsto> a')\<rparr> \<and> active a' \<and>
         ia_address a' = ia_address a \<and> ia_pool a' = ia_pool a \<and>
         (ia_id a = '''' \<longrightarrow> ia_id a' = uuid) \<and>
         (\<forall>b \<in> ran (im_allocs st). active b \<longrightarrow> ia_address b \<noteq> ia_address a')"
  using assms
  by (auto simp: alloc_create_def Let_def list_ex_vals active_def split: if_splits)

lemma find_upt_Some:
  assumes "List.find P [m..<n] = Some k"
  shows "m \<le> k \<and> k < n \<and> P k \<and> (\<forall>j. m \<le> j \<longrightarrow> j < k \<longrightarrow> \<not> P j)"
proof -
  from assms obtain i where i: "i < n - m" "P (m + i)" "k = m + i" "\<forall>j < i. \<not> P (m + j)"
    by (auto simp: find_Some_iff)
  then show ?thesis by (metis add_diff_inverse_nat add_less_cancel_left less_diff_conv2 le_add1 linorder_not_le nat_less_le less_diff_conv add.commute)
qed

lemma allocate_ip_Inr:
  assumes "allocate_ip v6 now uuid ks sub pid inst iface reserved notes st = (st', Inr al)"
    and "im_pools st pid = Some p" and "parse_cidr v6 (ip_cidr p) = Some (x, Net4 a n)"
    and "iterates (im_allocs st) ks"
  obtains k where "List.find (\<lambda>k. \<not> taken_ips p pid ks st (host_ip a k)) (hosts n) = Some k"
    "ia_address al = host_ip a k" "ia_pool al = pid" "active al" "ia_id al = uuid"
    "im_allocs st' = (im_allocs st)(ia_id al \<mapsto> al)" "im_pools st' = im_pools st"
    "\<forall>b \<in> ran (im_allocs st). active b \<longrightarrow> ia_address b \<noteq> ia_address al"
  using assms
  by (auto simp: allocate_ip_def pool_get_def find_next_net4 [OF assms(3)] Let_def ipam_log_def
      split: option.splits sum.splits prod.splits dest!: alloc_create_Inr)

section \<open>Interleavings\<close>

text \<open>
  One call on the allocation repository by any request: the service methods of different
  requests interleave between the calls, so an allocation may be created with an address
  that was chosen from a listing taken earlier.
\<close>

inductive ipam_step :: "ipam \<Rightarrow> ipam \<Rightarrow> bool" where
  s_create: "iterates (im_allocs st) ks \<Longrightarrow> ipam_step st (fst (alloc_create now uuid ks a st))"
| s_release: "ipam_step st (fst (alloc_release now aid st))"
| s_delete: "ipam_step st (fst (alloc_delete aid st))"
| s_pool: "iterates (im_pools st) ks \<Longrightarrow> ipam_step st (fst (pool_create now uuid ks p st))"
| s_pool_delete: "ipam_step st (fst (pool_delete pid st))"
| s_log: "ipam_step st (ipam_log now action sub rtype rid st)"

definition active_unique :: "ipam \<Rightarrow> bool" where
  "active_unique st \<longleftrightarrow>
     (\<forall>i j a b. im_allocs st i = Some a \<longrightarrow> im_allocs st j = Some b \<longrightarrow> active a \<longrightarrow> active b \<longrightarrow>
        ia_address a = ia_address b \<longrightarrow> i = j)"

lemma alloc_create_unique [step_inv]:
  assumes "active_unique st" and "iterates (im_allocs st) ks"
  shows "active_unique (fst (alloc_create now uuid ks a st))"
proof (cases "snd (alloc_create now uuid ks a st)")
  case (Inl e)
  with assms show ?thesis by (auto simp: alloc_create_def Let_def split: if_splits)
next
  case (Inr a')
  then have "alloc_create now uuid ks a st = (fst (alloc_create now uuid ks a st), Inr a')"
    by (metis prod.collapse)
  from alloc_create_Inr [OF this assms(2)] assms(1) show ?thesis
    unfolding active_unique_def by (auto simp: ran_def)
qed

lemma alloc_release_unique [step_inv]:
  "active_unique st \<Longrightarrow> active_unique (fst (alloc_release now aid st))"
  by (auto simp: alloc_release_def active_unique_def active_def split: option.splits)

lemma other_ops_unique [step_inv]:
  "active_unique st \<Longrightarrow> active_unique (fst (alloc_delete aid st))"
  "active_unique st \<Longrightarrow> active_unique (fst (pool_create now uuid ks p st))"
  "active_unique st \<Longrightarrow> active_unique (fst (pool_delete pid st))"
  "active_unique st \<Longrightarrow> active_unique (ipam_log now action sub rtype rid st)"
  by (auto simp: alloc_delete_def pool_create_def pool_delete_def ipam_log_def active_unique_def Let_def)

interpretation addresses: invariant_machine ipam_step active_unique
proof
  fix s t assume "active_unique s" "ipam_step s t"
  from this(2,1) show "active_unique t"
    by (induction rule: ipam_step.induct) (simp_all add: step_inv)
qed

section \<open>Properties\<close>

definition admin :: subject where
  "admin = \<lparr>sub_type = ''user'', sub_id = ''root'', sub_user = ''root'', sub_username = ''root'',
     sub_email = '''', sub_roles = [''superadmin''], sub_permissions = [], sub_scopes = []\<rparr>"

lemma admin_ok [simp]: "authorize (Some admin) action res = None"
  by (simp add: authorize_none_iff admin_def is_superadmin_iff)

definition sample_pool :: ip_pool where
  "sample_pool = \<lparr>ip_id = ''p1'', ip_name = ''lab'', ip_location = ''dc1'', ip_version = 4,
     ip_cidr = ''10.0.0.0/30'', ip_gateway = ''10.0.0.1'', ip_dns = [''1.1.1.1''], ip_vlan = None,
     ip_private = True, ip_created = 0, ip_updated = 0\<rparr>"

definition sample_ipam :: ipam where
  "sample_ipam = empty_ipam\<lparr>im_pools := [''p1'' \<mapsto> sample_pool]\<rparr>"

lemma sample_cidr:
  "parse_cidr v6 (ip_cidr sample_pool) = Some (mapped4 0x0A000000, Net4 0x0A000000 30)"
proof -
  have "parse4 ''10.0.0.0'' = Some 0x0A000000"
    by (simp add: parse4_def digit_def Let_def word4_def)
  moreover have "(0x0A000000 :: 32 word) AND mask4 30 = 0x0A000000"
    by (simp add: mask4_def mask_eq_exp_minus_1)
  ultimately show ?thesis
    by (simp add: sample_pool_def parse_cidr_def family_def dtoi_def digit_def Let_def)
qed

lemma sample_host_ips:
  "host_ip 0x0A000000 (Suc 0) = ''10.0.0.1''" "host_ip 0x0A000000 2 = ''10.0.0.2''" "hosts 30 = [Suc 0, 2]"
  by (simp_all add: host_ip_def show4_def octet_def nat_digits_small nat_digits.simps drop_bit_eq_div
      hosts_def upt_rec char_of_def bit_0)

text \<open>
  C25. A successful allocation from an IPv4 pool returns an address inside the network of the
  pool that is neither its network nor its broadcast address, is not the gateway and was not
  active in any pool; every lower host address was taken; and the only change to the stored
  allocations is the new active record.
\<close>

theorem allocate_ip_sound:
  assumes "allocate_ip v6 now uuid ks sub pid inst iface reserved notes st = (st', Inr al)"
    and "im_pools st pid = Some p" and "parse_cidr v6 (ip_cidr p) = Some (x, Net4 a n)"
    and "iterates (im_allocs st) ks"
  shows "\<exists>k. ia_address al = show4 (a + of_nat k) \<and> net_contains (Net4 a n) (mapped4 (a + of_nat k))
     \<and> ia_address al \<noteq> show4 a \<and> ia_address al \<noteq> show4 (a + mask (32 - n))
     \<and> ia_address al \<noteq> ip_gateway p
     \<and> (\<forall>b \<in> ran (im_allocs st). active b \<longrightarrow> ia_address b \<noteq> ia_address al)
     \<and> (\<forall>j. 1 \<le> j \<longrightarrow> j < k \<longrightarrow> taken_ips p pid ks st (show4 (a + of_nat j)))
     \<and> im_allocs st' = (im_allocs st)(ia_id al \<mapsto> al) \<and> active al \<and> ia_pool al = pid"
proof -
  obtain k where k: "List.find (\<lambda>k. \<not> taken_ips p pid ks st (host_ip a k)) (hosts n) = Some k"
    "ia_address al = host_ip a k" "ia_pool al = pid" "active al" "ia_id al = uuid"
    "im_allocs st' = (im_allocs st)(ia_id al \<mapsto> al)" "im_pools st' = im_pools st"
    "\<forall>b \<in> ran (im_allocs st). active b \<longrightarrow> ia_address b \<noteq> ia_address al"
    by (rule allocate_ip_Inr [OF assms])
  have f: "1 \<le> k" "k < 2 ^ (32 - n) - 1" "\<not> taken_ips p pid ks st (host_ip a k)"
    "\<forall>j. 1 \<le> j \<longrightarrow> j < k \<longrightarrow> taken_ips p pid ks st (host_ip a j)"
    using find_upt_Some [OF k(1) [unfolded hosts_def]] by auto
  have net: "n \<le> 32" "a AND mask4 n = a" using parse_cidr_ok [OF assms(3)] by (simp_all add: net_ok_def)
  have "k < 2 ^ (32 - n)" using f(2) by linarith
  from host_in_net [OF net(2,1) this] have "net_contains (Net4 a n) (mapped4 (a + of_nat k))"
    by (simp add: net_contains4 net)
  moreover have "host_ip a k \<noteq> ip_gateway p" using f(3) assms(4) by (auto simp: taken_ips_iff)
  ultimately show ?thesis
    using k f host_not_ends [of k n a] net(1) by (intro exI [of _ k]) (simp add: host_ip_def host_range)
qed

lemma sample_allocate:
  "\<exists>st' al. allocate_ip no_v6 5 ''a1'' [] (Some admin) ''p1'' None '''' False '''' sample_ipam = (st', Inr al)
     \<and> ia_address al = ''10.0.0.2''"
  by (simp add: allocate_ip_def pool_get_def sample_ipam_def empty_ipam_def
      find_next_net4 [OF sample_cidr] sample_host_ips taken_ips_def list_by_pool_def alloc_create_def
      sample_pool_def Let_def find_next_net4 [OF sample_cidr [unfolded sample_pool_def, simplified]])

theorem allocate_ip_sound_witness:
  "\<exists>st' al. allocate_ip no_v6 5 ''a1'' [] (Some admin) ''p1'' None '''' False '''' sample_ipam = (st', Inr al)
     \<and> ia_address al = ''10.0.0.2'' \<and> ia_address al \<noteq> ip_gateway sample_pool \<and> active al"
proof -
  from sample_allocate obtain st' al where
    r: "allocate_ip no_v6 5 ''a1'' [] (Some admin) ''p1'' None '''' False '''' sample_ipam = (st', Inr al)"
    and i: "ia_address al = ''10.0.0.2''" by blast
  have "im_pools sample_ipam ''p1'' = Some sample_pool" "iterates (im_allocs sample_ipam) []"
    by (simp_all add: sample_ipam_def empty_ipam_def)
  from allocate_ip_sound [OF r this(1) sample_cidr this(2)] r i show ?thesis by blast
qed



text \<open>
  C3. No address is ever active twice: after any interleaving of allocation, release and
  deletion calls, from a store without allocations, two active records have different
  addresses, across all pools.
\<close>

theorem addresses_never_shared:
  assumes "ipam_step\<^sup>*\<^sup>* empty_ipam st"
  shows "active_unique st"
proof -
  have "active_unique empty_ipam" by (simp add: active_unique_def empty_ipam_def)
  with assms show ?thesis by (rule addresses.steps_keep)
qed

definition sample_alloc :: ip_alloc where
  "sample_alloc = \<lparr>ia_id = ''a1'', ia_pool = ''p1'', ia_instance = None, ia_address = ''10.0.0.2'',
     ia_mac = '''', ia_iface = ''eth0'', ia_reserved = False, ia_notes = '''', ia_allocated = 0,
     ia_released = None\<rparr>"

theorem addresses_never_shared_witness:
  "active_unique (fst (alloc_create 0 '''' [] sample_alloc empty_ipam))"
proof (rule addresses_never_shared)
  show "ipam_step\<^sup>*\<^sup>* empty_ipam (fst (alloc_create 0 '''' [] sample_alloc empty_ipam))"
    by (intro r_into_rtranclp ipam_step.s_create) (simp add: empty_ipam_def)
qed

lemma find_cong_set: "(\<And>k. k \<in> set xs \<Longrightarrow> P k = Q k) \<Longrightarrow> List.find P xs = List.find Q xs"
  by (induction xs) auto

lemma taken_after_release:
  assumes "im_allocs st uuid = None" and "ia_id al = uuid"
    and "iterates (im_allocs st) ks" and "iterates (im_allocs st2) ks2"
    and "im_allocs st2 = (im_allocs st)(uuid \<mapsto> al\<lparr>ia_released := Some t\<rparr>)"
  shows "taken_ips p pid ks2 st2 = taken_ips p pid ks st"
proof -
  have "(\<exists>b \<in> ran (im_allocs st2). ia_pool b = pid \<and> active b \<and> ia_address b = s) \<longleftrightarrow>
        (\<exists>b \<in> ran (im_allocs st). ia_pool b = pid \<and> active b \<and> ia_address b = s)" for s
    using assms(1,5) by (auto simp: active_def)
  then show ?thesis using assms(3,4) by (intro ext) (simp add: taken_ips_iff)
qed

text \<open>
  Release gives the address back: an authorised allocation followed by the release of
  that allocation leaves the pool so that the next allocation succeeds again with the same
  address, and the released record is kept with its release time.
\<close>

theorem release_then_allocate:
  assumes "authorize sub ''ipam:manage'' None = None"
    and "allocate_ip v6 t uuid ks sub pid inst iface reserved notes st = (st1, Inr al)"
    and "im_pools st pid = Some p" and "parse_cidr v6 (ip_cidr p) = Some (x, Net4 a n)"
    and "iterates (im_allocs st) ks" and "im_allocs st uuid = None"
    and "release_ip t' sub (ia_id al) st1 = (st2, err)" and "iterates (im_allocs st2) ks2"
  shows "err = None \<and> im_allocs st2 (ia_id al) = Some (al\<lparr>ia_released := Some t'\<rparr>) \<and>
     (\<exists>st3 al'. allocate_ip v6 t'' uuid' ks2 sub pid inst' iface' reserved' notes' st2 = (st3, Inr al')
        \<and> ia_address al' = ia_address al)"
proof -
  obtain k where k: "List.find (\<lambda>k. \<not> taken_ips p pid ks st (host_ip a k)) (hosts n) = Some k"
    "ia_address al = host_ip a k" "ia_pool al = pid" "active al" "ia_id al = uuid"
    "im_allocs st1 = (im_allocs st)(ia_id al \<mapsto> al)" "im_pools st1 = im_pools st"
    "\<forall>b \<in> ran (im_allocs st). active b \<longrightarrow> ia_address b \<noteq> ia_address al"
    by (rule allocate_ip_Inr [OF assms(2-5)])
  have r: "err = None" "im_pools st2 = im_pools st"
    "im_allocs st2 = (im_allocs st)(uuid \<mapsto> al\<lparr>ia_released := Some t'\<rparr>)"
    using assms(1,7) k(5-7)
    by (auto simp: release_ip_def alloc_get_def alloc_release_def ipam_log_def)
  have "find_next_available_ip v6 (ip_cidr p) (taken_ips p pid ks2 st2) = Inr (host_ip a k)"
    using taken_after_release [OF assms(6) k(5) assms(5,8) r(3)] k(1)
    by (simp add: find_next_net4 [OF assms(4)])
  moreover have "\<not> (\<exists>b \<in> ran (im_allocs st2). ia_address b = host_ip a k \<and> active b)"
    using k(2,8) r(3) assms(6) by (auto simp: active_def)
  ultimately show ?thesis
    using assms(1,3,8) r k(2,5)
    by (simp add: allocate_ip_def pool_get_def alloc_create_def Let_def list_ex_vals)
qed

theorem release_then_allocate_witness:
  "\<exists>st1 al st2 st3 al'.
     allocate_ip no_v6 5 ''a1'' [] (Some admin) ''p1'' None '''' False '''' sample_ipam = (st1, Inr al) \<and>
     release_ip 6 (Some admin) (ia_id al) st1 = (st2, None) \<and>
     allocate_ip no_v6 7 ''a2'' [''a1''] (Some admin) ''p1'' None '''' False '''' st2 = (st3, Inr al') \<and>
     ia_address al' = ia_address al"
proof -
  from sample_allocate obtain st1 al where
    r: "allocate_ip no_v6 5 ''a1'' [] (Some admin) ''p1'' None '''' False '''' sample_ipam = (st1, Inr al)"
    by blast
  have p: "im_pools sample_ipam ''p1'' = Some sample_pool" "iterates (im_allocs sample_ipam) []"
    "im_allocs sample_ipam ''a1'' = None"
    by (simp_all add: sample_ipam_def empty_ipam_def)
  have k: "ia_id al = ''a1''" "im_allocs st1 = [''a1'' \<mapsto> al]"
    by (rule allocate_ip_Inr [OF r p(1) sample_cidr p(2)], simp)
      (rule allocate_ip_Inr [OF r p(1) sample_cidr p(2)], simp add: sample_ipam_def empty_ipam_def)
  obtain st2 err where rel: "release_ip 6 (Some admin) (ia_id al) st1 = (st2, err)" by force
  then have "iterates (im_allocs st2) [''a1'']"
    using k by (auto simp: release_ip_def alloc_get_def alloc_release_def ipam_log_def iterates_def split: if_splits)
  from release_then_allocate [OF admin_ok r p(1) sample_cidr p(2,3) rel this, of 7 "''a2''" None "''''" False "''''"]
  show ?thesis using r rel by blast
qed

text \<open>
  A pool with a prefix of 31 or 32 bits can be created and is reported with two free
  addresses, but no allocation from it ever succeeds: every authorised request ends with the
  exhaustion error, whatever the store holds.
\<close>

theorem tiny_pool_never_allocates:
  assumes "authorize sub ''ipam:manage'' None = None" and "im_pools st pid = Some p"
    and "parse_cidr v6 (ip_cidr p) = Some (x, Net4 a n)" and "31 \<le> n"
  shows "allocate_ip v6 now uuid ks sub pid inst iface reserved notes st = (st, Inl ErrIPPoolExhausted)
       \<and> (list_by_pool (ip_id p) ks st = [] \<longrightarrow>
            map_sum id pu_free (get_pool_utilization v6 ks p st) = Inr 2)"
proof -
  have "(2 :: nat) ^ (32 - n) \<le> 2 ^ 1" using assms(4) by (intro power_increasing) auto
  then have "hosts n = []" by (simp add: hosts_def)
  then show ?thesis
    using assms by (simp add: allocate_ip_def pool_get_def find_next_net4 [OF assms(3)]
        get_pool_utilization_def calculate_total_host_ips_def net_to4_def net_bits_def Let_def)
qed

definition tiny_pool :: ip_pool where
  "tiny_pool = sample_pool\<lparr>ip_cidr := ''10.0.0.0/31'', ip_gateway := ''10.0.0.0''\<rparr>"

theorem tiny_pool_never_allocates_witness:
  "snd (allocate_ip no_v6 5 ''a1'' [] (Some admin) ''p1'' None '''' False ''''
        (sample_ipam\<lparr>im_pools := [''p1'' \<mapsto> tiny_pool]\<rparr>)) = Inl ErrIPPoolExhausted"
proof -
  have "parse4 ''10.0.0.0'' = Some 0x0A000000"
    by (simp add: parse4_def digit_def Let_def word4_def)
  then have "parse_cidr no_v6 (ip_cidr tiny_pool) = Some (mapped4 0x0A000000, Net4 0x0A000000 31)"
    by (simp add: tiny_pool_def parse_cidr_def family_def dtoi_def digit_def Let_def mask4_def
        mask_eq_exp_minus_1)
  from tiny_pool_never_allocates [OF admin_ok _ this, of "sample_ipam\<lparr>im_pools := [''p1'' \<mapsto> tiny_pool]\<rparr>"]
  show ?thesis by simp
qed

text \<open>
  The gateway is protected by its text, not by its address: a pool whose gateway is
  written in another notation for the first host (the IPv4-mapped form, which the validation
  accepts) hands that very address out with its first allocation.
\<close>

theorem mapped_gateway_handed_out:
  assumes "authorize sub ''ipam:manage'' None = None"
    and "parse_cidr v6 (cp_cidr req) = Some (x, Net4 a n)" and "n \<le> 30"
    and "parse_ip v6 (cp_gateway req) = Some (mapped4 (a + 1))" and "cp_gateway req \<noteq> show4 (a + 1)"
  shows "\<exists>st p st' al. create_pool v6 t uuid [] sub req empty_ipam = (st, Inr p)
     \<and> allocate_ip v6 t' uuid' [] sub (ip_id p) inst iface reserved notes st = (st', Inr al)
     \<and> parse_ip v6 (ia_address al) = parse_ip v6 (ip_gateway p)"
proof -
  have net: "n \<le> 32" "a AND mask4 n = a" using parse_cidr_ok [OF assms(2)] by (simp_all add: net_ok_def)
  have pow: "(4 :: nat) \<le> 2 ^ (32 - n)"
    using assms(3) power_increasing [of 2 "32 - n" "2 :: nat"] by simp
  have "net_contains (Net4 a n) (mapped4 (a + 1))"
    using host_in_net [OF net(2,1), of 1] pow by (simp add: net_contains4 net)
  then have c: "\<exists>st p. create_pool v6 t uuid [] sub req empty_ipam = (st, Inr p) \<and>
      im_pools st = [ip_id p \<mapsto> p] \<and> im_allocs st = Map.empty \<and>
      ip_cidr p = net_string v6 (Net4 a n) \<and> ip_gateway p = cp_gateway req"
    using assms(1,2,4) by (simp add: create_pool_def pool_create_def empty_ipam_def ipam_log_def Let_def)
  have h: "hosts n = 1 # [2..<2 ^ (32 - n) - 1]" 
    using pow by (simp add: hosts_def upt_conv_Cons numeral_2_eq_2)
  have s: "parse_cidr v6 (net_string v6 (Net4 a n)) = Some (mapped4 a, Net4 a n)"
    using parse_cidr_string [OF net] by (simp add: net_string_def)
  from c obtain st p where p: "create_pool v6 t uuid [] sub req empty_ipam = (st, Inr p)"
      "im_pools st = [ip_id p \<mapsto> p]" "im_allocs st = Map.empty"
      "ip_cidr p = net_string v6 (Net4 a n)" "ip_gateway p = cp_gateway req" by blast
  have "\<exists>st' al. allocate_ip v6 t' uuid' [] sub (ip_id p) inst iface reserved notes st = (st', Inr al)
      \<and> ia_address al = show4 (a + 1)"
    using assms(1,5) p(2-5)
    by (simp add: allocate_ip_def pool_get_def find_next_net4 [OF s] h taken_ips_def
        list_by_pool_def host_ip_def alloc_create_def Let_def)
  with p assms(4) show ?thesis by auto
qed

definition mapped_v6 :: v6_text where
  "mapped_v6 = no_v6\<lparr>v6_parse := [''::ffff:10.0.0.1'' \<mapsto> mapped4 0x0A000001]\<rparr>"

definition mapped_request :: create_pool_request where
  "mapped_request = \<lparr>cp_name = ''lab'', cp_location = ''dc1'', cp_cidr = ip_cidr sample_pool,
     cp_gateway = ''::ffff:10.0.0.1'', cp_dns = [], cp_vlan = None, cp_private = True\<rparr>"

theorem mapped_gateway_handed_out_witness:
  "\<exists>st p st' al. create_pool mapped_v6 0 ''p1'' [] (Some admin) mapped_request empty_ipam = (st, Inr p)
     \<and> allocate_ip mapped_v6 1 ''a1'' [] (Some admin) (ip_id p) None '''' False '''' st = (st', Inr al)
     \<and> parse_ip mapped_v6 (ia_address al) = parse_ip mapped_v6 (ip_gateway p)"
proof (rule mapped_gateway_handed_out [OF admin_ok])
  show "parse_cidr mapped_v6 (cp_cidr mapped_request) = Some (mapped4 0x0A000000, Net4 0x0A000000 30)"
    using sample_cidr by (simp add: mapped_request_def)
  show "parse_ip mapped_v6 (cp_gateway mapped_request) = Some (mapped4 (0x0A000000 + 1))"
    by (simp add: parse_ip_def mapped_request_def family_def mapped_v6_def)
  show "cp_gateway mapped_request \<noteq> show4 (0x0A000000 + 1)"
    using sample_host_ips(1) by (simp add: mapped_request_def host_ip_def)
qed simp

text \<open>
  Overlapping pools block each other: when the lowest host that is free according to the
  records of this pool is active in another pool, the allocation fails with the error for an
  allocated address and changes nothing, so that every later request fails the same way even
  while higher hosts are free.
\<close>

theorem overlap_blocks_pool:
  assumes "authorize sub ''ipam:manage'' None = None" and "im_pools st pid = Some p"
    and "parse_cidr v6 (ip_cidr p) = Some (x, Net4 a n)" and "iterates (im_allocs st) ks"
    and "List.find (\<lambda>k. \<not> taken_ips p pid ks st (host_ip a k)) (hosts n) = Some k"
    and "b \<in> ran (im_allocs st)" and "active b" and "ia_address b = host_ip a k"
  shows "allocate_ip v6 now uuid ks sub pid inst iface reserved notes st = (st, Inl ErrIPAlreadyAllocated)"
  using assms
  by (auto simp: allocate_ip_def pool_get_def find_next_net4 [OF assms(3)] alloc_create_def Let_def
      list_ex_vals)

definition overlap_ipam :: ipam where
  "overlap_ipam = sample_ipam\<lparr>im_allocs := [''a0'' \<mapsto> sample_alloc\<lparr>ia_pool := ''p0''\<rparr>]\<rparr>"

theorem overlap_blocks_pool_witness:
  "allocate_ip no_v6 5 ''a1'' [''a0''] (Some admin) ''p1'' None '''' False '''' overlap_ipam =
     (overlap_ipam, Inl ErrIPAlreadyAllocated)"
proof (rule overlap_blocks_pool [OF admin_ok _ sample_cidr])
  show "im_pools overlap_ipam ''p1'' = Some sample_pool"
    by (simp add: overlap_ipam_def sample_ipam_def)
  show it: "iterates (im_allocs overlap_ipam) [''a0'']"
    by (auto simp: iterates_def overlap_ipam_def split: if_splits)
  show "List.find (\<lambda>k. \<not> taken_ips sample_pool ''p1'' [''a0''] overlap_ipam (host_ip 0x0A000000 k)) (hosts 30) = Some 2"
    by (simp add: sample_host_ips taken_ips_def list_by_pool_def overlap_ipam_def sample_alloc_def
        sample_pool_def)
  show "sample_alloc\<lparr>ia_pool := ''p0''\<rparr> \<in> ran (im_allocs overlap_ipam)"
    by (simp add: overlap_ipam_def)
qed (simp_all add: active_def sample_alloc_def sample_host_ips)

end
