(* ===== verification/Node_Store.thy ===== *)
theory Node_Store
  imports Identity Float64
begin

text \<open>
  Hypervisor nodes and enrollment secrets: \<open>internal/domain/node/node.go\<close> and the in-memory
  repositories of \<open>internal/infra/memory/node_repo.go\<close>. The Go store keeps one node object
  behind three maps (by identifier, by host name, by certificate fingerprint), and one secret
  object behind two; an update through one map is seen through the others. The model keeps
  that aliasing: the maps hold addresses, and the objects live in a heap.
\<close>

section \<open>Data\<close>

datatype node_status =
    NEnrolling | NOnline | NDegraded | NUnhealthy | NDraining | NOffline | NRevoked | NMaintenance

fun status_text :: "node_status \<Rightarrow> string" where
  "status_text NEnrolling = ''enrolling''"
| "status_text NOnline = ''online''"
| "status_text NDegraded = ''degraded''"
| "status_text NUnhealthy = ''unhealthy''"
| "status_text NDraining = ''draining''"
| "status_text NOffline = ''offline''"
| "status_text NRevoked = ''revoked''"
| "status_text NMaintenance = ''maintenance''"

record node =
  nd_id :: string
  nd_location :: string
  nd_name :: string
  nd_fqdn :: string
  nd_status :: node_status
  nd_fp :: string
  nd_cpu :: int
  nd_mem :: int
  nd_storage :: int
  nd_cpu_ratio :: f64
  nd_mem_ratio :: f64
  nd_caps :: "gobj option"
  nd_maintenance :: bool
  nd_drain :: bool
  nd_reason :: string
  nd_heartbeat :: "gtime option"
  nd_changed :: "gtime option"
  nd_created :: gtime
  nd_updated :: gtime

definition is_connectable :: "node \<Rightarrow> bool" where
  "is_connectable n \<longleftrightarrow> nd_status n \<noteq> NRevoked"

definition is_schedulable :: "node \<Rightarrow> bool" where
  "is_schedulable n \<longleftrightarrow>
     (nd_status n = NOnline \<or> nd_status n = NDegraded) \<and> \<not> nd_maintenance n \<and> \<not> nd_drain n"

definition node_resource :: "node \<Rightarrow> resource" where
  "node_resource n = \<lparr>res_type = ''node'', res_id = nd_id n, res_owner = '''', res_location = nd_location n\<rparr>"

record secret =
  es_id :: string
  es_location :: string
  es_hash :: string
  es_pattern :: string
  es_expires :: gtime
  es_used :: "gtime option"
  es_node :: "string option"
  es_by :: "string option"
  es_created :: gtime

definition secret_valid :: "gtime \<Rightarrow> secret \<Rightarrow> bool" where
  "secret_valid now s = (if es_used s \<noteq> None then False else now < es_expires s)"

record node_store =
  ns_heap :: "nat \<rightharpoonup> node"
  ns_next :: nat
  ns_nodes :: "string \<rightharpoonup> nat"
  ns_fqdn :: "string \<rightharpoonup> nat"
  ns_fp :: "string \<rightharpoonup> nat"
  ns_sheap :: "nat \<rightharpoonup> secret"
  ns_snext :: nat
  ns_secrets :: "string \<rightharpoonup> nat"
  ns_hash :: "string \<rightharpoonup> nat"

definition empty_nodes :: node_store where
  "empty_nodes = \<lparr>ns_heap = Map.empty, ns_next = 0, ns_nodes = Map.empty, ns_fqdn = Map.empty,
     ns_fp = Map.empty, ns_sheap = Map.empty, ns_snext = 0, ns_secrets = Map.empty, ns_hash = Map.empty\<rparr>"

section \<open>Node repository\<close>

definition node_create :: "node \<Rightarrow> node_store \<Rightarrow> node_store \<times> go_error option" where
  "node_create n st =
     (if ns_fqdn st (nd_fqdn n) \<noteq> None then (st, Some ErrNodeAlreadyExists)
      else let a = ns_next st;
               st = st\<lparr>ns_heap := (ns_heap st)(a \<mapsto> n), ns_next := a + 1,
                       ns_nodes := (ns_nodes st)(nd_id n \<mapsto> a), ns_fqdn := (ns_fqdn st)(nd_fqdn n \<mapsto> a)\<rparr>
           in (if nd_fp n \<noteq> '''' then st\<lparr>ns_fp := (ns_fp st)(nd_fp n \<mapsto> a)\<rparr> else st, None))"

definition deref :: "node_store \<Rightarrow> nat option \<Rightarrow> node result" where
  "deref st p = (case p of None \<Rightarrow> Inl ErrNodeNotFound
                 | Some a \<Rightarrow> (case ns_heap st a of None \<Rightarrow> Inl Panic | Some n \<Rightarrow> Inr n))"

definition node_get :: "string \<Rightarrow> node_store \<Rightarrow> node result" where
  "node_get nid st = deref st (ns_nodes st nid)"

definition node_by_fqdn :: "string \<Rightarrow> node_store \<Rightarrow> node result" where
  "node_by_fqdn f st = deref st (ns_fqdn st f)"

definition node_by_fp :: "string \<Rightarrow> node_store \<Rightarrow> node result" where
  "node_by_fp f st = deref st (ns_fp st f)"

text \<open>The update in place shared by the methods below: look the object up and change it.\<close>

definition modify_node :: "string \<Rightarrow> (node \<Rightarrow> node) \<Rightarrow> node_store \<Rightarrow> node_store \<times> go_error option" where
  "modify_node nid f st =
     (case ns_nodes st nid of
        None \<Rightarrow> (st, Some ErrNodeNotFound)
      | Some a \<Rightarrow> (case ns_heap st a of
                     None \<Rightarrow> (st, Some Panic)
                   | Some n \<Rightarrow> (st\<lparr>ns_heap := (ns_heap st)(a \<mapsto> f n)\<rparr>, None)))"

definition update_status :: "gtime \<Rightarrow> string \<Rightarrow> node_status \<Rightarrow> node_store \<Rightarrow> node_store \<times> go_error option" where
  "update_status now nid s = modify_node nid (\<lambda>n. n\<lparr>nd_status := s, nd_updated := now\<rparr>)"

definition update_health_state ::
  "gtime \<Rightarrow> string \<Rightarrow> node_status \<Rightarrow> string \<Rightarrow> node_store \<Rightarrow> node_store \<times> go_error option" where
  "update_health_state now nid s reason =
     modify_node nid (\<lambda>n. n\<lparr>nd_status := s, nd_reason := reason, nd_changed := Some now, nd_updated := now\<rparr>)"

definition update_drain_mode :: "gtime \<Rightarrow> string \<Rightarrow> bool \<Rightarrow> node_store \<Rightarrow> node_store \<times> go_error option" where
  "update_drain_mode now nid drain =
     modify_node nid (\<lambda>n. n\<lparr>nd_drain := drain,
       nd_status := (if drain \<and> nd_status n = NOnline then NDraining
                     else if \<not> drain \<and> nd_status n = NDraining then NOnline else nd_status n),
       nd_updated := now\<rparr>)"

definition update_heartbeat ::
  "gtime \<Rightarrow> string \<Rightarrow> gtime \<Rightarrow> gobj option \<Rightarrow> node_store \<Rightarrow> node_store \<times> go_error option" where
  "update_heartbeat now nid seen caps =
     modify_node nid (\<lambda>n. n\<lparr>nd_heartbeat := Some seen,
       nd_caps := (if caps \<noteq> None then caps else nd_caps n), nd_updated := now\<rparr>)"

definition update_maintenance_mode :: "gtime \<Rightarrow> string \<Rightarrow> bool \<Rightarrow> node_store \<Rightarrow> node_store \<times> go_error option" where
  "update_maintenance_mode now nid m =
     modify_node nid (\<lambda>n. n\<lparr>nd_maintenance := m, nd_status := (if m then NMaintenance else NOnline),
       nd_updated := now\<rparr>)"

definition revoke :: "gtime \<Rightarrow> string \<Rightarrow> node_store \<Rightarrow> node_store \<times> go_error option" where
  "revoke now nid = modify_node nid (\<lambda>n. n\<lparr>nd_status := NRevoked, nd_updated := now\<rparr>)"

definition node_list :: "string list \<Rightarrow> node_store \<Rightarrow> node list" where
  "node_list ks st = vals (\<lambda>k. case ns_nodes st k of None \<Rightarrow> None | Some a \<Rightarrow> ns_heap st a) ks"

section \<open>Enrollment repository\<close>

definition secret_create :: "secret \<Rightarrow> node_store \<Rightarrow> node_store" where
  "secret_create s st =
     (let a = ns_snext st
      in st\<lparr>ns_sheap := (ns_sheap st)(a \<mapsto> s), ns_snext := a + 1,
            ns_secrets := (ns_secrets st)(es_id s \<mapsto> a), ns_hash := (ns_hash st)(es_hash s \<mapsto> a)\<rparr>)"

definition secret_by_hash :: "string \<Rightarrow> node_store \<Rightarrow> secret result" where
  "secret_by_hash h st =
     (case ns_hash st h of
        None \<Rightarrow> Inl ErrEnrollmentTokenInvalid
      | Some a \<Rightarrow> (case ns_sheap st a of None \<Rightarrow> Inl Panic | Some s \<Rightarrow> Inr s))"

definition mark_used :: "gtime \<Rightarrow> string \<Rightarrow> string \<Rightarrow> node_store \<Rightarrow> node_store \<times> go_error option" where
  "mark_used now sid nid st =
     (case ns_secrets st sid of
        None \<Rightarrow> (st, Some ErrEnrollmentTokenInvalid)
      | Some a \<Rightarrow>
          (case ns_sheap st a of
             None \<Rightarrow> (st, Some Panic)
           | Some s \<Rightarrow>
               if es_used s \<noteq> None then (st, Some ErrEnrollmentTokenUsed)
               else (st\<lparr>ns_sheap := (ns_sheap st)(a \<mapsto> s\<lparr>es_used := Some now, es_node := Some nid\<rparr>)\<rparr>, None)))"

definition active_secrets :: "gtime \<Rightarrow> string list \<Rightarrow> node_store \<Rightarrow> secret list" where
  "active_secrets now ks st =
     filter (\<lambda>s. es_used s = None \<and> now < es_expires s)
       (vals (\<lambda>k. case ns_secrets st k of None \<Rightarrow> None | Some a \<Rightarrow> ns_sheap st a) ks)"

section \<open>The aliasing invariant\<close>

text \<open>
  Addresses are allocated, an object is found under its own keys, and the object behind a
  host name or a fingerprint is the very object behind its identifier.
\<close>

definition nodes_wf :: "node_store \<Rightarrow> bool" where
  "nodes_wf st \<longleftrightarrow>
     (\<forall>a. ns_heap st a \<noteq> None \<longrightarrow> a < ns_next st) \<and>
     (\<forall>k a. ns_nodes st k = Some a \<longrightarrow> (\<exists>n. ns_heap st a = Some n \<and> nd_id n = k)) \<and>
     (\<forall>k a. ns_fqdn st k = Some a \<longrightarrow>
        (\<exists>n. ns_heap st a = Some n \<and> nd_fqdn n = k \<and> ns_nodes st (nd_id n) = Some a)) \<and>
     (\<forall>k a. ns_fp st k = Some a \<longrightarrow>
        (\<exists>n. ns_heap st a = Some n \<and> nd_fp n = k \<and> ns_nodes st (nd_id n) = Some a))"

definition secrets_wf :: "node_store \<Rightarrow> bool" where
  "secrets_wf st \<longleftrightarrow>
     (\<forall>a. ns_sheap st a \<noteq> None \<longrightarrow> a < ns_snext st) \<and>
     (\<forall>k a. ns_secrets st k = Some a \<longrightarrow> (\<exists>s. ns_sheap st a = Some s \<and> es_id s = k)) \<and>
     (\<forall>k a. ns_hash st k = Some a \<longrightarrow>
        (\<exists>s. ns_sheap st a = Some s \<and> es_hash s = k \<and> ns_secrets st (es_id s) = Some a))"

text \<open>An update that keeps the keys of an object.\<close>

definition keeps_keys :: "(node \<Rightarrow> node) \<Rightarrow> bool" where
  "keeps_keys f \<longleftrightarrow> (\<forall>n. nd_id (f n) = nd_id n \<and> nd_fqdn (f n) = nd_fqdn n \<and> nd_fp (f n) = nd_fp n)"

lemma wf_nodesD:
  "nodes_wf st \<Longrightarrow> ns_nodes st k = Some a \<Longrightarrow> \<exists>n. ns_heap st a = Some n \<and> nd_id n = k"
  unfolding nodes_wf_def by blast

lemma wf_fqdnD:
  "nodes_wf st \<Longrightarrow> ns_fqdn st k = Some a \<Longrightarrow>
   \<exists>n. ns_heap st a = Some n \<and> nd_fqdn n = k \<and> ns_nodes st (nd_id n) = Some a"
  unfolding nodes_wf_def by blast

lemma wf_fpD:
  "nodes_wf st \<Longrightarrow> ns_fp st k = Some a \<Longrightarrow>
   \<exists>n. ns_heap st a = Some n \<and> nd_fp n = k \<and> ns_nodes st (nd_id n) = Some a"
  unfolding nodes_wf_def by blast

lemma wf_next: "nodes_wf st \<Longrightarrow> ns_heap st (ns_next st) = None"
  unfolding nodes_wf_def by blast

lemma nodes_wfI:
  assumes "\<And>a n. ns_heap st a = Some n \<Longrightarrow> a < ns_next st"
    and "\<And>k a. ns_nodes st k = Some a \<Longrightarrow> \<exists>n. ns_heap st a = Some n \<and> nd_id n = k"
    and "\<And>k a. ns_fqdn st k = Some a \<Longrightarrow>
           \<exists>n. ns_heap st a = Some n \<and> nd_fqdn n = k \<and> ns_nodes st (nd_id n) = Some a"
    and "\<And>k a. ns_fp st k = Some a \<Longrightarrow>
           \<exists>n. ns_heap st a = Some n \<and> nd_fp n = k \<and> ns_nodes st (nd_id n) = Some a"
  shows "nodes_wf st"
  using assms unfolding nodes_wf_def by blast

lemma node_get_cases:
  assumes "nodes_wf st"
  obtains "ns_nodes st nid = None" "node_get nid st = Inl ErrNodeNotFound"
  | a n where "ns_nodes st nid = Some a" "ns_heap st a = Some n" "node_get nid st = Inr n" "nd_id n = nid"
proof (cases "ns_nodes st nid")
  case None
  then show ?thesis by (intro that(1)) (simp_all add: node_get_def deref_def)
next
  case (Some a)
  with wf_nodesD [OF assms Some] that(2) show ?thesis by (auto simp: node_get_def deref_def)
qed

lemma node_get_wf: "nodes_wf st \<Longrightarrow> node_get nid st = Inr n \<Longrightarrow> nd_id n = nid"
  by (erule node_get_cases [of st nid]) simp_all

lemma node_list_get:
  "node_list ks st = List.map_filter (\<lambda>k. case node_get k st of Inr n \<Rightarrow> Some n | _ \<Rightarrow> None) ks"
  by (auto simp: node_list_def vals_def node_get_def deref_def fun_eq_iff
      intro!: arg_cong [where f = "\<lambda>f. List.map_filter f ks"] split: option.splits)

lemma modify_node_wf:
  assumes "nodes_wf st" and "keeps_keys f"
  shows "nodes_wf (fst (modify_node nid f st))"
proof (cases rule: node_get_cases [OF assms(1), of nid])
  case 1
  with assms show ?thesis by (simp add: modify_node_def)
next
  case (2 a n)
  then have st: "fst (modify_node nid f st) = st\<lparr>ns_heap := (ns_heap st)(a \<mapsto> f n)\<rparr>"
    by (simp add: modify_node_def)
  show ?thesis
    unfolding st
  proof (rule nodes_wfI)
    fix b m
    assume "ns_heap (st\<lparr>ns_heap := (ns_heap st)(a \<mapsto> f n)\<rparr>) b = Some m"
    then show "b < ns_next (st\<lparr>ns_heap := (ns_heap st)(a \<mapsto> f n)\<rparr>)"
      using assms(1) 2(2) unfolding nodes_wf_def by (auto split: if_splits)
  qed (use assms(2) 2(2) wf_nodesD [OF assms(1)] wf_fqdnD [OF assms(1)] wf_fpD [OF assms(1)] in
      \<open>fastforce simp: keeps_keys_def\<close>)+
qed

lemma modify_node_get:
  assumes "nodes_wf st"
  shows "node_get k (fst (modify_node nid f st)) =
           (if k = nid then map_sum id f (node_get nid st) else node_get k st)"
proof (cases rule: node_get_cases [OF assms(1), of nid])
  case 1
  then show ?thesis by (simp add: modify_node_def)
next
  case (2 a n)
  have "ns_nodes st k \<noteq> Some a" if "k \<noteq> nid"
    using 2 that wf_nodesD [OF assms, of k a] by auto
  with 2 show ?thesis by (auto simp: modify_node_def node_get_def deref_def split: option.splits)
qed

lemma modify_node_indexes:
  "ns_fp (fst (modify_node nid f st)) = ns_fp st \<and> ns_nodes (fst (modify_node nid f st)) = ns_nodes st \<and>
   ns_fqdn (fst (modify_node nid f st)) = ns_fqdn st"
  by (simp add: modify_node_def split: option.splits)

lemma modify_node_secrets:
  "ns_sheap (fst (modify_node nid f st)) = ns_sheap st \<and> ns_hash (fst (modify_node nid f st)) = ns_hash st \<and>
   ns_secrets (fst (modify_node nid f st)) = ns_secrets st \<and> ns_snext (fst (modify_node nid f st)) = ns_snext st"
  by (simp add: modify_node_def split: option.splits)

text \<open>The indexes by host name and fingerprint show the object of the identifier.\<close>

lemma by_fp_is_get:
  assumes "nodes_wf st" and "node_by_fp f st = Inr n"
  shows "nd_fp n = f \<and> node_get (nd_id n) st = Inr n"
proof -
  from assms(2) obtain a where a: "ns_fp st f = Some a" "ns_heap st a = Some n"
    by (auto simp: node_by_fp_def deref_def split: option.splits)
  with wf_fpD [OF assms(1) a(1)] show ?thesis by (simp add: node_get_def deref_def)
qed

lemma by_fqdn_is_get:
  assumes "nodes_wf st" and "node_by_fqdn f st = Inr n"
  shows "nd_fqdn n = f \<and> node_get (nd_id n) st = Inr n"
proof -
  from assms(2) obtain a where a: "ns_fqdn st f = Some a" "ns_heap st a = Some n"
    by (auto simp: node_by_fqdn_def deref_def split: option.splits)
  with wf_fqdnD [OF assms(1) a(1)] show ?thesis by (simp add: node_get_def deref_def)
qed

lemma node_create_wf:
  assumes "nodes_wf st" and "ns_nodes st (nd_id n) = None"
  shows "nodes_wf (fst (node_create n st))"
proof (cases "ns_fqdn st (nd_fqdn n)")
  case (Some a)
  with assms show ?thesis by (simp add: node_create_def)
next
  case None
  let ?st = "fst (node_create n st)"
  have st: "ns_heap ?st = (ns_heap st)(ns_next st \<mapsto> n)" "ns_next ?st = ns_next st + 1"
    "ns_nodes ?st = (ns_nodes st)(nd_id n \<mapsto> ns_next st)"
    "ns_fqdn ?st = (ns_fqdn st)(nd_fqdn n \<mapsto> ns_next st)"
    "ns_fp ?st = (if nd_fp n \<noteq> '''' then (ns_fp st)(nd_fp n \<mapsto> ns_next st) else ns_fp st)"
    using None by (simp_all add: node_create_def Let_def)
  note fresh = wf_next [OF assms(1)]
  show ?thesis
  proof (rule nodes_wfI)
    fix b m
    assume "ns_heap ?st b = Some m"
    then show "b < ns_next ?st"
      using assms(1) unfolding st nodes_wf_def by (auto split: if_splits intro: less_SucI)
  next
    fix k b
    assume "ns_nodes ?st k = Some b"
    then show "\<exists>m. ns_heap ?st b = Some m \<and> nd_id m = k"
      using wf_nodesD [OF assms(1), of k b] fresh unfolding st by (auto split: if_splits)
  next
    fix k b
    assume "ns_fqdn ?st k = Some b"
    then show "\<exists>m. ns_heap ?st b = Some m \<and> nd_fqdn m = k \<and> ns_nodes ?st (nd_id m) = Some b"
      using wf_fqdnD [OF assms(1), of k b] fresh assms(2) unfolding st
      by (cases "b = ns_next st") (fastforce split: if_splits)+
  next
    fix k b
    assume "ns_fp ?st k = Some b"
    then show "\<exists>m. ns_heap ?st b = Some m \<and> nd_fp m = k \<and> ns_nodes ?st (nd_id m) = Some b"
      using wf_fpD [OF assms(1), of k b] fresh assms(2) unfolding st
      by (cases "b = ns_next st") (fastforce split: if_splits)+
  qed
qed

lemma node_create_get:
  assumes "nodes_wf st" and "ns_fqdn st (nd_fqdn n) = None"
  shows "node_get k (fst (node_create n st)) = (if k = nd_id n then Inr n else node_get k st)"
proof -
  have "ns_nodes st k \<noteq> Some (ns_next st)" for k
    using wf_nodesD [OF assms(1), of k "ns_next st"] wf_next [OF assms(1)] by auto
  then show ?thesis
    using assms(2) by (auto simp: node_create_def Let_def node_get_def deref_def split: option.splits)
qed

lemma empty_nodes_wf: "nodes_wf empty_nodes \<and> secrets_wf empty_nodes"
  by (simp add: nodes_wf_def secrets_wf_def empty_nodes_def)

end
