(* ===== verification/Node_Service.thy ===== *)
theory Node_Service
  imports Node_Store Domain_Events
begin

text \<open>
  The node gateway: enrollment, certificate checks, streams, heartbeats, maintenance, drain
  and revocation of \<open>internal/app/node/service.go\<close>, and the command dispatcher of
  \<open>internal/app/node/connection_manager.go\<close>. The certificate authority is a parameter \<open>pki\<close>
  (signing and verification of X.509 certificates), SHA-256 in hexadecimal a parameter \<open>sha\<close>.
\<close>

section \<open>Data\<close>

record pki =
  sign_csr :: "string \<Rightarrow> string \<Rightarrow> string \<Rightarrow> duration \<Rightarrow> (string \<times> string) result"
  verify_cert :: "string \<Rightarrow> (string \<times> string) result"
  ca_cert :: string

record command =
  cmd_corr :: string
  cmd_type :: string
  cmd_payload :: gobj
  cmd_created :: gtime

record command_result =
  cr_corr :: string
  cr_success :: bool
  cr_error :: string
  cr_payload :: gobj
  cr_completed :: gtime

text \<open>A stream sender is named by a number; a pending command is its result channel, of capacity one.\<close>

record active_connection =
  ac_node :: string
  ac_at :: gtime
  ac_sender :: nat

record node_hub =
  nh_store :: node_store
  nh_conns :: "string \<rightharpoonup> active_connection"
  nh_pending :: "string \<rightharpoonup> command_result option"
  nh_trails :: trails

definition new_hub :: node_hub where
  "new_hub = \<lparr>nh_store = empty_nodes, nh_conns = Map.empty, nh_pending = Map.empty,
     nh_trails = empty_trails\<rparr>"

section \<open>Connections and commands\<close>

definition register_connection :: "gtime \<Rightarrow> string \<Rightarrow> nat \<Rightarrow> node_hub \<Rightarrow> node_hub" where
  "register_connection now nid strm h =
     h\<lparr>nh_conns := (nh_conns h)(nid \<mapsto> \<lparr>ac_node = nid, ac_at = now, ac_sender = strm\<rparr>)\<rparr>"

definition unregister_connection :: "string \<Rightarrow> node_hub \<Rightarrow> node_hub" where
  "unregister_connection nid h = h\<lparr>nh_conns := (nh_conns h)(nid := None)\<rparr>"

definition get_connection :: "string \<Rightarrow> node_hub \<Rightarrow> nat option" where
  "get_connection nid h = map_option ac_sender (nh_conns h nid)"

definition list_connected :: "string list \<Rightarrow> node_hub \<Rightarrow> string list" where
  "list_connected ks h = filter (\<lambda>k. nh_conns h k \<noteq> None) ks"

definition fill_command :: "gtime \<Rightarrow> string \<Rightarrow> command \<Rightarrow> command" where
  "fill_command now uuid c =
     (let c = (if cmd_corr c = '''' then c\<lparr>cmd_corr := uuid\<rparr> else c)
      in if cmd_created c = zero_time then c\<lparr>cmd_created := now\<rparr> else c)"

text \<open>
  \<open>DispatchCommand\<close> up to the point where it waits: the channel is registered and the command
  sent over the stream. \<open>sent\<close> is the result of \<open>Send\<close>; its error ends the call, and the
  deferred function removes the channel.
\<close>

definition dispatch_start ::
  "gtime \<Rightarrow> string \<Rightarrow> go_error option \<Rightarrow> string \<Rightarrow> command \<Rightarrow> node_hub \<Rightarrow> node_hub \<times> (string \<times> nat) result" where
  "dispatch_start now uuid sent nid c h =
     (let c = fill_command now uuid c
      in case nh_conns h nid of
           None \<Rightarrow> (h, Inl ErrNodeOffline)
         | Some conn \<Rightarrow>
             (let h = h\<lparr>nh_pending := (nh_pending h)(cmd_corr c \<mapsto> None)\<rparr>
              in case sent of
                   Some err \<Rightarrow> (h\<lparr>nh_pending := (nh_pending h)(cmd_corr c := None)\<rparr>, Inl err)
                 | None \<Rightarrow> (h, Inr (cmd_corr c, ac_sender conn))))"

definition handle_command_result :: "command_result \<Rightarrow> node_hub \<Rightarrow> node_hub" where
  "handle_command_result r h =
     (case nh_pending h (cr_corr r) of
        None \<Rightarrow> h
      | Some (Some _) \<Rightarrow> h
      | Some None \<Rightarrow> h\<lparr>nh_pending := (nh_pending h)(cr_corr r \<mapsto> Some r)\<rparr>)"

text \<open>
  The end of the wait. The argument \<open>ctx\<close> is the context's error when the \<open>select\<close> takes the
  branch of the ended context, which it may do even when a result is there; otherwise the
  call takes a result from the channel or keeps waiting. The channel is removed on return.
\<close>

definition dispatch_finish ::
  "string \<Rightarrow> go_error option \<Rightarrow> node_hub \<Rightarrow> node_hub \<times> command_result result option" where
  "dispatch_finish corr ctx h =
     (let h' = h\<lparr>nh_pending := (nh_pending h)(corr := None)\<rparr>
      in case ctx of
           Some err \<Rightarrow> (h', Some (Inl err))
         | None \<Rightarrow>
             (case nh_pending h corr of
                Some (Some r) \<Rightarrow>
                  (h', Some (if \<not> cr_success r then Inl ErrCommandRejected else Inr r))
              | _ \<Rightarrow> (h, None)))"

section \<open>Enrollment\<close>

definition node_log :: "gtime \<Rightarrow> string option \<Rightarrow> string \<Rightarrow> string \<Rightarrow> string \<Rightarrow> int \<Rightarrow> gobj \<Rightarrow> node_hub \<Rightarrow> node_hub" where
  "node_log now actor action rtype rid code details h =
     h\<lparr>nh_trails := log_audit now (empty_log\<lparr>al_actor := actor, al_action := action,
          al_rtype := rtype, al_rid := Some rid, al_status := code, al_details := details,
          al_created := now\<rparr>) (nh_trails h)\<rparr>"

definition create_enrollment_token ::
  "(string \<Rightarrow> string) \<Rightarrow> gtime \<Rightarrow> string \<Rightarrow> string \<Rightarrow> string \<Rightarrow> string \<Rightarrow> duration \<Rightarrow> string option \<Rightarrow> node_hub \<Rightarrow>
   node_hub \<times> string \<times> secret" where
  "create_enrollment_token sha now uuid hex loc pattern ttl by h =
     (let ttl = (if ttl = 0 then hour else ttl);
          token = ''aur_enroll_'' @ hex;
          s = \<lparr>es_id = uuid, es_location = loc, es_hash = sha token, es_pattern = pattern,
               es_expires = now + ttl, es_used = None, es_node = None, es_by = by, es_created = now\<rparr>;
          h = h\<lparr>nh_store := secret_create s (nh_store h)\<rparr>;
          h = node_log now by ''node.enrollment_token.created'' ''enrollment_secret'' uuid 201
                [(''locationId'', GStr loc), (''expiresAt'', GInt (es_expires s))] h
      in (h, token, s))"

definition new_node :: "gtime \<Rightarrow> string \<Rightarrow> string \<Rightarrow> string \<Rightarrow> string \<Rightarrow> string \<Rightarrow> gobj option \<Rightarrow> node" where
  "new_node now nid loc name fqdn fp caps =
     \<lparr>nd_id = nid, nd_location = loc, nd_name = name, nd_fqdn = fqdn, nd_status = NEnrolling,
      nd_fp = fp, nd_cpu = 0, nd_mem = 0, nd_storage = 0, nd_cpu_ratio = 0, nd_mem_ratio = 0,
      nd_caps = caps, nd_maintenance = False, nd_drain = False, nd_reason = '''', nd_heartbeat = None,
      nd_changed = None, nd_created = now, nd_updated = now\<rparr>"

definition enroll_node ::
  "(string \<Rightarrow> string) \<Rightarrow> pki \<Rightarrow> gtime \<Rightarrow> string \<Rightarrow> string \<Rightarrow> string \<Rightarrow> string \<Rightarrow> string \<Rightarrow> gobj option \<Rightarrow> node_hub \<Rightarrow>
   node_hub \<times> (string \<times> string \<times> string \<times> int) result" where
  "enroll_node sha ca now nid token name fqdn csr caps h =
     (case secret_by_hash (sha token) (nh_store h) of
        Inl _ \<Rightarrow> (h, Inl ErrEnrollmentTokenInvalid)
      | Inr s \<Rightarrow>
          if \<not> secret_valid now s then
            (if es_used s \<noteq> None then (h, Inl ErrEnrollmentTokenUsed)
             else (h, Inl ErrEnrollmentTokenExpired))
          else
            (case sign_csr ca csr nid fqdn (90 * day) of
               Inl _ \<Rightarrow> (h, Inl ErrInvalidCSR)
             | Inr (cert, fp) \<Rightarrow>
                 (case node_create (new_node now nid (es_location s) name fqdn fp caps) (nh_store h) of
                    (st, Some err) \<Rightarrow> (h\<lparr>nh_store := st\<rparr>, Inl err)
                  | (st, None) \<Rightarrow>
                      (case mark_used now (es_id s) nid st of
                         (st, Some err) \<Rightarrow> (h\<lparr>nh_store := st\<rparr>, Inl err)
                       | (st, None) \<Rightarrow>
                           (node_log now None ''node.enrolled'' ''node'' nid 201
                              [(''name'', GStr name), (''fqdn'', GStr fqdn), (''fingerprint'', GStr fp)]
                              (h\<lparr>nh_store := st\<rparr>), Inr (nid, cert, ca_cert ca, 10))))))"

section \<open>Operation\<close>

definition authenticate :: "pki \<Rightarrow> string \<Rightarrow> node_hub \<Rightarrow> node result" where
  "authenticate ca cert h =
     (case verify_cert ca cert of
        Inl err \<Rightarrow> Inl err
      | Inr (nid, fp) \<Rightarrow>
          (case node_get nid (nh_store h) of
             Inl _ \<Rightarrow> Inl ErrNodeNotFound
           | Inr n \<Rightarrow>
               if nd_status n = NRevoked then Inl ErrNodeRevoked
               else if nd_fp n \<noteq> fp then Inl ErrCertMismatch
               else Inr n))"

text \<open>The guard that most methods start with: the node exists and is not revoked.\<close>

definition live_node :: "string \<Rightarrow> node_hub \<Rightarrow> node result" where
  "live_node nid h =
     (case node_get nid (nh_store h) of
        Inl err \<Rightarrow> Inl err
      | Inr n \<Rightarrow> if nd_status n = NRevoked then Inl ErrNodeRevoked else Inr n)"

definition on_stream_connected :: "gtime \<Rightarrow> string \<Rightarrow> nat \<Rightarrow> node_hub \<Rightarrow> node_hub \<times> go_error option" where
  "on_stream_connected now nid strm h =
     (case live_node nid h of
        Inl err \<Rightarrow> (h, Some err)
      | Inr n \<Rightarrow>
          (let h = register_connection now nid strm h;
               s = (if nd_maintenance n then NMaintenance else NOnline);
               h = h\<lparr>nh_store := fst (update_status now nid s (nh_store h))\<rparr>
           in (node_log now None ''node.gateway.connected'' ''node'' nid 200 [] h, None)))"

definition on_stream_disconnected :: "gtime \<Rightarrow> string \<Rightarrow> node_hub \<Rightarrow> node_hub" where
  "on_stream_disconnected now nid h =
     (let h = unregister_connection nid h;
          h = (case node_get nid (nh_store h) of
                 Inl _ \<Rightarrow> h
               | Inr n \<Rightarrow> if nd_status n \<noteq> NRevoked
                          then h\<lparr>nh_store := fst (update_status now nid NOffline (nh_store h))\<rparr> else h)
      in node_log now None ''node.gateway.disconnected'' ''node'' nid 200 [] h)"

definition process_heartbeat :: "gtime \<Rightarrow> string \<Rightarrow> gobj option \<Rightarrow> node_hub \<Rightarrow> node_hub \<times> go_error option" where
  "process_heartbeat now nid caps h =
     (case live_node nid h of
        Inl err \<Rightarrow> (h, Some err)
      | Inr _ \<Rightarrow> (let (st, e) = update_heartbeat now nid now caps (nh_store h)
                  in (h\<lparr>nh_store := st\<rparr>, e)))"

definition send_command ::
  "gtime \<Rightarrow> string \<Rightarrow> go_error option \<Rightarrow> string \<Rightarrow> command \<Rightarrow> node_hub \<Rightarrow> node_hub \<times> (string \<times> nat) result" where
  "send_command now uuid sent nid c h =
     (case live_node nid h of
        Inl err \<Rightarrow> (h, Inl err) | Inr _ \<Rightarrow> dispatch_start now uuid sent nid c h)"

text \<open>
  A whole \<open>SendCommand\<close> as its callers see it: the command is sent, \<open>rs\<close> are the results the
  gateway receives from nodes while the call waits, and without one for this command the
  deadline of the caller's context ends the wait.
\<close>

definition exchange ::
  "gtime \<Rightarrow> string \<Rightarrow> go_error option \<Rightarrow> command_result list \<Rightarrow> string \<Rightarrow> command \<Rightarrow> node_hub \<Rightarrow>
   node_hub \<times> command_result result" where
  "exchange now uuid sent rs nid c h =
     (case send_command now uuid sent nid c h of
        (h, Inl err) \<Rightarrow> (h, Inl err)
      | (h, Inr (corr, strm)) \<Rightarrow>
          (case dispatch_finish corr None (fold handle_command_result rs h) of
             (h, Some r) \<Rightarrow> (h, r)
           | (h, None) \<Rightarrow> (fst (dispatch_finish corr (Some ErrDeadlineExceeded) h), Inl ErrDeadlineExceeded)))"

definition toggle_maintenance :: "gtime \<Rightarrow> string \<Rightarrow> bool \<Rightarrow> node_hub \<Rightarrow> node_hub \<times> go_error option" where
  "toggle_maintenance now nid m h =
     (case live_node nid h of
        Inl err \<Rightarrow> (h, Some err)
      | Inr _ \<Rightarrow>
          (case update_maintenance_mode now nid m (nh_store h) of
             (st, Some err) \<Rightarrow> (h\<lparr>nh_store := st\<rparr>, Some err)
           | (st, None) \<Rightarrow> (node_log now None ''node.maintenance.updated'' ''node'' nid 200
                             [(''maintenanceMode'', GBool m)] (h\<lparr>nh_store := st\<rparr>), None)))"

definition toggle_drain_mode :: "gtime \<Rightarrow> string \<Rightarrow> bool \<Rightarrow> node_hub \<Rightarrow> node_hub \<times> go_error option" where
  "toggle_drain_mode now nid d h =
     (case live_node nid h of
        Inl err \<Rightarrow> (h, Some err)
      | Inr _ \<Rightarrow>
          (case update_drain_mode now nid d (nh_store h) of
             (st, Some err) \<Rightarrow> (h\<lparr>nh_store := st\<rparr>, Some err)
           | (st, None) \<Rightarrow> (node_log now None ''node.drain.updated'' ''node'' nid 200
                             [(''drainMode'', GBool d)] (h\<lparr>nh_store := st\<rparr>), None)))"

definition revoke_node :: "gtime \<Rightarrow> string \<Rightarrow> node_hub \<Rightarrow> node_hub \<times> go_error option" where
  "revoke_node now nid h =
     (case revoke now nid (nh_store h) of
        (st, Some err) \<Rightarrow> (h\<lparr>nh_store := st\<rparr>, Some err)
      | (st, None) \<Rightarrow> (node_log now None ''node.revoked'' ''node'' nid 200 []
                        (unregister_connection nid (h\<lparr>nh_store := st\<rparr>)), None))"

end
