(* ===== verification/Node_Health.thy ===== *)
theory Node_Health
  imports Node_Service
begin

text \<open>
  The health supervisor of \<open>internal/app/nodehealth/supervisor.go\<close>: a periodic pass over a
  listing of the nodes that moves silent nodes to degraded and unhealthy and recovers them
  when heartbeats return. The text of an age in a reason is a parameter \<open>ago\<close> (\<open>Duration.Round\<close>
  and \<open>Duration.String\<close>). The section on interleavings collects every service operation on
  nodes as one step relation.
\<close>

section \<open>The supervisor\<close>

type_synonym missed = "string \<Rightarrow> int"

definition stale_limit :: duration where
  "stale_limit = 15 * second"

definition unhealthy_limit :: duration where
  "unhealthy_limit = 35 * second"

definition transition_event :: "node \<Rightarrow> node_status \<Rightarrow> string" where
  "transition_event n target =
     (if target = NOnline \<and> nd_status n \<noteq> NOnline then ''node.recovered''
      else ''node.'' @ status_text target)"

definition transition_node :: "gtime \<Rightarrow> node \<Rightarrow> node_status \<Rightarrow> string \<Rightarrow> node_hub \<Rightarrow> node_hub" where
  "transition_node now n target reason h =
     (case update_health_state now (nd_id n) target reason (nh_store h) of
        (st, Some _) \<Rightarrow> h\<lparr>nh_store := st\<rparr>
      | (st, None) \<Rightarrow>
          (let p = [(''oldStatus'', GStr (status_text (nd_status n))),
                    (''newStatus'', GStr (status_text target)), (''reason'', GStr reason)];
               ev = \<lparr>ev_tenant = ''system'', ev_type = transition_event n target, ev_rtype = ''node'',
                     ev_rid = nd_id n, ev_actor = '''', ev_payload = p\<rparr>;
               h = h\<lparr>nh_store := st, nh_trails := publish ev (nh_trails h)\<rparr>
           in node_log now (Some ''system:supervisor'') (transition_event n target) ''node'' (nd_id n) 0 p h))"

definition exempt :: "node \<Rightarrow> bool" where
  "exempt n \<longleftrightarrow> nd_status n = NRevoked \<or> nd_status n = NEnrolling \<or> nd_maintenance n"

definition heartbeat_age :: "gtime \<Rightarrow> node \<Rightarrow> duration" where
  "heartbeat_age now n = time_sub now (case nd_heartbeat n of None \<Rightarrow> zero_time | Some t \<Rightarrow> t)"

definition evaluate_node ::
  "(duration \<Rightarrow> string) \<Rightarrow> gtime \<Rightarrow> node \<Rightarrow> missed \<times> node_hub \<Rightarrow> missed \<times> node_hub" where
  "evaluate_node ago now n s =
     (case s of (m, h) \<Rightarrow>
        if exempt n then (m(nd_id n := 0), h)
        else
          let age = heartbeat_age now n
          in if nd_heartbeat n = None \<or> age > stale_limit then
               (let m = m(nd_id n := m (nd_id n) + 1)
                in if age > unhealthy_limit \<or> m (nd_id n) \<ge> 3 then
                     (if nd_status n \<noteq> NUnhealthy
                      then (m, transition_node now n NUnhealthy
                                 (''Heartbeat timed out (last seen '' @ ago age @ '' ago)'') h)
                      else (m, h))
                   else if m (nd_id n) \<ge> 2 then
                     (if nd_status n \<noteq> NDegraded \<and> nd_status n \<noteq> NUnhealthy
                      then (m, transition_node now n NDegraded
                                 (''Delayed heartbeat (last seen '' @ ago age @ '' ago)'') h)
                      else (m, h))
                   else (m, h))
             else
               (let m = m(nd_id n := 0)
                in if nd_status n = NUnhealthy \<or> nd_status n = NDegraded then
                     (if \<not> nd_drain n then (m, transition_node now n NOnline ''Healthy heartbeats restored'' h)
                      else (m, h))
                   else (m, h)))"

text \<open>The loop over a listing, and the pass that takes the listing and runs the loop.\<close>

definition evaluate_listing ::
  "(duration \<Rightarrow> string) \<Rightarrow> gtime \<Rightarrow> node list \<Rightarrow> missed \<times> node_hub \<Rightarrow> missed \<times> node_hub" where
  "evaluate_listing ago now ns s = fold (evaluate_node ago now) ns s"

definition evaluate_nodes ::
  "(duration \<Rightarrow> string) \<Rightarrow> gtime \<Rightarrow> string list \<Rightarrow> missed \<times> node_hub \<Rightarrow> missed \<times> node_hub" where
  "evaluate_nodes ago now ks s = evaluate_listing ago now (node_list ks (nh_store (snd s))) s"

section \<open>What one node's evaluation does\<close>

text \<open>The status the supervisor gives to a node, from its counter before the pass.\<close>

definition next_status :: "gtime \<Rightarrow> int \<Rightarrow> node \<Rightarrow> node_status" where
  "next_status now missed n =
     (if exempt n then nd_status n
      else if nd_heartbeat n = None \<or> heartbeat_age now n > stale_limit then
        (if heartbeat_age now n > unhealthy_limit \<or> missed + 1 \<ge> 3 then NUnhealthy
         else if missed + 1 \<ge> 2 \<and> nd_status n \<noteq> NUnhealthy then NDegraded else nd_status n)
      else if (nd_status n = NUnhealthy \<or> nd_status n = NDegraded) \<and> \<not> nd_drain n then NOnline
      else nd_status n)"

lemma keeps_keys_status [simp]:
  "keeps_keys (\<lambda>n. n\<lparr>nd_status := s, nd_updated := t\<rparr>)"
  "keeps_keys (\<lambda>n. n\<lparr>nd_status := s, nd_reason := r, nd_changed := c, nd_updated := t\<rparr>)"
  "keeps_keys (\<lambda>n. n\<lparr>nd_drain := d, nd_status := g n, nd_updated := t\<rparr>)"
  "keeps_keys (\<lambda>n. n\<lparr>nd_heartbeat := b, nd_caps := q n, nd_updated := t\<rparr>)"
  "keeps_keys (\<lambda>n. n\<lparr>nd_maintenance := mm, nd_status := s, nd_updated := t\<rparr>)"
  by (simp_all add: keeps_keys_def)

lemma node_log_simps [simp]:
  "nh_store (node_log now ac act rt rid code ds h) = nh_store h"
  "nh_conns (node_log now ac act rt rid code ds h) = nh_conns h"
  "nh_pending (node_log now ac act rt rid code ds h) = nh_pending h"
  by (simp_all add: node_log_def)

lemma transition_store:
  "nh_store (transition_node now n target reason h) =
     fst (update_health_state now (nd_id n) target reason (nh_store h))"
  by (auto simp: transition_node_def Let_def split: prod.splits option.splits)

lemma transition_conns [simp]:
  "nh_conns (transition_node now n target reason h) = nh_conns h"
  "nh_pending (transition_node now n target reason h) = nh_pending h"
  by (auto simp: transition_node_def Let_def split: prod.splits option.splits)

definition set_health :: "node_status \<Rightarrow> string \<Rightarrow> gtime \<Rightarrow> node \<Rightarrow> node" where
  "set_health s r t n = n\<lparr>nd_status := s, nd_reason := r, nd_changed := Some t, nd_updated := t\<rparr>"

lemma transition_get:
  assumes "nodes_wf (nh_store h)"
  shows "nodes_wf (nh_store (transition_node now n target reason h))"
    and "node_get k (nh_store (transition_node now n target reason h)) =
      (if k = nd_id n then map_sum id (set_health target reason now) (node_get k (nh_store h))
       else node_get k (nh_store h))"
  using assms
  by (simp_all add: transition_store update_health_state_def modify_node_wf modify_node_get
      set_health_def [abs_def])

definition next_missed :: "gtime \<Rightarrow> int \<Rightarrow> node \<Rightarrow> int" where
  "next_missed now missed n =
     (if \<not> exempt n \<and> (nd_heartbeat n = None \<or> heartbeat_age now n > stale_limit) then missed + 1 else 0)"

definition health_reason :: "(duration \<Rightarrow> string) \<Rightarrow> gtime \<Rightarrow> int \<Rightarrow> node \<Rightarrow> string" where
  "health_reason ago now missed n =
     (if nd_heartbeat n = None \<or> heartbeat_age now n > stale_limit then
        (if heartbeat_age now n > unhealthy_limit \<or> missed + 1 \<ge> 3
         then ''Heartbeat timed out (last seen '' @ ago (heartbeat_age now n) @ '' ago)''
         else ''Delayed heartbeat (last seen '' @ ago (heartbeat_age now n) @ '' ago)'')
      else ''Healthy heartbeats restored'')"

lemma evaluate_node_shape:
  "evaluate_node ago now n (m, h) =
     (m(nd_id n := next_missed now (m (nd_id n)) n),
      if next_status now (m (nd_id n)) n = nd_status n then h
      else transition_node now n (next_status now (m (nd_id n)) n)
             (health_reason ago now (m (nd_id n)) n) h)"
proof (cases "exempt n")
  case True
  then show ?thesis by (simp add: evaluate_node_def next_status_def next_missed_def)
next
  case False
  show ?thesis
  proof (cases "nd_heartbeat n = None \<or> heartbeat_age now n > stale_limit")
    case True
    note d = evaluate_node_def next_status_def next_missed_def health_reason_def Let_def False True
    show ?thesis
      by (cases "heartbeat_age now n > unhealthy_limit \<or> m (nd_id n) + 1 \<ge> 3";
          cases "m (nd_id n) + 1 \<ge> 2"; cases "nd_status n") (simp_all add: d)
  next
    case fresh: False
    then have hb: "nd_heartbeat n \<noteq> None" "\<not> heartbeat_age now n > stale_limit" by auto
    note d = evaluate_node_def next_status_def next_missed_def health_reason_def Let_def False hb
    show ?thesis by (cases "nd_status n"; cases "nd_drain n") (simp_all add: d)
  qed
qed

lemma evaluate_node_get:
  assumes "nodes_wf (nh_store h)" and "evaluate_node ago now n (m, h) = (m', h')"
  shows "nodes_wf (nh_store h')"
    and "k \<noteq> nd_id n \<Longrightarrow> node_get k (nh_store h') = node_get k (nh_store h) \<and> m' k = m k"
    and "node_get (nd_id n) (nh_store h) = Inr n \<Longrightarrow>
      \<exists>y. node_get (nd_id n) (nh_store h') = Inr y \<and> nd_status y = next_status now (m (nd_id n)) n
          \<and> nd_heartbeat y = nd_heartbeat n \<and> nd_maintenance y = nd_maintenance n \<and> nd_drain y = nd_drain n"
proof -
  from evaluate_node_shape [of ago now n m h] have
    "m' = m(nd_id n := next_missed now (m (nd_id n)) n)"
    "h' = (if next_status now (m (nd_id n)) n = nd_status n then h
        else transition_node now n (next_status now (m (nd_id n)) n)
               (health_reason ago now (m (nd_id n)) n) h)"
    using assms(2) by auto
  then show "nodes_wf (nh_store h')"
    and "k \<noteq> nd_id n \<Longrightarrow> node_get k (nh_store h') = node_get k (nh_store h) \<and> m' k = m k"
    and "node_get (nd_id n) (nh_store h) = Inr n \<Longrightarrow>
      \<exists>y. node_get (nd_id n) (nh_store h') = Inr y \<and> nd_status y = next_status now (m (nd_id n)) n
          \<and> nd_heartbeat y = nd_heartbeat n \<and> nd_maintenance y = nd_maintenance n \<and> nd_drain y = nd_drain n"
    using assms(1) by (simp_all add: transition_get set_health_def)
qed

lemma evaluate_listing_get:
  assumes "nodes_wf (nh_store h)" and "distinct (map nd_id ns)"
    and "\<And>n. n \<in> set ns \<Longrightarrow> node_get (nd_id n) (nh_store h) = Inr n"
    and "evaluate_listing ago now ns (m, h) = (m', h')"
  shows "nodes_wf (nh_store h')
    \<and> (\<forall>k. k \<notin> nd_id ` set ns \<longrightarrow> node_get k (nh_store h') = node_get k (nh_store h))
    \<and> (\<forall>n \<in> set ns. \<exists>y. node_get (nd_id n) (nh_store h') = Inr y
          \<and> nd_status y = next_status now (m (nd_id n)) n
          \<and> nd_heartbeat y = nd_heartbeat n \<and> nd_maintenance y = nd_maintenance n \<and> nd_drain y = nd_drain n)"
  using assms
proof (induction ns arbitrary: m h)
  case Nil
  then show ?case by (simp add: evaluate_listing_def)
next
  case (Cons n ns)
  obtain m1 h1 where e: "evaluate_node ago now n (m, h) = (m1, h1)" by force
  note g = evaluate_node_get [OF Cons.prems(1) e]
  have ns: "nd_id x \<noteq> nd_id n" if "x \<in> set ns" for x
    using Cons.prems(2) imageI [OF that, of nd_id] by auto
  have "nodes_wf (nh_store h')
    \<and> (\<forall>k. k \<notin> nd_id ` set ns \<longrightarrow> node_get k (nh_store h') = node_get k (nh_store h1))
    \<and> (\<forall>n \<in> set ns. \<exists>y. node_get (nd_id n) (nh_store h') = Inr y
          \<and> nd_status y = next_status now (m1 (nd_id n)) n
          \<and> nd_heartbeat y = nd_heartbeat n \<and> nd_maintenance y = nd_maintenance n \<and> nd_drain y = nd_drain n)"
  proof (rule Cons.IH)
    show "node_get (nd_id x) (nh_store h1) = Inr x" if "x \<in> set ns" for x
      using Cons.prems(3) [of x] g(2) [OF ns [OF that]] that by simp
    show "evaluate_listing ago now ns (m1, h1) = (m', h')"
      using Cons.prems(4) e by (simp add: evaluate_listing_def)
  qed (use g(1) Cons.prems(2) in simp_all)
  moreover have "m1 (nd_id x) = m (nd_id x)" if "x \<in> set ns" for x using g(2) [OF ns [OF that]] by simp
  moreover have "nd_id n \<notin> nd_id ` set ns" using Cons.prems(2) by simp
  ultimately show ?case using g(2,3) Cons.prems(3) [of n] by (auto simp: image_iff)
qed

text \<open>A pass lists every node and so evaluates each of them once.\<close>

lemma node_list_mem:
  assumes "nodes_wf st" and "iterates (ns_nodes st) ks"
  shows "distinct (map nd_id (node_list ks st))"
    and "n \<in> set (node_list ks st) \<longleftrightarrow> node_get (nd_id n) st = Inr n"
proof -
  let ?f = "\<lambda>k. case node_get k st of Inr n \<Rightarrow> Some n | _ \<Rightarrow> None"
  have "distinct (map nd_id (List.map_filter ?f xs)) \<and> nd_id ` set (List.map_filter ?f xs) \<subseteq> set xs"
    if "distinct xs" for xs
    using that node_get_wf [OF assms(1)]
    by (induction xs) (auto simp: map_filter_simps split: sum.splits)
  then show "distinct (map nd_id (node_list ks st))"
    using iterates_distinct [OF assms(2)] by (simp add: node_list_get)
  have "node_get k st = Inr n \<Longrightarrow> k \<in> set ks" for k
    using iterates_dom [OF assms(2)] by (auto simp: node_get_def deref_def split: option.splits)
  moreover have "n \<in> set (List.map_filter ?f xs) \<longleftrightarrow> (\<exists>k \<in> set xs. node_get k st = Inr n)" for xs
    by (induction xs) (auto simp: map_filter_simps split: sum.splits)
  ultimately show "n \<in> set (node_list ks st) \<longleftrightarrow> node_get (nd_id n) st = Inr n"
    using node_get_wf [OF assms(1)] by (auto simp: node_list_get)
qed

lemma evaluate_nodes_get:
  assumes "nodes_wf (nh_store h)" and "iterates (ns_nodes (nh_store h)) ks"
    and "evaluate_nodes ago now ks (m, h) = (m', h')" and "node_get nid (nh_store h) = Inr n"
  shows "nodes_wf (nh_store h') \<and>
     (\<exists>y. node_get nid (nh_store h') = Inr y \<and> nd_status y = next_status now (m nid) n
        \<and> nd_heartbeat y = nd_heartbeat n \<and> nd_maintenance y = nd_maintenance n \<and> nd_drain y = nd_drain n)"
proof -
  have nid: "nid = nd_id n" using node_get_wf [OF assms(1,4)] by simp
  have mem: "n \<in> set (node_list ks (nh_store h))"
    using node_list_mem(2) [OF assms(1,2)] assms(4) nid by simp
  have "evaluate_listing ago now (node_list ks (nh_store h)) (m, h) = (m', h')"
    using assms(3) by (simp add: evaluate_nodes_def)
  from evaluate_listing_get [OF assms(1) node_list_mem(1) [OF assms(1,2)] _ this]
    node_list_mem(2) [OF assms(1,2)] mem nid
  show ?thesis by blast
qed

section \<open>Enrollment secrets\<close>

lemma secrets_hashD:
  "secrets_wf st \<Longrightarrow> ns_hash st k = Some a \<Longrightarrow>
   \<exists>s. ns_sheap st a = Some s \<and> es_hash s = k \<and> ns_secrets st (es_id s) = Some a"
  unfolding secrets_wf_def by blast

lemma secrets_idD:
  "secrets_wf st \<Longrightarrow> ns_secrets st k = Some a \<Longrightarrow> \<exists>s. ns_sheap st a = Some s \<and> es_id s = k"
  unfolding secrets_wf_def by blast

lemma secrets_next: "secrets_wf st \<Longrightarrow> ns_sheap st (ns_snext st) = None"
  unfolding secrets_wf_def by blast

lemma secrets_wf_cong:
  "ns_sheap st' = ns_sheap st \<Longrightarrow> ns_hash st' = ns_hash st \<Longrightarrow> ns_secrets st' = ns_secrets st \<Longrightarrow>
   ns_snext st' = ns_snext st \<Longrightarrow> secrets_wf st' = secrets_wf st"
  by (simp add: secrets_wf_def)

lemma node_create_secrets:
  "ns_sheap (fst (node_create n st)) = ns_sheap st" "ns_hash (fst (node_create n st)) = ns_hash st"
  "ns_secrets (fst (node_create n st)) = ns_secrets st" "ns_snext (fst (node_create n st)) = ns_snext st"
  by (simp_all add: node_create_def Let_def)

text \<open>A secret is consumed when the hash of the token leads to a used secret.\<close>

definition consumed :: "string \<Rightarrow> node_store \<Rightarrow> bool" where
  "consumed hsh st \<longleftrightarrow> (\<exists>s. secret_by_hash hsh st = Inr s \<and> es_used s \<noteq> None)"

lemma consumed_cong:
  "ns_sheap st' = ns_sheap st \<Longrightarrow> ns_hash st' = ns_hash st \<Longrightarrow> consumed hsh st' = consumed hsh st"
  by (simp add: consumed_def secret_by_hash_def cong: option.case_cong)

lemma mark_used_cases:
  assumes "secrets_wf st"
  obtains e where "mark_used now sid nid st = (st, Some e)"
  | a s where "ns_secrets st sid = Some a" "ns_sheap st a = Some s" "es_used s = None"
    "mark_used now sid nid st =
       (st\<lparr>ns_sheap := (ns_sheap st)(a \<mapsto> s\<lparr>es_used := Some now, es_node := Some nid\<rparr>)\<rparr>, None)"
proof (cases "ns_secrets st sid")
  case None
  then show ?thesis by (intro that(1)) (simp add: mark_used_def)
next
  case (Some a)
  with secrets_idD [OF assms Some] obtain s where s: "ns_sheap st a = Some s" by blast
  show ?thesis
  proof (cases "es_used s = None")
    case True
    with Some s show ?thesis by (intro that(2)) (simp_all add: mark_used_def)
  next
    case False
    with Some s show ?thesis by (intro that(1)) (auto simp: mark_used_def)
  qed
qed

lemma mark_used_wf:
  assumes "secrets_wf st" shows "secrets_wf (fst (mark_used now sid nid st))"
proof (cases rule: mark_used_cases [OF assms, of now sid nid])
  case (1 e)
  with assms show ?thesis by simp
next
  case (2 a s)
  from assms 2(2) show ?thesis
    unfolding 2(4) secrets_wf_def by (auto; metis option.inject)
qed

lemma mark_used_consumed:
  assumes "secrets_wf st" and "consumed hsh st"
  shows "consumed hsh (fst (mark_used now sid nid st))"
  using assms(2)
  by (cases rule: mark_used_cases [OF assms(1), of now sid nid])
    (auto simp: consumed_def secret_by_hash_def split: option.splits)

lemma mark_used_nodes:
  "ns_heap (fst (mark_used now sid nid st)) = ns_heap st" "ns_next (fst (mark_used now sid nid st)) = ns_next st"
  "ns_nodes (fst (mark_used now sid nid st)) = ns_nodes st" "ns_fqdn (fst (mark_used now sid nid st)) = ns_fqdn st"
  "ns_fp (fst (mark_used now sid nid st)) = ns_fp st"
  by (simp_all add: mark_used_def split: option.splits)

lemma secret_create_wf:
  assumes "secrets_wf st" and "ns_secrets st (es_id s) = None"
  shows "secrets_wf (secret_create s st)"
proof -
  let ?st = "secret_create s st"
  have st: "ns_sheap ?st = (ns_sheap st)(ns_snext st \<mapsto> s)" "ns_snext ?st = ns_snext st + 1"
    "ns_secrets ?st = (ns_secrets st)(es_id s \<mapsto> ns_snext st)" "ns_hash ?st = (ns_hash st)(es_hash s \<mapsto> ns_snext st)"
    by (simp_all add: secret_create_def Let_def)
  have "b < ns_snext ?st" if "ns_sheap ?st b \<noteq> None" for b
    using that assms(1) unfolding st secrets_wf_def by (auto split: if_splits intro: less_SucI)
  moreover have "\<exists>x. ns_sheap ?st b = Some x \<and> es_id x = k" if "ns_secrets ?st k = Some b" for k b
    using that secrets_idD [OF assms(1), of k b] secrets_next [OF assms(1)] unfolding st
    by (auto split: if_splits)
  moreover have "\<exists>x. ns_sheap ?st b = Some x \<and> es_hash x = k \<and> ns_secrets ?st (es_id x) = Some b"
    if "ns_hash ?st k = Some b" for k b
    using that secrets_hashD [OF assms(1), of k b] secrets_next [OF assms(1)] assms(2) unfolding st
    by (cases "b = ns_snext st") (fastforce split: if_splits)+
  ultimately show ?thesis unfolding secrets_wf_def by blast
qed

lemma secret_create_nodes:
  "ns_heap (secret_create s st) = ns_heap st" "ns_next (secret_create s st) = ns_next st"
  "ns_nodes (secret_create s st) = ns_nodes st" "ns_fqdn (secret_create s st) = ns_fqdn st"
  "ns_fp (secret_create s st) = ns_fp st"
  by (simp_all add: secret_create_def Let_def)

lemma secret_create_consumed:
  assumes "secrets_wf st" and "consumed hsh st" and "es_hash s \<noteq> hsh"
  shows "consumed hsh (secret_create s st)"
proof -
  from assms(2) obtain a x where a: "ns_hash st hsh = Some a" "ns_sheap st a = Some x" "es_used x \<noteq> None"
    by (auto simp: consumed_def secret_by_hash_def split: option.splits)
  then have "a \<noteq> ns_snext st" using secrets_next [OF assms(1)] by auto
  with a assms(3) show ?thesis by (simp add: consumed_def secret_by_hash_def secret_create_def Let_def)
qed

lemma nodes_cong:
  "ns_heap st' = ns_heap st \<Longrightarrow> ns_next st' = ns_next st \<Longrightarrow> ns_nodes st' = ns_nodes st \<Longrightarrow>
   ns_fqdn st' = ns_fqdn st \<Longrightarrow> ns_fp st' = ns_fp st \<Longrightarrow>
   nodes_wf st' = nodes_wf st \<and> node_get k st' = node_get k st"
  by (simp add: nodes_wf_def node_get_def deref_def cong: option.case_cong)

end
