(* ===== verification/Node_Gateway.thy ===== *)
theory Node_Gateway
  imports Node_Health
begin

text \<open>
  The operations of the node gateway and the health supervisor as one step relation, and the
  properties of enrollment, revocation, command dispatch and health supervision.
\<close>

section \<open>Interleavings of whole requests\<close>

text \<open>
  One request, stream event or supervisor pass, run without another one in between. New
  tokens have a fresh identifier and hash, new nodes a fresh identifier.
\<close>

inductive hub_step :: "(string \<Rightarrow> string) \<Rightarrow> pki \<Rightarrow> node_hub \<Rightarrow> node_hub \<Rightarrow> bool" for sha ca where
  h_token: "ns_secrets (nh_store h) uuid = None \<Longrightarrow> ns_hash (nh_store h) (sha (''aur_enroll_'' @ hex)) = None \<Longrightarrow>
    hub_step sha ca h (fst (create_enrollment_token sha now uuid hex loc pat ttl who h))"
| h_enroll: "ns_nodes (nh_store h) nid = None \<Longrightarrow>
    hub_step sha ca h (fst (enroll_node sha ca now nid token name fqdn csr caps h))"
| h_connect: "hub_step sha ca h (fst (on_stream_connected now nid strm h))"
| h_disconnect: "hub_step sha ca h (on_stream_disconnected now nid h)"
| h_heartbeat: "hub_step sha ca h (fst (process_heartbeat now nid caps h))"
| h_send: "hub_step sha ca h (fst (send_command now uuid sent nid c h))"
| h_result: "hub_step sha ca h (handle_command_result r h)"
| h_finish: "hub_step sha ca h (fst (dispatch_finish corr ctx h))"
| h_maintenance: "hub_step sha ca h (fst (toggle_maintenance now nid b h))"
| h_drain: "hub_step sha ca h (fst (toggle_drain_mode now nid b h))"
| h_revoke: "hub_step sha ca h (fst (revoke_node now nid h))"
| h_pass: "iterates (ns_nodes (nh_store h)) ks \<Longrightarrow>
    hub_step sha ca h (snd (evaluate_nodes ago now ks (m, h)))"

definition hub_ok :: "node_hub \<Rightarrow> bool" where
  "hub_ok h \<longleftrightarrow> nodes_wf (nh_store h) \<and> secrets_wf (nh_store h)"

definition revoked :: "string \<Rightarrow> node_hub \<Rightarrow> bool" where
  "revoked nid h \<longleftrightarrow> (\<exists>n. node_get nid (nh_store h) = Inr n \<and> nd_status n = NRevoked) \<and> nh_conns h nid = None"

text \<open>
  What a step may do to the rest of the state: \<open>steady nid hsh\<close> relates states in which a
  revoked node \<open>nid\<close> and a consumed token hash \<open>hsh\<close> stay what they are.
\<close>

definition steady :: "node_hub \<Rightarrow> node_hub \<Rightarrow> bool" where
  "steady h h' \<longleftrightarrow> hub_ok h' \<and> (\<forall>nid. revoked nid h \<longrightarrow> revoked nid h') \<and>
     (\<forall>hsh. consumed hsh (nh_store h) \<longrightarrow> consumed hsh (nh_store h'))"

lemma steady_refl: "hub_ok h \<Longrightarrow> steady h h"
  by (simp add: steady_def)

lemma steady_trans: "steady h h1 \<Longrightarrow> steady h1 h2 \<Longrightarrow> steady h h2"
  by (auto simp: steady_def)

lemma steady_same:
  "hub_ok h \<Longrightarrow> nh_store h' = nh_store h \<Longrightarrow> (\<And>k. nh_conns h k = None \<Longrightarrow> nh_conns h' k = None) \<Longrightarrow> steady h h'"
  by (auto simp: steady_def hub_ok_def revoked_def)

lemma steady_modify:
  assumes "hub_ok h" and "keeps_keys f" and "nh_store h' = fst (modify_node nid f (nh_store h))"
    and "\<not> revoked nid h \<or> (\<forall>n. nd_status n = NRevoked \<longrightarrow> nd_status (f n) = NRevoked) \<and> nh_conns h' nid = None"
    and "\<And>k. k \<noteq> nid \<Longrightarrow> nh_conns h k = None \<Longrightarrow> nh_conns h' k = None"
  shows "steady h h'"
proof -
  have wf: "nodes_wf (nh_store h)" "secrets_wf (nh_store h)" using assms(1) by (simp_all add: hub_ok_def)
  have s: "ns_sheap (nh_store h') = ns_sheap (nh_store h)" "ns_hash (nh_store h') = ns_hash (nh_store h)"
    "ns_secrets (nh_store h') = ns_secrets (nh_store h)" "ns_snext (nh_store h') = ns_snext (nh_store h)"
    using modify_node_secrets [of nid f "nh_store h"] by (simp_all add: assms(3))
  have "hub_ok h'"
    using modify_node_wf [OF wf(1) assms(2), of nid] secrets_wf_cong [OF s] wf
    by (simp add: hub_ok_def assms(3))
  moreover have "revoked k h'" if "revoked k h" for k
    using that assms(4,5) modify_node_get [OF wf(1), of k nid f]
    by (cases "k = nid") (auto simp: revoked_def assms(3))
  moreover have "consumed hsh (nh_store h')" if "consumed hsh (nh_store h)" for hsh
    using that consumed_cong [OF s(1,2)] by simp
  ultimately show ?thesis by (simp add: steady_def)
qed

lemma live_not_revoked: "live_node nid h = Inr n \<Longrightarrow> \<not> revoked nid h"
  by (auto simp: live_node_def revoked_def split: sum.splits if_splits)

lemma live_modify:
  assumes "hub_ok h" and "live_node nid h = Inr n" and "keeps_keys f"
    and "nh_store h' = fst (modify_node nid f (nh_store h))"
    and "\<And>k. k \<noteq> nid \<Longrightarrow> nh_conns h k = None \<Longrightarrow> nh_conns h' k = None"
  shows "steady h h'"
  using steady_modify [OF assms(1,3,4) _ assms(5)] live_not_revoked [OF assms(2)] by blast

lemma connect_steady:
  assumes "hub_ok h" shows "steady h (fst (on_stream_connected now nid strm h))"
proof (cases "live_node nid h")
  case (Inl e)
  with assms show ?thesis by (simp add: on_stream_connected_def steady_refl)
next
  case (Inr n)
  show ?thesis
    by (rule live_modify [OF assms Inr keeps_keys_status(1)])
      (simp_all add: on_stream_connected_def Inr Let_def register_connection_def update_status_def)
qed

lemma heartbeat_steady:
  assumes "hub_ok h" shows "steady h (fst (process_heartbeat now nid caps h))"
proof (cases "live_node nid h")
  case (Inl e)
  with assms show ?thesis by (simp add: process_heartbeat_def steady_refl)
next
  case (Inr n)
  show ?thesis
    by (rule live_modify [OF assms Inr keeps_keys_status(4)])
      (simp_all add: process_heartbeat_def Inr split_beta update_heartbeat_def)
qed

lemma maintenance_steady:
  assumes "hub_ok h" shows "steady h (fst (toggle_maintenance now nid b h))"
proof (cases "live_node nid h")
  case (Inl e)
  with assms show ?thesis by (simp add: toggle_maintenance_def steady_refl)
next
  case (Inr n)
  have "nh_store (fst (toggle_maintenance now nid b h)) = fst (update_maintenance_mode now nid b (nh_store h))"
    "nh_conns (fst (toggle_maintenance now nid b h)) = nh_conns h"
    by (auto simp: toggle_maintenance_def Inr split: prod.splits option.splits)
  from live_modify [OF assms Inr _ this(1) [unfolded update_maintenance_mode_def]] this(2) show ?thesis by simp
qed

lemma drain_steady:
  assumes "hub_ok h" shows "steady h (fst (toggle_drain_mode now nid b h))"
proof (cases "live_node nid h")
  case (Inl e)
  with assms show ?thesis by (simp add: toggle_drain_mode_def steady_refl)
next
  case (Inr n)
  have "nh_store (fst (toggle_drain_mode now nid b h)) = fst (update_drain_mode now nid b (nh_store h))"
    "nh_conns (fst (toggle_drain_mode now nid b h)) = nh_conns h"
    by (auto simp: toggle_drain_mode_def Inr split: prod.splits option.splits)
  from live_modify [OF assms Inr _ this(1) [unfolded update_drain_mode_def]] this(2) show ?thesis by simp
qed

lemma disconnect_steady:
  assumes "hub_ok h" shows "steady h (on_stream_disconnected now nid h)"
proof (cases "live_node nid h")
  case (Inr n)
  then have "node_get nid (nh_store h) = Inr n" "nd_status n \<noteq> NRevoked"
    by (auto simp: live_node_def split: sum.splits if_splits)
  then show ?thesis
    by (intro live_modify [OF assms Inr keeps_keys_status(1)])
      (simp_all add: on_stream_disconnected_def Let_def unregister_connection_def update_status_def)
next
  case (Inl e)
  then have "nh_store (on_stream_disconnected now nid h) = nh_store h"
    by (auto simp: on_stream_disconnected_def Let_def unregister_connection_def live_node_def
        split: sum.splits if_splits)
  then show ?thesis
    by (rule steady_same [OF assms])
      (auto simp: on_stream_disconnected_def Let_def unregister_connection_def split: sum.splits if_splits)
qed

lemma revoke_steady:
  assumes "hub_ok h" shows "steady h (fst (revoke_node now nid h))"
proof -
  let ?f = "\<lambda>n. n\<lparr>nd_status := NRevoked, nd_updated := now\<rparr>"
  have "nh_store (fst (revoke_node now nid h)) = fst (modify_node nid ?f (nh_store h))"
    by (auto simp: revoke_node_def revoke_def unregister_connection_def split: prod.splits option.splits)
  moreover have "nh_conns (fst (revoke_node now nid h)) k = None" if "nh_conns h k = None" for k
    using that by (auto simp: revoke_node_def unregister_connection_def split: prod.splits option.splits)
  ultimately show ?thesis
    using assms by (intro steady_modify [of h ?f]) (auto simp: revoked_def)
qed

lemma commands_steady:
  assumes "hub_ok h"
  shows "steady h (fst (send_command now uuid sent nid c h))" and "steady h (handle_command_result r h)"
    and "steady h (fst (dispatch_finish corr ctx h))"
  by (rule steady_same [OF assms];
      auto simp: send_command_def dispatch_start_def handle_command_result_def dispatch_finish_def Let_def
        split: sum.splits option.splits)+

lemma token_steady:
  assumes "hub_ok h" and "ns_secrets (nh_store h) uuid = None"
    and "ns_hash (nh_store h) (sha (''aur_enroll_'' @ hex)) = None"
  shows "steady h (fst (create_enrollment_token sha now uuid hex loc pat ttl who h))"
proof -
  define s where "s = \<lparr>es_id = uuid, es_location = loc, es_hash = sha (''aur_enroll_'' @ hex),
    es_pattern = pat, es_expires = now + (if ttl = 0 then hour else ttl), es_used = None,
    es_node = None, es_by = who, es_created = now\<rparr>"
  let ?h = "fst (create_enrollment_token sha now uuid hex loc pat ttl who h)"
  have st: "nh_store ?h = secret_create s (nh_store h)" "nh_conns ?h = nh_conns h"
    by (simp_all add: create_enrollment_token_def Let_def s_def)
  have wf: "nodes_wf (nh_store h)" "secrets_wf (nh_store h)" using assms(1) by (simp_all add: hub_ok_def)
  note n = nodes_cong [OF secret_create_nodes [of s "nh_store h"]]
  have "es_hash s \<noteq> hsh" if "consumed hsh (nh_store h)" for hsh
    using that assms(3) by (auto simp: s_def consumed_def secret_by_hash_def)
  then show ?thesis
    using wf n secret_create_wf [of "nh_store h" s] secret_create_consumed [of "nh_store h" _ s] assms(2)
    by (simp add: steady_def hub_ok_def st revoked_def s_def)
qed

lemma enroll_steady:
  assumes "hub_ok h" and "ns_nodes (nh_store h) nid = None"
  shows "steady h (fst (enroll_node sha ca now nid token name fqdn csr caps h))"
proof -
  let ?h = "fst (enroll_node sha ca now nid token name fqdn csr caps h)"
  have wf: "nodes_wf (nh_store h)" "secrets_wf (nh_store h)" using assms(1) by (simp_all add: hub_ok_def)
  have c: "steady h (h\<lparr>nh_store := fst (node_create n (nh_store h))\<rparr>)" if "nd_id n = nid" for n
  proof -
    have "revoked k (h\<lparr>nh_store := fst (node_create n (nh_store h))\<rparr>)" if "revoked k h" for k
      using that assms(2) \<open>nd_id n = nid\<close> node_create_get [OF wf(1), of n k]
      by (cases "ns_fqdn (nh_store h) (nd_fqdn n)")
        (auto simp: revoked_def node_create_def node_get_def deref_def split: if_splits)
    then show ?thesis
      using node_create_wf [OF wf(1), of n] wf assms(2) that secrets_wf_cong [OF node_create_secrets]
        consumed_cong [OF node_create_secrets(1,2)]
      by (simp add: steady_def hub_ok_def)
  qed
  have m: "steady h1 (h1\<lparr>nh_store := fst (mark_used now sid nid (nh_store h1))\<rparr>)" if "hub_ok h1" for h1 sid
    using that nodes_cong [OF mark_used_nodes] mark_used_wf mark_used_consumed
    by (simp add: steady_def hub_ok_def revoked_def)
  have t: "steady h (h\<lparr>nh_store := fst (mark_used now sid nid (fst (node_create n (nh_store h))))\<rparr>)"
    if "nd_id n = nid" for n sid
    using steady_trans [OF c [OF that] m [of "h\<lparr>nh_store := fst (node_create n (nh_store h))\<rparr>" sid]] c [OF that]
    by (simp add: steady_def)
  have s: "steady h ?h" if "nh_store ?h = nh_store h1" "nh_conns ?h = nh_conns h" "steady h h1" "nh_conns h1 = nh_conns h" for h1
    using that by (simp add: steady_def hub_ok_def revoked_def)
  show ?thesis
  proof (cases "secret_by_hash (sha token) (nh_store h)")
    case (Inl e)
    then show ?thesis using assms(1) by (simp add: enroll_node_def steady_refl)
  next
    case (Inr x)
    show ?thesis
    proof (cases "secret_valid now x \<and> is_ok (sign_csr ca csr nid fqdn (90 * day))")
      case False
      with Inr show ?thesis using assms(1)
        by (auto simp: enroll_node_def steady_refl is_ok_def split: sum.splits)
    next
      case True
      then obtain cert fp where sg: "sign_csr ca csr nid fqdn (90 * day) = Inr (cert, fp)"
        by (cases "sign_csr ca csr nid fqdn (90 * day)") auto
      let ?n = "new_node now nid (es_location x) name fqdn fp caps"
      have id: "nd_id ?n = nid" by (simp add: new_node_def)
      obtain st e where cr: "node_create ?n (nh_store h) = (st, e)" by force
      obtain st' e' where mu: "mark_used now (es_id x) nid st = (st', e')" by force
      show ?thesis
      proof (cases e)
        case (Some err)
        with Inr True sg cr have "?h = h\<lparr>nh_store := fst (node_create ?n (nh_store h))\<rparr>"
          by (simp add: enroll_node_def)
        with c [OF id] show ?thesis by simp
      next
        case None
        with Inr True sg cr mu have "nh_store ?h = fst (mark_used now (es_id x) nid (fst (node_create ?n (nh_store h))))"
          "nh_conns ?h = nh_conns h"
          by (cases e'; simp add: enroll_node_def)+
        with t [OF id, of "es_id x"] show ?thesis
          by (intro s [of "h\<lparr>nh_store := fst (mark_used now (es_id x) nid (fst (node_create ?n (nh_store h))))\<rparr>"]) simp_all
      qed
    qed
  qed
qed

lemma evaluate_listing_rest:
  assumes "evaluate_listing ago now ns (m, h) = (m', h')"
  shows "nh_conns h' = nh_conns h \<and> ns_sheap (nh_store h') = ns_sheap (nh_store h)
    \<and> ns_hash (nh_store h') = ns_hash (nh_store h) \<and> ns_secrets (nh_store h') = ns_secrets (nh_store h)
    \<and> ns_snext (nh_store h') = ns_snext (nh_store h)"
  using assms
proof (induction ns arbitrary: m h)
  case Nil
  then show ?case by (simp add: evaluate_listing_def)
next
  case (Cons n ns)
  obtain m1 h1 where e: "evaluate_node ago now n (m, h) = (m1, h1)" by force
  then have "nh_conns h1 = nh_conns h \<and> ns_sheap (nh_store h1) = ns_sheap (nh_store h)
    \<and> ns_hash (nh_store h1) = ns_hash (nh_store h) \<and> ns_secrets (nh_store h1) = ns_secrets (nh_store h)
    \<and> ns_snext (nh_store h1) = ns_snext (nh_store h)"
    unfolding evaluate_node_shape
    by (auto simp: transition_store update_health_state_def modify_node_secrets)
  moreover have "evaluate_listing ago now ns (m1, h1) = (m', h')"
    using Cons.prems e by (simp add: evaluate_listing_def)
  ultimately show ?case using Cons.IH by simp
qed

lemma pass_steady:
  assumes "hub_ok h" and "iterates (ns_nodes (nh_store h)) ks"
  shows "steady h (snd (evaluate_nodes ago now ks (m, h)))"
proof -
  have wf: "nodes_wf (nh_store h)" "secrets_wf (nh_store h)" using assms(1) by (simp_all add: hub_ok_def)
  obtain m' h' where e: "evaluate_nodes ago now ks (m, h) = (m', h')" by force
  then have l: "evaluate_listing ago now (node_list ks (nh_store h)) (m, h) = (m', h')"
    by (simp add: evaluate_nodes_def)
  note r = evaluate_listing_rest [OF l]
  have g: "\<And>n. n \<in> set (node_list ks (nh_store h)) \<Longrightarrow> node_get (nd_id n) (nh_store h) = Inr n"
    using node_list_mem(2) [OF wf(1) assms(2)] by simp
  have "nodes_wf (nh_store h')"
    using evaluate_listing_get [OF wf(1) node_list_mem(1) [OF wf(1) assms(2)] g l] by blast
  then have "hub_ok h'" using r wf secrets_wf_cong [of "nh_store h'" "nh_store h"] by (simp add: hub_ok_def)
  moreover have "revoked nid h'" if rv: "revoked nid h" for nid
  proof -
    from rv obtain n where n: "node_get nid (nh_store h) = Inr n" "nd_status n = NRevoked" "nh_conns h nid = None"
      by (auto simp: revoked_def)
    have "next_status now (m nid) n = NRevoked" using n(2) by (simp add: next_status_def exempt_def)
    with evaluate_nodes_get [OF wf(1) assms(2) e n(1)] n(3) r show ?thesis by (auto simp: revoked_def)
  qed
  ultimately show ?thesis
    using r consumed_cong [of "nh_store h'" "nh_store h"] by (simp add: steady_def e)
qed

lemma hub_step_steady: "hub_step sha ca h h' \<Longrightarrow> hub_ok h \<Longrightarrow> steady h h'"
  by (induction rule: hub_step.induct)
    (simp_all add: token_steady enroll_steady connect_steady disconnect_steady heartbeat_steady
      commands_steady maintenance_steady drain_steady revoke_steady pass_steady)

interpretation gateway: invariant_machine "hub_step sha ca" hub_ok for sha ca
  by unfold_locales (use hub_step_steady in \<open>auto simp: steady_def\<close>)

interpretation revocation: invariant_machine "hub_step sha ca" "\<lambda>h. hub_ok h \<and> revoked nid h" for sha ca nid
  by unfold_locales (use hub_step_steady in \<open>auto simp: steady_def\<close>)

interpretation tokens: invariant_machine "hub_step sha ca" "\<lambda>h. hub_ok h \<and> consumed hsh (nh_store h)" for sha ca hsh
  by unfold_locales (use hub_step_steady in \<open>auto simp: steady_def\<close>)

lemma new_hub_ok: "hub_ok new_hub"
  using empty_nodes_wf by (simp add: hub_ok_def new_hub_def)

lemma revoke_node_revokes:
  assumes "hub_ok h" and "revoke_node t nid h = (h', None)"
  shows "hub_ok h' \<and> revoked nid h'"
proof -
  let ?f = "\<lambda>n. n\<lparr>nd_status := NRevoked, nd_updated := t\<rparr>"
  have wf: "nodes_wf (nh_store h)" using assms(1) by (simp add: hub_ok_def)
  have st: "nh_store h' = fst (modify_node nid ?f (nh_store h))" "nh_conns h' nid = None"
    and ok: "snd (modify_node nid ?f (nh_store h)) = None"
    using assms(2)
    by (auto simp: revoke_node_def revoke_def unregister_connection_def split: prod.splits option.splits)
  then obtain n where "node_get nid (nh_store h) = Inr n"
    by (cases rule: node_get_cases [OF wf, of nid]) (auto simp: modify_node_def)
  then have "revoked nid h'" using modify_node_get [OF wf, of nid nid ?f] st by (simp add: revoked_def)
  moreover have "hub_ok h'" using revoke_steady [OF assms(1), of t nid] assms(2) by (simp add: steady_def)
  ultimately show ?thesis by simp
qed

lemma enroll_ok:
  assumes "enroll_node sha ca now nid token name fqdn csr caps h = (h', Inr (i, cert, rootc, hb))"
    and "hub_ok h"
  shows "\<exists>s fp. secret_by_hash (sha token) (nh_store h) = Inr s \<and> es_used s = None \<and> now < es_expires s
     \<and> sign_csr ca csr nid fqdn (90 * day) = Inr (cert, fp) \<and> i = nid \<and> rootc = ca_cert ca
     \<and> node_get nid (nh_store h') = Inr (new_node now nid (es_location s) name fqdn fp caps)
     \<and> consumed (sha token) (nh_store h')"
proof -
  have wf: "nodes_wf (nh_store h)" "secrets_wf (nh_store h)" using assms(2) by (simp_all add: hub_ok_def)
  from assms(1) obtain s fp st st' where e:
    "secret_by_hash (sha token) (nh_store h) = Inr s" "secret_valid now s"
    "sign_csr ca csr nid fqdn (90 * day) = Inr (cert, fp)" "i = nid" "rootc = ca_cert ca"
    "node_create (new_node now nid (es_location s) name fqdn fp caps) (nh_store h) = (st, None)"
    "mark_used now (es_id s) nid st = (st', None)" "nh_store h' = st'"
    by (auto simp: enroll_node_def split: sum.splits prod.splits option.splits if_splits)
  let ?n = "new_node now nid (es_location s) name fqdn fp caps"
  have st: "st = fst (node_create ?n (nh_store h))" "st' = fst (mark_used now (es_id s) nid st)"
    using e(6,7) by simp_all
  have "ns_fqdn (nh_store h) (nd_fqdn ?n) = None" using e(6) by (auto simp: node_create_def split: if_splits)
  then have "node_get nid st = Inr ?n"
    using node_create_get [OF wf(1), of ?n nid] st by (simp add: new_node_def)
  then have g: "node_get nid st' = Inr ?n" using nodes_cong [OF mark_used_nodes] st(2) by simp
  obtain a where a: "ns_hash (nh_store h) (sha token) = Some a" "ns_sheap (nh_store h) a = Some s"
    using e(1) by (auto simp: secret_by_hash_def split: option.splits)
  have "ns_secrets (nh_store h) (es_id s) = Some a" using secrets_hashD [OF wf(2) a(1)] a(2) by auto
  then have "consumed (sha token) st'"
    using e(7) a by (auto simp: st(1) mark_used_def node_create_secrets consumed_def secret_by_hash_def split: if_splits)
  with e g show ?thesis by (auto simp: secret_valid_def split: if_splits)
qed

section \<open>Properties\<close>

text \<open>A concrete authority and hub for the instances below.\<close>

definition sample_ca :: pki where
  "sample_ca = \<lparr>sign_csr = (\<lambda>csr nid fqdn ttl. Inr (nid @ ''.crt'', ''fp-'' @ nid)),
     verify_cert = (\<lambda>cert. if cert = ''n1.crt'' then Inr (''n1'', ''fp-n1'') else Inl ErrCertMismatch),
     ca_cert = ''ca''\<rparr>"

definition hub0 :: node_hub where
  "hub0 = fst (create_enrollment_token (\<lambda>x. x) 0 ''s1'' ''00'' ''dc1'' '''' 0 None new_hub)"

definition hub1 :: node_hub where
  "hub1 = fst (enroll_node (\<lambda>x. x) sample_ca 5 ''n1'' ''aur_enroll_00'' ''hv1'' ''hv1.lan'' ''csr'' None hub0)"

lemma hub0_ok: "hub_ok hub0"
  using token_steady [OF new_hub_ok, of "''s1''" "\<lambda>x. x" "''00''"]
  by (simp add: hub0_def new_hub_def empty_nodes_def steady_def)

lemma hub0_nodes: "ns_nodes (nh_store hub0) nid = None"
  by (simp add: hub0_def create_enrollment_token_def Let_def secret_create_def new_hub_def empty_nodes_def)

lemma hub1_ok: "hub_ok hub1"
  using enroll_steady [OF hub0_ok hub0_nodes] by (simp add: hub1_def steady_def)

lemma hub1_enrolled:
  "enroll_node (\<lambda>x. x) sample_ca 5 ''n1'' ''aur_enroll_00'' ''hv1'' ''hv1.lan'' ''csr'' None hub0 =
     (hub1, Inr (''n1'', ''n1.crt'', ''ca'', 10))"
  by (simp add: hub1_def hub0_def create_enrollment_token_def enroll_node_def Let_def secret_create_def
      new_hub_def empty_nodes_def secret_by_hash_def secret_valid_def hour_def minute_def second_def
      sample_ca_def node_create_def new_node_def mark_used_def prod_eq_iff)

lemma hub1_node: "\<exists>n. node_get ''n1'' (nh_store hub1) = Inr n \<and> nd_status n = NEnrolling"
  using enroll_ok [OF hub1_enrolled hub0_ok] by (auto simp: new_node_def)

text \<open>
  C5. Revocation is final for requests that do not overlap: once a node has been revoked,
  after any sequence of enrollments, stream events, heartbeats, commands, maintenance and
  drain requests and supervisor passes it is still revoked and has no connection, its
  certificate does not authenticate, and connecting, heartbeats and commands are refused.
\<close>

theorem revocation_is_final:
  assumes "hub_ok h" and "revoke_node t nid h = (h1, None)" and "(hub_step sha ca)\<^sup>*\<^sup>* h1 h2"
  shows "revoked nid h2
       \<and> (\<forall>cert fp. verify_cert ca cert = Inr (nid, fp) \<longrightarrow> authenticate ca cert h2 = Inl ErrNodeRevoked)
       \<and> on_stream_connected now nid strm h2 = (h2, Some ErrNodeRevoked)
       \<and> process_heartbeat now nid caps h2 = (h2, Some ErrNodeRevoked)
       \<and> send_command now uuid sent nid c h2 = (h2, Inl ErrNodeRevoked)"
proof -
  have "revoked nid h2"
    using revocation.steps_keep [OF assms(3)] revoke_node_revokes [OF assms(1,2)] by blast
  then show ?thesis
    by (auto simp: revoked_def authenticate_def on_stream_connected_def process_heartbeat_def
        send_command_def live_node_def)
qed

theorem revocation_is_final_witness:
  "authenticate sample_ca ''n1.crt'' (fst (revoke_node 9 ''n1'' hub1)) = Inl ErrNodeRevoked"
proof -
  obtain n where n: "node_get ''n1'' (nh_store hub1) = Inr n" using hub1_node by blast
  have "snd (revoke_node 9 ''n1'' hub1) = None"
    using n by (auto simp: revoke_node_def revoke_def modify_node_def node_get_def deref_def split: option.splits)
  then have "revoke_node 9 ''n1'' hub1 = (fst (revoke_node 9 ''n1'' hub1), None)" by (simp add: prod_eq_iff)
  from revocation_is_final [where sha = "\<lambda>x. x" and ca = sample_ca, OF hub1_ok this rtranclp.rtrancl_refl]
  show ?thesis
    by (auto simp: sample_ca_def)
qed

text \<open>
  Enrollment gives working credentials: a successful enrollment presented an unused and
  unexpired token; the certificate it returns authenticates as the new node, which is
  registered under the location of the token and in the state enrolling.
\<close>

theorem enrolled_node_authenticates:
  assumes "enroll_node sha ca now nid token name fqdn csr caps h = (h', Inr (i, cert, rootc, hb))"
    and "hub_ok h"
    and "\<And>cert fp. sign_csr ca csr nid fqdn (90 * day) = Inr (cert, fp) \<Longrightarrow> verify_cert ca cert = Inr (nid, fp)"
  shows "\<exists>s n. secret_by_hash (sha token) (nh_store h) = Inr s \<and> es_used s = None \<and> now < es_expires s
     \<and> authenticate ca cert h' = Inr n \<and> nd_id n = nid \<and> nd_location n = es_location s
     \<and> nd_fqdn n = fqdn \<and> nd_status n = NEnrolling"
proof -
  obtain s fp where e: "secret_by_hash (sha token) (nh_store h) = Inr s" "es_used s = None" "now < es_expires s"
    "sign_csr ca csr nid fqdn (90 * day) = Inr (cert, fp)"
    "node_get nid (nh_store h') = Inr (new_node now nid (es_location s) name fqdn fp caps)"
    using enroll_ok [OF assms(1,2)] by blast
  have "authenticate ca cert h' = Inr (new_node now nid (es_location s) name fqdn fp caps)"
    using assms(3) [OF e(4)] e(5) by (simp add: authenticate_def) (simp add: new_node_def)
  with e(1-3) show ?thesis by (auto simp: new_node_def)
qed

theorem enrolled_node_authenticates_witness:
  "\<exists>n. authenticate sample_ca ''n1.crt'' hub1 = Inr n \<and> nd_location n = ''dc1''"
proof -
  have s: "secret_by_hash ''aur_enroll_00'' (nh_store hub0) = Inr s \<Longrightarrow> es_location s = ''dc1''" for s
    by (auto simp: hub0_def create_enrollment_token_def Let_def secret_create_def secret_by_hash_def)
  have "\<And>cert fp. sign_csr sample_ca ''csr'' ''n1'' ''hv1.lan'' (90 * day) = Inr (cert, fp) \<Longrightarrow>
      verify_cert sample_ca cert = Inr (''n1'', fp)" by (simp add: sample_ca_def)
  from enrolled_node_authenticates [OF hub1_enrolled hub0_ok this] s show ?thesis by auto
qed

text \<open>
  C27. A token enrolls one node: after a successful enrollment and any sequence of later
  requests, another enrollment with the same token fails as used and changes nothing.
\<close>

theorem token_is_single_use:
  assumes "enroll_node sha ca t nid token name fqdn csr caps h = (h1, Inr res)" and "hub_ok h"
    and "ns_nodes (nh_store h) nid = None" and "(hub_step sha ca)\<^sup>*\<^sup>* h1 h2"
  shows "enroll_node sha ca now nid' token name' fqdn' csr' caps' h2 = (h2, Inl ErrEnrollmentTokenUsed)"
proof -
  obtain i cert rootc hb where r: "res = (i, cert, rootc, hb)" by (cases res)
  have "consumed (sha token) (nh_store h1)" using enroll_ok [OF assms(1) [unfolded r] assms(2)] by blast
  moreover have "hub_ok h1" using enroll_steady [OF assms(2,3)] assms(1) by (metis fst_conv steady_def)
  ultimately have "consumed (sha token) (nh_store h2)" using tokens.steps_keep [OF assms(4)] by blast
  then show ?thesis
    by (auto simp: consumed_def enroll_node_def secret_valid_def)
qed

theorem token_is_single_use_witness:
  "enroll_node (\<lambda>x. x) sample_ca 6 ''n2'' ''aur_enroll_00'' ''hv2'' ''hv2.lan'' ''csr'' None hub1 =
     (hub1, Inl ErrEnrollmentTokenUsed)"
  by (rule token_is_single_use [OF hub1_enrolled hub0_ok hub0_nodes rtranclp.rtrancl_refl])

text \<open>
  Revocation can be undone by an overlapping supervisor pass: when a pass has listed a
  node that is to be recovered (fresh heartbeat, unhealthy or degraded, not draining) and the
  node is revoked before the pass writes, the write makes the node online again, and its
  certificate authenticates.
\<close>

theorem revocation_undone_by_pass:
  assumes "hub_ok h" and "node_get nid (nh_store h) = Inr n"
    and "nd_status n = NUnhealthy \<or> nd_status n = NDegraded" and "\<not> nd_maintenance n" and "\<not> nd_drain n"
    and "nd_heartbeat n = Some t" and "time_sub now t \<le> stale_limit"
    and "verify_cert ca cert = Inr (nid, nd_fp n)"
    and "evaluate_listing ago now [n] (m, fst (revoke_node t' nid h)) = (m', h')"
  shows "\<exists>n'. revoked nid (fst (revoke_node t' nid h)) \<and>
     authenticate ca cert h' = Inr n' \<and> nd_status n' = NOnline"
proof -
  have nid: "nd_id n = nid" and wf: "nodes_wf (nh_store h)"
    using node_get_wf [of "nh_store h" nid n] assms(1,2) by (simp_all add: hub_ok_def)
  have "snd (revoke_node t' nid h) = None"
    using assms(2) by (auto simp: revoke_node_def revoke_def modify_node_def node_get_def deref_def split: option.splits)
  then have rv: "revoke_node t' nid h = (fst (revoke_node t' nid h), None)" by (simp add: prod_eq_iff)
  define h1 where "h1 = fst (revoke_node t' nid h)"
  have h1: "hub_ok h1" "revoked nid h1" using revoke_node_revokes [OF assms(1) rv] by (simp_all add: h1_def)
  then obtain n1 where n1: "node_get nid (nh_store h1) = Inr n1" by (auto simp: revoked_def)
  have st: "nh_store h1 = fst (modify_node nid (\<lambda>n. n\<lparr>nd_status := NRevoked, nd_updated := t'\<rparr>) (nh_store h))"
    by (auto simp: h1_def revoke_node_def revoke_def unregister_connection_def split: prod.splits option.splits)
  have fp: "nd_fp n1 = nd_fp n"
    using modify_node_get [OF wf, of nid nid] n1 assms(2) by (auto simp: st)
  have "next_status now (m nid) n = NOnline" "nd_status n \<noteq> NOnline"
    using assms(3-7) by (auto simp: next_status_def exempt_def heartbeat_age_def)
  then obtain r where "h' = transition_node now n NOnline r h1"
    using assms(9) by (auto simp: evaluate_listing_def evaluate_node_shape nid h1_def [symmetric])
  then have "node_get nid (nh_store h') = Inr (set_health NOnline r now n1)"
    using transition_get(2) [of h1] h1(1) n1 nid by (simp add: hub_ok_def)
  then show ?thesis
    using h1(2) assms(8) fp by (simp add: authenticate_def set_health_def h1_def)
qed

definition sick_hub :: node_hub where
  "sick_hub = hub1\<lparr>nh_store := fst (update_heartbeat 100 ''n1'' 100 None
     (fst (update_status 90 ''n1'' NUnhealthy (nh_store hub1))))\<rparr>"

lemma sick_hub_node:
  "hub_ok sick_hub \<and> (\<exists>n. node_get ''n1'' (nh_store sick_hub) = Inr n \<and> nd_status n = NUnhealthy \<and>
     \<not> nd_maintenance n \<and> \<not> nd_drain n \<and> nd_heartbeat n = Some 100 \<and> nd_fp n = ''fp-n1'')"
proof -
  obtain n where n: "node_get ''n1'' (nh_store hub1) = Inr n" "nd_fp n = ''fp-n1''" "\<not> nd_maintenance n" "\<not> nd_drain n"
    using enroll_ok [OF hub1_enrolled hub0_ok] by (auto simp: new_node_def sample_ca_def)
  have wf: "nodes_wf (nh_store hub1)" "secrets_wf (nh_store hub1)" using hub1_ok by (simp_all add: hub_ok_def)
  let ?st = "fst (update_status 90 ''n1'' NUnhealthy (nh_store hub1))"
  have wf1: "nodes_wf ?st" using wf(1) by (simp add: update_status_def modify_node_wf)
  have s: "secrets_wf (nh_store sick_hub)"
    using wf(2) modify_node_secrets
    by (simp add: sick_hub_def update_heartbeat_def update_status_def secrets_wf_def)
  have "nodes_wf (nh_store sick_hub)"
    using wf1 by (simp add: sick_hub_def update_heartbeat_def modify_node_wf keeps_keys_def)
  with s n show ?thesis
    using modify_node_get [OF wf1, of "''n1''" "''n1''"] modify_node_get [OF wf(1), of "''n1''" "''n1''"]
    by (simp add: hub_ok_def sick_hub_def update_heartbeat_def update_status_def)
qed

theorem revocation_undone_by_pass_witness:
  "\<exists>n m' h' n'. evaluate_listing (\<lambda>_. []) 105 [n] ((\<lambda>_. 0), fst (revoke_node 104 ''n1'' sick_hub)) = (m', h')
     \<and> authenticate sample_ca ''n1.crt'' h' = Inr n' \<and> nd_status n' = NOnline"
proof -
  obtain n where n: "hub_ok sick_hub" "node_get ''n1'' (nh_store sick_hub) = Inr n" "nd_status n = NUnhealthy"
    "\<not> nd_maintenance n" "\<not> nd_drain n" "nd_heartbeat n = Some 100" "nd_fp n = ''fp-n1''"
    using sick_hub_node by blast
  obtain m' h' where e:
    "evaluate_listing (\<lambda>_. []) 105 [n] ((\<lambda>_. 0), fst (revoke_node 104 ''n1'' sick_hub)) = (m', h')" by force
  have "verify_cert sample_ca ''n1.crt'' = Inr (''n1'', nd_fp n)" "time_sub 105 100 \<le> stale_limit"
    using n(7) by (simp_all add: sample_ca_def time_sub_def stale_limit_def second_def max_int64_def min_int64_def)
  from revocation_undone_by_pass [OF n(1,2) disjI1 [OF n(3)] n(4-6) this(2,1) e] e show ?thesis by blast
qed

text \<open>
  C28. After a supervisor pass no silent node takes workloads: every node that is schedulable
  after the pass has sent a heartbeat within the last 35 seconds. Conversely a node in
  operation with a fresh heartbeat that was unhealthy or degraded and is not draining is
  online after the pass, and revoked, enrolling and maintenance nodes keep their status.
\<close>

theorem pass_fences_silent_nodes:
  assumes "hub_ok h" and "iterates (ns_nodes (nh_store h)) ks"
    and "evaluate_nodes ago now ks (m, h) = (m', h')" and "node_get nid (nh_store h) = Inr n"
    and "0 \<le> now"
  shows "\<exists>n'. node_get nid (nh_store h') = Inr n'
     \<and> (is_schedulable n' \<longrightarrow> (\<exists>t. nd_heartbeat n' = Some t \<and> now - t \<le> unhealthy_limit))
     \<and> (\<not> exempt n \<and> \<not> nd_drain n \<and> (nd_status n = NUnhealthy \<or> nd_status n = NDegraded) \<and>
          (\<exists>t. nd_heartbeat n = Some t \<and> now - t \<le> stale_limit) \<longrightarrow> nd_status n' = NOnline)
     \<and> (exempt n \<longrightarrow> nd_status n' = nd_status n)"
proof -
  have wf: "nodes_wf (nh_store h)" using assms(1) by (simp add: hub_ok_def)
  obtain n' where n': "node_get nid (nh_store h') = Inr n'" "nd_status n' = next_status now (m nid) n"
    "nd_heartbeat n' = nd_heartbeat n" "nd_maintenance n' = nd_maintenance n" "nd_drain n' = nd_drain n"
    using evaluate_nodes_get [OF wf assms(2-4)] by blast
  have age: "unhealthy_limit < heartbeat_age now n \<longleftrightarrow> unhealthy_limit < now - t"
      "stale_limit < heartbeat_age now n \<longleftrightarrow> stale_limit < now - t" if "nd_heartbeat n = Some t" for t
    using that time_sub_gt_iff [of unhealthy_limit now t] time_sub_gt_iff [of stale_limit now t]
    by (simp_all add: heartbeat_age_def unhealthy_limit_def stale_limit_def second_def max_int64_def min_int64_def)
  have lims: "stale_limit < unhealthy_limit" by (simp add: stale_limit_def unhealthy_limit_def second_def)
  have none: "unhealthy_limit < time_sub now zero_time"
    using assms(5) time_sub_gt_iff [of unhealthy_limit now zero_time]
    by (simp add: zero_time_def unhealthy_limit_def second_def max_int64_def min_int64_def)
  have silent: "\<not> exempt n \<Longrightarrow> nd_heartbeat n = None \<or> unhealthy_limit < heartbeat_age now n \<Longrightarrow>
      next_status now (m nid) n = NUnhealthy"
    using none lims by (auto simp: next_status_def heartbeat_age_def)
  have "\<exists>t. nd_heartbeat n' = Some t \<and> now - t \<le> unhealthy_limit" if "is_schedulable n'"
  proof -
    have ex: "\<not> exempt n"
      using that n'(2,4) by (auto simp: is_schedulable_def exempt_def next_status_def)
    have "next_status now (m nid) n \<noteq> NUnhealthy" using that n'(2) by (auto simp: is_schedulable_def)
    then have "\<not> (nd_heartbeat n = None \<or> unhealthy_limit < heartbeat_age now n)"
      using silent [OF ex] by (rule contrapos_nn)
    with age(1) n'(3) show ?thesis by (auto simp: not_less)
  qed
  moreover have "nd_status n' = NOnline"
    if "\<not> exempt n" "\<not> nd_drain n" "nd_status n = NUnhealthy \<or> nd_status n = NDegraded"
      "nd_heartbeat n = Some t" "now - t \<le> stale_limit" for t
    using that age(2) [OF that(4)] n'(2) by (auto simp: next_status_def)
  moreover have "nd_status n' = nd_status n" if "exempt n" using that n'(2) by (simp add: next_status_def)
  ultimately show ?thesis using n'(1) by blast
qed

theorem pass_fences_silent_nodes_witness:
  "\<exists>n'. node_get ''n1'' (nh_store (snd (evaluate_nodes (\<lambda>_. []) 105 [''n1''] ((\<lambda>_. 0), sick_hub)))) = Inr n'
     \<and> nd_status n' = NOnline"
proof -
  obtain n where n: "hub_ok sick_hub" "node_get ''n1'' (nh_store sick_hub) = Inr n" "nd_status n = NUnhealthy"
    "\<not> nd_maintenance n" "\<not> nd_drain n" "nd_heartbeat n = Some 100" using sick_hub_node by blast
  have "ns_nodes (nh_store sick_hub) = ns_nodes (nh_store hub1)"
    using modify_node_indexes by (simp add: sick_hub_def update_heartbeat_def update_status_def)
  also have "\<dots> = [''n1'' \<mapsto> 0]"
    by (simp add: hub1_def hub0_def create_enrollment_token_def enroll_node_def Let_def secret_create_def
      new_hub_def empty_nodes_def secret_by_hash_def secret_valid_def hour_def minute_def second_def
      sample_ca_def node_create_def new_node_def mark_used_def)
  finally have it: "iterates (ns_nodes (nh_store sick_hub)) [''n1'']" by (auto simp: iterates_def split: if_splits)
  obtain m' h' where e: "evaluate_nodes (\<lambda>_. []) 105 [''n1''] ((\<lambda>_. 0), sick_hub) = (m', h')" by force
  from pass_fences_silent_nodes [OF n(1) it e n(2) zero_le_numeral] n(3-6) e show ?thesis
    by (auto simp: exempt_def stale_limit_def second_def)
qed

lemma handled_results:
  assumes "nh_pending h corr = Some None"
  shows "nh_pending (fold handle_command_result rs h) corr = Some (List.find (\<lambda>r. cr_corr r = corr) rs)"
proof -
  have full: "nh_pending (fold handle_command_result rs h) corr = Some (Some r)"
    if "nh_pending h corr = Some (Some r)" for rs h r
    using that
  proof (induction rs arbitrary: h)
    case (Cons x rs)
    have "nh_pending (handle_command_result x h) corr = Some (Some r)"
      using Cons.prems by (auto simp: handle_command_result_def split: option.splits)
    with Cons.IH show ?case by simp
  qed simp
  show ?thesis
    using assms
  proof (induction rs arbitrary: h)
    case (Cons x rs)
    show ?case
    proof (cases "cr_corr x = corr")
      case True
      then have "nh_pending (handle_command_result x h) corr = Some (Some x)"
        using Cons.prems by (simp add: handle_command_result_def)
      with full True show ?thesis by simp
    next
      case False
      then have "nh_pending (handle_command_result x h) corr = Some None"
        using Cons.prems by (auto simp: handle_command_result_def split: option.splits)
      with Cons.IH False show ?thesis by simp
    qed
  qed simp
qed

text \<open>
  A dispatched command gets its own result: after the dispatch and any sequence of results
  received from nodes, the call returns the first result that carries its correlation
  identifier (as an error when the agent reports failure), whatever other results arrive;
  without one it waits until its context ends; and on return no channel is left behind.
\<close>

theorem dispatch_returns_own_result:
  assumes "dispatch_start now uuid None nid c h = (h1, Inr (corr, strm))"
  shows "corr = cmd_corr (fill_command now uuid c)
     \<and> snd (dispatch_finish corr None (fold handle_command_result rs h1)) =
         (case List.find (\<lambda>r. cr_corr r = corr) rs of
            None \<Rightarrow> None
          | Some r \<Rightarrow> Some (if cr_success r then Inr r else Inl ErrCommandRejected))
     \<and> (\<forall>err. snd (dispatch_finish corr (Some err) (fold handle_command_result rs h1)) = Some (Inl err)
          \<and> nh_pending (fst (dispatch_finish corr (Some err) (fold handle_command_result rs h1))) corr = None)"
proof -
  have "corr = cmd_corr (fill_command now uuid c)" "nh_pending h1 corr = Some None"
    using assms by (auto simp: dispatch_start_def Let_def split: option.splits)
  then show ?thesis
    using handled_results [of h1 corr rs] by (auto simp: dispatch_finish_def Let_def split: option.splits)
qed

definition ping :: command where
  "ping = \<lparr>cmd_corr = ''c1'', cmd_type = ''ping'', cmd_payload = [], cmd_created = 1\<rparr>"

definition reply :: "string \<Rightarrow> bool \<Rightarrow> command_result" where
  "reply corr ok = \<lparr>cr_corr = corr, cr_success = ok, cr_error = '''', cr_payload = [], cr_completed = 2\<rparr>"

theorem dispatch_returns_own_result_witness:
  "\<exists>h1. dispatch_start 1 '''' None ''n1'' ping (register_connection 0 ''n1'' 7 new_hub) = (h1, Inr (''c1'', 7))
     \<and> snd (dispatch_finish ''c1'' None
          (fold handle_command_result [reply ''c2'' False, reply ''c1'' True] h1)) = Some (Inr (reply ''c1'' True))"
proof -
  obtain h1 where h1: "dispatch_start 1 '''' None ''n1'' ping (register_connection 0 ''n1'' 7 new_hub) =
      (h1, Inr (''c1'', 7))"
    by (simp add: dispatch_start_def register_connection_def ping_def fill_command_def Let_def zero_time_def)
  from dispatch_returns_own_result [OF h1, THEN conjunct2, THEN conjunct1, of "[reply ''c2'' False, reply ''c1'' True]"]
  have "snd (dispatch_finish ''c1'' None
      (fold handle_command_result [reply ''c2'' False, reply ''c1'' True] h1)) = Some (Inr (reply ''c1'' True))"
    by (simp add: reply_def)
  with h1 show ?thesis by blast
qed

text \<open>
  The indexes agree: in every state reached from an empty store, the node found by its
  certificate fingerprint or by its host name is the node stored under its identifier, with
  every update made since, so that a revocation or a status change is seen by all lookups.
\<close>

theorem node_indexes_agree:
  assumes "(hub_step sha ca)\<^sup>*\<^sup>* new_hub h"
  shows "(node_by_fp f (nh_store h) = Inr n \<longrightarrow> nd_fp n = f \<and> node_get (nd_id n) (nh_store h) = Inr n)
       \<and> (node_by_fqdn q (nh_store h) = Inr n \<longrightarrow> nd_fqdn n = q \<and> node_get (nd_id n) (nh_store h) = Inr n)"
proof -
  have "hub_ok h" using gateway.steps_keep [OF assms] new_hub_ok by blast
  then have "nodes_wf (nh_store h)" by (simp add: hub_ok_def)
  then show ?thesis using by_fp_is_get by_fqdn_is_get by blast
qed

theorem node_indexes_agree_witness:
  "\<exists>n. node_by_fp ''fp-n1'' (nh_store hub1) = Inr n \<and> node_get (nd_id n) (nh_store hub1) = Inr n"
proof -
  have "hub_step (\<lambda>x. x) sample_ca new_hub hub0"
    unfolding hub0_def by (rule hub_step.h_token) (simp_all add: new_hub_def empty_nodes_def)
  moreover have "hub_step (\<lambda>x. x) sample_ca hub0 hub1"
    unfolding hub1_def by (rule hub_step.h_enroll) (rule hub0_nodes)
  ultimately have r: "(hub_step (\<lambda>x. x) sample_ca)\<^sup>*\<^sup>* new_hub hub1" by simp
  have "\<exists>n. node_by_fp ''fp-n1'' (nh_store hub1) = Inr n"
    by (simp add: hub1_def hub0_def create_enrollment_token_def enroll_node_def Let_def secret_create_def
      new_hub_def empty_nodes_def secret_by_hash_def secret_valid_def hour_def minute_def second_def
      sample_ca_def node_create_def new_node_def mark_used_def node_by_fp_def deref_def)
  with node_indexes_agree [OF r] show ?thesis by blast
qed

end
