(* ===== verification/Instance_Store.thy ===== *)
theory Instance_Store
  imports Identity
begin

text \<open>
  Instances: \<open>internal/domain/compute/instance.go\<close> and the in-memory repository of
  \<open>internal/infra/memory/instance_repo.go\<close>, which keeps one object behind the maps by
  identifier and by name. As for nodes, the maps hold addresses into a heap.
\<close>

datatype inst_type = Container | VirtualMachine | OtherType string

datatype inst_status =
  IPending | ICreating | IRunning | IStopped | IRestarting | IFrozen | IError | IDeleting | IDeleted

record inst =
  in_id :: string
  in_user :: string
  in_node :: string
  in_name :: string
  in_type :: inst_type
  in_status :: inst_status
  in_cpu :: int
  in_mem :: int
  in_storage :: int
  in_image :: string
  in_ipv4 :: string
  in_ipv6 :: string
  in_config :: gobj
  in_created :: gtime
  in_updated :: gtime

definition inst_resource :: "inst \<Rightarrow> resource" where
  "inst_resource i = \<lparr>res_type = ''instance'', res_id = in_id i, res_owner = in_user i, res_location = ''''\<rparr>"

record inst_store =
  is_heap :: "nat \<rightharpoonup> inst"
  is_next :: nat
  is_ids :: "string \<rightharpoonup> nat"
  is_names :: "string \<rightharpoonup> nat"

definition empty_insts :: inst_store where
  "empty_insts = \<lparr>is_heap = Map.empty, is_next = 0, is_ids = Map.empty, is_names = Map.empty\<rparr>"

definition inst_create :: "inst \<Rightarrow> inst_store \<Rightarrow> inst_store \<times> go_error option" where
  "inst_create i st =
     (if is_names st (in_name i) \<noteq> None then (st, Some ErrInstanceAlreadyExists)
      else let a = is_next st
           in (st\<lparr>is_heap := (is_heap st)(a \<mapsto> i), is_next := a + 1,
                  is_ids := (is_ids st)(in_id i \<mapsto> a), is_names := (is_names st)(in_name i \<mapsto> a)\<rparr>, None))"

definition inst_deref :: "inst_store \<Rightarrow> nat option \<Rightarrow> inst result" where
  "inst_deref st p = (case p of None \<Rightarrow> Inl ErrInstanceNotFound
                      | Some a \<Rightarrow> (case is_heap st a of None \<Rightarrow> Inl Panic | Some i \<Rightarrow> Inr i))"

definition inst_get :: "string \<Rightarrow> inst_store \<Rightarrow> inst result" where
  "inst_get iid st = inst_deref st (is_ids st iid)"

definition inst_by_name :: "string \<Rightarrow> inst_store \<Rightarrow> inst result" where
  "inst_by_name name st = inst_deref st (is_names st name)"

definition inst_list_all :: "string list \<Rightarrow> inst_store \<Rightarrow> inst list" where
  "inst_list_all ks st = vals (\<lambda>k. case is_ids st k of None \<Rightarrow> None | Some a \<Rightarrow> is_heap st a) ks"

definition inst_by_user :: "string \<Rightarrow> string list \<Rightarrow> inst_store \<Rightarrow> inst list" where
  "inst_by_user uid ks st = filter (\<lambda>i. in_user i = uid) (inst_list_all ks st)"

definition inst_by_node :: "string \<Rightarrow> string list \<Rightarrow> inst_store \<Rightarrow> inst list" where
  "inst_by_node nid ks st = filter (\<lambda>i. in_node i = nid) (inst_list_all ks st)"

definition modify_inst :: "string \<Rightarrow> (inst \<Rightarrow> inst) \<Rightarrow> inst_store \<Rightarrow> inst_store \<times> go_error option" where
  "modify_inst iid f st =
     (case is_ids st iid of
        None \<Rightarrow> (st, Some ErrInstanceNotFound)
      | Some a \<Rightarrow> (case is_heap st a of
                     None \<Rightarrow> (st, Some Panic)
                   | Some i \<Rightarrow> (st\<lparr>is_heap := (is_heap st)(a \<mapsto> f i)\<rparr>, None)))"

definition inst_update_status ::
  "gtime \<Rightarrow> string \<Rightarrow> inst_status \<Rightarrow> string \<Rightarrow> string \<Rightarrow> inst_store \<Rightarrow> inst_store \<times> go_error option" where
  "inst_update_status now iid s v4 v6 =
     modify_inst iid (\<lambda>i. i\<lparr>in_status := s, in_ipv4 := (if v4 \<noteq> '''' then v4 else in_ipv4 i),
       in_ipv6 := (if v6 \<noteq> '''' then v6 else in_ipv6 i), in_updated := now\<rparr>)"

definition inst_update_spec ::
  "gtime \<Rightarrow> string \<Rightarrow> int \<Rightarrow> int \<Rightarrow> int \<Rightarrow> inst_store \<Rightarrow> inst_store \<times> go_error option" where
  "inst_update_spec now iid cpu mem storage =
     modify_inst iid (\<lambda>i. i\<lparr>in_cpu := cpu, in_mem := mem, in_storage := storage, in_updated := now\<rparr>)"

definition inst_update_node :: "gtime \<Rightarrow> string \<Rightarrow> string \<Rightarrow> inst_store \<Rightarrow> inst_store \<times> go_error option" where
  "inst_update_node now iid nid = modify_inst iid (\<lambda>i. i\<lparr>in_node := nid, in_updated := now\<rparr>)"

definition inst_delete :: "string \<Rightarrow> inst_store \<Rightarrow> inst_store \<times> go_error option" where
  "inst_delete iid st =
     (case is_ids st iid of
        None \<Rightarrow> (st, Some ErrInstanceNotFound)
      | Some a \<Rightarrow> (case is_heap st a of
                     None \<Rightarrow> (st, Some Panic)
                   | Some i \<Rightarrow> (st\<lparr>is_names := (is_names st)(in_name i := None),
                                   is_ids := (is_ids st)(iid := None)\<rparr>, None)))"

section \<open>The two indexes agree\<close>

definition insts_ok :: "inst_store \<Rightarrow> bool" where
  "insts_ok st \<longleftrightarrow>
     (\<forall>k a. is_ids st k = Some a \<longrightarrow>
        (\<exists>i. is_heap st a = Some i \<and> in_id i = k \<and> is_names st (in_name i) = Some a)) \<and>
     (\<forall>n a. is_names st n = Some a \<longrightarrow>
        (\<exists>i. is_heap st a = Some i \<and> in_name i = n \<and> is_ids st (in_id i) = Some a)) \<and>
     (\<forall>a i. is_heap st a = Some i \<longrightarrow> a < is_next st)"

lemma insts_okD:
  assumes "insts_ok st"
  shows "is_ids st k = Some a \<Longrightarrow> \<exists>i. is_heap st a = Some i \<and> in_id i = k \<and> is_names st (in_name i) = Some a"
    and "is_names st n = Some a \<Longrightarrow> \<exists>i. is_heap st a = Some i \<and> in_name i = n \<and> is_ids st (in_id i) = Some a"
    and "is_heap st a = Some i \<Longrightarrow> a < is_next st"
  using assms by (auto simp: insts_ok_def)

lemma insts_ok_empty: "insts_ok empty_insts"
  by (simp add: insts_ok_def empty_insts_def)

lemma inst_get_Inr:
  assumes "insts_ok st"
  shows "inst_get k st = Inr i \<longleftrightarrow> (\<exists>a. is_ids st k = Some a \<and> is_heap st a = Some i)"
  by (auto simp: inst_get_def inst_deref_def split: option.splits)

lemma inst_get_cases:
  assumes "insts_ok st"
  obtains "is_ids st k = None" "inst_get k st = Inl ErrInstanceNotFound"
  | a i where "is_ids st k = Some a" "is_heap st a = Some i" "in_id i = k" "inst_get k st = Inr i"
    "is_names st (in_name i) = Some a"
proof (cases "is_ids st k")
  case None
  then show ?thesis using that(1) by (simp add: inst_get_def inst_deref_def)
next
  case (Some a)
  then show ?thesis using insts_okD(1) [OF assms Some] that(2) by (auto simp: inst_get_def inst_deref_def)
qed

lemma inst_create_effect:
  assumes "insts_ok st" and "is_ids st (in_id i) = None" and "inst_create i st = (st', None)"
  shows "insts_ok st'" and "inst_get k st' = (if k = in_id i then Inr i else inst_get k st)"
    and "is_ids st' = (is_ids st)(in_id i \<mapsto> is_next st)" and "is_names st' = (is_names st)(in_name i \<mapsto> is_next st)"
    and "is_names st (in_name i) = None"
proof -
  have n: "is_names st (in_name i) = None" and
    s: "st' = st\<lparr>is_heap := (is_heap st)(is_next st \<mapsto> i), is_next := is_next st + 1,
      is_ids := (is_ids st)(in_id i \<mapsto> is_next st), is_names := (is_names st)(in_name i \<mapsto> is_next st)\<rparr>"
    using assms(3) by (auto simp: inst_create_def Let_def split: if_splits)
  have fresh: "is_heap st (is_next st) = None" using insts_okD(3) [OF assms(1)] by (metis less_irrefl not_None_eq)
  have ids: "is_ids st k = Some a \<Longrightarrow> a \<noteq> is_next st" for k a
    using insts_okD(1) [OF assms(1)] fresh by fastforce
  have names: "is_names st k = Some a \<Longrightarrow> a \<noteq> is_next st" for k a
    using insts_okD(2) [OF assms(1)] fresh by fastforce
  show "is_names st (in_name i) = None" by (rule n)
  show "is_ids st' = (is_ids st)(in_id i \<mapsto> is_next st)" "is_names st' = (is_names st)(in_name i \<mapsto> is_next st)"
    by (simp_all add: s)
  show "inst_get k st' = (if k = in_id i then Inr i else inst_get k st)"
    using ids by (auto simp: s inst_get_def inst_deref_def split: option.splits)
  show "insts_ok st'"
    unfolding insts_ok_def
  proof (intro conjI allI impI)
    fix k a
    assume k: "is_ids st' k = Some a"
    show "\<exists>j. is_heap st' a = Some j \<and> in_id j = k \<and> is_names st' (in_name j) = Some a"
    proof (cases "k = in_id i")
      case False
      then have a: "is_ids st k = Some a" using k by (simp add: s)
      from insts_okD(1) [OF assms(1) a] obtain j where
        j: "is_heap st a = Some j" "in_id j = k" "is_names st (in_name j) = Some a" by blast
      then show ?thesis using ids [OF a] n by (auto simp: s)
    qed (use k in \<open>auto simp: s\<close>)
  next
    fix m a
    assume m: "is_names st' m = Some a"
    show "\<exists>j. is_heap st' a = Some j \<and> in_name j = m \<and> is_ids st' (in_id j) = Some a"
    proof (cases "m = in_name i")
      case False
      then have a: "is_names st m = Some a" using m by (simp add: s)
      from insts_okD(2) [OF assms(1) a] obtain j where
        j: "is_heap st a = Some j" "in_name j = m" "is_ids st (in_id j) = Some a" by blast
      then show ?thesis using names [OF a] assms(2) by (auto simp: s)
    qed (use m in \<open>auto simp: s\<close>)
  next
    fix a j
    assume "is_heap st' a = Some j"
    then show "a < is_next st'" using insts_okD(3) [OF assms(1)] by (auto simp: s less_Suc_eq split: if_splits)
  qed
qed

lemma modify_inst_effect:
  assumes "insts_ok st" and "\<And>i. in_id (f i) = in_id i \<and> in_name (f i) = in_name i"
  shows "insts_ok (fst (modify_inst iid f st))"
    and "inst_get k (fst (modify_inst iid f st)) = (if k = iid then map_sum id f (inst_get k st) else inst_get k st)"
    and "is_ids (fst (modify_inst iid f st)) = is_ids st" and "is_names (fst (modify_inst iid f st)) = is_names st"
proof -
  show "is_ids (fst (modify_inst iid f st)) = is_ids st" "is_names (fst (modify_inst iid f st)) = is_names st"
    by (simp_all add: modify_inst_def split: option.splits)
  show "insts_ok (fst (modify_inst iid f st))"
  proof (cases "is_ids st iid")
    case (Some a)
    from insts_okD(1) [OF assms(1) Some] obtain i where i: "is_heap st a = Some i" by blast
    then have "fst (modify_inst iid f st) = st\<lparr>is_heap := (is_heap st)(a \<mapsto> f i)\<rparr>"
      using Some by (simp add: modify_inst_def)
    then show ?thesis using assms i unfolding insts_ok_def by (auto split: if_splits) (metis option.inject)+
  qed (use assms(1) in \<open>simp add: modify_inst_def\<close>)
  show "inst_get k (fst (modify_inst iid f st)) = (if k = iid then map_sum id f (inst_get k st) else inst_get k st)"
  proof (cases "is_ids st iid")
    case (Some a)
    from insts_okD(1) [OF assms(1) Some] obtain i where i: "is_heap st a = Some i" "in_id i = iid" by blast
    have "k \<noteq> iid \<Longrightarrow> is_ids st k \<noteq> Some a" using insts_okD(1) [OF assms(1), of k a] i by auto
    then show ?thesis using Some i by (auto simp: modify_inst_def inst_get_def inst_deref_def split: option.splits)
  qed (simp add: modify_inst_def inst_get_def inst_deref_def)
qed

lemma inst_delete_effect:
  assumes "insts_ok st" and "inst_get iid st = Inr i"
  shows "snd (inst_delete iid st) = None" and "insts_ok (fst (inst_delete iid st))"
    and "inst_get k (fst (inst_delete iid st)) = (if k = iid then Inl ErrInstanceNotFound else inst_get k st)"
    and "is_ids (fst (inst_delete iid st)) = (is_ids st)(iid := None)"
    and "is_names (fst (inst_delete iid st)) = (is_names st)(in_name i := None)"
proof -
  obtain a where a: "is_ids st iid = Some a" "is_heap st a = Some i" "in_id i = iid" "is_names st (in_name i) = Some a"
    by (cases k rule: inst_get_cases [OF assms(1)]) (use assms inst_get_cases [OF assms(1), of iid] in auto)
  then have d: "inst_delete iid st = (st\<lparr>is_names := (is_names st)(in_name i := None), is_ids := (is_ids st)(iid := None)\<rparr>, None)"
    by (simp add: inst_delete_def)
  show "snd (inst_delete iid st) = None" "is_ids (fst (inst_delete iid st)) = (is_ids st)(iid := None)"
    "is_names (fst (inst_delete iid st)) = (is_names st)(in_name i := None)" by (simp_all add: d)
  show "inst_get k (fst (inst_delete iid st)) = (if k = iid then Inl ErrInstanceNotFound else inst_get k st)"
    by (simp add: d inst_get_def inst_deref_def split: option.splits)
  have i1: "is_ids st k = Some b \<Longrightarrow> k \<noteq> iid \<Longrightarrow> b \<noteq> a" for k b using insts_okD(1) [OF assms(1)] a by fastforce
  have n1: "is_names st n = Some b \<Longrightarrow> n \<noteq> in_name i \<Longrightarrow> b \<noteq> a" for n b using insts_okD(2) [OF assms(1)] a by fastforce
  show "insts_ok (fst (inst_delete iid st))"
    unfolding insts_ok_def d
    using insts_okD [OF assms(1)] i1 n1 a by (auto split: if_splits; metis option.inject)
qed

end
