(* ===== verification/Scheduler.thy ===== *)
theory Scheduler
  imports Instance_Store Node_Store
begin

text \<open>
  Placement: \<open>internal/domain/placement/placement.go\<close> and \<open>internal/app/scheduler/scheduler.go\<close>.
  Capacities and scores are \<open>float64\<close>, byte counts \<open>int64\<close>. The arrangement that \<open>sort.Slice\<close> picks
  among equal scores is a parameter \<open>srt\<close>.
\<close>

section \<open>Data\<close>

record placement_request =
  pr_name :: string
  pr_type :: inst_type
  pr_cpu :: int
  pr_mem :: int
  pr_storage :: int
  pr_arch :: string
  pr_location :: string
  pr_preferred :: string
  pr_exclude :: "string list"
  pr_features :: "string list"

record candidate =
  cd_node :: node
  cd_cpu :: f64
  cd_mem :: int
  cd_storage :: int
  cd_instances :: int
  cd_score :: f64
  cd_eligible :: bool
  cd_reason :: string

record decision =
  dc_node :: node
  dc_candidates :: "candidate list"
  dc_reason :: string

text \<open>The verb \<open>%.kf\<close>: the exact value rounded to \<open>k\<close> decimals, ties to even.\<close>

definition show_fixed :: "nat \<Rightarrow> f64 \<Rightarrow> string" where
  "show_fixed k x =
     (let n = nat (round_even (\<bar>x\<bar> * 10 ^ k)); f = nat_digits (n mod 10 ^ k)
      in (if x < 0 then ''-'' else '''') @ nat_digits (n div 10 ^ k) @ ''.''
         @ replicate (k - length f) (CHR ''0'') @ f)"

section \<open>Allocated resources\<close>

record allocation =
  ac_cpu :: int
  ac_mem :: int
  ac_storage :: int
  ac_count :: int

definition no_allocation :: allocation where
  "no_allocation = \<lparr>ac_cpu = 0, ac_mem = 0, ac_storage = 0, ac_count = 0\<rparr>"

definition add_instance :: "inst \<Rightarrow> (string \<Rightarrow> allocation) \<Rightarrow> string \<Rightarrow> allocation" where
  "add_instance i m =
     (if in_status i = IDeleted \<or> in_status i = IPending then m
      else let a = m (in_node i)
           in m(in_node i := \<lparr>ac_cpu = wrap64 (ac_cpu a + in_cpu i), ac_mem = wrap64 (ac_mem a + in_mem i),
                              ac_storage = wrap64 (ac_storage a + in_storage i), ac_count = ac_count a + 1\<rparr>))"

definition node_allocations :: "inst list \<Rightarrow> string \<Rightarrow> allocation" where
  "node_allocations is = fold add_instance is (\<lambda>_. no_allocation)"

section \<open>Evaluation of one node\<close>

definition node_arch :: "node \<Rightarrow> string" where
  "node_arch n =
     (case nd_caps n of
        None \<Rightarrow> ''x86_64''
      | Some caps \<Rightarrow> (case get_str caps ''architecture'' of
                        Some a \<Rightarrow> if a \<noteq> '''' then to_lower a else ''x86_64''
                      | None \<Rightarrow> ''x86_64''))"

definition kvm_missing :: "node \<Rightarrow> bool" where
  "kvm_missing n =
     (case nd_caps n of None \<Rightarrow> False | Some caps \<Rightarrow> get_bool caps ''kvm_supported'' = Some False)"

definition max_cpu :: "node \<Rightarrow> f64" where
  "max_cpu n =
     (let ratio = (if nd_cpu_ratio n \<le> 0 then 1 else nd_cpu_ratio n);
          c = f_mul (f_of_int (nd_cpu n)) ratio
      in if c \<le> 0 then 128 else c)"

definition max_mem :: "node \<Rightarrow> int" where
  "max_mem n =
     (let ratio = (if nd_mem_ratio n \<le> 0 then 1 else nd_mem_ratio n);
          b = f_trunc (f_mul (f_of_int (nd_mem n)) ratio)
      in if b \<le> 0 then 512 * 1024 * 1024 * 1024 else b)"

definition max_storage :: "node \<Rightarrow> int" where
  "max_storage n = (if nd_storage n \<le> 0 then 2000 * 1024 * 1024 * 1024 else nd_storage n)"

definition placement_score :: "f64 \<Rightarrow> int \<Rightarrow> allocation \<Rightarrow> placement_request \<Rightarrow> f64" where
  "placement_score cpus mem a req =
     (let cu = f_div (f_of_int (wrap64 (ac_cpu a + pr_cpu req))) cpus;
          mu = f_div (f_of_int (wrap64 (ac_mem a + pr_mem req))) (f_of_int mem)
      in f_mul (f_add (f_mul (f_sub 1 cu) (1 / 2)) (f_mul (f_sub 1 mu) (1 / 2))) 100)"

definition blank :: "node \<Rightarrow> candidate" where
  "blank n = \<lparr>cd_node = n, cd_cpu = 0, cd_mem = 0, cd_storage = 0, cd_instances = 0, cd_score = 0,
     cd_eligible = True, cd_reason = ''''\<rparr>"

definition reject :: "string \<Rightarrow> candidate \<Rightarrow> candidate" where
  "reject reason c = c\<lparr>cd_eligible := False, cd_reason := reason\<rparr>"

definition mib :: int where
  "mib = 1024 * 1024"

definition gib :: int where
  "gib = 1024 * 1024 * 1024"

definition evaluate_capacity :: "placement_request \<Rightarrow> allocation \<Rightarrow> node \<Rightarrow> candidate" where
  "evaluate_capacity req a n =
     (let cpus = max_cpu n; mem = max_mem n; sto = max_storage n;
          c = (blank n)\<lparr>cd_instances := ac_count a,
                cd_cpu := f_sub cpus (f_of_int (ac_cpu a)),
                cd_mem := quot (wrap64 (mem - ac_mem a)) mib,
                cd_storage := quot (wrap64 (sto - ac_storage a)) gib\<rparr>
      in if f_of_int (pr_cpu req) > cd_cpu c then
           reject (''insufficient CPU capacity (available: '' @ show_fixed 1 (cd_cpu c) @ '', required: ''
                   @ show_int (pr_cpu req) @ '')'') c
         else if pr_mem req > wrap64 (mem - ac_mem a) then
           reject (''insufficient memory capacity (available: '' @ show_int (cd_mem c) @ ''MB, required: ''
                   @ show_int (quot (pr_mem req) mib) @ ''MB)'') c
         else if pr_storage req > wrap64 (sto - ac_storage a) then
           reject (''insufficient storage capacity (available: '' @ show_int (cd_storage c) @ ''GB, required: ''
                   @ show_int (quot (pr_storage req) gib) @ ''GB)'') c
         else let s = placement_score cpus mem a req
              in c\<lparr>cd_score := (if pr_preferred req = nd_id n then f_add s 15 else s)\<rparr>)"

definition evaluate_placement :: "placement_request \<Rightarrow> (string \<Rightarrow> allocation) \<Rightarrow> node \<Rightarrow> candidate" where
  "evaluate_placement req allocs n =
     (if nd_id n \<in> set (pr_exclude req) then reject ''node is in excluded list'' (blank n)
      else if \<not> is_schedulable n then
        reject (if nd_maintenance n then ''node is in maintenance mode''
                else if nd_drain n then ''node is draining workloads''
                else ''node health status is '' @ status_text (nd_status n)) (blank n)
      else if pr_location req \<noteq> '''' \<and> nd_location n \<noteq> pr_location req then
        reject (''location mismatch (node: '' @ nd_location n @ '', required: '' @ pr_location req @ '')'') (blank n)
      else if pr_arch req \<noteq> '''' \<and> \<not> equal_fold (pr_arch req) (node_arch n) then
        reject (''architecture mismatch (node: '' @ node_arch n @ '', required: '' @ pr_arch req @ '')'') (blank n)
      else if pr_type req = VirtualMachine \<and> kvm_missing n then
        reject ''node does not support KVM hardware virtualization'' (blank n)
      else evaluate_capacity req (allocs (nd_id n)) n)"

section \<open>Evaluation and selection\<close>

definition evaluate_candidates ::
  "string list \<Rightarrow> string list \<Rightarrow> placement_request \<Rightarrow> node_store \<Rightarrow> inst_store \<Rightarrow> candidate list" where
  "evaluate_candidates nks iks req ns is =
     map (evaluate_placement req (node_allocations (inst_list_all iks is))) (node_list nks ns)"

definition by_score :: "(candidate list \<Rightarrow> candidate list) \<Rightarrow> bool" where
  "by_score srt \<longleftrightarrow>
     (\<forall>xs. set (srt xs) = set xs \<and> length (srt xs) = length xs \<and>
           sorted_wrt (\<lambda>a b. \<not> cd_score a < cd_score b) (srt xs))"

definition select_node ::
  "(candidate list \<Rightarrow> candidate list) \<Rightarrow> string list \<Rightarrow> string list \<Rightarrow> placement_request \<Rightarrow> node_store \<Rightarrow> inst_store \<Rightarrow>
   decision result" where
  "select_node srt nks iks req ns is =
     (let cs = evaluate_candidates nks iks req ns is
      in case srt (filter cd_eligible cs) of
           [] \<Rightarrow> Inl ErrNoEligibleNodes
         | best # _ \<Rightarrow>
             Inr \<lparr>dc_node = cd_node best, dc_candidates = cs,
                  dc_reason = ''Selected '' @ nd_name (cd_node best) @ '' with capacity score ''
                              @ show_fixed 2 (cd_score best)\<rparr>)"

section \<open>Eligibility\<close>

text \<open>What makes a node eligible, in exact arithmetic on the \<open>int64\<close> quantities.\<close>

definition fits :: "placement_request \<Rightarrow> allocation \<Rightarrow> node \<Rightarrow> bool" where
  "fits req a n \<longleftrightarrow>
     f_of_int (pr_cpu req) \<le> f_sub (max_cpu n) (f_of_int (ac_cpu a)) \<and>
     pr_mem req \<le> wrap64 (max_mem n - ac_mem a) \<and> pr_storage req \<le> wrap64 (max_storage n - ac_storage a)"

definition admissible :: "placement_request \<Rightarrow> node \<Rightarrow> bool" where
  "admissible req n \<longleftrightarrow>
     nd_id n \<notin> set (pr_exclude req) \<and> is_schedulable n \<and>
     (pr_location req = '''' \<or> nd_location n = pr_location req) \<and>
     (pr_arch req = '''' \<or> equal_fold (pr_arch req) (node_arch n)) \<and>
     \<not> (pr_type req = VirtualMachine \<and> kvm_missing n)"

definition total_score :: "placement_request \<Rightarrow> allocation \<Rightarrow> node \<Rightarrow> f64" where
  "total_score req a n =
     (let s = placement_score (max_cpu n) (max_mem n) a req
      in if pr_preferred req = nd_id n then f_add s 15 else s)"

lemma reject_simps [simp]:
  "cd_eligible (reject r c) = False" "cd_node (reject r c) = cd_node c" "cd_node (blank n) = n"
  by (simp_all add: reject_def blank_def)

lemma evaluate_capacity_simps:
  "cd_node (evaluate_capacity req a n) = n"
  "cd_eligible (evaluate_capacity req a n) \<longleftrightarrow> fits req a n"
  "fits req a n \<Longrightarrow> cd_score (evaluate_capacity req a n) = total_score req a n"
  by (simp_all add: evaluate_capacity_def fits_def total_score_def Let_def blank_def not_less)
    (simp add: not_less [symmetric])?

lemma evaluate_placement_simps:
  "cd_node (evaluate_placement req allocs n) = n"
  "cd_eligible (evaluate_placement req allocs n) \<longleftrightarrow> admissible req n \<and> fits req (allocs (nd_id n)) n"
  "admissible req n \<Longrightarrow> fits req (allocs (nd_id n)) n \<Longrightarrow>
     cd_score (evaluate_placement req allocs n) = total_score req (allocs (nd_id n)) n"
  by (auto simp: evaluate_placement_def admissible_def evaluate_capacity_simps)

lemma select_node_cases:
  assumes "by_score srt"
  obtains "\<forall>n \<in> set (node_list nks ns). \<not> (admissible req n \<and> fits req (node_allocations (inst_list_all iks is) (nd_id n)) n)"
    "select_node srt nks iks req ns is = Inl ErrNoEligibleNodes"
  | d where "select_node srt nks iks req ns is = Inr d" "dc_node d \<in> set (node_list nks ns)"
    "admissible req (dc_node d)" "fits req (node_allocations (inst_list_all iks is) (nd_id (dc_node d))) (dc_node d)"
    "\<And>n. n \<in> set (node_list nks ns) \<Longrightarrow> admissible req n \<Longrightarrow>
       fits req (node_allocations (inst_list_all iks is) (nd_id n)) n \<Longrightarrow>
       total_score req (node_allocations (inst_list_all iks is) (nd_id n)) n
         \<le> total_score req (node_allocations (inst_list_all iks is) (nd_id (dc_node d))) (dc_node d)"
proof -
  let ?al = "node_allocations (inst_list_all iks is)"
  let ?cs = "evaluate_candidates nks iks req ns is"
  let ?es = "filter cd_eligible ?cs"
  have s: "set (srt ?es) = set ?es" "sorted_wrt (\<lambda>a b. \<not> cd_score a < cd_score b) (srt ?es)"
    using assms by (simp_all add: by_score_def)
  have mem: "c \<in> set ?es \<longleftrightarrow> (\<exists>n \<in> set (node_list nks ns). c = evaluate_placement req ?al n \<and>
      admissible req n \<and> fits req (?al (nd_id n)) n)" for c
    by (auto simp: evaluate_candidates_def evaluate_placement_simps)
  show ?thesis
  proof (cases "srt ?es")
    case Nil
    then have "set ?es = {}" using s(1) by simp
    then have "\<forall>n \<in> set (node_list nks ns). \<not> (admissible req n \<and> fits req (?al (nd_id n)) n)"
      using mem [of "evaluate_placement req ?al n" for n] by auto
    moreover have "select_node srt nks iks req ns is = Inl ErrNoEligibleNodes"
      using Nil by (simp add: select_node_def Let_def)
    ultimately show ?thesis by (rule that(1))
  next
    case (Cons best rest)
    then have "best \<in> set ?es" using s(1) by auto
    with mem obtain n where n: "n \<in> set (node_list nks ns)" "best = evaluate_placement req ?al n"
      "admissible req n" "fits req (?al (nd_id n)) n" by blast
    have b: "cd_node best = n" "cd_score best = total_score req (?al (nd_id n)) n"
      using n by (simp_all add: evaluate_placement_simps)
    have top: "cd_score c \<le> cd_score best" if "c \<in> set ?es" for c
      using that s Cons by (auto simp: not_less)
    show ?thesis
    proof (rule that(2))
      let ?d = "\<lparr>dc_node = cd_node best, dc_candidates = ?cs,
        dc_reason = ''Selected '' @ nd_name (cd_node best) @ '' with capacity score '' @ show_fixed 2 (cd_score best)\<rparr>"
      show "select_node srt nks iks req ns is = Inr ?d" using Cons by (simp add: select_node_def Let_def)
      show "dc_node ?d \<in> set (node_list nks ns)" "admissible req (dc_node ?d)"
        "fits req (?al (nd_id (dc_node ?d))) (dc_node ?d)" using n b by simp_all
      fix x
      assume x: "x \<in> set (node_list nks ns)" "admissible req x" "fits req (?al (nd_id x)) x"
      then have "evaluate_placement req ?al x \<in> set ?es" using mem by blast
      from top [OF this] x b show "total_score req (?al (nd_id x)) x \<le>
          total_score req (?al (nd_id (dc_node ?d))) (dc_node ?d)"
        by (simp add: evaluate_placement_simps)
    qed
  qed
qed

section \<open>Allocations are sums\<close>

definition counted :: "string \<Rightarrow> inst \<Rightarrow> bool" where
  "counted nid i \<longleftrightarrow> in_node i = nid \<and> in_status i \<noteq> IDeleted \<and> in_status i \<noteq> IPending"

lemma add_instance_sums:
  "ac_cpu (fold add_instance is m nid) = (if filter (counted nid) is = [] then ac_cpu (m nid)
     else wrap64 (ac_cpu (m nid) + sum_list (map in_cpu (filter (counted nid) is))))"
  "ac_mem (fold add_instance is m nid) = (if filter (counted nid) is = [] then ac_mem (m nid)
     else wrap64 (ac_mem (m nid) + sum_list (map in_mem (filter (counted nid) is))))"
  "ac_storage (fold add_instance is m nid) = (if filter (counted nid) is = [] then ac_storage (m nid)
     else wrap64 (ac_storage (m nid) + sum_list (map in_storage (filter (counted nid) is))))"
  by (induction "is" arbitrary: m)
    (auto simp: add_instance_def Let_def counted_def wrap64_add_left add.assoc filter_empty_conv)

lemma wrap64_zero: "wrap64 0 = 0"
  by (simp add: wrap64_def)

lemma node_allocations_sums:
  "ac_cpu (node_allocations is nid) = wrap64 (sum_list (map in_cpu (filter (counted nid) is)))"
  "ac_mem (node_allocations is nid) = wrap64 (sum_list (map in_mem (filter (counted nid) is)))"
  "ac_storage (node_allocations is nid) = wrap64 (sum_list (map in_storage (filter (counted nid) is)))"
  unfolding node_allocations_def add_instance_sums
  by (cases "filter (counted nid) is = []"; simp add: no_allocation_def wrap64_zero)+

section \<open>A sample placement\<close>

definition best_first :: "candidate list \<Rightarrow> candidate list" where
  "best_first xs = rev (sort_key cd_score xs)"

lemma best_first_by_score: "by_score best_first"
proof -
  have "sorted_wrt (\<lambda>a b. \<not> cd_score a < cd_score b) (rev (sort_key cd_score xs))" for xs :: "candidate list"
    using sorted_sort_key [of cd_score xs] by (simp add: sorted_wrt_rev sorted_map not_less)
  then show ?thesis by (simp add: by_score_def best_first_def)
qed

definition hv1 :: node where
  "hv1 = \<lparr>nd_id = ''n1'', nd_location = ''dc1'', nd_name = ''hv1'', nd_fqdn = ''hv1.lan'', nd_status = NOnline,
     nd_fp = '''', nd_cpu = 4, nd_mem = 8 * gib, nd_storage = 100 * gib, nd_cpu_ratio = 2, nd_mem_ratio = 1,
     nd_caps = None, nd_maintenance = False, nd_drain = False, nd_reason = '''', nd_heartbeat = None,
     nd_changed = None, nd_created = 0, nd_updated = 0\<rparr>"

definition vm1 :: inst where
  "vm1 = \<lparr>in_id = ''i1'', in_user = ''u1'', in_node = ''n1'', in_name = ''vm1'', in_type = VirtualMachine,
     in_status = IRunning, in_cpu = 2, in_mem = 2 * gib, in_storage = 20 * gib, in_image = '''', in_ipv4 = '''',
     in_ipv6 = '''', in_config = [], in_created = 0, in_updated = 0\<rparr>"

definition sample_request :: placement_request where
  "sample_request = \<lparr>pr_name = ''vm2'', pr_type = VirtualMachine, pr_cpu = 6, pr_mem = 6 * gib,
     pr_storage = 80 * gib, pr_arch = ''x86_64'', pr_location = ''dc1'', pr_preferred = '''', pr_exclude = [],
     pr_features = []\<rparr>"

abbreviation cluster :: node_store where
  "cluster \<equiv> fst (node_create hv1 empty_nodes)"

abbreviation workload :: inst_store where
  "workload \<equiv> fst (inst_create vm1 empty_insts)"

lemma sample_lists: "node_list [''n1''] cluster = [hv1]" "inst_list_all [''i1''] workload = [vm1]"
  by (simp_all add: node_list_def node_create_def empty_nodes_def Let_def hv1_def vals_def map_filter_simps
    inst_list_all_def inst_create_def empty_insts_def vm1_def)

lemma hv1_limits: "max_cpu hv1 = 8" "max_mem hv1 = 8 * gib" "max_storage hv1 = 100 * gib"
proof -
  have "rnd 8 = 8" "rnd 8589934592 = 8589934592"
    using rnd_of_int_small [of 8] rnd_of_int_small [of 8589934592] by simp_all
  moreover have "f_of_int 4 = 4" "f_of_int 8589934592 = 8589934592"
    using f_of_int_small [of 4] f_of_int_small [of 8589934592] by simp_all
  ultimately show "max_cpu hv1 = 8" "max_mem hv1 = 8 * gib" "max_storage hv1 = 100 * gib"
    by (simp_all add: max_cpu_def max_mem_def max_storage_def hv1_def gib_def f_mul_def f_trunc_def)
qed

lemma sample_fits:
  "admissible sample_request hv1" "fits sample_request (node_allocations [vm1] (nd_id hv1)) hv1"
proof -
  have "f_of_int 6 = 6" "f_of_int 2 = 2" "rnd 6 = 6"
    using f_of_int_small [of 6] f_of_int_small [of 2] rnd_of_int_small [of 6] by simp_all
  then show "fits sample_request (node_allocations [vm1] (nd_id hv1)) hv1"
    unfolding fits_def hv1_limits node_allocations_sums
    by (simp add: counted_def hv1_def vm1_def sample_request_def gib_def f_sub_def wrap64_def)
  show "admissible sample_request hv1"
    by (simp add: admissible_def sample_request_def hv1_def is_schedulable_def node_arch_def kvm_missing_def
      equal_fold_def)
qed

lemma sample_selected:
  "\<exists>d. select_node best_first [''n1''] [''i1''] sample_request cluster workload = Inr d \<and> dc_node d = hv1"
  by (cases rule: select_node_cases [OF best_first_by_score, of "[''n1'']" cluster sample_request "[''i1'']" workload])
    (use sample_fits in \<open>auto simp: sample_lists\<close>)

section \<open>Properties\<close>



text \<open>
  Placement is complete and picks the best node: it fails with the error for no eligible
  node exactly when no listed node is admissible with room for the request, and otherwise the
  selected node has the highest score among all of those, whatever order the sorting leaves
  equal scores in.
\<close>

theorem select_node_best:
  assumes "by_score srt"
  shows "(select_node srt nks iks req ns is = Inl ErrNoEligibleNodes \<longleftrightarrow>
       (\<forall>n \<in> set (node_list nks ns). \<not> (admissible req n \<and> fits req (node_allocations (inst_list_all iks is) (nd_id n)) n)))
     \<and> (\<forall>d. select_node srt nks iks req ns is = Inr d \<longrightarrow>
         (\<forall>n \<in> set (node_list nks ns). admissible req n \<and> fits req (node_allocations (inst_list_all iks is) (nd_id n)) n \<longrightarrow>
           total_score req (node_allocations (inst_list_all iks is) (nd_id n)) n
             \<le> total_score req (node_allocations (inst_list_all iks is) (nd_id (dc_node d))) (dc_node d)))"
  by (cases rule: select_node_cases [OF assms, of nks ns req iks "is"]) auto

theorem select_node_best_witness:
  "select_node best_first [''n1''] [''i1''] sample_request cluster workload \<noteq> Inl ErrNoEligibleNodes"
  using select_node_best [OF best_first_by_score, of "[''n1'']" "[''i1'']" sample_request cluster workload]
    sample_fits by (simp add: sample_lists)

text \<open>
  Load spreads: of two allocations on nodes with the same capacities, the one with no more
  cores and no more memory in use gets a score at least as high, in the floating-point
  arithmetic of the program, when the sums do not overflow.
\<close>

theorem placement_score_antitone:
  assumes "0 < cpus" and "0 < mem"
    and "ac_cpu a \<le> ac_cpu b" and "ac_mem a \<le> ac_mem b"
    and "int64 (ac_cpu a + pr_cpu req)" and "int64 (ac_cpu b + pr_cpu req)"
    and "int64 (ac_mem a + pr_mem req)" and "int64 (ac_mem b + pr_mem req)"
  shows "placement_score cpus mem b req \<le> placement_score cpus mem a req"
proof -
  have m: "0 \<le> f_of_int mem" using assms(2) by (simp add: f_of_int_def rnd_nonneg)
  have div: "f_div x z \<le> f_div y z" if "x \<le> y" "0 \<le> z" for x y z
    using that by (simp add: f_div_def rnd_mono divide_right_mono)
  have sub: "f_sub 1 y \<le> f_sub 1 x" if "x \<le> y" for x y
    using that by (simp add: f_sub_def rnd_mono)
  have mul: "f_mul x z \<le> f_mul y z" if "x \<le> y" "0 \<le> z" for x y z
    using that by (simp add: f_mul_def rnd_mono mult_right_mono)
  have add: "f_add x y \<le> f_add x' y'" if "x \<le> x'" "y \<le> y'" for x y x' y'
    using that by (simp add: f_add_def rnd_mono add_mono)
  have "f_of_int (ac_cpu a + pr_cpu req) \<le> f_of_int (ac_cpu b + pr_cpu req)"
    "f_of_int (ac_mem a + pr_mem req) \<le> f_of_int (ac_mem b + pr_mem req)"
    using assms(3,4) by (simp_all add: f_of_int_mono)
  then show ?thesis
    using assms(1,5-8) m by (simp add: placement_score_def Let_def) (intro mul add sub div; simp)
qed

theorem placement_score_antitone_witness:
  "placement_score 8 (8 * gib) (node_allocations [vm1] ''n1'') sample_request
     \<le> placement_score 8 (8 * gib) no_allocation sample_request"
  by (rule placement_score_antitone)
    (simp_all add: node_allocations_sums counted_def vm1_def no_allocation_def sample_request_def gib_def
      wrap64_def int64_def min_int64_def max_int64_def)

end
