(* ===== verification/Quota.thy ===== *)
theory Quota
  imports Aurora_Prelude
begin

text \<open>
  Plans, subscriptions and resource quotas: \<open>internal/domain/billing\<close>, the in-memory
  repositories of \<open>internal/infra/memory/billing_repo.go\<close>, and the quota engine of
  \<open>internal/app/billing/quota.go\<close>, whose mutex makes each of its methods one step. Counters are
  \<open>int64\<close> and every sum wraps. The port \<open>billing.QuotaRepository\<close> is the locale \<open>quota_port\<close>.
\<close>

section \<open>Data\<close>

datatype metric =
    VCPUHours | RAMGBHours | StorageGBMonths | IPv4Addresses | SnapshotCount | BackupStorageMB
  | NetworkEgressGB | InstanceCount

record plan =
  pl_id :: string
  pl_name :: string
  pl_slug :: string
  pl_desc :: string
  pl_currency :: string
  pl_monthly :: int
  pl_yearly :: int
  pl_inc_vcpu :: int
  pl_inc_mem :: int
  pl_inc_storage :: int
  pl_inc_ipv4 :: int
  pl_inc_snapshots :: int
  pl_inc_backups :: int
  pl_inc_bandwidth :: int
  pl_max_instances :: int
  pl_max_vcpu :: int
  pl_max_mem :: int
  pl_max_storage :: int
  pl_features :: "string list"
  pl_active :: bool
  pl_created :: gtime
  pl_updated :: gtime

datatype sub_status = SubActive | SubCanceled | SubPastDue | SubIncomplete | SubTrialing

datatype cycle = Monthly | Yearly | OtherCycle string

record subscription =
  sb_id :: string
  sb_tenant :: string
  sb_plan :: string
  sb_status :: sub_status
  sb_cycle :: cycle
  sb_start :: gtime
  sb_end :: gtime
  sb_cancel_at_end :: bool
  sb_created :: gtime
  sb_updated :: gtime

record quota =
  q_tenant :: string
  q_metric :: metric
  q_limit :: int
  q_usage :: int
  q_reset :: string
  q_updated :: gtime

record resource_spec =
  rs_instances :: int
  rs_vcpu :: int
  rs_mem :: int
  rs_storage :: int
  rs_ipv4 :: int
  rs_snapshots :: int
  rs_backups :: int

text \<open>A tenant without a quota map and a tenant with an empty one are not distinguished.\<close>

record billing =
  bl_plans :: "string \<rightharpoonup> plan"
  bl_subs :: "string \<rightharpoonup> subscription"
  bl_tenants :: "string \<rightharpoonup> string"
  bl_quotas :: "string \<Rightarrow> metric \<rightharpoonup> quota"

section \<open>Domain checks\<close>

definition quota_available :: "quota \<Rightarrow> int" where
  "quota_available q =
     (if q_limit q \<le> 0 then 0
      else let a = wrap64 (q_limit q - q_usage q) in if a < 0 then 0 else a)"

definition can_allocate :: "quota \<Rightarrow> int \<Rightarrow> bool" where
  "can_allocate q delta = (if delta \<le> 0 then True else wrap64 (q_usage q + delta) \<le> q_limit q)"

definition spec_validate :: "resource_spec \<Rightarrow> go_error option" where
  "spec_validate s =
     (if rs_instances s < 0 \<or> rs_vcpu s < 0 \<or> rs_mem s < 0 \<or> rs_storage s < 0 \<or> rs_ipv4 s < 0
      then Some ErrInvalidPlanSpec else None)"

text \<open>The pattern \<open>^[a-z0-9][a-z0-9-]{1,62}[a-z0-9]$\<close>.\<close>

definition slug_ok :: "string \<Rightarrow> bool" where
  "slug_ok s \<longleftrightarrow> 3 \<le> length s \<and> length s \<le> 64 \<and> slug_char (hd s) \<and> slug_char (last s) \<and>
     list_all (\<lambda>c. slug_char c \<or> c = CHR ''-'') (butlast (tl s))"

text \<open>\<open>Plan.Validate\<close> normalises the plan in place, up to the check that fails.\<close>

definition plan_validate :: "plan \<Rightarrow> plan \<times> go_error option" where
  "plan_validate p =
     (let p = p\<lparr>pl_name := trim_space (pl_name p)\<rparr>
      in if pl_name p = '''' \<or> length (pl_name p) > 100 then (p, Some ErrInvalidPlanSpec)
         else let p = p\<lparr>pl_slug := to_lower (trim_space (pl_slug p))\<rparr>
         in if \<not> slug_ok (pl_slug p) then (p, Some ErrInvalidPlanSpec)
         else let p = p\<lparr>pl_currency := map upper_char (trim_space (pl_currency p))\<rparr>
         in if length (pl_currency p) \<noteq> 3 then (p, Some ErrInvalidPlanSpec)
         else if pl_monthly p < 0 \<or> pl_yearly p < 0 then (p, Some ErrInvalidPlanSpec)
         else if pl_max_instances p < 0 \<or> pl_max_vcpu p < 0 \<or> pl_max_mem p < 0 \<or> pl_max_storage p < 0
         then (p, Some ErrInvalidPlanSpec)
         else if pl_inc_vcpu p < 0 \<or> pl_inc_mem p < 0 \<or> pl_inc_storage p < 0 \<or> pl_inc_ipv4 p < 0
         then (p, Some ErrInvalidPlanSpec)
         else (p, None))"

definition sub_validate :: "subscription \<Rightarrow> go_error option" where
  "sub_validate s =
     (if sb_tenant s = '''' then Some ErrInvalidSubscription
      else if sb_plan s = '''' then Some ErrInvalidSubscription
      else if sb_cycle s \<noteq> Monthly \<and> sb_cycle s \<noteq> Yearly then Some ErrInvalidSubscription
      else if sb_end s < sb_start s then Some ErrInvalidSubscription
      else None)"

section \<open>Plan repository\<close>

definition default_plans :: "gtime \<Rightarrow> plan list" where
  "default_plans now =
    [\<lparr>pl_id = ''plan-starter'', pl_name = ''Starter Developer'', pl_slug = ''starter'',
      pl_desc = ''Entry level compute for staging and lightweight microservices'',
      pl_currency = ''EUR'', pl_monthly = 500, pl_yearly = 5000, pl_inc_vcpu = 1,
      pl_inc_mem = 1024, pl_inc_storage = 10240, pl_inc_ipv4 = 1, pl_inc_snapshots = 2,
      pl_inc_backups = 1, pl_inc_bandwidth = 1000, pl_max_instances = 5, pl_max_vcpu = 4,
      pl_max_mem = 8192, pl_max_storage = 81920,
      pl_features = [''snapshots'', ''cloudinit'', ''ddos_protection''],
      pl_active = True, pl_created = now, pl_updated = now\<rparr>,
     \<lparr>pl_id = ''plan-pro'', pl_name = ''Pro Production'', pl_slug = ''pro'',
      pl_desc = ''High performance NVMe workloads for production APIs and databases'',
      pl_currency = ''EUR'', pl_monthly = 2000, pl_yearly = 20000, pl_inc_vcpu = 4,
      pl_inc_mem = 8192, pl_inc_storage = 81920, pl_inc_ipv4 = 2, pl_inc_snapshots = 10,
      pl_inc_backups = 5, pl_inc_bandwidth = 5000, pl_max_instances = 15, pl_max_vcpu = 16,
      pl_max_mem = 32768, pl_max_storage = 327680,
      pl_features = [''snapshots'', ''backups'', ''cloudinit'', ''monitoring'', ''ddos_protection''],
      pl_active = True, pl_created = now, pl_updated = now\<rparr>,
     \<lparr>pl_id = ''plan-enterprise'', pl_name = ''Enterprise High-Availability'', pl_slug = ''enterprise'',
      pl_desc = ''Dedicated cluster resources, priority support, and multi-region failover'',
      pl_currency = ''EUR'', pl_monthly = 8000, pl_yearly = 80000, pl_inc_vcpu = 16,
      pl_inc_mem = 32768, pl_inc_storage = 327680, pl_inc_ipv4 = 5, pl_inc_snapshots = 50,
      pl_inc_backups = 20, pl_inc_bandwidth = 20000, pl_max_instances = 50, pl_max_vcpu = 64,
      pl_max_mem = 131072, pl_max_storage = 1310720,
      pl_features = [''snapshots'', ''backups'', ''cloudinit'', ''monitoring'', ''siem'', ''priority_sla''],
      pl_active = True, pl_created = now, pl_updated = now\<rparr>]"

definition new_billing :: "gtime \<Rightarrow> billing" where
  "new_billing now =
     \<lparr>bl_plans = map_of (map (\<lambda>p. (pl_id p, p)) (default_plans now)), bl_subs = Map.empty,
      bl_tenants = Map.empty, bl_quotas = (\<lambda>_. Map.empty)\<rparr>"

definition plan_create :: "gtime \<Rightarrow> string \<Rightarrow> string list \<Rightarrow> plan \<Rightarrow> billing \<Rightarrow> billing \<times> plan result" where
  "plan_create now uuid ks p st =
     (if list_ex (\<lambda>q. equal_fold (pl_slug q) (pl_slug p)) (vals (bl_plans st) ks)
      then (st, Inl ErrPlanSlugExists)
      else let p = (if pl_id p = '''' then p\<lparr>pl_id := uuid\<rparr> else p);
               p = p\<lparr>pl_created := now, pl_updated := now\<rparr>
           in (st\<lparr>bl_plans := (bl_plans st)(pl_id p \<mapsto> p)\<rparr>, Inr p))"

definition plan_get :: "string \<Rightarrow> billing \<Rightarrow> plan result" where
  "plan_get pid st = (case bl_plans st pid of None \<Rightarrow> Inl ErrPlanNotFound | Some p \<Rightarrow> Inr p)"

definition plan_by_slug :: "string \<Rightarrow> string list \<Rightarrow> billing \<Rightarrow> plan result" where
  "plan_by_slug slug ks st =
     (case List.find (\<lambda>p. equal_fold (pl_slug p) slug) (vals (bl_plans st) ks) of
        None \<Rightarrow> Inl ErrPlanNotFound | Some p \<Rightarrow> Inr p)"

definition plan_list :: "bool \<Rightarrow> string list \<Rightarrow> billing \<Rightarrow> plan list" where
  "plan_list active_only ks st = filter (\<lambda>p. \<not> active_only \<or> pl_active p) (vals (bl_plans st) ks)"

definition plan_update :: "gtime \<Rightarrow> string list \<Rightarrow> plan \<Rightarrow> billing \<Rightarrow> billing \<times> plan result" where
  "plan_update now ks p st =
     (case bl_plans st (pl_id p) of
        None \<Rightarrow> (st, Inl ErrPlanNotFound)
      | Some old \<Rightarrow>
          if list_ex (\<lambda>q. pl_id q \<noteq> pl_id p \<and> equal_fold (pl_slug q) (pl_slug p)) (vals (bl_plans st) ks)
          then (st, Inl ErrPlanSlugExists)
          else let p = p\<lparr>pl_created := pl_created old, pl_updated := now\<rparr>
               in (st\<lparr>bl_plans := (bl_plans st)(pl_id p \<mapsto> p)\<rparr>, Inr p))"

definition plan_delete :: "string \<Rightarrow> billing \<Rightarrow> billing \<times> go_error option" where
  "plan_delete pid st =
     (if bl_plans st pid = None then (st, Some ErrPlanNotFound)
      else (st\<lparr>bl_plans := (bl_plans st)(pid := None)\<rparr>, None))"

section \<open>Subscription repository\<close>

definition sub_create :: "gtime \<Rightarrow> string \<Rightarrow> subscription \<Rightarrow> billing \<Rightarrow> billing \<times> subscription" where
  "sub_create now uuid s st =
     (let s = (if sb_id s = '''' then s\<lparr>sb_id := uuid\<rparr> else s);
          s = s\<lparr>sb_created := now, sb_updated := now\<rparr>
      in (st\<lparr>bl_subs := (bl_subs st)(sb_id s \<mapsto> s),
             bl_tenants := (bl_tenants st)(sb_tenant s \<mapsto> sb_id s)\<rparr>, s))"

definition sub_get :: "string \<Rightarrow> billing \<Rightarrow> subscription result" where
  "sub_get sid st = (case bl_subs st sid of None \<Rightarrow> Inl ErrSubscriptionNotFound | Some s \<Rightarrow> Inr s)"

definition sub_by_tenant :: "string \<Rightarrow> billing \<Rightarrow> subscription result" where
  "sub_by_tenant tid st =
     (case bl_tenants st tid of None \<Rightarrow> Inl ErrSubscriptionNotFound | Some sid \<Rightarrow> sub_get sid st)"

definition sub_list :: "string list \<Rightarrow> billing \<Rightarrow> subscription list" where
  "sub_list ks st = vals (bl_subs st) ks"

definition sub_update :: "gtime \<Rightarrow> subscription \<Rightarrow> billing \<Rightarrow> billing \<times> subscription result" where
  "sub_update now s st =
     (case bl_subs st (sb_id s) of
        None \<Rightarrow> (st, Inl ErrSubscriptionNotFound)
      | Some old \<Rightarrow>
          (let s = s\<lparr>sb_created := sb_created old, sb_updated := now\<rparr>
           in (st\<lparr>bl_subs := (bl_subs st)(sb_id s \<mapsto> s),
                  bl_tenants := (bl_tenants st)(sb_tenant s \<mapsto> sb_id s)\<rparr>, Inr s)))"

definition sub_cancel :: "gtime \<Rightarrow> string \<Rightarrow> billing \<Rightarrow> billing \<times> go_error option" where
  "sub_cancel now sid st =
     (case bl_subs st sid of
        None \<Rightarrow> (st, Some ErrSubscriptionNotFound)
      | Some s \<Rightarrow> (st\<lparr>bl_subs := (bl_subs st)(sid \<mapsto> s\<lparr>sb_status := SubCanceled, sb_updated := now\<rparr>)\<rparr>, None))"

section \<open>Quota repository\<close>

definition quota_get :: "string \<Rightarrow> metric \<Rightarrow> billing \<Rightarrow> quota result" where
  "quota_get tid m st = (case bl_quotas st tid m of None \<Rightarrow> Inl ErrQuotaNotFound | Some q \<Rightarrow> Inr q)"

definition quota_list :: "string \<Rightarrow> billing \<Rightarrow> (metric \<rightharpoonup> quota)" where
  "quota_list tid st = bl_quotas st tid"

definition put_quota :: "string \<Rightarrow> metric \<Rightarrow> quota \<Rightarrow> billing \<Rightarrow> billing" where
  "put_quota tid m q st = st\<lparr>bl_quotas := (bl_quotas st)(tid := (bl_quotas st tid)(m \<mapsto> q))\<rparr>"

definition quota_set :: "gtime \<Rightarrow> quota \<Rightarrow> billing \<Rightarrow> billing" where
  "quota_set now q st = put_quota (q_tenant q) (q_metric q) (q\<lparr>q_updated := now\<rparr>) st"

definition quota_reserve ::
  "gtime \<Rightarrow> string \<Rightarrow> metric \<Rightarrow> int \<Rightarrow> int \<Rightarrow> billing \<Rightarrow> billing \<times> go_error option" where
  "quota_reserve now tid m delta limit st =
     (let q = (case bl_quotas st tid m of
                 None \<Rightarrow> \<lparr>q_tenant = tid, q_metric = m, q_limit = limit, q_usage = 0,
                          q_reset = ''none'', q_updated = now\<rparr>
               | Some q \<Rightarrow> q);
          q = (if limit > 0 \<and> q_limit q \<noteq> limit then q\<lparr>q_limit := limit\<rparr> else q)
      in if q_limit q > 0 \<and> wrap64 (q_usage q + delta) > q_limit q
         then (put_quota tid m q st, Some ErrQuotaExceeded)
         else (put_quota tid m (q\<lparr>q_usage := wrap64 (q_usage q + delta), q_updated := now\<rparr>) st, None))"

definition quota_release :: "gtime \<Rightarrow> string \<Rightarrow> metric \<Rightarrow> int \<Rightarrow> billing \<Rightarrow> billing" where
  "quota_release now tid m delta st =
     (case bl_quotas st tid m of
        None \<Rightarrow> st
      | Some q \<Rightarrow>
          (let u = wrap64 (q_usage q - delta)
           in put_quota tid m (q\<lparr>q_usage := (if u < 0 then 0 else u), q_updated := now\<rparr>) st))"

section \<open>Quota engine\<close>

definition get_tenant_plan :: "string list \<Rightarrow> string \<Rightarrow> billing \<Rightarrow> plan result" where
  "get_tenant_plan ks tid st =
     (case sub_by_tenant tid st of
        Inl err \<Rightarrow> (case plan_list True ks st of [] \<Rightarrow> Inl err | p # _ \<Rightarrow> Inr p)
      | Inr s \<Rightarrow> plan_get (sb_plan s) st)"

definition usage_of :: "string \<Rightarrow> billing \<Rightarrow> metric \<Rightarrow> int" where
  "usage_of tid st m = (case bl_quotas st tid m of None \<Rightarrow> 0 | Some q \<Rightarrow> q_usage q)"

definition over_limit :: "string \<Rightarrow> billing \<Rightarrow> metric \<Rightarrow> int \<Rightarrow> int \<Rightarrow> bool" where
  "over_limit tid st m delta limit \<longleftrightarrow> limit > 0 \<and> wrap64 (usage_of tid st m + delta) > limit"

definition check_quota :: "string list \<Rightarrow> string \<Rightarrow> resource_spec \<Rightarrow> billing \<Rightarrow> go_error option" where
  "check_quota ks tid spec st =
     (case get_tenant_plan ks tid st of
        Inl err \<Rightarrow> Some err
      | Inr p \<Rightarrow>
          if rs_instances spec > 0 \<and> over_limit tid st InstanceCount (rs_instances spec) (pl_max_instances p)
          then Some ErrQuotaExceeded
          else if rs_vcpu spec > 0 \<and> over_limit tid st VCPUHours (rs_vcpu spec) (pl_max_vcpu p)
          then Some ErrQuotaExceeded
          else if rs_mem spec > 0 \<and> over_limit tid st RAMGBHours (rs_mem spec) (pl_max_mem p)
          then Some ErrQuotaExceeded
          else if rs_storage spec > 0 \<and> over_limit tid st StorageGBMonths (rs_storage spec) (pl_max_storage p)
          then Some ErrQuotaExceeded
          else None)"

definition release_if :: "gtime \<Rightarrow> string \<Rightarrow> metric \<Rightarrow> int \<Rightarrow> billing \<Rightarrow> billing" where
  "release_if now tid m delta st = (if delta > 0 then quota_release now tid m delta st else st)"

definition reserve_if ::
  "gtime \<Rightarrow> string \<Rightarrow> metric \<Rightarrow> int \<Rightarrow> int \<Rightarrow> billing \<Rightarrow> billing \<times> go_error option" where
  "reserve_if now tid m delta limit st =
     (if delta > 0 then quota_reserve now tid m delta limit st else (st, None))"

definition reserve_quota ::
  "gtime \<Rightarrow> string list \<Rightarrow> string \<Rightarrow> resource_spec \<Rightarrow> billing \<Rightarrow> billing \<times> go_error option" where
  "reserve_quota now ks tid spec st =
     (case get_tenant_plan ks tid st of
        Inl err \<Rightarrow> (st, Some err)
      | Inr p \<Rightarrow>
     (case reserve_if now tid InstanceCount (rs_instances spec) (pl_max_instances p) st of
        (st, Some err) \<Rightarrow> (st, Some err)
      | (st, None) \<Rightarrow>
     (case reserve_if now tid VCPUHours (rs_vcpu spec) (pl_max_vcpu p) st of
        (st, Some err) \<Rightarrow> (release_if now tid InstanceCount (rs_instances spec) st, Some err)
      | (st, None) \<Rightarrow>
     (case reserve_if now tid RAMGBHours (rs_mem spec) (pl_max_mem p) st of
        (st, Some err) \<Rightarrow>
          (release_if now tid VCPUHours (rs_vcpu spec)
            (release_if now tid InstanceCount (rs_instances spec) st), Some err)
      | (st, None) \<Rightarrow>
     (case reserve_if now tid StorageGBMonths (rs_storage spec) (pl_max_storage p) st of
        (st, Some err) \<Rightarrow>
          (release_if now tid RAMGBHours (rs_mem spec)
            (release_if now tid VCPUHours (rs_vcpu spec)
              (release_if now tid InstanceCount (rs_instances spec) st)), Some err)
      | (st, None) \<Rightarrow> (st, None))))))"

definition release_quota :: "gtime \<Rightarrow> string \<Rightarrow> resource_spec \<Rightarrow> billing \<Rightarrow> billing" where
  "release_quota now tid spec st =
     release_if now tid IPv4Addresses (rs_ipv4 spec)
       (release_if now tid StorageGBMonths (rs_storage spec)
         (release_if now tid RAMGBHours (rs_mem spec)
           (release_if now tid VCPUHours (rs_vcpu spec)
             (release_if now tid InstanceCount (rs_instances spec) st))))"

definition fill_quota :: "string \<Rightarrow> metric \<Rightarrow> int \<Rightarrow> (metric \<rightharpoonup> quota) \<Rightarrow> (metric \<rightharpoonup> quota)" where
  "fill_quota tid m limit qs =
     (if qs m = None
      then qs(m \<mapsto> \<lparr>q_tenant = tid, q_metric = m, q_limit = limit, q_usage = 0, q_reset = '''',
                     q_updated = zero_time\<rparr>) else qs)"

definition get_tenant_quotas ::
  "string list \<Rightarrow> string \<Rightarrow> billing \<Rightarrow> ((metric \<rightharpoonup> quota) \<times> plan) result" where
  "get_tenant_quotas ks tid st =
     (case get_tenant_plan ks tid st of
        Inl err \<Rightarrow> Inl err
      | Inr p \<Rightarrow>
          Inr (fill_quota tid StorageGBMonths (pl_max_storage p)
                (fill_quota tid RAMGBHours (pl_max_mem p)
                  (fill_quota tid VCPUHours (pl_max_vcpu p)
                    (fill_quota tid InstanceCount (pl_max_instances p) (quota_list tid st)))), p))"

section \<open>The repository port\<close>

text \<open>
  What the engine relies on: as long as the counter stays inside \<open>int64\<close>, a reservation adds
  its amount or fails and leaves all usage alone, a release subtracts down to zero at most,
  and other metrics are untouched. \<open>ok\<close> is the repository's own invariant.
\<close>

type_synonym demand = "metric \<times> int \<times> int"

fun reserve_list ::
  "(metric \<Rightarrow> int \<Rightarrow> int \<Rightarrow> 's \<Rightarrow> 's \<times> go_error option) \<Rightarrow> (metric \<Rightarrow> int \<Rightarrow> 's \<Rightarrow> 's) \<Rightarrow>
   (metric \<times> int) list \<Rightarrow> demand list \<Rightarrow> 's \<Rightarrow> 's \<times> go_error option" where
  "reserve_list rsv rel don [] s = (s, None)"
| "reserve_list rsv rel don ((m, d, l) # ds) s =
     (case rsv m d l s of
        (s, None) \<Rightarrow> reserve_list rsv rel (don @ [(m, d)]) ds s
      | (s, Some e) \<Rightarrow> (fold (\<lambda>(m, d). rel m d) don s, Some e))"

locale quota_port =
  fixes rsv :: "metric \<Rightarrow> int \<Rightarrow> int \<Rightarrow> 's \<Rightarrow> 's \<times> go_error option"
    and rel :: "metric \<Rightarrow> int \<Rightarrow> 's \<Rightarrow> 's"
    and use :: "'s \<Rightarrow> metric \<Rightarrow> int"
    and ok :: "'s \<Rightarrow> bool"
  assumes rsv_ok: "ok s \<Longrightarrow> 0 < d \<Longrightarrow> int64 (use s m + d) \<Longrightarrow> rsv m d l s = (s', res) \<Longrightarrow> ok s'"
    and rsv_use: "ok s \<Longrightarrow> 0 < d \<Longrightarrow> int64 (use s m + d) \<Longrightarrow> rsv m d l s = (s', None) \<Longrightarrow>
      use s' = (use s)(m := use s m + d)"
    and rsv_fail: "ok s \<Longrightarrow> 0 < d \<Longrightarrow> int64 (use s m + d) \<Longrightarrow> rsv m d l s = (s', Some e) \<Longrightarrow> use s' = use s"
    and rsv_limit: "ok s \<Longrightarrow> 0 < d \<Longrightarrow> int64 (use s m + d) \<Longrightarrow> rsv m d l s = (s', None) \<Longrightarrow> 0 < l \<Longrightarrow>
      use s' m \<le> l"
    and rel_ok: "ok s \<Longrightarrow> 0 < d \<Longrightarrow> ok (rel m d s)"
    and rel_use: "ok s \<Longrightarrow> 0 < d \<Longrightarrow> d \<le> use s m \<Longrightarrow> use (rel m d s) = (use s)(m := use s m - d)"
    and use_nonneg: "ok s \<Longrightarrow> 0 \<le> use s m"
begin

text \<open>Releasing a list of amounts for distinct metrics subtracts each of them.\<close>

lemma rel_all:
  assumes "ok s" and "distinct (map fst don)" and "\<forall>(m, d) \<in> set don. 0 < d \<and> d \<le> use s m"
  shows "ok (fold (\<lambda>(m, d). rel m d) don s) \<and>
    use (fold (\<lambda>(m, d). rel m d) don s) =
      (\<lambda>m. case map_of don m of None \<Rightarrow> use s m | Some d \<Rightarrow> use s m - d)"
  using assms
proof (induction don arbitrary: s)
  case Nil
  then show ?case by simp
next
  case (Cons x don)
  obtain m d where x: "x = (m, d)" by force
  let ?s = "rel m d s"
  have d: "0 < d" "d \<le> use s m" using Cons.prems(3) x by auto
  have u: "use ?s = (use s)(m := use s m - d)" using rel_use [OF Cons.prems(1) d] .
  have nm: "m \<notin> fst ` set don" using Cons.prems(2) x by simp
  have "\<forall>(m', d') \<in> set don. 0 < d' \<and> d' \<le> use ?s m'"
    using Cons.prems(3) nm by (force simp: u)
  with Cons.IH [OF rel_ok [OF Cons.prems(1) d(1)]] Cons.prems(2)
  have "ok (fold (\<lambda>(m, d). rel m d) don ?s) \<and> use (fold (\<lambda>(m, d). rel m d) don ?s) =
      (\<lambda>m'. case map_of don m' of None \<Rightarrow> use ?s m' | Some d \<Rightarrow> use ?s m' - d)"
    by simp
  moreover have "map_of don m = None" using nm by (simp add: map_of_eq_None_iff)
  ultimately show ?case by (auto simp: x u fun_eq_iff split: option.splits)
qed

text \<open>A sequence of reservations for distinct metrics takes all of them or none.\<close>

lemma reserve_list_all_or_nothing:
  assumes "ok s" and "distinct (map fst don @ map fst ds)"
    and "\<forall>(m, d) \<in> set don. 0 < d \<and> d \<le> use s m"
    and "\<forall>(m, d, l) \<in> set ds. 0 < d \<and> int64 (use s m + d)"
    and "reserve_list rsv rel don ds s = (s', e)"
  shows "ok s' \<and>
     (e = None \<longrightarrow> use s' = (\<lambda>m. case map_of ds m of None \<Rightarrow> use s m | Some (d, l) \<Rightarrow> use s m + d) \<and>
        (\<forall>(m, d, l) \<in> set ds. 0 < l \<longrightarrow> use s' m \<le> l)) \<and>
     (e \<noteq> None \<longrightarrow> use s' = (\<lambda>m. case map_of don m of None \<Rightarrow> use s m | Some d \<Rightarrow> use s m - d))"
  using assms
proof (induction ds arbitrary: don s)
  case Nil
  then show ?case by simp
next
  case (Cons x ds)
  obtain m d l where x: "x = (m, d, l)" by (cases x)
  obtain s1 e1 where r: "rsv m d l s = (s1, e1)" by force
  have d: "0 < d" "int64 (use s m + d)" using Cons.prems(4) x by auto
  have ok1: "ok s1" using rsv_ok [OF Cons.prems(1) d r] .
  have nm: "m \<notin> fst ` set don" "m \<notin> fst ` set ds" "distinct (map fst don @ map fst ds)"
    using Cons.prems(2) x by auto
  show ?case
  proof (cases e1)
    case (Some err)
    have u: "use s1 = use s" using rsv_fail [OF Cons.prems(1) d] r Some by simp
    have "s' = fold (\<lambda>(m, d). rel m d) don s1" "e = Some err"
      using Cons.prems(5) x r Some by auto
    with rel_all [OF ok1, of don] nm(3) Cons.prems(3) u show ?thesis by (simp cong: option.case_cong)
  next
    case None
    have u: "use s1 = (use s)(m := use s m + d)" using rsv_use [OF Cons.prems(1) d] r None by simp
    have lim: "0 < l \<longrightarrow> use s1 m \<le> l" using rsv_limit [OF Cons.prems(1) d] r None by simp
    have "0 \<le> use s m" using use_nonneg [OF Cons.prems(1)] .
    then have don: "\<forall>(m', d') \<in> set (don @ [(m, d)]). 0 < d' \<and> d' \<le> use s1 m'"
      using Cons.prems(3) nm(1) d(1) by (force simp: u)
    have ds: "\<forall>(m', d', l') \<in> set ds. 0 < d' \<and> int64 (use s1 m' + d')"
      using Cons.prems(4) nm(2) by (force simp: u x)
    have e: "reserve_list rsv rel (don @ [(m, d)]) ds s1 = (s', e)" using Cons.prems(5) x r None by simp
    have dist: "distinct (map fst (don @ [(m, d)]) @ map fst ds)" using nm by auto
    note IH = Cons.IH [OF ok1 dist don ds e]
    have mo: "map_of ds m = None" "map_of don m = None" using nm by (simp_all add: map_of_eq_None_iff)
    show ?thesis
    proof (intro conjI impI)
      show "ok s'" using IH by blast
    next
      assume "e = None"
      with IH have us: "use s' = (\<lambda>m. case map_of ds m of None \<Rightarrow> use s1 m | Some (d, l) \<Rightarrow> use s1 m + d)"
        and ls: "\<forall>(m, d, l) \<in> set ds. 0 < l \<longrightarrow> use s' m \<le> l" by blast+
      have um: "use s' m = use s1 m" using mo(1) by (simp add: us)
      show "use s' = (\<lambda>m'. case map_of (x # ds) m' of None \<Rightarrow> use s m' | Some (d, l) \<Rightarrow> use s m' + d)"
      proof
        fix k
        show "use s' k = (case map_of (x # ds) k of None \<Rightarrow> use s k | Some (d, l) \<Rightarrow> use s k + d)"
          using um by (cases "k = m") (auto simp: x u us split: option.splits)
      qed
      show "\<forall>(m', d', l') \<in> set (x # ds). 0 < l' \<longrightarrow> use s' m' \<le> l'"
        using ls lim um by (simp add: x)
    next
      assume "e \<noteq> None"
      with IH have us: "use s' = (\<lambda>m'. case map_of (don @ [(m, d)]) m' of None \<Rightarrow> use s1 m' | Some d \<Rightarrow> use s1 m' - d)"
        by blast
      show "use s' = (\<lambda>m. case map_of don m of None \<Rightarrow> use s m | Some d \<Rightarrow> use s m - d)"
      proof
        fix k
        show "use s' k = (case map_of don k of None \<Rightarrow> use s k | Some d \<Rightarrow> use s k - d)"
          using mo(2) by (cases "k = m") (simp_all add: u us map_add_def split: option.splits)
      qed
    qed
  qed
qed

end

section \<open>The memory repository implements the port\<close>

definition quotas_ok :: "string \<Rightarrow> billing \<Rightarrow> bool" where
  "quotas_ok tid st \<longleftrightarrow> (\<forall>m q. bl_quotas st tid m = Some q \<longrightarrow> 0 \<le> q_usage q \<and> int64 (q_usage q))"

lemma put_quota_get [simp]:
  "bl_quotas (put_quota tid m q st) t k = (if t = tid \<and> k = m then Some q else bl_quotas st t k)"
  by (simp add: put_quota_def)

lemma usage_put: "usage_of tid (put_quota tid m q st) = (usage_of tid st)(m := q_usage q)"
  by (auto simp: usage_of_def fun_eq_iff)

lemma put_quota_ok: "quotas_ok tid st \<Longrightarrow> 0 \<le> q_usage q \<Longrightarrow> int64 (q_usage q) \<Longrightarrow> quotas_ok tid (put_quota tid m q st)"
  by (auto simp: quotas_ok_def)

lemma usage_ok: "quotas_ok tid st \<Longrightarrow> 0 \<le> usage_of tid st m \<and> int64 (usage_of tid st m)"
  by (auto simp: quotas_ok_def usage_of_def int64_def max_int64_def min_int64_def split: option.splits)

text \<open>The quota record a reservation works on, with the limit of the plan.\<close>

lemma quota_reserve_cases:
  assumes "quotas_ok tid st" and "int64 (usage_of tid st m + d)" and "quota_reserve now tid m d l st = (st', e)"
  obtains q where "q_usage q = usage_of tid st m" "0 < l \<longrightarrow> q_limit q = l"
    "e = None" "st' = put_quota tid m (q\<lparr>q_usage := usage_of tid st m + d, q_updated := now\<rparr>) st"
    "0 < q_limit q \<longrightarrow> usage_of tid st m + d \<le> q_limit q"
  | q where "q_usage q = usage_of tid st m" "0 < l \<longrightarrow> q_limit q = l"
    "e = Some ErrQuotaExceeded" "st' = put_quota tid m q st" "q_limit q < usage_of tid st m + d" "0 < q_limit q"
proof -
  define q0 where "q0 = (case bl_quotas st tid m of
      None \<Rightarrow> \<lparr>q_tenant = tid, q_metric = m, q_limit = l, q_usage = 0, q_reset = ''none'', q_updated = now\<rparr>
    | Some q \<Rightarrow> q)"
  define q where "q = (if l > 0 \<and> q_limit q0 \<noteq> l then q0\<lparr>q_limit := l\<rparr> else q0)"
  have u: "q_usage q = usage_of tid st m" "0 < l \<longrightarrow> q_limit q = l"
    by (auto simp: q_def q0_def usage_of_def split: option.splits)
  have "quota_reserve now tid m d l st =
    (if q_limit q > 0 \<and> wrap64 (q_usage q + d) > q_limit q then (put_quota tid m q st, Some ErrQuotaExceeded)
     else (put_quota tid m (q\<lparr>q_usage := wrap64 (q_usage q + d), q_updated := now\<rparr>) st, None))"
    by (simp add: quota_reserve_def Let_def q_def q0_def)
  with assms(2,3) u that show ?thesis by (auto split: if_splits)
qed

lemma quota_release_use:
  assumes "quotas_ok tid st" and "0 < d" and "d \<le> usage_of tid st m"
  shows "usage_of tid (quota_release now tid m d st) = (usage_of tid st)(m := usage_of tid st m - d)"
proof -
  obtain q where q: "bl_quotas st tid m = Some q" "q_usage q = usage_of tid st m"
    using assms(2,3) by (auto simp: usage_of_def split: option.splits)
  moreover have "int64 (usage_of tid st m - d)"
    using usage_ok [OF assms(1), of m] assms(2,3) by (auto simp: int64_def max_int64_def min_int64_def)
  ultimately show ?thesis using assms(3) by (simp add: quota_release_def Let_def usage_put)
qed

lemma quota_release_ok: "quotas_ok tid st \<Longrightarrow> quotas_ok tid (quota_release now tid m d st)"
  by (auto simp: quota_release_def Let_def int64_def max_int64_def min_int64_def split: option.splits
      intro!: put_quota_ok) (use int64_wrap64 in \<open>auto simp: int64_def max_int64_def min_int64_def\<close>)

interpretation memory_quota: quota_port "quota_reserve now tid" "quota_release now tid" "usage_of tid" "quotas_ok tid"
  for now tid
proof
  fix s s' :: billing and m :: metric and d l :: int and r :: "go_error option"
  assume a: "quotas_ok tid s" "0 < d" "int64 (usage_of tid s m + d)" "quota_reserve now tid m d l s = (s', r)"
  then show "quotas_ok tid s'"
    by (cases rule: quota_reserve_cases [OF a(1,3,4)]) (use usage_ok [OF a(1), of m] in \<open>auto intro!: put_quota_ok\<close>)
next
  fix s s' :: billing and m :: metric and d l :: int
  assume a: "quotas_ok tid s" "0 < d" "int64 (usage_of tid s m + d)" "quota_reserve now tid m d l s = (s', None)"
  then show "usage_of tid s' = (usage_of tid s)(m := usage_of tid s m + d)"
    by (cases rule: quota_reserve_cases [OF a(1,3,4)]) (auto simp: usage_put)
next
  fix s s' :: billing and m :: metric and d l :: int and e
  assume a: "quotas_ok tid s" "0 < d" "int64 (usage_of tid s m + d)" "quota_reserve now tid m d l s = (s', Some e)"
  then show "usage_of tid s' = usage_of tid s"
    by (cases rule: quota_reserve_cases [OF a(1,3,4)]) (auto simp: usage_put)
next
  fix s s' :: billing and m :: metric and d l :: int
  assume a: "quotas_ok tid s" "0 < d" "int64 (usage_of tid s m + d)" "quota_reserve now tid m d l s = (s', None)" "0 < l"
  then show "usage_of tid s' m \<le> l"
    by (cases rule: quota_reserve_cases [OF a(1,3,4)]) (auto simp: usage_put)
qed (auto simp: quota_release_ok quota_release_use usage_ok)

section \<open>The engine as a list of reservations\<close>

definition demands :: "plan \<Rightarrow> resource_spec \<Rightarrow> demand list" where
  "demands p spec = filter (\<lambda>(m, d, l). 0 < d)
     [(InstanceCount, rs_instances spec, pl_max_instances p), (VCPUHours, rs_vcpu spec, pl_max_vcpu p),
      (RAMGBHours, rs_mem spec, pl_max_mem p), (StorageGBMonths, rs_storage spec, pl_max_storage p)]"

lemma reserve_quota_list:
  assumes "get_tenant_plan ks tid st = Inr p"
  shows "reserve_quota now ks tid spec st =
     reserve_list (quota_reserve now tid) (quota_release now tid) [] (demands p spec) st"
  by (cases "rs_instances spec > 0"; cases "rs_vcpu spec > 0"; cases "rs_mem spec > 0"; cases "rs_storage spec > 0")
    (simp_all add: reserve_quota_def assms demands_def reserve_if_def release_if_def split: prod.splits option.splits)

lemma demands_ok: "distinct (map fst (demands p spec)) \<and> (\<forall>(m, d, l) \<in> set (demands p spec). 0 < d)"
  by (auto simp: demands_def)

text \<open>Other tenants.\<close>

lemma reserve_list_keeps:
  assumes "\<And>m d l s. P s \<Longrightarrow> P (fst (rsv m d l s))" and "\<And>m d s. P s \<Longrightarrow> P (rel m d s)"
    and "P s"
  shows "P (fst (reserve_list rsv rel don ds s))"
proof -
  have f: "P (fold (\<lambda>(m, d). rel m d) don s)" if "P s" for don s
    using that assms(2) by (induction don arbitrary: s) auto
  show ?thesis
    using assms(3)
  proof (induction ds arbitrary: don s)
    case (Cons x ds)
    obtain m d l where x: "x = (m, d, l)" by (cases x)
    obtain s1 e where r: "rsv m d l s = (s1, e)" by force
    have "P s1" using assms(1) [OF Cons.prems, of m d l] r by simp
    with Cons.IH f show ?case by (cases e) (simp_all add: x r)
  qed simp
qed

lemma reserve_other_tenant:
  assumes "t \<noteq> tid" shows "bl_quotas (fst (reserve_quota now ks tid spec st)) t = bl_quotas st t"
proof (cases "get_tenant_plan ks tid st")
  case (Inl e)
  then show ?thesis by (simp add: reserve_quota_def)
next
  case (Inr p)
  show ?thesis
    unfolding reserve_quota_list [OF Inr]
    by (rule reserve_list_keeps [where P = "\<lambda>s. bl_quotas s t = bl_quotas st t"])
      (use assms in \<open>auto simp: quota_reserve_def quota_release_def put_quota_def Let_def split: option.splits\<close>)
qed

text \<open>The effect of the engine on the counters, used by the services that reserve and release.\<close>

lemma reserve_effect:
  assumes "get_tenant_plan ks tid st = Inr p" and "quotas_ok tid st"
    and "\<forall>(m, d, l) \<in> set (demands p spec). int64 (usage_of tid st m + d)"
    and "reserve_quota now ks tid spec st = (st', e)"
  shows "quotas_ok tid st'"
    and "e \<noteq> None \<Longrightarrow> usage_of tid st' = usage_of tid st"
    and "e = None \<Longrightarrow> usage_of tid st' = (\<lambda>m. case map_of (demands p spec) m of None \<Rightarrow> usage_of tid st m
                                               | Some (d, l) \<Rightarrow> usage_of tid st m + d)"
    and "e = None \<Longrightarrow> \<forall>(m, d, l) \<in> set (demands p spec). 0 < l \<longrightarrow> usage_of tid st' m \<le> l"
proof -
  have r: "reserve_list (quota_reserve now tid) (quota_release now tid) [] (demands p spec) st = (st', e)"
    using reserve_quota_list [OF assms(1)] assms(4) by simp
  have ds: "\<forall>(m, d, l) \<in> set (demands p spec). 0 < d \<and> int64 (usage_of tid st m + d)"
    using assms(3) demands_ok [of p spec] by fastforce
  have "distinct (map fst ([] :: (metric \<times> int) list) @ map fst (demands p spec))"
    using demands_ok [of p spec] by simp
  moreover have "\<forall>(m, d) \<in> set ([] :: (metric \<times> int) list). 0 < d \<and> d \<le> usage_of tid st m" by simp
  ultimately have R: "quotas_ok tid st' \<and>
     (e = None \<longrightarrow> usage_of tid st' = (\<lambda>m. case map_of (demands p spec) m of None \<Rightarrow> usage_of tid st m
                                           | Some (d, l) \<Rightarrow> usage_of tid st m + d) \<and>
        (\<forall>(m, d, l) \<in> set (demands p spec). 0 < l \<longrightarrow> usage_of tid st' m \<le> l)) \<and>
     (e \<noteq> None \<longrightarrow> usage_of tid st' = (\<lambda>m. case map_of [] m of None \<Rightarrow> usage_of tid st m | Some d \<Rightarrow> usage_of tid st m - d))"
    using memory_quota.reserve_list_all_or_nothing [OF assms(2) _ _ ds r] by blast
  then show "quotas_ok tid st'"
    "e = None \<Longrightarrow> usage_of tid st' = (\<lambda>m. case map_of (demands p spec) m of None \<Rightarrow> usage_of tid st m
                                               | Some (d, l) \<Rightarrow> usage_of tid st m + d)"
    "e = None \<Longrightarrow> \<forall>(m, d, l) \<in> set (demands p spec). 0 < l \<longrightarrow> usage_of tid st' m \<le> l"
    by blast+
  show "e \<noteq> None \<Longrightarrow> usage_of tid st' = usage_of tid st" using R by simp
qed

text \<open>The amount a specification asks of a metric.\<close>

definition spec_amount :: "resource_spec \<Rightarrow> metric \<Rightarrow> int" where
  "spec_amount spec m =
     (case m of InstanceCount \<Rightarrow> max 0 (rs_instances spec) | VCPUHours \<Rightarrow> max 0 (rs_vcpu spec)
      | RAMGBHours \<Rightarrow> max 0 (rs_mem spec) | StorageGBMonths \<Rightarrow> max 0 (rs_storage spec) | _ \<Rightarrow> 0)"

lemma demands_amount:
  "map_of (demands p spec) m = None \<Longrightarrow> spec_amount spec m = 0"
  "map_of (demands p spec) m = Some (d, l) \<Longrightarrow> spec_amount spec m = d"
  by (cases m; simp add: demands_def spec_amount_def split: if_splits)+

lemma reserve_amounts:
  assumes "get_tenant_plan ks tid st = Inr p" and "quotas_ok tid st"
    and "\<And>m. int64 (usage_of tid st m + spec_amount spec m)"
    and "reserve_quota now ks tid spec st = (st', e)"
  shows "quotas_ok tid st'"
    and "usage_of tid st' m = usage_of tid st m + (if e = None then spec_amount spec m else 0)"
proof -
  have d: "\<forall>(m, d, l) \<in> set (demands p spec). int64 (usage_of tid st m + d)"
  proof clarify
    fix m d l
    assume "(m, d, l) \<in> set (demands p spec)"
    then have "map_of (demands p spec) m = Some (d, l)" using demands_ok [of p spec] by simp
    then show "int64 (usage_of tid st m + d)" using assms(3) [of m] by (simp add: demands_amount(2))
  qed
  note R = reserve_effect [OF assms(1,2) d assms(4)]
  show "quotas_ok tid st'" by (rule R(1))
  show "usage_of tid st' m = usage_of tid st m + (if e = None then spec_amount spec m else 0)"
    using R(2,3) demands_amount [of p spec m] by (cases "e = None") (auto split: option.splits)
qed

lemma release_if_amount:
  assumes "quotas_ok tid st" and "int64 d"
  shows "quotas_ok tid (release_if now tid m d st)"
    and "usage_of tid (release_if now tid m d st) k =
      (if k = m then max 0 (usage_of tid st m - max 0 d) else usage_of tid st k)"
proof -
  show "quotas_ok tid (release_if now tid m d st)" using assms(1) quota_release_ok by (simp add: release_if_def)
  have "0 \<le> usage_of tid st m \<and> int64 (usage_of tid st m)" by (rule usage_ok [OF assms(1)])
  then have "0 < d \<Longrightarrow> int64 (usage_of tid st m - d)" "0 \<le> usage_of tid st m"
    using assms(2) by (auto simp: int64_def max_int64_def min_int64_def)
  moreover have "usage_of tid st k = 0" if "bl_quotas st tid k = None" for k using that by (simp add: usage_of_def)
  moreover have "usage_of tid st k = q_usage q" if "bl_quotas st tid k = Some q" for k q
    using that by (simp add: usage_of_def)
  ultimately show "usage_of tid (release_if now tid m d st) k =
      (if k = m then max 0 (usage_of tid st m - max 0 d) else usage_of tid st k)"
    by (auto simp: release_if_def quota_release_def Let_def usage_put split: option.splits)
qed

definition spec64 :: "resource_spec \<Rightarrow> bool" where
  "spec64 spec \<longleftrightarrow> int64 (rs_instances spec) \<and> int64 (rs_vcpu spec) \<and> int64 (rs_mem spec) \<and> int64 (rs_storage spec)"

lemma release_amounts:
  assumes "quotas_ok tid st" and "spec64 spec" and "rs_ipv4 spec = 0"
  shows "quotas_ok tid (release_quota now tid spec st)"
    and "usage_of tid (release_quota now tid spec st) m = max 0 (usage_of tid st m - spec_amount spec m)"
proof -
  have a: "int64 (rs_instances spec)" "int64 (rs_vcpu spec)" "int64 (rs_mem spec)" "int64 (rs_storage spec)"
    using assms(2) by (simp_all add: spec64_def)
  have z: "release_if now tid IPv4Addresses (rs_ipv4 spec) s = s" for s
    using assms(3) by (simp add: release_if_def)
  show "quotas_ok tid (release_quota now tid spec st)"
    unfolding release_quota_def z by (intro release_if_amount(1) a assms(1))
  let ?s1 = "release_if now tid InstanceCount (rs_instances spec) st"
  let ?s2 = "release_if now tid VCPUHours (rs_vcpu spec) ?s1"
  let ?s3 = "release_if now tid RAMGBHours (rs_mem spec) ?s2"
  note r1 = release_if_amount [OF assms(1) a(1), of now InstanceCount]
  note r2 = release_if_amount [OF r1(1) a(2), of now VCPUHours]
  note r3 = release_if_amount [OF r2(1) a(3), of now RAMGBHours]
  note r4 = release_if_amount [OF r3(1) a(4), of now StorageGBMonths]
  have "0 \<le> usage_of tid st m" using usage_ok [OF assms(1)] by blast
  then show "usage_of tid (release_quota now tid spec st) m = max 0 (usage_of tid st m - spec_amount spec m)"
    unfolding release_quota_def z r4(2) r3(2) r2(2) r1(2)
    by (cases m) (simp_all add: spec_amount_def)
qed

lemma release_other_tenant:
  assumes "t \<noteq> tid" shows "bl_quotas (release_quota now tid spec st) t = bl_quotas st t"
proof -
  have "bl_quotas (release_if now tid m d s) t = bl_quotas s t" for m d s
    using assms by (simp add: release_if_def quota_release_def Let_def put_quota_def split: option.splits)
  then show ?thesis by (simp add: release_quota_def)
qed

section \<open>Properties\<close>


definition starter :: plan where
  "starter = hd (default_plans 0)"

definition sample_billing :: billing where
  "sample_billing = (new_billing 0)\<lparr>
     bl_subs := [''s1'' \<mapsto> \<lparr>sb_id = ''s1'', sb_tenant = ''alice'', sb_plan = ''plan-starter'',
       sb_status = SubActive, sb_cycle = Monthly, sb_start = 0, sb_end = 100, sb_cancel_at_end = False,
       sb_created = 0, sb_updated = 0\<rparr>],
     bl_tenants := [''alice'' \<mapsto> ''s1'']\<rparr>"

definition vm_spec :: "int \<Rightarrow> resource_spec" where
  "vm_spec cpus = \<lparr>rs_instances = 1, rs_vcpu = cpus, rs_mem = 1024, rs_storage = 0, rs_ipv4 = 0,
     rs_snapshots = 0, rs_backups = 0\<rparr>"

lemma sample_plan: "get_tenant_plan ks ''alice'' sample_billing = Inr starter"
  by (simp add: get_tenant_plan_def sub_by_tenant_def sub_get_def sample_billing_def plan_get_def
      new_billing_def default_plans_def starter_def)

lemma sample_quotas: "bl_quotas sample_billing tid m = None" "usage_of tid sample_billing m = 0"
  by (simp_all add: sample_billing_def new_billing_def usage_of_def)


lemma release_if_use:
  assumes "quotas_ok tid st" and "0 < d \<longrightarrow> d \<le> usage_of tid st m"
  shows "quotas_ok tid (release_if now tid m d st) \<and>
    usage_of tid (release_if now tid m d st) =
      (usage_of tid st)(m := usage_of tid st m - (if 0 < d then d else 0))"
  using assms quota_release_ok quota_release_use by (simp add: release_if_def)

lemma demands_lookup:
  "map_of (demands p spec) m =
     (case m of InstanceCount \<Rightarrow> if 0 < rs_instances spec then Some (rs_instances spec, pl_max_instances p) else None
      | VCPUHours \<Rightarrow> if 0 < rs_vcpu spec then Some (rs_vcpu spec, pl_max_vcpu p) else None
      | RAMGBHours \<Rightarrow> if 0 < rs_mem spec then Some (rs_mem spec, pl_max_mem p) else None
      | StorageGBMonths \<Rightarrow> if 0 < rs_storage spec then Some (rs_storage spec, pl_max_storage p) else None
      | _ \<Rightarrow> None)"
  by (cases m) (simp_all add: demands_def)

lemma release_quota_use:
  assumes "quotas_ok tid st" and "rs_ipv4 spec = 0"
    and "0 < rs_instances spec \<longrightarrow> rs_instances spec \<le> usage_of tid st InstanceCount"
    and "0 < rs_vcpu spec \<longrightarrow> rs_vcpu spec \<le> usage_of tid st VCPUHours"
    and "0 < rs_mem spec \<longrightarrow> rs_mem spec \<le> usage_of tid st RAMGBHours"
    and "0 < rs_storage spec \<longrightarrow> rs_storage spec \<le> usage_of tid st StorageGBMonths"
  shows "usage_of tid (release_quota now tid spec st) m =
    usage_of tid st m - (case map_of (demands p spec) m of None \<Rightarrow> 0 | Some (d, l) \<Rightarrow> d)"
proof -
  let ?s1 = "release_if now tid InstanceCount (rs_instances spec) st"
  let ?s2 = "release_if now tid VCPUHours (rs_vcpu spec) ?s1"
  let ?s3 = "release_if now tid RAMGBHours (rs_mem spec) ?s2"
  note r1 = release_if_use [OF assms(1,3), of now]
  note r2 = release_if_use [of tid ?s1 "rs_vcpu spec" VCPUHours now]
  note r3 = release_if_use [of tid ?s2 "rs_mem spec" RAMGBHours now]
  note r4 = release_if_use [of tid ?s3 "rs_storage spec" StorageGBMonths now]
  have u1: "quotas_ok tid ?s1" "usage_of tid ?s1 = (usage_of tid st)
      (InstanceCount := usage_of tid st InstanceCount - (if 0 < rs_instances spec then rs_instances spec else 0))"
    using r1 by simp_all
  have u2: "quotas_ok tid ?s2" "usage_of tid ?s2 = (usage_of tid ?s1)
      (VCPUHours := usage_of tid st VCPUHours - (if 0 < rs_vcpu spec then rs_vcpu spec else 0))"
    using r2 u1 assms(4) by simp_all
  have u3: "quotas_ok tid ?s3" "usage_of tid ?s3 = (usage_of tid ?s2)
      (RAMGBHours := usage_of tid st RAMGBHours - (if 0 < rs_mem spec then rs_mem spec else 0))"
    using r3 u1(2) u2 assms(5) by simp_all
  have "usage_of tid (release_quota now tid spec st) = (usage_of tid ?s3)
      (StorageGBMonths := usage_of tid st StorageGBMonths - (if 0 < rs_storage spec then rs_storage spec else 0))"
    using r4 u1(2) u2(2) u3 assms(2,6) by (simp add: release_quota_def release_if_def [of now tid IPv4Addresses])
  then show ?thesis by (cases m) (simp_all add: u1(2) u2(2) u3(2) demands_lookup)
qed

text \<open>
  Releasing what was reserved restores the usage of every metric: the counters after a
  successful reservation and the release of the same specification are those before it.
\<close>

theorem reserve_then_release:
  assumes "get_tenant_plan ks tid st = Inr p" and "quotas_ok tid st"
    and "\<forall>(m, d, l) \<in> set (demands p spec). int64 (usage_of tid st m + d)" and "rs_ipv4 spec = 0"
    and "reserve_quota now ks tid spec st = (st', None)"
  shows "usage_of tid (release_quota now' tid spec st') = usage_of tid st"
proof
  fix m
  have ok: "quotas_ok tid st'" and u: "usage_of tid st' = (\<lambda>m. case map_of (demands p spec) m of
      None \<Rightarrow> usage_of tid st m | Some (d, l) \<Rightarrow> usage_of tid st m + d)"
    using reserve_effect [OF assms(1-3,5)] by simp_all
  have "0 \<le> usage_of tid st k" for k using usage_ok [OF assms(2)] by blast
  then have "usage_of tid (release_quota now' tid spec st') m =
      usage_of tid st' m - (case map_of (demands p spec) m of None \<Rightarrow> 0 | Some (d, l) \<Rightarrow> d)"
    by (intro release_quota_use [OF ok assms(4)]) (simp_all add: u demands_lookup)
  then show "usage_of tid (release_quota now' tid spec st') m = usage_of tid st m"
    by (simp add: u split: option.splits prod.splits)
qed

theorem reserve_then_release_witness:
  "\<exists>st'. reserve_quota 5 [] ''alice'' (vm_spec 2) sample_billing = (st', None)
     \<and> usage_of ''alice'' st' VCPUHours = 2
     \<and> usage_of ''alice'' (release_quota 6 ''alice'' (vm_spec 2) st') VCPUHours = 0"
proof -
  obtain st' where r: "reserve_quota 5 [] ''alice'' (vm_spec 2) sample_billing = (st', None)"
    and u: "usage_of ''alice'' st' VCPUHours = 2"
    by (simp add: reserve_quota_def sample_plan reserve_if_def quota_reserve_def sample_quotas usage_of_def
        vm_spec_def starter_def default_plans_def Let_def int64_def max_int64_def min_int64_def)
  have "quotas_ok ''alice'' sample_billing" by (simp add: quotas_ok_def sample_quotas)
  moreover have "\<forall>(m, d, l) \<in> set (demands starter (vm_spec 2)). int64 (usage_of ''alice'' sample_billing m + d)"
    by (auto simp: demands_def vm_spec_def sample_quotas int64_def max_int64_def min_int64_def)
  ultimately have "usage_of ''alice'' (release_quota 6 ''alice'' (vm_spec 2) st') = usage_of ''alice'' sample_billing"
    by (rule reserve_then_release [OF sample_plan _ _ _ r]) (simp add: vm_spec_def)
  with r u show ?thesis by (simp add: sample_quotas)
qed

text \<open>
  A huge request passes the limit by wrap-around: with any usage of at least one and any
  limit, a request for the largest 64-bit amount makes the sum negative, so that both the
  check and the reservation accept it, and the stored usage becomes negative.
\<close>

theorem quota_overflow_bypass:
  assumes "bl_quotas st tid m = Some q" and "1 \<le> q_usage q" and "q_usage q \<le> max_int64" and "0 < limit"
  shows "\<not> over_limit tid st m max_int64 limit
     \<and> (\<exists>st'. quota_reserve now tid m max_int64 limit st = (st', None) \<and> usage_of tid st' m < 0)"
proof -
  have "q_usage q + max_int64 + 9223372036854775808 = (q_usage q - 1) + 18446744073709551616"
    by (simp add: max_int64_def)
  then have "(q_usage q + max_int64 + 9223372036854775808) mod 18446744073709551616 = q_usage q - 1"
    using assms(2,3) by (simp only: mod_add_self2) (simp add: max_int64_def)
  then have w: "wrap64 (q_usage q + max_int64) < 0"
    using assms(3) by (simp add: wrap64_def max_int64_def)
  then show ?thesis
    using assms(1,4) by (auto simp: over_limit_def usage_of_def quota_reserve_def Let_def)
qed

definition one_vm :: billing where
  "one_vm = put_quota ''alice'' VCPUHours \<lparr>q_tenant = ''alice'', q_metric = VCPUHours, q_limit = 4,
     q_usage = 1, q_reset = ''none'', q_updated = 0\<rparr> sample_billing"

theorem quota_overflow_bypass_witness:
  "\<exists>st'. quota_reserve 9 ''alice'' VCPUHours max_int64 4 one_vm = (st', None) \<and> usage_of ''alice'' st' VCPUHours < 0"
proof -
  have q: "bl_quotas one_vm ''alice'' VCPUHours = Some \<lparr>q_tenant = ''alice'', q_metric = VCPUHours, q_limit = 4,
      q_usage = 1, q_reset = ''none'', q_updated = 0\<rparr>" by (simp add: one_vm_def)
  from quota_overflow_bypass [OF q, of 4 9] show ?thesis by (simp add: max_int64_def)
qed

text \<open>
  A limit of zero means unlimited to the check but not to the reservation: after a plan
  change to a plan without a limit for a metric, the check accepts a request while the
  reservation still enforces the limit stored under the old plan.
\<close>

theorem stale_limit_enforced:
  assumes "bl_quotas st tid m = Some q" and "0 < q_limit q" and "limit = 0"
    and "q_limit q < q_usage q + delta" and "int64 (q_usage q + delta)"
  shows "\<not> over_limit tid st m delta limit
     \<and> snd (quota_reserve now tid m delta limit st) = Some ErrQuotaExceeded"
  using assms by (simp add: over_limit_def quota_reserve_def Let_def)

theorem stale_limit_enforced_witness:
  "\<not> over_limit ''alice'' one_vm VCPUHours 4 0
   \<and> snd (quota_reserve 9 ''alice'' VCPUHours 4 0 one_vm) = Some ErrQuotaExceeded"
  by (rule stale_limit_enforced [where q = "\<lparr>q_tenant = ''alice'', q_metric = VCPUHours, q_limit = 4,
      q_usage = 1, q_reset = ''none'', q_updated = 0\<rparr>"])
    (simp_all add: one_vm_def int64_def max_int64_def min_int64_def)

text \<open>
  The plan of a tenant without a subscription depends on the iteration order of a map:
  for every active plan of the catalogue there is an order of the plan map under which the
  fallback is that plan, so that the same tenant may get the limits of the enterprise plan
  instead of those of the starter plan.
\<close>

theorem default_plan_is_arbitrary:
  assumes "bl_tenants st tid = None" and "finite (dom (bl_plans st))"
    and "bl_plans st k = Some p" and "pl_active p"
  shows "\<exists>ks. iterates (bl_plans st) ks \<and> get_tenant_plan ks tid st = Inr p"
proof -
  obtain ks where "set ks = dom (bl_plans st) - {k}" "distinct ks"
    using finite_distinct_list [of "dom (bl_plans st) - {k}"] assms(2) by auto
  then have "iterates (bl_plans st) (k # ks)" using assms(3) by (auto simp: iterates_def)
  moreover have "get_tenant_plan (k # ks) tid st = Inr p"
    using assms by (simp add: get_tenant_plan_def sub_by_tenant_def plan_list_def)
  ultimately show ?thesis by blast
qed

theorem default_plan_is_arbitrary_witness:
  "\<exists>ks p. get_tenant_plan ks ''bob'' (new_billing 0) = Inr p \<and> pl_max_vcpu p = 64"
proof -
  have f: "finite (dom (bl_plans (new_billing 0)))" by (simp add: new_billing_def finite_dom_map_of)
  have t: "bl_tenants (new_billing 0) ''bob'' = None" by (simp add: new_billing_def)
  obtain p where p: "bl_plans (new_billing 0) ''plan-enterprise'' = Some p" "pl_active p" "pl_max_vcpu p = 64"
    by (simp add: new_billing_def default_plans_def)
  from default_plan_is_arbitrary [OF t f p(1,2)] p(3) show ?thesis by blast
qed

end
