(* ===== verification/Template_Catalog.thy ===== *)
theory Template_Catalog
  imports Instance_Store
begin

text \<open>
  Operating system templates and image artifacts: \<open>internal/domain/template/template.go\<close> and
  the in-memory repositories of \<open>internal/infra/memory/template_repo.go\<close>. Status values are
  the strings of the source. The repositories copy templates shallowly, so that the slice of
  architectures is shared between copies; the only code that writes into that slice is the
  normalisation of \<open>Validate\<close>, which changes nothing on the normalised slices of stored
  templates (\<open>normalize_idem\<close> below).
\<close>

section \<open>Data\<close>

fun type_text :: "inst_type \<Rightarrow> string" where
  "type_text Container = ''container''"
| "type_text VirtualMachine = ''virtual-machine''"
| "type_text (OtherType s) = s"

definition normalize_architecture :: "string \<Rightarrow> string" where
  "normalize_architecture arch =
     (let a = to_lower (trim_space arch)
      in if a \<in> {''amd64'', ''x86_64'', ''x86-64'', ''x64''} then ''x86_64''
         else if a \<in> {''arm64'', ''aarch64'', ''armv8'', ''armv8l''} then ''aarch64''
         else a)"

record os_template =
  tm_id :: string
  tm_name :: string
  tm_slug :: string
  tm_description :: string
  tm_distribution :: string
  tm_version :: string
  tm_release :: string
  tm_archs :: "string list"
  tm_types :: "inst_type list"
  tm_min_disk :: int
  tm_min_mem :: int
  tm_cloud_init :: bool
  tm_status :: string
  tm_metadata :: "gobj option"
  tm_created :: gtime
  tm_updated :: gtime

record image =
  ig_id :: string
  ig_template :: string
  ig_arch :: string
  ig_type :: inst_type
  ig_fingerprint :: string
  ig_alias :: string
  ig_remote :: string
  ig_url :: string
  ig_size :: int
  ig_checksum :: string
  ig_status :: string
  ig_error :: string
  ig_metadata :: "gobj option"
  ig_created :: gtime
  ig_updated :: gtime

record availability =
  av_node :: string
  av_artifact :: string
  av_status :: string
  av_synced :: gtime

record template_filter =
  tf_distribution :: string
  tf_arch :: string
  tf_type :: string
  tf_status :: string
  tf_search :: string
  tf_limit :: int
  tf_offset :: int

record image_filter =
  if_template :: string
  if_arch :: string
  if_type :: string
  if_status :: string
  if_node :: string
  if_limit :: int
  if_offset :: int

record catalog =
  ct_templates :: "string \<rightharpoonup> os_template"
  ct_images :: "string \<rightharpoonup> image"
  ct_avail :: "string \<rightharpoonup> availability"

definition template_resource :: "os_template \<Rightarrow> resource" where
  "template_resource t = \<lparr>res_type = ''template'', res_id = tm_id t, res_owner = '''', res_location = ''''\<rparr>"

section \<open>Validation\<close>

text \<open>The pattern \<open>^[a-z0-9][a-z0-9.-]{1,62}[a-z0-9]$\<close>.\<close>

definition template_slug_ok :: "string \<Rightarrow> bool" where
  "template_slug_ok s \<longleftrightarrow> 3 \<le> length s \<and> length s \<le> 64 \<and> slug_char (hd s) \<and> slug_char (last s) \<and>
     list_all (\<lambda>c. slug_char c \<or> c = CHR ''-'' \<or> c = CHR ''.'') (butlast (tl s))"

definition hex_char :: "char \<Rightarrow> bool" where
  "hex_char c =
     (let n = of_char c :: nat in (97 \<le> n \<and> n \<le> 102) \<or> (65 \<le> n \<and> n \<le> 70) \<or> (48 \<le> n \<and> n \<le> 57))"

definition hex64 :: "string \<Rightarrow> bool" where
  "hex64 s \<longleftrightarrow> length s = 64 \<and> list_all hex_char s"

text \<open>\<open>Validate\<close> normalises the object in place, up to the check that fails.\<close>

definition template_validate :: "os_template \<Rightarrow> os_template \<times> go_error option" where
  "template_validate t =
     (let t = t\<lparr>tm_name := trim_space (tm_name t), tm_slug := trim_space (to_lower (tm_slug t)),
                tm_distribution := trim_space (to_lower (tm_distribution t)),
                tm_version := trim_space (tm_version t)\<rparr>
      in if tm_name t = '''' \<or> tm_distribution t = '''' \<or> tm_version t = '''' then (t, Some ErrInvalidTemplateSpec)
         else if \<not> template_slug_ok (tm_slug t) then (t, Some ErrInvalidTemplateSpec)
         else (t\<lparr>tm_archs := (if tm_archs t = [] then [''x86_64''] else map normalize_architecture (tm_archs t)),
                 tm_types := (if tm_types t = [] then [Container, VirtualMachine] else tm_types t),
                 tm_min_disk := (if tm_min_disk t \<le> 0 then 5 * 1024 * 1024 * 1024 else tm_min_disk t),
                 tm_min_mem := (if tm_min_mem t \<le> 0 then 512 * 1024 * 1024 else tm_min_mem t),
                 tm_status := (if tm_status t = '''' then ''active'' else tm_status t)\<rparr>, None))"

definition image_validate :: "image \<Rightarrow> image \<times> go_error option" where
  "image_validate i =
     (let i = i\<lparr>ig_template := trim_space (ig_template i), ig_arch := normalize_architecture (ig_arch i),
                ig_fingerprint := trim_space (to_lower (ig_fingerprint i)),
                ig_checksum := trim_space (to_lower (ig_checksum i))\<rparr>
      in if ig_template i = '''' \<or> ig_arch i = '''' then (i, Some ErrInvalidImageSpec)
         else if ig_type i \<noteq> Container \<and> ig_type i \<noteq> VirtualMachine then (i, Some ErrTemplateInstanceType)
         else if ig_fingerprint i \<noteq> '''' \<and> \<not> hex64 (ig_fingerprint i) then (i, Some ErrInvalidFingerprint)
         else if ig_checksum i \<noteq> '''' \<and> \<not> hex64 (ig_checksum i) then (i, Some ErrInvalidFingerprint)
         else (i\<lparr>ig_remote := (if ig_remote i = '''' then ''images'' else ig_remote i),
                 ig_status := (if ig_status i = '''' then ''available'' else ig_status i)\<rparr>, None))"

section \<open>Default catalogue\<close>

definition official ::
  "gtime \<Rightarrow> string \<Rightarrow> string \<Rightarrow> string \<Rightarrow> string \<Rightarrow> string \<Rightarrow> string \<Rightarrow> string \<Rightarrow> inst_type list \<Rightarrow> int \<Rightarrow> int \<Rightarrow> os_template" where
  "official now i name slug descr dist ver rel types disk mem =
     \<lparr>tm_id = i, tm_name = name, tm_slug = slug, tm_description = descr, tm_distribution = dist,
      tm_version = ver, tm_release = rel, tm_archs = [''x86_64'', ''aarch64''], tm_types = types,
      tm_min_disk = disk, tm_min_mem = mem, tm_cloud_init = True, tm_status = ''active'',
      tm_metadata = Some [(''official'', GBool True)], tm_created = now, tm_updated = now\<rparr>"

definition default_templates :: "gtime \<Rightarrow> os_template list" where
  "default_templates now =
     [official now ''tmpl-ubuntu-24-04'' ''Ubuntu 24.04 LTS (Noble Numbat)'' ''ubuntu-24.04''
        ''Canonical Ubuntu Server 24.04 LTS official cloud release'' ''ubuntu'' ''24.04'' ''noble''
        [Container, VirtualMachine] (5 * 1024 * 1024 * 1024) (512 * 1024 * 1024),
      official now ''tmpl-debian-12'' ''Debian 12 (Bookworm)'' ''debian-12''
        ''Debian GNU/Linux 12 Bookworm stable release'' ''debian'' ''12'' ''bookworm''
        [Container, VirtualMachine] (3 * 1024 * 1024 * 1024) (256 * 1024 * 1024),
      official now ''tmpl-alpine-3-19'' ''Alpine Linux 3.19'' ''alpine-3.19''
        ''Lightweight, security-oriented container and VM distribution'' ''alpine'' ''3.19'' ''standard''
        [Container] (1 * 1024 * 1024 * 1024) (128 * 1024 * 1024)]"

definition stock_image :: "gtime \<Rightarrow> string \<Rightarrow> string \<Rightarrow> inst_type \<Rightarrow> string \<Rightarrow> string \<Rightarrow> int \<Rightarrow> image" where
  "stock_image now i t ty fp al sz =
     \<lparr>ig_id = i, ig_template = t, ig_arch = ''x86_64'', ig_type = ty, ig_fingerprint = fp, ig_alias = al,
      ig_remote = ''images'', ig_url = '''', ig_size = sz, ig_checksum = fp, ig_status = ''available'',
      ig_error = '''', ig_metadata = None, ig_created = now, ig_updated = now\<rparr>"

definition default_images :: "gtime \<Rightarrow> image list" where
  "default_images now =
     [stock_image now ''img-ubuntu-24-04-x86-c'' ''tmpl-ubuntu-24-04'' Container
        ''e3b0c44298fc1c149afbf4c8996fb92427ae41e4649b934ca495991b7852b855''
        ''images:ubuntu/24.04'' (350 * 1024 * 1024),
      stock_image now ''img-ubuntu-24-04-x86-vm'' ''tmpl-ubuntu-24-04'' VirtualMachine
        ''ca978112ca1bbdcaf064278e4a1f2f0dd128ab44929197d026900f9774b5c2b4''
        ''images:ubuntu/24.04/cloud'' (1200 * 1024 * 1024),
      stock_image now ''img-alpine-3-19-x86-c'' ''tmpl-alpine-3-19'' Container
        ''4b227777d4dd1fc61c6f884f48641d02b4d121d3fd328cb08b5531fcacdabf8a''
        ''images:alpine/3.19'' (45 * 1024 * 1024)]"

definition new_catalog :: "gtime \<Rightarrow> catalog" where
  "new_catalog now =
     \<lparr>ct_templates = fold (\<lambda>t m. m(tm_id t \<mapsto> t)) (default_templates now) Map.empty,
      ct_images = fold (\<lambda>i m. m(ig_id i \<mapsto> i)) (default_images now) Map.empty,
      ct_avail = Map.empty\<rparr>"

section \<open>Template repository\<close>

definition template_create ::
  "gtime \<Rightarrow> string \<Rightarrow> string list \<Rightarrow> os_template \<Rightarrow> catalog \<Rightarrow> catalog \<times> os_template result" where
  "template_create now uuid ks t st =
     (if list_ex (\<lambda>x. tm_slug x = tm_slug t) (vals (ct_templates st) ks) then (st, Inl ErrTemplateSlugExists)
      else let t = (if tm_id t = '''' then t\<lparr>tm_id := uuid\<rparr> else t);
               t = (if tm_created t = zero_time then t\<lparr>tm_created := now\<rparr> else t);
               t = t\<lparr>tm_updated := now\<rparr>
           in (st\<lparr>ct_templates := (ct_templates st)(tm_id t \<mapsto> t)\<rparr>, Inr t))"

definition template_get :: "string \<Rightarrow> catalog \<Rightarrow> os_template result" where
  "template_get i st = (case ct_templates st i of None \<Rightarrow> Inl ErrTemplateNotFound | Some t \<Rightarrow> Inr t)"

definition template_by_slug :: "string \<Rightarrow> string list \<Rightarrow> catalog \<Rightarrow> os_template result" where
  "template_by_slug slug ks st =
     (case List.find (\<lambda>t. equal_fold (tm_slug t) slug) (vals (ct_templates st) ks) of
        None \<Rightarrow> Inl ErrTemplateNotFound | Some t \<Rightarrow> Inr t)"

definition template_update ::
  "gtime \<Rightarrow> string list \<Rightarrow> os_template \<Rightarrow> catalog \<Rightarrow> catalog \<times> os_template result" where
  "template_update now ks t st =
     (case ct_templates st (tm_id t) of
        None \<Rightarrow> (st, Inl ErrTemplateNotFound)
      | Some existing \<Rightarrow>
          if list_ex (\<lambda>x. tm_id x \<noteq> tm_id t \<and> equal_fold (tm_slug x) (tm_slug t)) (vals (ct_templates st) ks)
          then (st, Inl ErrTemplateSlugExists)
          else let t = t\<lparr>tm_created := tm_created existing, tm_updated := now\<rparr>
               in (st\<lparr>ct_templates := (ct_templates st)(tm_id t \<mapsto> t)\<rparr>, Inr t))"

definition template_delete :: "string \<Rightarrow> catalog \<Rightarrow> catalog \<times> go_error option" where
  "template_delete i st =
     (if ct_templates st i = None then (st, Some ErrTemplateNotFound)
      else (st\<lparr>ct_templates := (ct_templates st)(i := None)\<rparr>, None))"

definition template_matches :: "template_filter \<Rightarrow> os_template \<Rightarrow> bool" where
  "template_matches f t \<longleftrightarrow>
     \<not> (tf_distribution f \<noteq> '''' \<and> \<not> equal_fold (tm_distribution t) (tf_distribution f))
     \<and> \<not> (tf_status f \<noteq> '''' \<and> tm_status t \<noteq> tf_status f)
     \<and> \<not> (tf_arch f \<noteq> '''' \<and> \<not> list_ex (\<lambda>a. equal_fold a (tf_arch f)) (tm_archs t))
     \<and> \<not> (tf_type f \<noteq> '''' \<and> \<not> list_ex (\<lambda>y. type_text y = tf_type f) (tm_types t))
     \<and> \<not> (tf_search f \<noteq> '''' \<and>
           (let s = to_lower (tf_search f)
            in \<not> contains (to_lower (tm_name t)) s \<and> \<not> contains (to_lower (tm_slug t)) s
               \<and> \<not> contains (to_lower (tm_description t)) s))"

definition template_list ::
  "template_filter \<Rightarrow> string list \<Rightarrow> catalog \<Rightarrow> (os_template list \<times> int) result" where
  "template_list f ks st =
     (let m = filter (template_matches f) (vals (ct_templates st) ks)
      in map_sum id (\<lambda>xs. (xs, int (length m))) (page (tf_offset f) (tf_limit f) m))"

section \<open>Image repository\<close>

definition image_create :: "gtime \<Rightarrow> string \<Rightarrow> image \<Rightarrow> catalog \<Rightarrow> catalog \<times> image" where
  "image_create now uuid i st =
     (let i = (if ig_id i = '''' then i\<lparr>ig_id := uuid\<rparr> else i);
          i = (if ig_created i = zero_time then i\<lparr>ig_created := now\<rparr> else i);
          i = i\<lparr>ig_updated := now\<rparr>
      in (st\<lparr>ct_images := (ct_images st)(ig_id i \<mapsto> i)\<rparr>, i))"

definition image_get :: "string \<Rightarrow> catalog \<Rightarrow> image result" where
  "image_get i st = (case ct_images st i of None \<Rightarrow> Inl ErrImageArtifactNotFound | Some x \<Rightarrow> Inr x)"

definition image_by_fingerprint :: "string \<Rightarrow> string list \<Rightarrow> catalog \<Rightarrow> image result" where
  "image_by_fingerprint fp ks st =
     (case List.find (\<lambda>i. equal_fold (ig_fingerprint i) fp) (vals (ct_images st) ks) of
        None \<Rightarrow> Inl ErrImageArtifactNotFound | Some x \<Rightarrow> Inr x)"

definition images_by_template :: "string \<Rightarrow> string list \<Rightarrow> catalog \<Rightarrow> image list" where
  "images_by_template t ks st = filter (\<lambda>i. ig_template i = t) (vals (ct_images st) ks)"

definition compatible :: "string \<Rightarrow> string \<Rightarrow> inst_type \<Rightarrow> image \<Rightarrow> bool" where
  "compatible t arch ty i \<longleftrightarrow>
     ig_template i = t \<and> normalize_architecture (ig_arch i) = normalize_architecture arch
     \<and> ig_type i = ty \<and> ig_status i = ''available''"

definition find_compatible :: "string \<Rightarrow> string \<Rightarrow> inst_type \<Rightarrow> string list \<Rightarrow> catalog \<Rightarrow> image result" where
  "find_compatible t arch ty ks st =
     (case List.find (compatible t arch ty) (vals (ct_images st) ks) of
        None \<Rightarrow> Inl ErrNoCompatibleImage | Some x \<Rightarrow> Inr x)"

definition image_update :: "gtime \<Rightarrow> image \<Rightarrow> catalog \<Rightarrow> catalog \<times> image result" where
  "image_update now i st =
     (case ct_images st (ig_id i) of
        None \<Rightarrow> (st, Inl ErrImageArtifactNotFound)
      | Some existing \<Rightarrow>
          (let i = i\<lparr>ig_created := ig_created existing, ig_updated := now\<rparr>
           in (st\<lparr>ct_images := (ct_images st)(ig_id i \<mapsto> i)\<rparr>, Inr i)))"

definition image_update_status :: "gtime \<Rightarrow> string \<Rightarrow> string \<Rightarrow> string \<Rightarrow> catalog \<Rightarrow> catalog \<times> go_error option" where
  "image_update_status now i s msg st =
     (case ct_images st i of
        None \<Rightarrow> (st, Some ErrImageArtifactNotFound)
      | Some x \<Rightarrow> (st\<lparr>ct_images := (ct_images st)(i \<mapsto> x\<lparr>ig_status := s, ig_error := msg, ig_updated := now\<rparr>)\<rparr>, None))"

definition image_delete :: "string \<Rightarrow> catalog \<Rightarrow> catalog \<times> go_error option" where
  "image_delete i st =
     (if ct_images st i = None then (st, Some ErrImageArtifactNotFound)
      else (st\<lparr>ct_images := (ct_images st)(i := None)\<rparr>, None))"

definition image_matches :: "image_filter \<Rightarrow> image \<Rightarrow> bool" where
  "image_matches f i \<longleftrightarrow>
     \<not> (if_template f \<noteq> '''' \<and> ig_template i \<noteq> if_template f)
     \<and> \<not> (if_arch f \<noteq> '''' \<and> \<not> equal_fold (ig_arch i) (if_arch f))
     \<and> \<not> (if_type f \<noteq> '''' \<and> type_text (ig_type i) \<noteq> if_type f)
     \<and> \<not> (if_status f \<noteq> '''' \<and> ig_status i \<noteq> if_status f)"

definition image_list :: "image_filter \<Rightarrow> string list \<Rightarrow> catalog \<Rightarrow> (image list \<times> int) result" where
  "image_list f ks st =
     (let m = filter (image_matches f) (vals (ct_images st) ks)
      in map_sum id (\<lambda>xs. (xs, int (length m))) (page (if_offset f) (if_limit f) m))"

definition avail_key :: "string \<Rightarrow> string \<Rightarrow> string" where
  "avail_key nid i = nid @ '':'' @ i"

definition record_node_availability :: "gtime \<Rightarrow> string \<Rightarrow> string \<Rightarrow> string \<Rightarrow> catalog \<Rightarrow> catalog" where
  "record_node_availability now nid i s st =
     st\<lparr>ct_avail := (ct_avail st)(avail_key nid i \<mapsto>
          \<lparr>av_node = nid, av_artifact = i, av_status = s, av_synced = now\<rparr>)\<rparr>"

definition get_node_availability :: "string \<Rightarrow> string \<Rightarrow> catalog \<Rightarrow> availability option" where
  "get_node_availability nid i st = ct_avail st (avail_key nid i)"

definition list_node_availability :: "string \<Rightarrow> string list \<Rightarrow> catalog \<Rightarrow> availability list" where
  "list_node_availability nid ks st = filter (\<lambda>a. av_node a = nid) (vals (ct_avail st) ks)"

section \<open>Normal forms\<close>

lemma lower_char_idem [simp]: "lower_char (lower_char c) = lower_char c"
proof -
  have "of_char (char_of (n + 32 :: nat)) = (n + 32 :: nat)" if "n \<le> 90" for n :: nat
    using that by simp
  then show ?thesis by (auto simp: lower_char_def)
qed

lemma to_lower_idem [simp]: "to_lower (to_lower s) = to_lower s"
  by (simp add: to_lower_def)

lemma is_space_lower [simp]: "is_space (lower_char c) = is_space c"
  by (auto simp: is_space_def lower_char_def)

lemma trim_to_lower: "trim_space (to_lower s) = to_lower (trim_space s)"
  by (simp add: trim_space_def to_lower_def rev_map dropWhile_map comp_def)

lemma dropWhile_rev_dropWhile:
  "dropWhile P (rev (dropWhile P (rev (dropWhile P xs)))) = rev (dropWhile P (rev (dropWhile P xs)))"
proof (cases "dropWhile P xs")
  case Nil
  show ?thesis unfolding Nil by simp
next
  case (Cons y ys)
  then have "\<not> P y" using hd_dropWhile [of P xs] by simp
  then show ?thesis
    by (simp add: Cons dropWhile_append)
qed

lemma trim_idem [simp]: "trim_space (trim_space s) = trim_space s"
  unfolding trim_space_def dropWhile_rev_dropWhile by simp

lemma normalize_idem [simp]: "normalize_architecture (normalize_architecture a) = normalize_architecture a"
proof -
  let ?a = "to_lower (trim_space a)"
  have "to_lower (trim_space ?a) = ?a" by (simp add: trim_to_lower)
  moreover have "to_lower (trim_space ''x86_64'') = ''x86_64''" "to_lower (trim_space ''aarch64'') = ''aarch64''"
    by (simp_all add: to_lower_def trim_space_def is_space_def lower_char_def)
  ultimately show ?thesis by (simp add: normalize_architecture_def Let_def)
qed

lemma slug_char_lower: "slug_char c \<Longrightarrow> lower_char c = c"
  by (auto simp: slug_char_def lower_char_def Let_def)

lemma template_slug_lower: "template_slug_ok s \<Longrightarrow> to_lower s = s"
proof -
  assume ok: "template_slug_ok s"
  then obtain c cs d where s: "s = c # cs @ [d]"
    by (cases s; cases "tl s" rule: rev_cases) (auto simp: template_slug_ok_def)
  have "\<forall>x \<in> set s. lower_char x = x"
    using ok unfolding s template_slug_ok_def
    by (auto simp: list_all_iff slug_char_lower dest!: bspec) (simp_all add: lower_char_def)
  then show ?thesis by (simp add: to_lower_def map_idI)
qed

lemma equal_fold_lower: "to_lower s = s \<Longrightarrow> to_lower t = t \<Longrightarrow> equal_fold s t \<longleftrightarrow> s = t"
  by (simp add: equal_fold_def)

end
