(* ===== verification/Cloud_Init.thy ===== *)
theory Cloud_Init
  imports Aurora_Prelude
begin

text \<open>
  Guest initialisation data: \<open>internal/domain/template/cloudinit.go\<close>. The rendering is the
  text the program writes, character by character; the two regular expressions of the
  validation are written as the functions that decide them, on ASCII text.
\<close>

section \<open>Data\<close>

record ci_user =
  cu_name :: string
  cu_gecos :: string
  cu_groups :: string
  cu_sudo :: string
  cu_shell :: string
  cu_keys :: "string list"
  cu_lock :: bool

record ci_file =
  cf_path :: string
  cf_content :: string
  cf_permissions :: string
  cf_encoding :: string
  cf_owner :: string

record cloud_init =
  ci_hostname :: string
  ci_users :: "ci_user list"
  ci_packages :: "string list"
  ci_files :: "ci_file list"
  ci_runcmd :: "string list"
  ci_timezone :: string
  ci_locale :: string
  ci_network :: gobj
  ci_custom :: string

definition max_cloud_init :: nat where
  "max_cloud_init = 64 * 1024"

section \<open>Rendering\<close>

definition line :: "string \<Rightarrow> string" where
  "line s = s @ [CHR 0x0A]"

text \<open>A field that is written only when it is set, or with a default otherwise.\<close>

definition field :: "string \<Rightarrow> string \<Rightarrow> string" where
  "field label v = (if v \<noteq> '''' then line (label @ v) else '''')"

definition field_or :: "string \<Rightarrow> string \<Rightarrow> string \<Rightarrow> string" where
  "field_or label v deflt = line (label @ (if v \<noteq> '''' then v else deflt))"

definition block :: "string \<Rightarrow> ('a \<Rightarrow> string) \<Rightarrow> 'a list \<Rightarrow> string" where
  "block label f xs = (if xs = [] then '''' else line label @ concat (map f xs))"

definition render_user :: "ci_user \<Rightarrow> string" where
  "render_user u =
     line (''  - name: '' @ cu_name u)
     @ field ''    gecos: '' (cu_gecos u)
     @ field_or ''    groups: '' (cu_groups u) ''sudo, users''
     @ field_or ''    sudo: '' (cu_sudo u) ''ALL=(ALL) NOPASSWD:ALL''
     @ field_or ''    shell: '' (cu_shell u) ''/bin/bash''
     @ (if cu_lock u then line ''    lock_passwd: true'' else '''')
     @ block ''    ssh_authorized_keys:'' (\<lambda>k. line (''      - '' @ trim_space k)) (cu_keys u)"

definition render_file :: "ci_file \<Rightarrow> string" where
  "render_file f =
     line (''  - path: '' @ cf_path f)
     @ line (''    permissions: '' @ [CHR 0x27]
             @ (if cf_permissions f \<noteq> '''' then cf_permissions f else ''0644'') @ [CHR 0x27])
     @ field ''    owner: '' (cf_owner f)
     @ line ''    content: |''
     @ concat (map (\<lambda>l. line (''      '' @ l)) (split_on (CHR 0x0A) (cf_content f)))"

definition cloud_header :: string where
  "cloud_header = ''#cloud-config''"

definition render_user_data :: "cloud_init \<Rightarrow> string" where
  "render_user_data c =
     (if trim_space (ci_custom c) \<noteq> '''' then
        (let custom = trim_space (ci_custom c)
         in if has_prefix custom cloud_header then custom else line cloud_header @ custom)
      else
        line cloud_header
        @ (if ci_hostname c \<noteq> '''' then line (''hostname: '' @ ci_hostname c) @ line ''manage_etc_hosts: true'' else '''')
        @ field ''timezone: '' (ci_timezone c)
        @ field ''locale: '' (ci_locale c)
        @ block ''users:'' render_user (ci_users c)
        @ block ''packages:'' (\<lambda>p. line (''  - '' @ trim_space p)) (ci_packages c)
        @ block ''write_files:'' render_file (ci_files c)
        @ block ''runcmd:'' (\<lambda>x. line (''  - '' @ x)) (ci_runcmd c))"

section \<open>Validation\<close>

definition lower_alpha :: "char \<Rightarrow> bool" where
  "lower_alpha c = (let n = of_char c :: nat in 97 \<le> n \<and> n \<le> 122)"

definition base64_char :: "char \<Rightarrow> bool" where
  "base64_char c =
     (let n = of_char c :: nat
      in (97 \<le> n \<and> n \<le> 122) \<or> (65 \<le> n \<and> n \<le> 90) \<or> (48 \<le> n \<and> n \<le> 57) \<or> n = 43 \<or> n = 47)"

text \<open>The class \<open>\s\<close> of the regular expressions: tab, newline, form feed, carriage return, space.\<close>

definition re_space :: "char \<Rightarrow> bool" where
  "re_space c = ((of_char c :: nat) \<in> {9, 10, 12, 13, 32})"

text \<open>The pattern \<open>^[a-z_][a-z0-9_-]{0,31}$\<close>.\<close>

definition username_ok :: "string \<Rightarrow> bool" where
  "username_ok s =
     (case s of [] \<Rightarrow> False
      | c # cs \<Rightarrow> (lower_alpha c \<or> c = CHR ''_'') \<and> length cs \<le> 31
                  \<and> list_all (\<lambda>x. slug_char x \<or> x = CHR ''_'' \<or> x = CHR ''-'') cs)"

text \<open>
  What follows the key type in the pattern for public keys: space, base64 text, up to three
  equal signs and, after more space, a comment on one line. The character classes are
  disjoint, so that the longest runs decide the match.
\<close>

definition key_body_ok :: "string \<Rightarrow> bool" where
  "key_body_ok s =
     (let a = dropWhile re_space s; b = dropWhile base64_char a;
          e = takeWhile (\<lambda>c. c = CHR ''='') b; r = dropWhile (\<lambda>c. c = CHR ''='') b
      in (s \<noteq> [] \<and> re_space (hd s)) \<and> (a \<noteq> [] \<and> base64_char (hd a)) \<and> length e \<le> 3
         \<and> (r = [] \<or> (re_space (hd r) \<and> list_all (\<lambda>c. c \<noteq> CHR 0x0A) (dropWhile re_space r))))"

definition strip :: "string \<Rightarrow> string \<Rightarrow> string option" where
  "strip p s = (if has_prefix s p then Some (drop (length p) s) else None)"

definition ssh_key_ok :: "string \<Rightarrow> bool" where
  "ssh_key_ok s \<longleftrightarrow>
     list_ex (\<lambda>p. case strip p s of None \<Rightarrow> False | Some r \<Rightarrow> key_body_ok r)
       [''ssh-rsa'', ''ssh-dss'', ''ssh-ed25519'']
     \<or> (case strip ''ecdsa-sha2-'' s of
          None \<Rightarrow> False
        | Some r \<Rightarrow> (let f = (\<lambda>c. slug_char c \<or> c = CHR ''-'')
                     in r \<noteq> [] \<and> f (hd r) \<and> key_body_ok (dropWhile f r)))"

fun keys_ok :: "string list \<Rightarrow> bool" where
  "keys_ok [] \<longleftrightarrow> True"
| "keys_ok (k # ks) \<longleftrightarrow>
     (if trim_space k \<noteq> '''' \<and> \<not> ssh_key_ok (trim_space k) then False else keys_ok ks)"

fun users_ok :: "ci_user list \<Rightarrow> bool" where
  "users_ok [] \<longleftrightarrow> True"
| "users_ok (u # us) \<longleftrightarrow>
     (if \<not> username_ok (cu_name u) then False else if \<not> keys_ok (cu_keys u) then False else users_ok us)"

fun files_ok :: "ci_file list \<Rightarrow> bool" where
  "files_ok [] \<longleftrightarrow> True"
| "files_ok (f # fs) \<longleftrightarrow>
     (if \<not> has_prefix (cf_path f) ''/'' \<or> contains (cf_path f) ''..'' then False else files_ok fs)"

text \<open>A nil configuration is valid and renders as the empty text.\<close>

definition cloud_init_validate :: "cloud_init option \<Rightarrow> go_error option" where
  "cloud_init_validate cfg =
     (case cfg of
        None \<Rightarrow> None
      | Some c \<Rightarrow>
          if length (render_user_data c) > max_cloud_init then Some ErrCloudInitOversized
          else if \<not> users_ok (ci_users c) then Some ErrInvalidCloudInit
          else if \<not> files_ok (ci_files c) then Some ErrInvalidCloudInit
          else None)"

definition sanitize_for_audit :: "cloud_init option \<Rightarrow> gobj" where
  "sanitize_for_audit cfg =
     (case cfg of
        None \<Rightarrow> []
      | Some c \<Rightarrow>
          [(''hostname'', GStr (ci_hostname c)), (''userCount'', GInt (int (length (ci_users c)))),
           (''users'', GObj (map (\<lambda>u. ('''', GStr (cu_name u))) (ci_users c))),
           (''packageCnt'', GInt (int (length (ci_packages c)))),
           (''fileCount'', GInt (int (length (ci_files c)))),
           (''filePaths'', GObj (map (\<lambda>f. ('''', GStr (cf_path f))) (ci_files c))),
           (''runcmdCnt'', GInt (int (length (ci_runcmd c))))])"

section \<open>Facts\<close>

lemma users_ok_iff: "users_ok us \<longleftrightarrow> (\<forall>u \<in> set us. username_ok (cu_name u) \<and> keys_ok (cu_keys u))"
  by (induction us) auto

lemma files_ok_iff:
  "files_ok fs \<longleftrightarrow> (\<forall>f \<in> set fs. has_prefix (cf_path f) ''/'' \<and> \<not> contains (cf_path f) ''..'')"
  by (induction fs) auto

lemma has_prefix_append [simp]: "has_prefix (p @ s) p"
  by (simp add: has_prefix_def)

lemma render_has_header: "has_prefix (render_user_data c) cloud_header"
  by (auto simp: render_user_data_def Let_def line_def)

lemma username_ok_no_space: "username_ok s \<Longrightarrow> c \<in> set s \<Longrightarrow> \<not> is_space c"
  by (auto simp: username_ok_def is_space_def slug_char_def lower_alpha_def Let_def list_all_iff
    split: list.splits)

end
