(* ===== verification/Template_Service.thy ===== *)
theory Template_Service
  imports Template_Catalog Cloud_Init Node_Service
begin

text \<open>
  The template and image service: \<open>internal/app/template/service.go\<close>, with the image source
  registry of \<open>internal/infra/imagesource\<close>. The goroutine that synchronises an image to a
  node is the operation \<open>sync_image_job\<close>, run after \<open>sync_image_to_node\<close> has returned.
\<close>

section \<open>Data\<close>

record cloud =
  cl_hub :: node_hub
  cl_catalog :: catalog

record create_template_request =
  rt_name :: string
  rt_slug :: string
  rt_description :: string
  rt_distribution :: string
  rt_version :: string
  rt_release :: string
  rt_archs :: "string list"
  rt_types :: "inst_type list"
  rt_min_disk :: int
  rt_min_mem :: int
  rt_cloud_init :: bool
  rt_status :: string
  rt_metadata :: "gobj option"

record register_image_request =
  ri_template :: string
  ri_arch :: string
  ri_type :: inst_type
  ri_fingerprint :: string
  ri_alias :: string
  ri_remote :: string
  ri_url :: string
  ri_size :: int
  ri_checksum :: string
  ri_metadata :: "gobj option"

definition template_log ::
  "gtime \<Rightarrow> subject option \<Rightarrow> string \<Rightarrow> string \<Rightarrow> gobj \<Rightarrow> cloud \<Rightarrow> cloud" where
  "template_log now sub action rid details c =
     c\<lparr>cl_hub := (cl_hub c)\<lparr>nh_trails := log_audit now (empty_log\<lparr>
          al_actor := (case sub of None \<Rightarrow> None | Some s \<Rightarrow> if sub_user s \<noteq> '''' then Some (sub_user s) else None),
          al_action := action, al_rtype := ''template'',
          al_rid := (if rid \<noteq> '''' then Some rid else None), al_details := details, al_status := 200,
          al_severity := ''info'', al_created := now\<rparr>) (nh_trails (cl_hub c))\<rparr>\<rparr>"

definition is_superadmin_or_operator :: "subject option \<Rightarrow> bool" where
  "is_superadmin_or_operator sub =
     (case sub of
        None \<Rightarrow> False
      | Some s \<Rightarrow> list_ex (\<lambda>r. r = ''superadmin'' \<or> r = ''operator'') (sub_roles s)
          \<or> list_ex (\<lambda>p. p = ''*'' \<or> has_prefix p ''template:'' \<or> has_prefix p ''image:'') (sub_permissions s))"

section \<open>Image sources\<close>

definition default_remotes :: "string list" where
  "default_remotes = [''images'', ''ubuntu'', ''local'']"

definition new_registry :: "string list \<Rightarrow> string list" where
  "new_registry trusted = map to_lower (if trusted = [] then default_remotes else trusted)"

definition registry_inspect ::
  "(string \<Rightarrow> string) \<Rightarrow> gtime \<Rightarrow> string list \<Rightarrow> string \<Rightarrow> string \<Rightarrow> image result" where
  "registry_inspect sha now allowed remote al =
     (let remote = trim_space (to_lower remote); al = trim_space al;
          remote = (if remote = '''' then ''images'' else remote)
      in if remote \<notin> set allowed then Inl (ErrText ''untrusted or disallowed image remote'')
         else if al = '''' then Inl (ErrText ''image alias or fingerprint is required'')
         else let fp = sha (remote @ '':'' @ al)
              in Inr \<lparr>ig_id = '''', ig_template = '''',
                   ig_arch = (if contains al ''arm64'' \<or> contains al ''aarch64'' then ''aarch64'' else ''x86_64''),
                   ig_type = (if contains al ''vm'' \<or> contains al ''cloud'' then VirtualMachine else Container),
                   ig_fingerprint = fp, ig_alias = remote @ '':'' @ al, ig_remote = remote, ig_url = '''',
                   ig_size = 0, ig_checksum = fp, ig_status = ''available'', ig_error = '''',
                   ig_metadata = None, ig_created = now, ig_updated = now\<rparr>)"

definition registry_verify :: "image \<Rightarrow> bool \<times> go_error option" where
  "registry_verify i =
     (if ig_fingerprint i = '''' \<and> ig_checksum i = '''' then
        (False, Some (ErrText ''artifact missing fingerprint or checksum''))
      else if ig_checksum i \<noteq> '''' \<and> ig_fingerprint i \<noteq> '''' \<and> \<not> equal_fold (ig_checksum i) (ig_fingerprint i) then
        (False, Some ErrFingerprintMismatch)
      else (True, None))"

section \<open>Templates\<close>

definition create_template ::
  "gtime \<Rightarrow> string \<Rightarrow> string list \<Rightarrow> subject option \<Rightarrow> create_template_request \<Rightarrow> cloud \<Rightarrow> cloud \<times> os_template result" where
  "create_template now uuid ks sub req c =
     (case authorize sub ''template:create'' None of
        Some err \<Rightarrow> (c, Inl err)
      | None \<Rightarrow>
          (case template_validate
                  \<lparr>tm_id = '''', tm_name = rt_name req, tm_slug = rt_slug req, tm_description = rt_description req,
                   tm_distribution = rt_distribution req, tm_version = rt_version req, tm_release = rt_release req,
                   tm_archs = rt_archs req, tm_types = rt_types req, tm_min_disk = rt_min_disk req,
                   tm_min_mem = rt_min_mem req, tm_cloud_init = rt_cloud_init req, tm_status = ''active'',
                   tm_metadata = rt_metadata req, tm_created = zero_time, tm_updated = zero_time\<rparr> of
             (t, Some err) \<Rightarrow> (c, Inl err)
           | (t, None) \<Rightarrow>
               (case template_create now uuid ks t (cl_catalog c) of
                  (ct, Inl err) \<Rightarrow> (c\<lparr>cl_catalog := ct\<rparr>, Inl err)
                | (ct, Inr t) \<Rightarrow>
                    (template_log now sub ''template.created'' (tm_id t)
                       [(''name'', GStr (tm_name t)), (''slug'', GStr (tm_slug t)),
                        (''distribution'', GStr (tm_distribution t)), (''version'', GStr (tm_version t))]
                       (c\<lparr>cl_catalog := ct\<rparr>), Inr t))))"

definition get_template :: "subject option \<Rightarrow> string \<Rightarrow> string list \<Rightarrow> catalog \<Rightarrow> os_template result" where
  "get_template sub i ks ct =
     (case authorize sub ''template:read'' None of
        Some err \<Rightarrow> Inl err
      | None \<Rightarrow> (case template_get i ct of Inr t \<Rightarrow> Inr t | Inl _ \<Rightarrow> template_by_slug i ks ct))"

definition list_templates ::
  "subject option \<Rightarrow> template_filter \<Rightarrow> string list \<Rightarrow> catalog \<Rightarrow> (os_template list \<times> int) result" where
  "list_templates sub f ks ct =
     (case authorize sub ''template:read'' None of
        Some err \<Rightarrow> Inl err
      | None \<Rightarrow>
          template_list (if \<not> is_superadmin_or_operator sub \<and> tf_status f = '''' then f\<lparr>tf_status := ''active''\<rparr> else f) ks ct)"

definition merge_template :: "create_template_request \<Rightarrow> os_template \<Rightarrow> os_template" where
  "merge_template req t =
     t\<lparr>tm_name := (if rt_name req \<noteq> '''' then rt_name req else tm_name t),
       tm_slug := (if rt_slug req \<noteq> '''' then rt_slug req else tm_slug t),
       tm_description := (if rt_description req \<noteq> '''' then rt_description req else tm_description t),
       tm_distribution := (if rt_distribution req \<noteq> '''' then rt_distribution req else tm_distribution t),
       tm_version := (if rt_version req \<noteq> '''' then rt_version req else tm_version t),
       tm_release := (if rt_release req \<noteq> '''' then rt_release req else tm_release t),
       tm_archs := (if rt_archs req \<noteq> [] then rt_archs req else tm_archs t),
       tm_types := (if rt_types req \<noteq> [] then rt_types req else tm_types t),
       tm_min_disk := (if rt_min_disk req > 0 then rt_min_disk req else tm_min_disk t),
       tm_min_mem := (if rt_min_mem req > 0 then rt_min_mem req else tm_min_mem t),
       tm_cloud_init := rt_cloud_init req,
       tm_status := (if rt_status req \<noteq> '''' then rt_status req else tm_status t),
       tm_metadata := (if rt_metadata req \<noteq> None then rt_metadata req else tm_metadata t)\<rparr>"

definition update_template ::
  "gtime \<Rightarrow> string list \<Rightarrow> subject option \<Rightarrow> string \<Rightarrow> create_template_request \<Rightarrow> cloud \<Rightarrow> cloud \<times> os_template result" where
  "update_template now ks sub i req c =
     (case template_get i (cl_catalog c) of
        Inl err \<Rightarrow> (c, Inl err)
      | Inr t \<Rightarrow>
          (case authorize sub ''template:update'' (Some (template_resource t)) of
             Some err \<Rightarrow> (c, Inl err)
           | None \<Rightarrow>
               (case template_validate (merge_template req t) of
                  (t, Some err) \<Rightarrow> (c, Inl err)
                | (t, None) \<Rightarrow>
                    (case template_update now ks t (cl_catalog c) of
                       (ct, Inl err) \<Rightarrow> (c\<lparr>cl_catalog := ct\<rparr>, Inl err)
                     | (ct, Inr t) \<Rightarrow>
                         (template_log now sub ''template.updated'' (tm_id t)
                            [(''name'', GStr (tm_name t)), (''slug'', GStr (tm_slug t)), (''status'', GStr (tm_status t))]
                            (c\<lparr>cl_catalog := ct\<rparr>), Inr t)))))"

definition delete_template :: "gtime \<Rightarrow> subject option \<Rightarrow> string \<Rightarrow> cloud \<Rightarrow> cloud \<times> go_error option" where
  "delete_template now sub i c =
     (case template_get i (cl_catalog c) of
        Inl err \<Rightarrow> (c, Some err)
      | Inr t \<Rightarrow>
          (case authorize sub ''template:delete'' (Some (template_resource t)) of
             Some err \<Rightarrow> (c, Some err)
           | None \<Rightarrow>
               (case template_delete i (cl_catalog c) of
                  (ct, Some err) \<Rightarrow> (c\<lparr>cl_catalog := ct\<rparr>, Some err)
                | (ct, None) \<Rightarrow>
                    (template_log now sub ''template.deleted'' i
                       [(''name'', GStr (tm_name t)), (''slug'', GStr (tm_slug t))] (c\<lparr>cl_catalog := ct\<rparr>), None))))"

section \<open>Images\<close>

definition register_image ::
  "gtime \<Rightarrow> string \<Rightarrow> subject option \<Rightarrow> register_image_request \<Rightarrow> cloud \<Rightarrow> cloud \<times> image result" where
  "register_image now uuid sub req c =
     (case authorize sub ''image:manage'' None of
        Some err \<Rightarrow> (c, Inl err)
      | None \<Rightarrow>
          (case template_get (ri_template req) (cl_catalog c) of
             Inl err \<Rightarrow> (c, Inl err)
           | Inr t \<Rightarrow>
               (case image_validate
                       \<lparr>ig_id = '''', ig_template = tm_id t, ig_arch = ri_arch req, ig_type = ri_type req,
                        ig_fingerprint = ri_fingerprint req, ig_alias = ri_alias req, ig_remote = ri_remote req,
                        ig_url = ri_url req, ig_size = ri_size req, ig_checksum = ri_checksum req,
                        ig_status = ''available'', ig_error = '''', ig_metadata = ri_metadata req,
                        ig_created = zero_time, ig_updated = zero_time\<rparr> of
                  (i, Some err) \<Rightarrow> (c, Inl err)
                | (i, None) \<Rightarrow>
                    (let (ct, i) = image_create now uuid i (cl_catalog c)
                     in (template_log now sub ''image.registered'' (ig_id i)
                           [(''templateId'', GStr (ig_template i)), (''architecture'', GStr (ig_arch i)),
                            (''instanceType'', GStr (type_text (ig_type i))), (''fingerprint'', GStr (ig_fingerprint i))]
                           (c\<lparr>cl_catalog := ct\<rparr>), Inr i)))))"

definition list_images :: "subject option \<Rightarrow> image_filter \<Rightarrow> string list \<Rightarrow> catalog \<Rightarrow> (image list \<times> int) result" where
  "list_images sub f ks ct =
     (case authorize sub ''image:read'' None of Some err \<Rightarrow> Inl err | None \<Rightarrow> image_list f ks ct)"

definition get_image :: "subject option \<Rightarrow> string \<Rightarrow> catalog \<Rightarrow> image result" where
  "get_image sub i ct =
     (case authorize sub ''image:read'' None of Some err \<Rightarrow> Inl err | None \<Rightarrow> image_get i ct)"

definition sync_image_to_node ::
  "gtime \<Rightarrow> subject option \<Rightarrow> string \<Rightarrow> string \<Rightarrow> cloud \<Rightarrow> cloud \<times> (image \<times> node) result" where
  "sync_image_to_node now sub iid nid c =
     (case authorize sub ''image:manage'' None of
        Some err \<Rightarrow> (c, Inl err)
      | None \<Rightarrow>
          (case image_get iid (cl_catalog c) of
             Inl err \<Rightarrow> (c, Inl err)
           | Inr i \<Rightarrow>
               (case node_get nid (nh_store (cl_hub c)) of
                  Inl err \<Rightarrow> (c, Inl err)
                | Inr n \<Rightarrow>
                    if nd_status n \<noteq> NOnline then (c, Inl ErrNodeOffline)
                    else (template_log now sub ''image.sync.started'' (ig_id i)
                            [(''nodeId'', GStr (nd_id n)), (''fingerprint'', GStr (ig_fingerprint i)),
                             (''alias'', GStr (ig_alias i))] c, Inr (i, n)))))"

definition sync_command :: "string \<Rightarrow> image \<Rightarrow> command" where
  "sync_command corr i =
     \<lparr>cmd_corr = corr, cmd_type = ''sync_image'',
      cmd_payload = [(''image_id'', GStr (ig_id i)), (''template_id'', GStr (ig_template i)),
        (''incus_fingerprint'', GStr (ig_fingerprint i)), (''image_alias'', GStr (ig_alias i)),
        (''source_remote'', GStr (ig_remote i)), (''source_url'', GStr (ig_url i)),
        (''architecture'', GStr (ig_arch i)), (''instance_type'', GStr (type_text (ig_type i))),
        (''expected_checksum'', GStr (ig_checksum i))],
      cmd_created = zero_time\<rparr>"

text \<open>The goroutine; \<open>msg\<close> is the text of the error when the command fails.\<close>

definition sync_image_job ::
  "gtime \<Rightarrow> string \<Rightarrow> go_error option \<Rightarrow> command_result list \<Rightarrow> string \<Rightarrow> subject option \<Rightarrow> image \<Rightarrow> node \<Rightarrow> cloud \<Rightarrow> cloud" where
  "sync_image_job now corr sent rs msg sub i n c =
     (let c = c\<lparr>cl_catalog := record_node_availability now (nd_id n) (ig_id i) ''syncing'' (cl_catalog c)\<rparr>;
          (h, r) = exchange now corr sent rs (nd_id n) (sync_command corr i) (cl_hub c);
          c = c\<lparr>cl_hub := h\<rparr>
      in case r of
           Inl err \<Rightarrow>
             template_log now sub ''image.sync.failed'' (ig_id i) [(''nodeId'', GStr (nd_id n)), (''error'', GStr msg)]
               (c\<lparr>cl_catalog := fst (image_update_status now (ig_id i) ''sync_failed'' msg
                     (record_node_availability now (nd_id n) (ig_id i) ''failed'' (cl_catalog c)))\<rparr>)
         | Inr res \<Rightarrow>
             template_log now sub ''image.sync.completed'' (ig_id i)
               [(''nodeId'', GStr (nd_id n)), (''fingerprint'', GStr (ig_fingerprint i))]
               (c\<lparr>cl_catalog := fst (image_update_status now (ig_id i) ''available'' ''''
                     (record_node_availability now (nd_id n) (ig_id i) ''available'' (cl_catalog c)))\<rparr>))"

text \<open>With the registry as the image source a failed check always carries an error.\<close>

definition verify_image :: "gtime \<Rightarrow> string \<Rightarrow> subject option \<Rightarrow> string \<Rightarrow> cloud \<Rightarrow> cloud \<times> bool \<times> go_error option" where
  "verify_image now msg sub iid c =
     (case authorize sub ''image:manage'' None of
        Some err \<Rightarrow> (c, False, Some err)
      | None \<Rightarrow>
          (case image_get iid (cl_catalog c) of
             Inl err \<Rightarrow> (c, False, Some err)
           | Inr i \<Rightarrow>
               (case registry_verify i of
                  (valid, err) \<Rightarrow>
                    if err \<noteq> None \<or> \<not> valid then
                      (let c = c\<lparr>cl_catalog := fst (image_update_status now (ig_id i) ''verification_failed''
                                   ''fingerprint verification failed'' (cl_catalog c))\<rparr>
                       in if err = None then (c, False, Some Panic)
                          else (template_log now sub ''image.verification.failed'' (ig_id i)
                                  [(''fingerprint'', GStr (ig_fingerprint i)), (''error'', GStr msg)] c, False, err))
                    else (c, True, None))))"

definition retire_image :: "gtime \<Rightarrow> subject option \<Rightarrow> string \<Rightarrow> cloud \<Rightarrow> cloud \<times> go_error option" where
  "retire_image now sub iid c =
     (case authorize sub ''image:manage'' None of
        Some err \<Rightarrow> (c, Some err)
      | None \<Rightarrow>
          (case image_get iid (cl_catalog c) of
             Inl err \<Rightarrow> (c, Some err)
           | Inr i \<Rightarrow>
               (case image_update_status now (ig_id i) ''retired'' ''retired by administrator'' (cl_catalog c) of
                  (ct, Some err) \<Rightarrow> (c\<lparr>cl_catalog := ct\<rparr>, Some err)
                | (ct, None) \<Rightarrow>
                    (template_log now sub ''image.retired'' (ig_id i)
                       [(''fingerprint'', GStr (ig_fingerprint i)), (''templateId'', GStr (ig_template i))]
                       (c\<lparr>cl_catalog := ct\<rparr>), None))))"

definition validate_cloud_init ::
  "gtime \<Rightarrow> string \<Rightarrow> subject option \<Rightarrow> cloud_init option \<Rightarrow> cloud \<Rightarrow> cloud \<times> go_error option" where
  "validate_cloud_init now msg sub cfg c =
     (case cfg of
        None \<Rightarrow> (c, None)
      | Some _ \<Rightarrow>
          (case cloud_init_validate cfg of
             Some err \<Rightarrow> (template_log now sub ''cloudinit.validation.failed'' '''' [(''error'', GStr msg)] c, Some err)
           | None \<Rightarrow> (c, None)))"

section \<open>Slugs identify templates\<close>

definition catalog_ok :: "catalog \<Rightarrow> bool" where
  "catalog_ok ct \<longleftrightarrow>
     (\<forall>k t. ct_templates ct k = Some t \<longrightarrow> tm_id t = k \<and> template_slug_ok (tm_slug t)) \<and>
     (\<forall>t \<in> ran (ct_templates ct). \<forall>u \<in> ran (ct_templates ct). tm_slug t = tm_slug u \<longrightarrow> t = u)"

inductive template_step :: "cloud \<Rightarrow> cloud \<Rightarrow> bool" where
  ts_create: "iterates (ct_templates (cl_catalog c)) ks \<Longrightarrow> ct_templates (cl_catalog c) uuid = None \<Longrightarrow>
     template_step c (fst (create_template now uuid ks sub req c))"
| ts_update: "iterates (ct_templates (cl_catalog c)) ks \<Longrightarrow>
     template_step c (fst (update_template now ks sub i req c))"
| ts_delete: "template_step c (fst (delete_template now sub i c))"
| ts_register: "template_step c (fst (register_image now uuid sub rq c))"
| ts_sync: "template_step c (fst (sync_image_to_node now sub iid nid c))"
| ts_job: "template_step c (sync_image_job now corr sent rs msg sub im n c)"
| ts_verify: "template_step c (fst (verify_image now msg sub iid c))"
| ts_retire: "template_step c (fst (retire_image now sub iid c))"
| ts_cloud_init: "template_step c (fst (validate_cloud_init now msg sub cfg c))"

lemma template_log_catalog [simp]: "cl_catalog (template_log now sub a r d c) = cl_catalog c"
  by (simp add: template_log_def)

lemma image_ops_templates [simp]:
  "ct_templates (fst (image_create now uuid im ct)) = ct_templates ct"
  "ct_templates (fst (image_update_status now i s msg ct)) = ct_templates ct"
  "ct_templates (record_node_availability now nid i s ct) = ct_templates ct"
  by (simp_all add: image_create_def image_update_status_def record_node_availability_def Let_def split: option.splits)

lemma image_steps_keep_templates:
  "ct_templates (cl_catalog (fst (register_image now uuid sub rq c))) = ct_templates (cl_catalog c)"
  "ct_templates (cl_catalog (fst (sync_image_to_node now sub iid nid c))) = ct_templates (cl_catalog c)"
  "ct_templates (cl_catalog (sync_image_job now corr sent rs msg sub im n c)) = ct_templates (cl_catalog c)"
  "ct_templates (cl_catalog (fst (verify_image now msg sub iid c))) = ct_templates (cl_catalog c)"
  "ct_templates (cl_catalog (fst (retire_image now sub iid c))) = ct_templates (cl_catalog c)"
  "ct_templates (cl_catalog (fst (validate_cloud_init now msg sub cfg c))) = ct_templates (cl_catalog c)"
proof -
  show "ct_templates (cl_catalog (fst (register_image now uuid sub rq c))) = ct_templates (cl_catalog c)"
    by (auto simp: register_image_def image_create_def Let_def split: option.splits sum.splits prod.splits)
  show "ct_templates (cl_catalog (fst (sync_image_to_node now sub iid nid c))) = ct_templates (cl_catalog c)"
    by (simp add: sync_image_to_node_def split: option.splits sum.splits)
  show "ct_templates (cl_catalog (sync_image_job now corr sent rs msg sub im n c)) = ct_templates (cl_catalog c)"
    by (simp add: sync_image_job_def Let_def split: sum.splits prod.splits)
  show "ct_templates (cl_catalog (fst (verify_image now msg sub iid c))) = ct_templates (cl_catalog c)"
    by (simp add: verify_image_def Let_def split: option.splits sum.splits prod.splits)
  show "ct_templates (cl_catalog (fst (retire_image now sub iid c))) = ct_templates (cl_catalog c)"
    by (auto simp: retire_image_def image_update_status_def split: option.splits sum.splits prod.splits)
  show "ct_templates (cl_catalog (fst (validate_cloud_init now msg sub cfg c))) = ct_templates (cl_catalog c)"
    by (simp add: validate_cloud_init_def split: option.splits)
qed

lemma template_validate_ok:
  assumes "template_validate t = (t', None)"
  shows "tm_id t' = tm_id t \<and> template_slug_ok (tm_slug t')"
  using assms by (auto simp: template_validate_def Let_def split: if_splits)

lemma catalog_ok_put:
  assumes "catalog_ok ct" and "template_slug_ok (tm_slug t)"
    and "\<forall>u \<in> ran (ct_templates ct). tm_id u \<noteq> tm_id t \<longrightarrow> tm_slug u \<noteq> tm_slug t"
  shows "catalog_ok (ct\<lparr>ct_templates := (ct_templates ct)(tm_id t \<mapsto> t)\<rparr>)"
proof -
  have "u \<in> ran ((ct_templates ct)(tm_id t \<mapsto> t)) \<Longrightarrow> u = t \<or> u \<in> ran (ct_templates ct) \<and> tm_id u \<noteq> tm_id t" for u
    using assms(1) by (auto simp: ran_def catalog_ok_def split: if_splits)
  then show ?thesis using assms unfolding catalog_ok_def by (auto; metis)
qed

lemma template_create_keeps:
  assumes "catalog_ok ct" and "iterates (ct_templates ct) ks" and "template_slug_ok (tm_slug t)"
  shows "catalog_ok (fst (template_create now uuid ks t ct))"
proof -
  define u where "u = (let t = (if tm_id t = '''' then t\<lparr>tm_id := uuid\<rparr> else t);
               t = (if tm_created t = zero_time then t\<lparr>tm_created := now\<rparr> else t) in t\<lparr>tm_updated := now\<rparr>)"
  have s: "tm_slug u = tm_slug t" by (simp add: u_def Let_def)
  show ?thesis
  proof (cases "list_ex (\<lambda>x. tm_slug x = tm_slug t) (vals (ct_templates ct) ks)")
    case True
    then show ?thesis using assms(1) by (simp add: template_create_def)
  next
    case False
    then have "\<forall>x \<in> ran (ct_templates ct). tm_slug x \<noteq> tm_slug u"
      using assms(2) s by (simp add: list_ex_vals)
    then have "catalog_ok (ct\<lparr>ct_templates := (ct_templates ct)(tm_id u \<mapsto> u)\<rparr>)"
      using assms(1,3) s by (intro catalog_ok_put) auto
    then show ?thesis using False by (simp add: template_create_def u_def Let_def)
  qed
qed

lemma template_update_keeps:
  assumes "catalog_ok ct" and "iterates (ct_templates ct) ks" and "template_slug_ok (tm_slug t)"
  shows "catalog_ok (fst (template_update now ks t ct))"
proof (cases "ct_templates ct (tm_id t)")
  case None
  then show ?thesis using assms(1) by (simp add: template_update_def)
next
  case (Some old)
  let ?u = "t\<lparr>tm_created := tm_created old, tm_updated := now\<rparr>"
  show ?thesis
  proof (cases "list_ex (\<lambda>x. tm_id x \<noteq> tm_id t \<and> equal_fold (tm_slug x) (tm_slug t)) (vals (ct_templates ct) ks)")
    case True
    then show ?thesis using assms(1) Some by (simp add: template_update_def)
  next
    case False
    then have "\<forall>x \<in> ran (ct_templates ct). tm_id x \<noteq> tm_id t \<longrightarrow> tm_slug x \<noteq> tm_slug t"
      using assms(2) by (auto simp: list_ex_vals equal_fold_def)
    then have "catalog_ok (ct\<lparr>ct_templates := (ct_templates ct)(tm_id ?u \<mapsto> ?u)\<rparr>)"
      using assms(1,3) by (intro catalog_ok_put) auto
    then show ?thesis using Some False by (simp add: template_update_def Let_def)
  qed
qed

lemma catalog_ok_delete:
  assumes "catalog_ok ct"
  shows "catalog_ok (ct\<lparr>ct_templates := (ct_templates ct)(i := None)\<rparr>)"
proof -
  have "ran ((ct_templates ct)(i := None)) \<subseteq> ran (ct_templates ct)"
    by (auto simp: ran_def split: if_splits)
  then show ?thesis using assms unfolding catalog_ok_def
    by (simp add: subset_iff)
qed

lemma create_template_catalog:
  "cl_catalog (fst (create_template now uuid ks sub req c)) = cl_catalog c \<or>
   (\<exists>t. template_slug_ok (tm_slug t) \<and>
      cl_catalog (fst (create_template now uuid ks sub req c)) = fst (template_create now uuid ks t (cl_catalog c)))"
  by (auto simp: create_template_def split: option.splits prod.splits sum.splits)
    (metis fst_conv template_validate_ok)+

lemma update_template_catalog:
  "cl_catalog (fst (update_template now ks sub i req c)) = cl_catalog c \<or>
   (\<exists>t. template_slug_ok (tm_slug t) \<and>
      cl_catalog (fst (update_template now ks sub i req c)) = fst (template_update now ks t (cl_catalog c)))"
  by (auto simp: update_template_def split: option.splits prod.splits sum.splits)
    (metis fst_conv template_validate_ok)+

lemma create_template_keeps:
  assumes "catalog_ok (cl_catalog c)" and "iterates (ct_templates (cl_catalog c)) ks"
  shows "catalog_ok (cl_catalog (fst (create_template now uuid ks sub req c)))"
  using create_template_catalog [of now uuid ks sub req c] template_create_keeps [OF assms] assms(1) by metis

lemma update_template_keeps:
  assumes "catalog_ok (cl_catalog c)" and "iterates (ct_templates (cl_catalog c)) ks"
  shows "catalog_ok (cl_catalog (fst (update_template now ks sub i req c)))"
  using update_template_catalog [of now ks sub i req c] template_update_keeps [OF assms] assms(1) by metis

lemma delete_template_keeps:
  assumes "catalog_ok (cl_catalog c)"
  shows "catalog_ok (cl_catalog (fst (delete_template now sub i c)))"
  using assms
  by (auto simp: delete_template_def template_delete_def catalog_ok_delete
    split: option.splits prod.splits sum.splits if_splits)

lemma catalog_ok_cong: "ct_templates ct = ct_templates ct' \<Longrightarrow> catalog_ok ct \<longleftrightarrow> catalog_ok ct'"
  by (simp add: catalog_ok_def)

interpretation catalog_machine: invariant_machine template_step "\<lambda>c. catalog_ok (cl_catalog c)"
proof unfold_locales
  fix s t
  assume "catalog_ok (cl_catalog s)" and "template_step s t"
  from this(2,1) show "catalog_ok (cl_catalog t)"
    by cases (simp_all add: create_template_keeps update_template_keeps delete_template_keeps
      catalog_ok_cong [OF image_steps_keep_templates(1)] catalog_ok_cong [OF image_steps_keep_templates(2)]
      catalog_ok_cong [OF image_steps_keep_templates(3)] catalog_ok_cong [OF image_steps_keep_templates(4)]
      catalog_ok_cong [OF image_steps_keep_templates(5)] catalog_ok_cong [OF image_steps_keep_templates(6)])
qed

lemma catalog_ok_fold:
  assumes "distinct (map tm_slug ts)" and "list_all (\<lambda>t. template_slug_ok (tm_slug t)) ts"
  shows "catalog_ok \<lparr>ct_templates = fold (\<lambda>t m. m(tm_id t \<mapsto> t)) ts Map.empty, ct_images = im, ct_avail = av\<rparr>"
  using assms
proof (induction ts rule: rev_induct)
  case Nil
  then show ?case by (simp add: catalog_ok_def)
next
  case (snoc t ts)
  let ?m = "fold (\<lambda>t m. m(tm_id t \<mapsto> t)) ts Map.empty"
  have "ran (fold (\<lambda>t m. m(tm_id t \<mapsto> t)) us m) \<subseteq> set us \<union> ran m" for us and m :: "string \<rightharpoonup> os_template"
  proof (induction us arbitrary: m)
    case (Cons u us)
    have "ran (m(tm_id u \<mapsto> u)) \<subseteq> insert u (ran m)" by (auto simp: ran_def)
    with Cons [of "m(tm_id u \<mapsto> u)"] show ?case by (simp only: fold_simps list.set) blast
  qed simp
  from this [of ts Map.empty] have "ran ?m \<subseteq> set ts" by (simp only: ran_empty Un_empty_right)
  moreover have "\<forall>u \<in> set ts. tm_slug u \<noteq> tm_slug t" using snoc.prems(1) by (auto simp: image_iff; metis)
  ultimately have "\<forall>u \<in> ran ?m. tm_slug u \<noteq> tm_slug t" by blast
  then show ?case using snoc catalog_ok_put [of "\<lparr>ct_templates = ?m, ct_images = im, ct_avail = av\<rparr>" t] by (simp del: fun_upd_apply)
qed

lemma new_catalog_ok: "catalog_ok (new_catalog now)"
proof -
  have "distinct (map tm_slug (default_templates now))"
    by (simp add: default_templates_def official_def)
  moreover have "template_slug_ok ''ubuntu-24.04''" "template_slug_ok ''debian-12''" "template_slug_ok ''alpine-3.19''"
    by code_simp+
  then have "list_all (\<lambda>t. template_slug_ok (tm_slug t)) (default_templates now)"
    by (simp add: default_templates_def official_def)
  ultimately show ?thesis unfolding new_catalog_def by (rule catalog_ok_fold)
qed

lemma by_slug_unique:
  assumes "catalog_ok ct" and "iterates (ct_templates ct) ks"
  shows "template_by_slug slug ks ct = Inr t \<longleftrightarrow> t \<in> ran (ct_templates ct) \<and> tm_slug t = to_lower slug"
proof -
  have f: "equal_fold (tm_slug u) slug \<longleftrightarrow> tm_slug u = to_lower slug" if "u \<in> ran (ct_templates ct)" for u
    using that assms(1) template_slug_lower [of "tm_slug u"] by (auto simp: equal_fold_def catalog_ok_def ran_def)
  have v: "set (vals (ct_templates ct) ks) = ran (ct_templates ct)" using assms(2) by (rule set_vals_ran)
  show ?thesis
  proof (cases "List.find (\<lambda>t. equal_fold (tm_slug t) slug) (vals (ct_templates ct) ks)")
    case None
    then have "\<forall>u \<in> ran (ct_templates ct). tm_slug u \<noteq> to_lower slug" using f v by (auto simp: find_None_iff)
    then show ?thesis unfolding template_by_slug_def None by auto
  next
    case (Some u)
    then have "u \<in> ran (ct_templates ct)" "equal_fold (tm_slug u) slug"
      using v by (auto simp: find_Some_iff set_conv_nth)
    then show ?thesis using Some f assms(1) by (auto simp: template_by_slug_def catalog_ok_def)
  qed
qed

section \<open>Properties\<close>

text \<open>
  C37. Slugs identify templates: after any sequence of template and image requests on the
  default catalogue, a lookup by slug finds exactly the template whose slug is the lower-case
  form of the text, whatever order the map is visited in, and two templates never share a slug.
\<close>

theorem template_slugs_identify:
  assumes "template_step\<^sup>*\<^sup>* \<lparr>cl_hub = h, cl_catalog = new_catalog t0\<rparr> c"
    and "iterates (ct_templates (cl_catalog c)) ks"
  shows "(template_by_slug slug ks (cl_catalog c) = Inr t \<longleftrightarrow>
            t \<in> ran (ct_templates (cl_catalog c)) \<and> tm_slug t = to_lower slug)
     \<and> (ct_templates (cl_catalog c) i = Some u \<and> ct_templates (cl_catalog c) j = Some v \<and> tm_slug u = tm_slug v \<longrightarrow> i = j)"
proof -
  have ok: "catalog_ok (cl_catalog c)"
    using catalog_machine.steps_keep [OF assms(1)] new_catalog_ok by simp
  then have "ct_templates (cl_catalog c) i = Some u \<and> ct_templates (cl_catalog c) j = Some v \<and> tm_slug u = tm_slug v \<longrightarrow> i = j"
    by (metis catalog_ok_def ranI)
  with by_slug_unique [OF ok assms(2)] show ?thesis by blast
qed

theorem template_slugs_identify_witness:
  "\<exists>t. template_by_slug ''Debian-12'' [''tmpl-ubuntu-24-04'', ''tmpl-debian-12'', ''tmpl-alpine-3-19''] (new_catalog 7) = Inr t
     \<and> tm_id t = ''tmpl-debian-12''"
proof -
  let ?ks = "[''tmpl-ubuntu-24-04'', ''tmpl-debian-12'', ''tmpl-alpine-3-19'']"
  let ?c = "\<lparr>cl_hub = new_hub, cl_catalog = new_catalog 7\<rparr>"
  have it: "iterates (ct_templates (cl_catalog ?c)) ?ks"
    by (auto simp: iterates_def new_catalog_def default_templates_def official_def split: if_splits)
  let ?t = "default_templates 7 ! 1"
  have "ct_templates (new_catalog 7) ''tmpl-debian-12'' = Some ?t"
    by (simp add: new_catalog_def default_templates_def official_def)
  moreover have "tm_slug ?t = to_lower ''Debian-12''"
    unfolding default_templates_def official_def by code_simp
  ultimately have "template_by_slug ''Debian-12'' ?ks (cl_catalog ?c) = Inr ?t"
    using template_slugs_identify [OF rtranclp.rtrancl_refl it, of "''Debian-12''" ?t] by (auto intro: ranI)
  moreover have "tm_id ?t = ''tmpl-debian-12''" by (simp add: default_templates_def official_def)
  ultimately show ?thesis by auto
qed

end
