(* ===== verification/Guest_Path.thy ===== *)
theory Guest_Path
  imports Aurora_Prelude
begin

text \<open>
  Paths inside a guest: \<open>CleanGuestPath\<close> of \<open>internal/domain/compute/files.go\<close>, with
  \<open>path.Clean\<close> of the standard library for the rooted paths it is applied to.
\<close>

text \<open>The lexical elimination of \<open>path.Clean\<close>; the names kept so far are in reverse order.\<close>

fun clean_parts :: "string list \<Rightarrow> string list \<Rightarrow> string list" where
  "clean_parts acc [] = rev acc"
| "clean_parts acc (p # ps) =
     (if p = '''' \<or> p = ''.'' then clean_parts acc ps
      else if p = ''..'' then clean_parts (tl acc) ps
      else clean_parts (p # acc) ps)"

fun join_path :: "string list \<Rightarrow> string" where
  "join_path [] = ''''"
| "join_path [p] = p"
| "join_path (p # q # ps) = p @ ''/'' @ join_path (q # ps)"

definition path_clean_rooted :: "string \<Rightarrow> string" where
  "path_clean_rooted p = ''/'' @ join_path (clean_parts [] (split_on (CHR ''/'') (tl p)))"

definition clean_guest_path :: "string \<Rightarrow> string result" where
  "clean_guest_path p =
     (let p = trim_space p
      in if p = '''' then Inr ''/''
         else let p = (if has_prefix p ''/'' then p else ''/'' @ p);
                  c = path_clean_rooted p
              in if contains c ''..'' then Inl ErrInvalidPath else Inr c)"

section \<open>Cleaned paths\<close>

definition plain_name :: "string \<Rightarrow> bool" where
  "plain_name p \<longleftrightarrow> p \<noteq> '''' \<and> p \<noteq> ''.'' \<and> CHR ''/'' \<notin> set p \<and> \<not> contains p ''..''"

lemma split_on_no_sep: "p \<in> set (split_on c s) \<Longrightarrow> c \<notin> set p"
  by (induction s arbitrary: p) (auto split: list.splits if_splits)

definition kept :: "string \<Rightarrow> bool" where
  "kept p \<longleftrightarrow> CHR ''/'' \<notin> set p \<and> p \<noteq> '''' \<and> p \<noteq> ''.'' \<and> p \<noteq> ''..''"

lemma clean_parts_names:
  "list_all kept acc \<Longrightarrow> \<forall>p \<in> set ps. CHR ''/'' \<notin> set p \<Longrightarrow> list_all kept (clean_parts acc ps)"
proof (induction ps arbitrary: acc)
  case Nil
  then show ?case by (simp add: list_all_iff)
next
  case (Cons p ps)
  have "list_all kept (tl acc)" using Cons.prems(1) by (cases acc) simp_all
  moreover have "kept p" if "p \<noteq> ''''" "p \<noteq> ''.''" "p \<noteq> ''..''" using that Cons.prems(2) by (simp add: kept_def)
  ultimately show ?case using Cons.prems Cons.IH by simp
qed

lemma dots_slash:
  "contains (xs @ CHR ''/'' # ys) ''..'' \<longleftrightarrow> contains xs ''..'' \<or> contains ys ''..''"
proof (induction xs)
  case Nil
  then show ?case by (simp add: has_prefix_def)
next
  case (Cons x xs)
  then show ?case by (cases xs) (auto simp: has_prefix_def)
qed

lemma dots_join: "contains (join_path ps) ''..'' \<longleftrightarrow> (\<exists>p \<in> set ps. contains p ''..'')"
  by (induction ps rule: join_path.induct) (auto simp: dots_slash)

lemma clean_guest_path_cases:
  obtains "trim_space p = ''''" "clean_guest_path p = Inr ''/''"
  | ps where "clean_guest_path p =
      (if \<exists>q \<in> set ps. contains q ''..'' then Inl ErrInvalidPath else Inr (''/'' @ join_path ps))"
    "list_all kept ps"
proof (cases "trim_space p = ''''")
  case True
  then show ?thesis by (intro that(1)) (simp_all add: clean_guest_path_def)
next
  case False
  define t where "t = (if has_prefix (trim_space p) ''/'' then trim_space p else ''/'' @ trim_space p)"
  let ?ps = "clean_parts [] (split_on (CHR ''/'') (tl t))"
  have "contains (path_clean_rooted t) ''..'' \<longleftrightarrow> (\<exists>q \<in> set ?ps. contains q ''..'')"
    by (simp add: path_clean_rooted_def dots_join) (simp add: has_prefix_def)
  then have "clean_guest_path p =
      (if \<exists>q \<in> set ?ps. contains q ''..'' then Inl ErrInvalidPath else Inr (''/'' @ join_path ?ps))"
    using False unfolding clean_guest_path_def Let_def t_def [symmetric] by (simp add: path_clean_rooted_def)
  moreover have "list_all kept ?ps"
    by (rule clean_parts_names) (auto dest: split_on_no_sep)
  ultimately show ?thesis by (rule that(2))
qed

text \<open>
  A guest path that is accepted stays inside the guest: it is absolute, made of names
  that are not empty, not a dot, and contain neither a slash nor two dots in a row; the only
  other outcome is the error for an invalid path.
\<close>

theorem guest_path_confined:
  "(\<exists>ps. clean_guest_path p = Inr (''/'' @ join_path ps) \<and> list_all plain_name ps)
     \<or> clean_guest_path p = Inl ErrInvalidPath"
proof (cases p rule: clean_guest_path_cases)
  case 1
  then have "clean_guest_path p = Inr (''/'' @ join_path [])" by simp
  moreover have "list_all plain_name []" by simp
  ultimately show ?thesis by blast
next
  case (2 ps)
  then show ?thesis by (auto simp: plain_name_def kept_def list_all_iff)
qed

end
