(* ===== verification/Compute_Service.thy ===== *)
theory Compute_Service
  imports Scheduler Quota Template_Service Guest_Path
begin

text \<open>
  The compute service: \<open>internal/app/compute/service.go\<close>, which ties the authorisation, the
  quota engine, the scheduler, the template service, the instance repository and the command
  dispatcher together. A request runs to its end before the next one starts; what the nodes
  send back while it waits is an argument. The nil checks of the optional collaborators are
  the flags of \<open>compute_config\<close>; the server configures all of them.
\<close>

section \<open>Data\<close>

record region =
  rg_cloud :: cloud
  rg_insts :: inst_store
  rg_billing :: billing

record compute_config =
  cc_templates :: bool
  cc_quota :: bool
  cc_scheduler :: bool

text \<open>The orders in which the maps are visited.\<close>

record orders =
  or_nodes :: "string list"
  or_insts :: "string list"
  or_plans :: "string list"
  or_templates :: "string list"
  or_images :: "string list"

text \<open>The reply of the node: the result of \<open>Send\<close>, and what the gateway receives afterwards.\<close>

record reply =
  rp_sent :: "go_error option"
  rp_results :: "command_result list"

record create_request =
  rq_name :: string
  rq_type :: string
  rq_cpu :: int
  rq_mem :: int
  rq_storage :: int
  rq_image :: string
  rq_template :: string
  rq_slug :: string
  rq_cloud_init :: "cloud_init option"
  rq_node :: string
  rq_config :: gobj
  rq_start :: bool

definition user_of :: "subject option \<Rightarrow> string" where
  "user_of sub = (case sub of None \<Rightarrow> '''' | Some s \<Rightarrow> sub_user s)"

definition put_key :: "string \<Rightarrow> gval \<Rightarrow> gobj \<Rightarrow> gobj" where
  "put_key k v m = (k, v) # filter (\<lambda>(a, _). a \<noteq> k) m"

text \<open>The pattern \<open>^[a-z0-9][a-z0-9-]{1,61}[a-z0-9]$\<close>.\<close>

definition valid_name :: "string \<Rightarrow> bool" where
  "valid_name s \<longleftrightarrow> 3 \<le> length s \<and> length s \<le> 63 \<and> slug_char (hd s) \<and> slug_char (last s) \<and>
     list_all (\<lambda>c. slug_char c \<or> c = CHR ''-'') (butlast (tl s))"

fun status_name :: "inst_status \<Rightarrow> string" where
  "status_name IPending = ''pending''"
| "status_name ICreating = ''creating''"
| "status_name IRunning = ''running''"
| "status_name IStopped = ''stopped''"
| "status_name IRestarting = ''restarting''"
| "status_name IFrozen = ''frozen''"
| "status_name IError = ''error''"
| "status_name IDeleting = ''deleting''"
| "status_name IDeleted = ''deleted''"

definition instance_log :: "gtime \<Rightarrow> subject option \<Rightarrow> string \<Rightarrow> string \<Rightarrow> int \<Rightarrow> gobj \<Rightarrow> region \<Rightarrow> region" where
  "instance_log now sub action iid code details r =
     r\<lparr>rg_cloud := (rg_cloud r)\<lparr>cl_hub := (cl_hub (rg_cloud r))\<lparr>nh_trails :=
         log_audit now (empty_log\<lparr>al_actor := Some (user_of sub), al_action := action, al_rtype := ''instance'',
           al_rid := Some iid, al_status := code, al_details := details, al_created := now\<rparr>)
         (nh_trails (cl_hub (rg_cloud r)))\<rparr>\<rparr>\<rparr>"

definition instance_event :: "subject option \<Rightarrow> string \<Rightarrow> inst \<Rightarrow> gobj \<Rightarrow> region \<Rightarrow> region" where
  "instance_event sub ty i details r =
     r\<lparr>rg_cloud := (rg_cloud r)\<lparr>cl_hub := (cl_hub (rg_cloud r))\<lparr>nh_trails :=
         publish \<lparr>ev_tenant = in_user i, ev_type = ty, ev_rtype = ''instance'', ev_rid = in_id i,
           ev_actor = user_of sub, ev_payload = details\<rparr> (nh_trails (cl_hub (rg_cloud r)))\<rparr>\<rparr>\<rparr>"

definition ask_node :: "gtime \<Rightarrow> reply \<Rightarrow> string \<Rightarrow> string \<Rightarrow> string \<Rightarrow> gobj \<Rightarrow> region \<Rightarrow> region \<times> command_result result" where
  "ask_node now rp corr nid ty p r =
     (let (h, x) = exchange now corr (rp_sent rp) (rp_results rp) nid
                     \<lparr>cmd_corr = corr, cmd_type = ty, cmd_payload = p, cmd_created = zero_time\<rparr>
                     (cl_hub (rg_cloud r))
      in (r\<lparr>rg_cloud := (rg_cloud r)\<lparr>cl_hub := h\<rparr>\<rparr>, x))"

section \<open>Creating an instance\<close>

definition normalize_request :: "create_request \<Rightarrow> (create_request \<times> inst_type) result" where
  "normalize_request req =
     (let req = req\<lparr>rq_name := trim_space (to_lower (rq_name req))\<rparr>
      in if \<not> valid_name (rq_name req) then Inl ErrInvalidSpec
         else if rq_type req \<noteq> ''virtual-machine'' \<and> rq_type req \<noteq> '''' \<and> rq_type req \<noteq> ''container''
         then Inl ErrUnsupportedInstanceType
         else Inr (req\<lparr>rq_cpu := (if rq_cpu req \<le> 0 then 1 else rq_cpu req),
                       rq_mem := (if rq_mem req \<le> 0 then 1024 * 1024 * 1024 else rq_mem req),
                       rq_storage := (if rq_storage req \<le> 0 then 10 * 1024 * 1024 * 1024 else rq_storage req),
                       rq_image := (if rq_image req = '''' \<and> rq_template req = '''' \<and> rq_slug req = ''''
                                    then ''ubuntu/24.04'' else rq_image req)\<rparr>,
                   if rq_type req = ''virtual-machine'' then VirtualMachine else Container))"

definition quota_spec :: "int \<Rightarrow> int \<Rightarrow> int \<Rightarrow> resource_spec" where
  "quota_spec cpu mem storage =
     \<lparr>rs_instances = 1, rs_vcpu = cpu, rs_mem = quot mem mib, rs_storage = quot storage mib,
      rs_ipv4 = 0, rs_snapshots = 0, rs_backups = 0\<rparr>"

definition reserve_instance ::
  "compute_config \<Rightarrow> gtime \<Rightarrow> orders \<Rightarrow> string \<Rightarrow> resource_spec \<Rightarrow> region \<Rightarrow> region \<times> go_error option" where
  "reserve_instance cfg now o1 tid spec r =
     (if cc_quota cfg then
        (let (b, e) = reserve_quota now (or_plans o1) tid spec (rg_billing r) in (r\<lparr>rg_billing := b\<rparr>, e))
      else (r, None))"

definition release_instance :: "compute_config \<Rightarrow> gtime \<Rightarrow> string \<Rightarrow> resource_spec \<Rightarrow> region \<Rightarrow> region" where
  "release_instance cfg now tid spec r =
     (if cc_quota cfg then r\<lparr>rg_billing := release_quota now tid spec (rg_billing r)\<rparr> else r)"

definition target_node ::
  "compute_config \<Rightarrow> (candidate list \<Rightarrow> candidate list) \<Rightarrow> orders \<Rightarrow> create_request \<Rightarrow> inst_type \<Rightarrow> region \<Rightarrow> node result" where
  "target_node cfg srt o1 req ty r =
     (let ns = nh_store (cl_hub (rg_cloud r))
      in if rq_node req \<noteq> '''' then
           (case node_get (rq_node req) ns of
              Inl err \<Rightarrow> Inl err
            | Inr n \<Rightarrow> if \<not> is_schedulable n
                       then Inl (ErrText ''target node is not online or is in maintenance/drain mode'') else Inr n)
         else if cc_scheduler cfg then
           map_sum id dc_node
             (select_node srt (or_nodes o1) (or_insts o1)
                \<lparr>pr_name = rq_name req, pr_type = ty, pr_cpu = rq_cpu req, pr_mem = rq_mem req,
                 pr_storage = rq_storage req, pr_arch = '''', pr_location = '''', pr_preferred = '''',
                 pr_exclude = [], pr_features = []\<rparr> ns (rg_insts r))
         else
           (case List.find is_schedulable (node_list (or_nodes o1) ns) of
              None \<Rightarrow> Inl (ErrText ''no online hypervisor nodes available for scheduling'')
            | Some n \<Rightarrow> Inr n))"

definition resolve_image ::
  "compute_config \<Rightarrow> orders \<Rightarrow> subject option \<Rightarrow> create_request \<Rightarrow> inst_type \<Rightarrow> node \<Rightarrow> region \<Rightarrow> create_request result" where
  "resolve_image cfg o1 sub req ty n r =
     (let look = (if rq_template req = '''' then rq_slug req else rq_template req); ct = cl_catalog (rg_cloud r)
      in if look = '''' \<or> \<not> cc_templates cfg then Inr req
         else case get_template sub look (or_templates o1) ct of
                Inl err \<Rightarrow> Inl err
              | Inr t \<Rightarrow>
                  if rq_mem req < tm_min_mem t then Inl ErrInsufficientMemory
                  else if rq_storage req < tm_min_disk t then Inl ErrInsufficientDisk
                  else (case find_compatible (tm_id t) (node_arch n) ty (or_images o1) ct of
                          Inl _ \<Rightarrow> Inl ErrNoCompatibleImage
                        | Inr i \<Rightarrow> Inr (if ig_alias i \<noteq> '''' then req\<lparr>rq_image := ig_alias i\<rparr>
                                        else if ig_fingerprint i \<noteq> '''' then req\<lparr>rq_image := ig_fingerprint i\<rparr>
                                        else req)))"

text \<open>\<open>msg\<close> is the text of the validation error in the audit entry of the template service.\<close>

definition apply_cloud_init ::
  "compute_config \<Rightarrow> gtime \<Rightarrow> string \<Rightarrow> subject option \<Rightarrow> create_request \<Rightarrow> region \<Rightarrow> region \<times> create_request result" where
  "apply_cloud_init cfg now msg sub req r =
     (case rq_cloud_init req of
        None \<Rightarrow> (r, Inr req)
      | Some ci \<Rightarrow>
          (let (r, e) = (if cc_templates cfg then
                           (let (c, e) = validate_cloud_init now msg sub (Some ci) (rg_cloud r) in (r\<lparr>rg_cloud := c\<rparr>, e))
                         else (r, cloud_init_validate (Some ci)))
           in case e of
                Some err \<Rightarrow> (r, Inl err)
              | None \<Rightarrow>
                  (let d = GStr (render_user_data ci)
                   in (r, Inr (req\<lparr>rq_config := put_key ''cloud-init.user-data'' d
                                     (put_key ''user.user-data'' d (rq_config req))\<rparr>)))))"

definition new_instance :: "gtime \<Rightarrow> string \<Rightarrow> subject option \<Rightarrow> string \<Rightarrow> inst_type \<Rightarrow> create_request \<Rightarrow> inst" where
  "new_instance now iid sub nid ty req =
     \<lparr>in_id = iid, in_user = user_of sub, in_node = nid, in_name = rq_name req, in_type = ty,
      in_status = ICreating, in_cpu = rq_cpu req, in_mem = rq_mem req, in_storage = rq_storage req,
      in_image = rq_image req, in_ipv4 = '''', in_ipv6 = '''', in_config = rq_config req,
      in_created = now, in_updated = now\<rparr>"

definition create_payload :: "inst \<Rightarrow> bool \<Rightarrow> gobj" where
  "create_payload i start =
     [(''instance_id'', GStr (in_id i)), (''name'', GStr (in_name i)), (''type'', GStr (type_text (in_type i))),
      (''cpu_cores'', GInt (in_cpu i)), (''memory_bytes'', GInt (in_mem i)), (''storage_bytes'', GInt (in_storage i)),
      (''image'', GStr (in_image i)), (''config'', GObj (in_config i)), (''start_after_create'', GBool start)]"

definition final_state :: "bool \<Rightarrow> gobj \<Rightarrow> inst_status \<times> string \<times> string" where
  "final_state start p =
     (let s = (if get_str p ''status'' = Some ''running'' then IRunning else IStopped);
          s = (if start \<and> s = IStopped then IRunning else s)
      in (s, (case get_str p ''ipv4Address'' of None \<Rightarrow> '''' | Some a \<Rightarrow> a),
             (case get_str p ''ipv6Address'' of None \<Rightarrow> '''' | Some a \<Rightarrow> a)))"

definition created_event :: "inst \<Rightarrow> gobj" where
  "created_event i =
     [(''name'', GStr (in_name i)), (''nodeId'', GStr (in_node i)), (''type'', GStr (type_text (in_type i))),
      (''status'', GStr (status_name (in_status i))), (''cpuCores'', GInt (in_cpu i)),
      (''memoryMb'', GInt (quot (in_mem i) mib)), (''storageGb'', GInt (quot (in_storage i) gib))]"

definition set_status :: "gtime \<Rightarrow> string \<Rightarrow> inst_status \<Rightarrow> string \<Rightarrow> string \<Rightarrow> region \<Rightarrow> region" where
  "set_status now iid s v4 v6 r = r\<lparr>rg_insts := fst (inst_update_status now iid s v4 v6 (rg_insts r))\<rparr>"

text \<open>From the record in the repository to the end of the request.\<close>

definition launch ::
  "compute_config \<Rightarrow> gtime \<Rightarrow> string \<Rightarrow> reply \<Rightarrow> subject option \<Rightarrow> resource_spec \<Rightarrow> bool \<Rightarrow> inst \<Rightarrow> region \<Rightarrow> region \<times> inst result" where
  "launch cfg now corr rp sub spec start i r =
     (case inst_create i (rg_insts r) of
        (st, Some err) \<Rightarrow> (r\<lparr>rg_insts := st\<rparr>, Inl err)
      | (st, None) \<Rightarrow>
          (case ask_node now rp corr (in_node i) ''create_instance'' (create_payload i start) (r\<lparr>rg_insts := st\<rparr>) of
             (r, Inl _) \<Rightarrow>
               (set_status now (in_id i) IError '''' '''' (release_instance cfg now (user_of sub) spec r),
                Inl ErrInstanceOperationFailed)
           | (r, Inr res) \<Rightarrow>
               (let (s, v4, v6) = final_state start (cr_payload res);
                    r = set_status now (in_id i) s v4 v6 r;
                    i = i\<lparr>in_status := s, in_ipv4 := v4, in_ipv6 := v6\<rparr>;
                    r = instance_log now sub ''instance.created'' (in_id i) 201
                          [(''name'', GStr (in_name i)), (''nodeId'', GStr (in_node i)),
                           (''type'', GStr (type_text (in_type i)))] r
                in (instance_event sub ''instance.created'' i (created_event i) r, Inr i))))"

definition create_instance ::
  "compute_config \<Rightarrow> (candidate list \<Rightarrow> candidate list) \<Rightarrow> orders \<Rightarrow> gtime \<Rightarrow> string \<Rightarrow> string \<Rightarrow> string \<Rightarrow> reply \<Rightarrow>
   subject option \<Rightarrow> create_request \<Rightarrow> region \<Rightarrow> region \<times> inst result" where
  "create_instance cfg srt o1 now iid corr msg rp sub req r =
     (case authorize sub ''instance:create'' None of
        Some err \<Rightarrow> (r, Inl err)
      | None \<Rightarrow>
     (case normalize_request req of
        Inl err \<Rightarrow> (r, Inl err)
      | Inr (req, ty) \<Rightarrow>
          (let spec = quota_spec (rq_cpu req) (rq_mem req) (rq_storage req)
           in case reserve_instance cfg now o1 (user_of sub) spec r of
                (r, Some err) \<Rightarrow> (r, Inl err)
              | (r, None) \<Rightarrow>
     (case target_node cfg srt o1 req ty r of
        Inl err \<Rightarrow> (r, Inl err)
      | Inr n \<Rightarrow>
     (case resolve_image cfg o1 sub req ty n r of
        Inl err \<Rightarrow> (r, Inl err)
      | Inr req \<Rightarrow>
     (case apply_cloud_init cfg now msg sub req r of
        (r, Inl err) \<Rightarrow> (r, Inl err)
      | (r, Inr req) \<Rightarrow>
          launch cfg now corr rp sub spec (rq_start req) (new_instance now iid sub (nd_id n) ty req) r))))))"

section \<open>Operating an instance\<close>

definition owned_instance :: "subject option \<Rightarrow> string \<Rightarrow> string \<Rightarrow> region \<Rightarrow> inst result" where
  "owned_instance sub action iid r =
     (case inst_get iid (rg_insts r) of
        Inl err \<Rightarrow> Inl err
      | Inr i \<Rightarrow> (case authorize sub action (Some (inst_resource i)) of Some err \<Rightarrow> Inl err | None \<Rightarrow> Inr i))"

definition power_plan :: "string \<Rightarrow> bool \<Rightarrow> inst \<Rightarrow> (string \<times> inst_status \<times> bool \<times> string) result" where
  "power_plan action force i =
     (if action = ''start'' then
        (if in_status i = IRunning then Inl ErrInstanceRunning
         else Inr (''start_instance'', IRunning, force, ''instance.started''))
      else if action = ''stop'' then
        (if in_status i = IStopped then Inl ErrInstanceStopped
         else Inr (''stop_instance'', IStopped, force, ''instance.stopped''))
      else if action = ''force-stop'' then Inr (''stop_instance'', IStopped, True, ''instance.stopped'')
      else if action = ''restart'' then Inr (''restart_instance'', IRunning, force, ''instance.restarted'')
      else Inl ErrInvalidPowerAction)"

definition power_action ::
  "gtime \<Rightarrow> string \<Rightarrow> reply \<Rightarrow> subject option \<Rightarrow> string \<Rightarrow> string \<Rightarrow> bool \<Rightarrow> region \<Rightarrow> region \<times> inst result" where
  "power_action now corr rp sub iid action force r =
     (case owned_instance sub ''instance:power'' iid r of
        Inl err \<Rightarrow> (r, Inl err)
      | Inr i \<Rightarrow>
     (case power_plan action force i of
        Inl err \<Rightarrow> (r, Inl err)
      | Inr (cmd, s, force, ev) \<Rightarrow>
     (case ask_node now rp corr (in_node i) cmd
             [(''instance_id'', GStr (in_id i)), (''name'', GStr (in_name i)), (''force'', GBool force)] r of
        (r, Inl _) \<Rightarrow> (r, Inl ErrInstanceOperationFailed)
      | (r, Inr _) \<Rightarrow>
          (let r = set_status now iid s (in_ipv4 i) (in_ipv6 i) r;
               i = i\<lparr>in_status := s\<rparr>;
               r = instance_log now sub (''instance.power.'' @ action) iid 200
                     [(''action'', GStr action), (''force'', GBool force)] r
           in (instance_event sub ev i
                 [(''name'', GStr (in_name i)), (''status'', GStr (status_name (in_status i))),
                  (''action'', GStr action)] r, Inr i)))))"

definition delete_instance ::
  "compute_config \<Rightarrow> gtime \<Rightarrow> string \<Rightarrow> reply \<Rightarrow> subject option \<Rightarrow> string \<Rightarrow> bool \<Rightarrow> region \<Rightarrow> region \<times> go_error option" where
  "delete_instance cfg now corr rp sub iid force r =
     (case owned_instance sub ''instance:delete'' iid r of
        Inl err \<Rightarrow> (r, Some err)
      | Inr i \<Rightarrow>
          (let r = fst (ask_node now rp corr (in_node i) ''delete_instance''
                     [(''instance_id'', GStr (in_id i)), (''name'', GStr (in_name i)), (''force'', GBool force)] r)
           in case inst_delete iid (rg_insts r) of
                (st, Some err) \<Rightarrow> (r\<lparr>rg_insts := st\<rparr>, Some err)
              | (st, None) \<Rightarrow>
                  (let r = release_instance cfg now (in_user i) (quota_spec (in_cpu i) (in_mem i) (in_storage i))
                             (r\<lparr>rg_insts := st\<rparr>);
                       r = instance_log now sub ''instance.deleted'' iid 200
                             [(''name'', GStr (in_name i)), (''nodeId'', GStr (in_node i)), (''force'', GBool force)] r
                   in (instance_event sub ''instance.deleted'' i [(''name'', GStr (in_name i))] r, None))))"

definition update_spec ::
  "gtime \<Rightarrow> string \<Rightarrow> reply \<Rightarrow> subject option \<Rightarrow> string \<Rightarrow> int \<Rightarrow> int \<Rightarrow> int \<Rightarrow> region \<Rightarrow> region \<times> inst result" where
  "update_spec now corr rp sub iid cpu mem storage r =
     (case owned_instance sub ''instance:update'' iid r of
        Inl err \<Rightarrow> (r, Inl err)
      | Inr i \<Rightarrow>
     (case ask_node now rp corr (in_node i) ''update_instance_spec''
             [(''instance_id'', GStr (in_id i)), (''name'', GStr (in_name i)), (''cpu_cores'', GInt cpu),
              (''memory_bytes'', GInt mem), (''storage_bytes'', GInt storage)] r of
        (r, Inl _) \<Rightarrow> (r, Inl ErrInstanceOperationFailed)
      | (r, Inr _) \<Rightarrow>
          (r\<lparr>rg_insts := fst (inst_update_spec now iid cpu mem storage (rg_insts r))\<rparr>,
           Inr (i\<lparr>in_cpu := cpu, in_mem := mem, in_storage := storage\<rparr>))))"

definition get_instance :: "subject option \<Rightarrow> string \<Rightarrow> region \<Rightarrow> inst result" where
  "get_instance sub iid r = owned_instance sub ''instance:read'' iid r"

definition list_instances :: "subject option \<Rightarrow> string list \<Rightarrow> region \<Rightarrow> inst list result" where
  "list_instances sub ks r =
     (case authorize sub ''instance:read'' None of
        Some err \<Rightarrow> Inl err
      | None \<Rightarrow>
          (case sub of
             None \<Rightarrow> Inl Panic
           | Some s \<Rightarrow> Inr (if has_permission s ''*'' then inst_list_all ks (rg_insts r)
                            else inst_by_user (sub_user s) ks (rg_insts r))))"

text \<open>
  The telemetry of a guest. The decoding of the JSON text of the payload into the struct is
  an argument; the struct keeps a timestamp, which is the current time when it is absent.
\<close>

record inst_metrics =
  mt_cpu :: f64
  mt_mem :: int
  mt_peak :: int
  mt_read :: int
  mt_write :: int
  mt_rx :: int
  mt_tx :: int
  mt_procs :: int
  mt_time :: gtime

definition get_instance_metrics ::
  "(gobj \<Rightarrow> inst_metrics) \<Rightarrow> gtime \<Rightarrow> string \<Rightarrow> reply \<Rightarrow> subject option \<Rightarrow> string \<Rightarrow> region \<Rightarrow> region \<times> inst_metrics result" where
  "get_instance_metrics decode now corr rp sub iid r =
     (case owned_instance sub ''instance:read'' iid r of
        Inl err \<Rightarrow> (r, Inl err)
      | Inr i \<Rightarrow>
     (case ask_node now rp corr (in_node i) ''get_instance_metrics''
             [(''instance_id'', GStr (in_id i)), (''name'', GStr (in_name i))] r of
        (r, Inl _) \<Rightarrow> (r, Inl ErrInstanceOperationFailed)
      | (r, Inr res) \<Rightarrow>
          (let m = decode (cr_payload res)
           in (r, Inr (if mt_time m = zero_time then m\<lparr>mt_time := now\<rparr> else m)))))"

section \<open>What each part of a request touches\<close>

lemma ask_node_keeps [simp]:
  "rg_insts (fst (ask_node now rp corr nid ty p r)) = rg_insts r"
  "rg_billing (fst (ask_node now rp corr nid ty p r)) = rg_billing r"
  by (simp_all add: ask_node_def Let_def split: prod.splits)

lemma ask_node_keeps_of:
  assumes "ask_node now rp corr nid ty p r = (r', x)"
  shows "rg_insts r' = rg_insts r" and "rg_billing r' = rg_billing r"
  using ask_node_keeps [of now rp corr nid ty p r] assms by simp_all

lemma trail_keeps [simp]:
  "rg_insts (instance_log now sub a iid code d r) = rg_insts r"
  "rg_billing (instance_log now sub a iid code d r) = rg_billing r"
  "rg_insts (instance_event sub ty i d r) = rg_insts r"
  "rg_billing (instance_event sub ty i d r) = rg_billing r"
  "rg_billing (set_status now iid s v4 v6 r) = rg_billing r"
  "rg_insts (set_status now iid s v4 v6 r) = fst (inst_update_status now iid s v4 v6 (rg_insts r))"
  "rg_insts (release_instance cfg now tid spec r) = rg_insts r"
  by (simp_all add: instance_log_def instance_event_def set_status_def release_instance_def)

lemma apply_cloud_init_keeps:
  assumes "apply_cloud_init cfg now msg sub req r = (r', x)"
  shows "rg_insts r' = rg_insts r" and "rg_billing r' = rg_billing r"
    and "x = Inr q \<Longrightarrow> rq_name q = rq_name req \<and> rq_cpu q = rq_cpu req \<and> rq_mem q = rq_mem req
       \<and> rq_storage q = rq_storage req \<and> rq_start q = rq_start req"
  using assms
  by (auto simp: apply_cloud_init_def Let_def split: option.splits if_splits prod.splits)

lemma resolve_image_keeps:
  assumes "resolve_image cfg o1 sub req ty n r = Inr q"
  shows "rq_name q = rq_name req \<and> rq_cpu q = rq_cpu req \<and> rq_mem q = rq_mem req
       \<and> rq_storage q = rq_storage req \<and> rq_start q = rq_start req"
  using assms
  by (auto simp: resolve_image_def Let_def split: if_splits sum.splits)

lemma normalize_request_ok:
  assumes "normalize_request req = Inr (q, ty)"
  shows "valid_name (rq_name q) \<and> 0 < rq_cpu q \<and> 0 < rq_mem q \<and> 0 < rq_storage q
       \<and> (ty = Container \<or> ty = VirtualMachine)"
  using assms by (auto simp: normalize_request_def Let_def split: if_splits)

lemma target_node_schedulable:
  assumes "by_score srt" and "target_node cfg srt o1 req ty r = Inr n"
  shows "is_schedulable n"
proof -
  have "is_schedulable (dc_node d)" if "select_node srt nks iks rq ns is = Inr d" for nks iks rq ns "is" d
    by (cases rule: select_node_cases [OF assms(1), of nks ns rq iks "is"])
      (use that in \<open>auto simp: admissible_def\<close>)
  then show ?thesis
    using assms(2)
    by (auto simp: target_node_def Let_def find_Some_iff map_sum_def split: if_splits sum.splits option.splits)
qed

text \<open>A request that gets past its checks: the reservation, the node and the instance to launch.\<close>

lemma create_instance_launches:
  assumes "create_instance cfg srt o1 now iid corr msg rp sub req r = (r', x)"
    and "authorize sub ''instance:create'' None = None" and "normalize_request req = Inr (q, ty)"
    and "reserve_instance cfg now o1 (user_of sub) (quota_spec (rq_cpu q) (rq_mem q) (rq_storage q)) r = (r1, None)"
  obtains err where "x = Inl err" "rg_insts r' = rg_insts r1" "rg_billing r' = rg_billing r1"
  | n q' r2 where "target_node cfg srt o1 q ty r1 = Inr n" "rg_insts r2 = rg_insts r1" "rg_billing r2 = rg_billing r1"
    "rq_name q' = rq_name q" "rq_cpu q' = rq_cpu q" "rq_mem q' = rq_mem q" "rq_storage q' = rq_storage q"
    "launch cfg now corr rp sub (quota_spec (rq_cpu q) (rq_mem q) (rq_storage q)) (rq_start q')
       (new_instance now iid sub (nd_id n) ty q') r2 = (r', x)"
proof (cases "target_node cfg srt o1 q ty r1")
  case (Inl err)
  then have "x = Inl err" "r' = r1" using assms by (simp_all add: create_instance_def Let_def)
  then show ?thesis using that(1) by blast
next
  case n: (Inr n)
  show ?thesis
  proof (cases "resolve_image cfg o1 sub q ty n r1")
    case (Inl err)
    then have "x = Inl err" "r' = r1" using assms n by (simp_all add: create_instance_def Let_def)
    then show ?thesis using that(1) by blast
  next
    case q1: (Inr q1)
    obtain r2 y where ci: "apply_cloud_init cfg now msg sub q1 r1 = (r2, y)" by force
    note k = apply_cloud_init_keeps [OF ci] and k1 = resolve_image_keeps [OF q1]
    show ?thesis
    proof (cases y)
      case (Inl err)
      then have "x = Inl err" "r' = r2" using assms n q1 ci by (simp_all add: create_instance_def Let_def)
      then show ?thesis using that(1) k(1,2) by blast
    next
      case y: (Inr q2)
      then have "launch cfg now corr rp sub (quota_spec (rq_cpu q) (rq_mem q) (rq_storage q)) (rq_start q2)
         (new_instance now iid sub (nd_id n) ty q2) r2 = (r', x)"
        using assms n q1 ci by (simp add: create_instance_def Let_def)
      then show ?thesis using k(1,2) k(3) [OF y] k1 n by (intro that(2) [of n r2 q2]) simp_all
    qed
  qed
qed

lemma final_state_cases:
  "final_state start p = (s, v4, v6) \<Longrightarrow> s = IRunning \<or> s = IStopped"
  by (auto simp: final_state_def Let_def split: if_splits)

text \<open>A fresh instance is launched: either it runs as returned, or it is left in the error state.\<close>

lemma launch_effect:
  assumes "launch cfg now corr rp sub spec start i r = (r', x)"
    and "insts_ok (rg_insts r)" and "is_ids (rg_insts r) (in_id i) = None"
    and "in_ipv4 i = ''''" and "in_ipv6 i = ''''" and "in_updated i = now"
  obtains err where "x = Inl err" "inst_create i (rg_insts r) = (rg_insts r', Some err)" "rg_billing r' = rg_billing r"
    "rg_insts r' = rg_insts r"
  | "x = Inl ErrInstanceOperationFailed" "insts_ok (rg_insts r')"
    "\<And>k. inst_get k (rg_insts r') = (if k = in_id i then Inr (i\<lparr>in_status := IError\<rparr>) else inst_get k (rg_insts r))"
    "rg_billing r' = rg_billing (release_instance cfg now (user_of sub) spec r)"
  | j s v4 v6 where "x = Inr j" "j = i\<lparr>in_status := s, in_ipv4 := v4, in_ipv6 := v6\<rparr>" "s = IRunning \<or> s = IStopped"
    "insts_ok (rg_insts r')" "is_names (rg_insts r) (in_name i) = None"
    "is_ids (rg_insts r') = (is_ids (rg_insts r))(in_id i \<mapsto> is_next (rg_insts r))"
    "is_names (rg_insts r') = (is_names (rg_insts r))(in_name i \<mapsto> is_next (rg_insts r))"
    "\<And>k. inst_get k (rg_insts r') = (if k = in_id i then Inr j else inst_get k (rg_insts r))"
    "rg_billing r' = rg_billing r"
proof -
  obtain st e where c: "inst_create i (rg_insts r) = (st, e)" by force
  show ?thesis
  proof (cases e)
    case (Some err)
    then have "st = rg_insts r" using c by (simp add: inst_create_def Let_def split: if_splits)
    then show ?thesis using assms(1) c Some by (intro that(1) [of err]) (simp_all add: launch_def)
  next
    case None
    with c have c: "inst_create i (rg_insts r) = (st, None)" by simp
    note C = inst_create_effect [OF assms(2,3) c]
    obtain r2 y where a: "ask_node now rp corr (in_node i) ''create_instance'' (create_payload i start)
        (r\<lparr>rg_insts := st\<rparr>) = (r2, y)" by force
    note k = ask_node_keeps_of [OF a]
    have upd: "insts_ok (fst (inst_update_status now (in_id i) s a b st))"
      "inst_get k (fst (inst_update_status now (in_id i) s a b st)) =
        (if k = in_id i then Inr (i\<lparr>in_status := s, in_ipv4 := a, in_ipv6 := b\<rparr>) else inst_get k (rg_insts r))"
      "is_ids (fst (inst_update_status now (in_id i) s a b st)) = is_ids st"
      "is_names (fst (inst_update_status now (in_id i) s a b st)) = is_names st" for s a b k
      unfolding inst_update_status_def
      using C(1,2) assms(4-6) by (simp_all add: modify_inst_effect)
    show ?thesis
    proof (cases y)
      case (Inl err)
      have e: "x = Inl ErrInstanceOperationFailed"
        "r' = set_status now (in_id i) IError '''' '''' (release_instance cfg now (user_of sub) spec r2)"
        using assms(1) c a Inl by (simp_all add: launch_def)
      have "i\<lparr>in_status := IError, in_ipv4 := '''', in_ipv6 := ''''\<rparr> = i\<lparr>in_status := IError\<rparr>"
        using assms(4,5) by simp
      then show ?thesis
        using e k upd [where s = IError and a = "''''" and b = "''''"]
        by (intro that(2)) (simp_all add: release_instance_def)
    next
      case (Inr res)
      obtain s v4 v6 where f: "final_state start (cr_payload res) = (s, v4, v6)" by (metis prod_cases3)
      have e: "x = Inr (i\<lparr>in_status := s, in_ipv4 := v4, in_ipv6 := v6\<rparr>)"
        "rg_insts r' = fst (inst_update_status now (in_id i) s v4 v6 st)" "rg_billing r' = rg_billing r"
        using assms(1) c a Inr f k by (auto simp: launch_def Let_def)
      show ?thesis
        using e upd [where s = s and a = v4 and b = v6] final_state_cases [OF f] C(3-5)
        by (intro that(3) [OF e(1) refl]) simp_all
    qed
  qed
qed

lemma create_instance_reserves:
  assumes "create_instance cfg srt o1 now iid corr msg rp sub req r = (r', x)" and "cc_quota cfg"
    and "is_ok x \<or> rg_insts r' \<noteq> rg_insts r"
  obtains q ty b p where "authorize sub ''instance:create'' None = None" "normalize_request req = Inr (q, ty)"
    "reserve_instance cfg now o1 (user_of sub) (quota_spec (rq_cpu q) (rq_mem q) (rq_storage q)) r
       = (r\<lparr>rg_billing := b\<rparr>, None)"
    "reserve_quota now (or_plans o1) (user_of sub) (quota_spec (rq_cpu q) (rq_mem q) (rq_storage q)) (rg_billing r)
       = (b, None)"
    "get_tenant_plan (or_plans o1) (user_of sub) (rg_billing r) = Inr p"
proof -
  have au: "authorize sub ''instance:create'' None = None"
    using assms(1,3) by (auto simp: create_instance_def split: option.splits)
  obtain q ty where n: "normalize_request req = Inr (q, ty)"
    using assms(1,3) au by (cases "normalize_request req") (auto simp: create_instance_def)
  let ?spec = "quota_spec (rq_cpu q) (rq_mem q) (rq_storage q)"
  obtain b e where b: "reserve_quota now (or_plans o1) (user_of sub) ?spec (rg_billing r) = (b, e)" by force
  then have rs: "reserve_instance cfg now o1 (user_of sub) ?spec r = (r\<lparr>rg_billing := b\<rparr>, e)"
    using assms(2) by (simp add: reserve_instance_def)
  have e: "e = None" using assms(1,3) au n rs by (cases e) (auto simp: create_instance_def Let_def)
  then obtain p where "get_tenant_plan (or_plans o1) (user_of sub) (rg_billing r) = Inr p"
    using b by (auto simp: reserve_quota_def split: sum.splits)
  then show ?thesis using au n rs b e by (intro that [of q ty b p]) simp_all
qed

text \<open>
  A request that changes the instance repository or succeeds: the reserved specification, and
  the two ways the launch ends.
\<close>

lemma create_instance_outcome:
  assumes "create_instance cfg srt o1 now iid corr msg rp sub req r = (r', x)" and "cc_quota cfg"
    and "insts_ok (rg_insts r)" and "is_ids (rg_insts r) iid = None"
    and "is_ok x \<or> rg_insts r' \<noteq> rg_insts r"
  obtains j b p nd r1 q ty where "authorize sub ''instance:create'' None = None"
    "get_tenant_plan (or_plans o1) (user_of sub) (rg_billing r) = Inr p"
    "reserve_quota now (or_plans o1) (user_of sub) (quota_spec (in_cpu j) (in_mem j) (in_storage j)) (rg_billing r) = (b, None)"
    "target_node cfg srt o1 q ty r1 = Inr nd"
    "insts_ok (rg_insts r')" "\<And>k. inst_get k (rg_insts r') = (if k = iid then Inr j else inst_get k (rg_insts r))"
    "in_user j = user_of sub" "in_node j = nd_id nd" "valid_name (in_name j)" "0 < in_cpu j" "0 < in_mem j" "0 < in_storage j"
    "x = Inl ErrInstanceOperationFailed \<and> in_status j = IError \<and>
       rg_billing r' = release_quota now (user_of sub) (quota_spec (in_cpu j) (in_mem j) (in_storage j)) b
     \<or> x = Inr j \<and> (in_status j = IRunning \<or> in_status j = IStopped) \<and> rg_billing r' = b"
proof -
  obtain q ty b p where au: "authorize sub ''instance:create'' None = None" and n: "normalize_request req = Inr (q, ty)"
    and rs: "reserve_instance cfg now o1 (user_of sub) (quota_spec (rq_cpu q) (rq_mem q) (rq_storage q)) r
       = (r\<lparr>rg_billing := b\<rparr>, None)"
    and b: "reserve_quota now (or_plans o1) (user_of sub) (quota_spec (rq_cpu q) (rq_mem q) (rq_storage q)) (rg_billing r)
       = (b, None)"
    and p: "get_tenant_plan (or_plans o1) (user_of sub) (rg_billing r) = Inr p"
    using create_instance_reserves [OF assms(1,2,5)] by metis
  note ok = normalize_request_ok [OF n]
  show ?thesis
  proof (cases rule: create_instance_launches [OF assms(1) au n rs])
    case 1
    then show ?thesis using assms(5) by simp
  next
    case (2 nd q' r2)
    let ?i = "new_instance now iid sub (nd_id nd) ty q'"
    have i: "in_id ?i = iid" "in_user ?i = user_of sub" "in_node ?i = nd_id nd" "in_name ?i = rq_name q"
      "in_cpu ?i = rq_cpu q" "in_mem ?i = rq_mem q" "in_storage ?i = rq_storage q"
      "in_ipv4 ?i = ''''" "in_ipv6 ?i = ''''" "in_updated ?i = now"
      using 2(4-7) by (simp_all add: new_instance_def)
    have o2: "insts_ok (rg_insts r2)" "is_ids (rg_insts r2) (in_id ?i) = None"
      using 2(2) assms(3,4) i(1) by simp_all
    show ?thesis
    proof (cases rule: launch_effect [OF 2(8) o2 i(8-10)])
      case 1
      then show ?thesis using assms(5) 2(2) by simp
    next
      case fail: 2
      show ?thesis
        by (rule that [OF au p _ 2(1), of "?i\<lparr>in_status := IError\<rparr>" b])
          (use 2(2,3) fail i ok b assms(2) in \<open>auto simp: release_instance_def\<close>)
    next
      case (3 j s va vb)
      show ?thesis
        by (rule that [OF au p _ 2(1), of j b]) (use 2(2,3) 3 i ok b in auto)
    qed
  qed
qed

lemma delete_instance_effect:
  assumes "delete_instance cfg now corr rp sub iid force r = (r', None)" and "insts_ok (rg_insts r)"
  obtains i where "inst_get iid (rg_insts r) = Inr i" "insts_ok (rg_insts r')"
    "\<And>k. inst_get k (rg_insts r') = (if k = iid then Inl ErrInstanceNotFound else inst_get k (rg_insts r))"
    "rg_billing r' = rg_billing (release_instance cfg now (in_user i) (quota_spec (in_cpu i) (in_mem i) (in_storage i)) r)"
proof -
  obtain i where i: "owned_instance sub ''instance:delete'' iid r = Inr i"
    using assms(1) by (auto simp: delete_instance_def split: sum.splits)
  then have g: "inst_get iid (rg_insts r) = Inr i"
    by (auto simp: owned_instance_def split: sum.splits option.splits)
  note D = inst_delete_effect [OF assms(2) g]
  obtain st where st: "inst_delete iid (rg_insts r) = (st, None)" using D(1) by (metis prod.collapse)
  have "rg_insts r' = st"
    "rg_billing r' = rg_billing (release_instance cfg now (in_user i) (quota_spec (in_cpu i) (in_mem i) (in_storage i)) r)"
    using assms(1) i st by (auto simp: delete_instance_def Let_def release_instance_def)
  then show ?thesis using that [OF g] D st by simp
qed

lemma spec64_amounts:
  assumes "\<And>m. int64 (u m + spec_amount (quota_spec cpu mem sto) m)" and "\<And>m. 0 \<le> (u m :: int)"
    and "0 < cpu" and "0 < mem" and "0 < sto"
  shows "spec64 (quota_spec cpu mem sto)"
proof -
  have "0 \<le> spec_amount (quota_spec cpu mem sto) m \<and> spec_amount (quota_spec cpu mem sto) m \<le> max_int64" for m
    using assms(1) [of m] assms(2) [of m] by (auto simp: int64_def spec_amount_def split: metric.splits)
  from this [of InstanceCount] this [of VCPUHours] this [of RAMGBHours] this [of StorageGBMonths]
  show ?thesis
    using assms(3-5)
    by (simp add: spec_amount_def quota_spec_def spec64_def int64_def mib_def min_int64_def max_int64_def)
qed

lemma reserved_then_released:
  assumes "get_tenant_plan ks tid st = Inr p" and "quotas_ok tid st"
    and "\<And>m. int64 (usage_of tid st m + spec_amount (quota_spec cpu mem sto) m)"
    and "0 < cpu \<and> 0 < mem \<and> 0 < sto"
    and "reserve_quota now ks tid (quota_spec cpu mem sto) st = (b, None)"
  shows "quotas_ok tid (release_quota now' tid (quota_spec cpu mem sto) b)"
    and "usage_of tid (release_quota now' tid (quota_spec cpu mem sto) b) m = usage_of tid st m"
    and "spec64 (quota_spec cpu mem sto)"
proof -
  note u = reserve_amounts [OF assms(1-3,5)]
  have pos: "0 \<le> usage_of tid st m" for m using usage_ok [OF assms(2)] by blast
  show s: "spec64 (quota_spec cpu mem sto)"
    using spec64_amounts [of "usage_of tid st" cpu mem sto] assms(3,4) pos by simp
  have z: "rs_ipv4 (quota_spec cpu mem sto) = 0" by (simp add: quota_spec_def)
  show "quotas_ok tid (release_quota now' tid (quota_spec cpu mem sto) b)" by (rule release_amounts(1) [OF u(1) s z])
  show "usage_of tid (release_quota now' tid (quota_spec cpu mem sto) b) m = usage_of tid st m"
    using release_amounts(2) [OF u(1) s z] u(2) pos [of m] by simp
qed

section \<open>Properties\<close>



text \<open>
  A failed launch is refunded twice: when the node rejects the creation, the reservation
  is released at once and the record stays in the error state; deleting that record releases
  the same amounts again, so that the usage falls below what the other instances of the
  tenant account for.
\<close>

theorem failed_launch_refunded_twice:
  assumes "create_instance cfg srt o1 now iid corr msg rp sub req r = (r1, Inl err)"
    and "inst_get iid (rg_insts r1) = Inr i"
    and "delete_instance cfg now' corr' rp' sub' iid force r1 = (r2, None)"
    and "cc_quota cfg" and "insts_ok (rg_insts r)" and "is_ids (rg_insts r) iid = None"
    and "quotas_ok (user_of sub) (rg_billing r)"
    and "\<And>m. int64 (usage_of (user_of sub) (rg_billing r) m + spec_amount (quota_spec (in_cpu i) (in_mem i) (in_storage i)) m)"
  shows "err = ErrInstanceOperationFailed \<and> in_status i = IError
     \<and> usage_of (user_of sub) (rg_billing r1) m = usage_of (user_of sub) (rg_billing r) m
     \<and> usage_of (user_of sub) (rg_billing r2) m =
         max 0 (usage_of (user_of sub) (rg_billing r) m - spec_amount (quota_spec (in_cpu i) (in_mem i) (in_storage i)) m)"
proof -
  have "rg_insts r1 \<noteq> rg_insts r" using assms(2,6) by (auto simp: inst_get_def inst_deref_def)
  then have "is_ok (Inl err :: inst result) \<or> rg_insts r1 \<noteq> rg_insts r" by simp
  from assms(1,4-6) this show ?thesis
  proof (cases rule: create_instance_outcome)
    case (1 j b p nd ra q ty)
    let ?spec = "quota_spec (in_cpu i) (in_mem i) (in_storage i)"
    have j: "j = i" using 1(6) [of iid] assms(2) by simp
    have r1: "rg_billing r1 = release_quota now (user_of sub) ?spec b" "err = ErrInstanceOperationFailed"
      "in_status i = IError" using 1(13) j by auto
    have R: "quotas_ok (user_of sub) (rg_billing r1)" "spec64 ?spec"
      "usage_of (user_of sub) (rg_billing r1) m = usage_of (user_of sub) (rg_billing r) m" for m
      unfolding r1 using reserved_then_released [OF 1(2) assms(7) _ _ 1(3)] assms(8) j 1(10-12) by simp_all
    from delete_instance_effect [OF assms(3) 1(5)] obtain i' where d: "inst_get iid (rg_insts r1) = Inr i'"
      "rg_billing r2 = rg_billing (release_instance cfg now' (in_user i') (quota_spec (in_cpu i') (in_mem i') (in_storage i')) r1)"
      by metis
    then have "rg_billing r2 = release_quota now' (user_of sub) ?spec (rg_billing r1)"
      using assms(2,4) 1(7) j by (simp add: release_instance_def)
    then show ?thesis
      using release_amounts(2) [OF R(1,2)] R(3) r1(2,3) by (simp add: quota_spec_def)
  qed
qed

text \<open>
  Quota leaks when placement fails: the reservation is made before the node is chosen and
  is not undone when no node is found, so that a request that created nothing leaves the
  usage of the tenant raised by everything it asked for.
\<close>

theorem failed_placement_leaks_quota:
  assumes "cc_quota cfg" and "authorize sub ''instance:create'' None = None"
    and "normalize_request req = Inr (q, ty)"
    and "get_tenant_plan (or_plans o1) (user_of sub) (rg_billing r) = Inr p"
    and "quotas_ok (user_of sub) (rg_billing r)"
    and "\<And>m. int64 (usage_of (user_of sub) (rg_billing r) m +
                 spec_amount (quota_spec (rq_cpu q) (rq_mem q) (rq_storage q)) m)"
    and "reserve_quota now (or_plans o1) (user_of sub) (quota_spec (rq_cpu q) (rq_mem q) (rq_storage q)) (rg_billing r) = (b, None)"
    and "target_node cfg srt o1 q ty (r\<lparr>rg_billing := b\<rparr>) = Inl err"
  shows "\<exists>r'. create_instance cfg srt o1 now iid corr msg rp sub req r = (r', Inl err)
     \<and> rg_insts r' = rg_insts r
     \<and> (\<forall>m. usage_of (user_of sub) (rg_billing r') m =
          usage_of (user_of sub) (rg_billing r) m + spec_amount (quota_spec (rq_cpu q) (rq_mem q) (rq_storage q)) m)"
proof -
  have "create_instance cfg srt o1 now iid corr msg rp sub req r = (r\<lparr>rg_billing := b\<rparr>, Inl err)"
    using assms by (simp add: create_instance_def reserve_instance_def Let_def)
  then show ?thesis using reserve_amounts(2) [OF assms(4-7)] by simp
qed

text \<open>
  Resizing is not metered: the usage stays as it was, while the deletion that follows
  releases the new size.
\<close>

lemma resize_not_metered:
  "rg_billing (fst (update_spec now corr rp sub iid cpu mem storage r)) = rg_billing r"
  by (auto simp: update_spec_def ask_node_keeps_of split: sum.splits prod.splits)

section \<open>A sample region\<close>

definition all_on :: compute_config where
  "all_on = \<lparr>cc_templates = True, cc_quota = True, cc_scheduler = True\<rparr>"

definition alice :: "subject option" where
  "alice = Some \<lparr>sub_type = ''user'', sub_id = ''alice'', sub_user = ''alice'', sub_username = ''alice'',
     sub_email = '''', sub_roles = [''user''], sub_permissions = [''instance:create'', ''instance:delete''],
     sub_scopes = []\<rparr>"

definition sample_region :: "billing \<Rightarrow> region" where
  "sample_region b = \<lparr>rg_cloud = \<lparr>cl_hub = new_hub\<lparr>nh_store := cluster,
       nh_conns := [''n1'' \<mapsto> \<lparr>ac_node = ''n1'', ac_at = 0, ac_sender = 1\<rparr>]\<rparr>, cl_catalog = new_catalog 0\<rparr>,
     rg_insts = empty_insts, rg_billing = b\<rparr>"

text \<open>The usage of a tenant that already runs one machine.\<close>

definition busy_billing :: billing where
  "busy_billing = fst (reserve_quota 1 [] ''alice'' (quota_spec 1 gib gib) sample_billing)"

definition sample_orders :: orders where
  "sample_orders = \<lparr>or_nodes = [''n1''], or_insts = [], or_plans = [], or_templates = [], or_images = []\<rparr>"

definition web_request :: "string \<Rightarrow> create_request" where
  "web_request nid = \<lparr>rq_name = ''web-1'', rq_type = '''', rq_cpu = 2, rq_mem = 0, rq_storage = 0, rq_image = '''',
     rq_template = '''', rq_slug = '''', rq_cloud_init = None, rq_node = nid, rq_config = [], rq_start = True\<rparr>"

definition node_says :: "bool \<Rightarrow> reply" where
  "node_says yes = \<lparr>rp_sent = None, rp_results = [\<lparr>cr_corr = ''c1'', cr_success = yes, cr_error = '''',
     cr_payload = [], cr_completed = 0\<rparr>]\<rparr>"

abbreviation create_web :: "string \<Rightarrow> bool \<Rightarrow> billing \<Rightarrow> region \<times> inst result" where
  "create_web nid yes b \<equiv> create_instance all_on best_first sample_orders 5 ''i1'' ''c1'' '''' (node_says yes) alice
     (web_request nid) (sample_region b)"

abbreviation drop_web :: "region \<Rightarrow> region \<times> go_error option" where
  "drop_web r \<equiv> delete_instance all_on 6 ''c2'' (node_says False) alice ''i1'' True r"

lemma create_web_runs:
  "case create_web ''n1'' True busy_billing of
     (r, Inr i) \<Rightarrow> in_cpu i = 2 \<and> in_mem i = gib \<and> in_storage i = 10 * gib \<and> snd (drop_web r) = None
   | _ \<Rightarrow> False"
  by code_simp

lemma create_web_fails:
  "case create_web ''n1'' False busy_billing of
     (r, Inl _) \<Rightarrow> snd (drop_web r) = None \<and>
       (case inst_get ''i1'' (rg_insts r) of
          Inr i \<Rightarrow> in_cpu i = 2 \<and> in_mem i = gib \<and> in_storage i = 10 * gib | Inl _ \<Rightarrow> False)
   | _ \<Rightarrow> False"
  by code_simp

lemma busy_usage:
  "quotas_ok ''alice'' busy_billing" "usage_of ''alice'' busy_billing m = spec_amount (quota_spec 1 gib gib) m"
proof -
  obtain e where e: "reserve_quota 1 [] ''alice'' (quota_spec 1 gib gib) sample_billing = (busy_billing, e)"
    by (metis busy_billing_def prod.collapse)
  have "snd (reserve_quota 1 [] ''alice'' (quota_spec 1 gib gib) sample_billing) = None" by code_simp
  with e have n: "e = None" by simp
  have ok: "quotas_ok ''alice'' sample_billing" by (simp add: quotas_ok_def sample_quotas)
  have "int64 (usage_of ''alice'' sample_billing k + spec_amount (quota_spec 1 gib gib) k)" for k
    by (cases k) (simp_all add: sample_quotas spec_amount_def quota_spec_def gib_def mib_def int64_def min_int64_def max_int64_def)
  from reserve_amounts [OF sample_plan ok this e] n
  show "quotas_ok ''alice'' busy_billing" "usage_of ''alice'' busy_billing m = spec_amount (quota_spec 1 gib gib) m"
    by (simp_all add: sample_quotas)
qed

lemma web_amounts:
  "int64 (usage_of ''alice'' busy_billing m + spec_amount (quota_spec 2 gib (10 * gib)) m)"
  "spec_amount (quota_spec 2 gib (10 * gib)) VCPUHours = 2"
  by (cases m) (simp_all add: busy_usage spec_amount_def quota_spec_def gib_def mib_def int64_def min_int64_def max_int64_def)

lemma sample_region_simps:
  "rg_billing (sample_region b) = b" "insts_ok (rg_insts (sample_region b))" "is_ids (rg_insts (sample_region b)) i = None"
  "user_of alice = ''alice''" "cc_quota all_on"
  by (simp_all add: sample_region_def insts_ok_empty user_of_def alice_def all_on_def) (simp add: empty_insts_def)



theorem failed_launch_refunded_twice_witness:
  "\<exists>r err. create_web ''n1'' False busy_billing = (r, Inl err)
     \<and> usage_of ''alice'' (rg_billing (fst (drop_web r))) VCPUHours = 0"
proof -
  obtain r err i where c: "create_web ''n1'' False busy_billing = (r, Inl err)" "inst_get ''i1'' (rg_insts r) = Inr i"
    "in_cpu i = 2" "in_mem i = gib" "in_storage i = 10 * gib" "snd (drop_web r) = None"
    using create_web_fails by (auto split: prod.splits sum.splits)
  obtain r2 where d: "drop_web r = (r2, None)" using c(6) by (metis prod.collapse)
  have "\<And>m. int64 (usage_of (user_of alice) (rg_billing (sample_region busy_billing)) m +
      spec_amount (quota_spec (in_cpu i) (in_mem i) (in_storage i)) m)"
    using web_amounts(1) c by (simp add: sample_region_simps)
  from failed_launch_refunded_twice [OF c(1,2) d _ _ _ _ this]
  show ?thesis using c d by (simp add: sample_region_simps busy_usage spec_amount_def quota_spec_def)
qed

lemma leak_sample:
  "authorize alice ''instance:create'' None = None"
  "case normalize_request (web_request ''n9'') of
     Inr (q, ty) \<Rightarrow> rq_cpu q = 2 \<and> rq_mem q = gib \<and> rq_storage q = 10 * gib \<and>
       (case reserve_quota 5 [] ''alice'' (quota_spec 2 gib (10 * gib)) busy_billing of
          (b, e) \<Rightarrow> e = None \<and>
            target_node all_on best_first sample_orders q ty ((sample_region busy_billing)\<lparr>rg_billing := b\<rparr>) = Inl ErrNodeNotFound)
   | _ \<Rightarrow> False"
  "case get_tenant_plan [] ''alice'' busy_billing of Inr _ \<Rightarrow> True | Inl _ \<Rightarrow> False"
  by code_simp+

theorem failed_placement_leaks_quota_witness:
  "\<exists>r err. create_web ''n9'' True busy_billing = (r, Inl err) \<and> usage_of ''alice'' (rg_billing r) VCPUHours = 3"
proof -
  obtain q ty b where q: "normalize_request (web_request ''n9'') = Inr (q, ty)"
    "rq_cpu q = 2" "rq_mem q = gib" "rq_storage q = 10 * gib"
    "reserve_quota 5 [] ''alice'' (quota_spec 2 gib (10 * gib)) busy_billing = (b, None)"
    "target_node all_on best_first sample_orders q ty ((sample_region busy_billing)\<lparr>rg_billing := b\<rparr>) = Inl ErrNodeNotFound"
    using leak_sample(2)
    by (cases "reserve_quota 5 [] ''alice'' (quota_spec 2 gib (10 * gib)) busy_billing";
        cases "normalize_request (web_request ''n9'')") auto
  obtain p where p: "get_tenant_plan [] ''alice'' busy_billing = Inr p"
    using leak_sample(3) by (auto split: sum.splits)
  have "\<exists>r'. create_web ''n9'' True busy_billing = (r', Inl ErrNodeNotFound)
     \<and> rg_insts r' = rg_insts (sample_region busy_billing)
     \<and> (\<forall>m. usage_of (user_of alice) (rg_billing r') m = usage_of (user_of alice) (rg_billing (sample_region busy_billing)) m
          + spec_amount (quota_spec (rq_cpu q) (rq_mem q) (rq_storage q)) m)"
    by (rule failed_placement_leaks_quota [OF sample_region_simps(5) leak_sample(1) q(1)])
      (use q p web_amounts in \<open>simp_all add: sample_region_simps sample_orders_def busy_usage(1)\<close>)
  then have "\<exists>r. create_web ''n9'' True busy_billing = (r, Inl ErrNodeNotFound) \<and>
      usage_of ''alice'' (rg_billing r) VCPUHours = usage_of ''alice'' busy_billing VCPUHours + 2"
    using q web_amounts(2) by (auto simp: sample_region_simps)
  then show ?thesis by (auto simp: busy_usage spec_amount_def quota_spec_def)
qed

end
