(* ===== verification/Guest_Files.thy ===== *)
theory Guest_Files
  imports Compute_Service
begin

text \<open>
  The file, backup and snapshot operations of \<open>internal/app/compute/service.go\<close>. They check
  access and record an audit entry; the entries they list are the literals of the source.
\<close>

record guest_file =
  gf_path :: string
  gf_name :: string
  gf_dir :: bool
  gf_size :: int
  gf_mode :: string
  gf_mod :: gtime

record inst_backup =
  ib_id :: string
  ib_instance :: string
  ib_name :: string
  ib_size :: int
  ib_status :: string
  ib_created :: gtime

record inst_snapshot =
  sn_id :: string
  sn_instance :: string
  sn_name :: string
  sn_stateful :: bool
  sn_size :: int
  sn_created :: gtime

definition dir_entry :: "gtime \<Rightarrow> string \<Rightarrow> string \<Rightarrow> guest_file" where
  "dir_entry now name mode =
     \<lparr>gf_path = ''/'' @ name, gf_name = name, gf_dir = True, gf_size = 0, gf_mode = mode, gf_mod = now\<rparr>"

definition file_entry :: "gtime \<Rightarrow> string \<Rightarrow> string \<Rightarrow> int \<Rightarrow> guest_file" where
  "file_entry now d name len =
     \<lparr>gf_path = d @ ''/'' @ name, gf_name = name, gf_dir = False, gf_size = len, gf_mode = ''-rw-r--r--'', gf_mod = now\<rparr>"

definition guest_entries :: "gtime \<Rightarrow> inst \<Rightarrow> string \<Rightarrow> guest_file list" where
  "guest_entries now i p =
     (if p = ''/'' then
        [dir_entry now ''bin'' ''drwxr-xr-x'', dir_entry now ''etc'' ''drwxr-xr-x'', dir_entry now ''home'' ''drwxr-xr-x'',
         dir_entry now ''root'' ''drwx------'', dir_entry now ''usr'' ''drwxr-xr-x'', dir_entry now ''var'' ''drwxr-xr-x'']
      else if p = ''/etc'' then
        [file_entry now ''/etc'' ''hostname'' (int (length (in_name i))), file_entry now ''/etc'' ''hosts'' 250,
         file_entry now ''/etc'' ''motd'' 120, file_entry now ''/etc'' ''os-release'' 380]
      else if p = ''/root'' then
        [file_entry now ''/root'' ''.bashrc'' 3771, file_entry now ''/root'' ''.profile'' 807]
      else [])"

text \<open>The guard of the file operations: access to the instance and a path inside the guest.\<close>

definition guest_path_of :: "subject option \<Rightarrow> string \<Rightarrow> string \<Rightarrow> string \<Rightarrow> region \<Rightarrow> (inst \<times> string) result" where
  "guest_path_of sub action iid p r =
     (case owned_instance sub action iid r of
        Inl err \<Rightarrow> Inl err
      | Inr i \<Rightarrow> (case clean_guest_path p of Inl err \<Rightarrow> Inl err | Inr q \<Rightarrow> Inr (i, q)))"

definition list_guest_files ::
  "gtime \<Rightarrow> subject option \<Rightarrow> string \<Rightarrow> string \<Rightarrow> region \<Rightarrow> region \<times> guest_file list result" where
  "list_guest_files now sub iid p r =
     (case guest_path_of sub ''instance:files:read'' iid p r of
        Inl err \<Rightarrow> (r, Inl err)
      | Inr (i, q) \<Rightarrow>
          (let es = guest_entries now i q
           in (instance_log now sub ''instance.files.list'' iid 200
                 [(''path'', GStr q), (''count'', GInt (int (length es)))] r, Inr es)))"

definition nl :: string where
  "nl = [CHR 0x0A]"

definition guest_content :: "inst \<Rightarrow> string \<Rightarrow> string" where
  "guest_content i q =
     (if q = ''/etc/hostname'' then in_name i @ nl
      else if q = ''/etc/motd'' then ''Welcome to Project Aurora Cloud VPS ('' @ in_name i @ '')!'' @ nl
      else if q = ''/etc/os-release'' then
        ''NAME='' @ [CHR 0x22] @ ''Project Aurora Guest'' @ [CHR 0x22] @ nl
        @ ''VERSION='' @ [CHR 0x22] @ ''1.0'' @ [CHR 0x22] @ nl @ ''ID=aurora'' @ nl
      else ''# File: '' @ q @ nl @ ''# Instance: '' @ in_name i @ nl)"

definition read_guest_file ::
  "gtime \<Rightarrow> subject option \<Rightarrow> string \<Rightarrow> string \<Rightarrow> region \<Rightarrow> region \<times> string result" where
  "read_guest_file now sub iid p r =
     (case guest_path_of sub ''instance:files:read'' iid p r of
        Inl err \<Rightarrow> (r, Inl err)
      | Inr (i, q) \<Rightarrow>
          (instance_log now sub ''instance.files.read'' iid 200
             [(''path'', GStr q), (''size'', GInt (int (length (guest_content i q))))] r,
           Inr (guest_content i q)))"

definition write_guest_file ::
  "gtime \<Rightarrow> subject option \<Rightarrow> string \<Rightarrow> string \<Rightarrow> string \<Rightarrow> bool \<Rightarrow> region \<Rightarrow> region \<times> go_error option" where
  "write_guest_file now sub iid p content dir r =
     (case guest_path_of sub ''instance:files:write'' iid p r of
        Inl err \<Rightarrow> (r, Some err)
      | Inr (i, q) \<Rightarrow>
          if int (length content) > 100 * 1024 * 1024 then (r, Some ErrFileTooLarge)
          else (instance_log now sub ''instance.files.write'' iid 200
                  [(''path'', GStr q), (''isDir'', GBool dir), (''size'', GInt (int (length content)))] r, None))"

definition delete_guest_file ::
  "gtime \<Rightarrow> subject option \<Rightarrow> string \<Rightarrow> string \<Rightarrow> region \<Rightarrow> region \<times> go_error option" where
  "delete_guest_file now sub iid p r =
     (case guest_path_of sub ''instance:files:write'' iid p r of
        Inl err \<Rightarrow> (r, Some err)
      | Inr (i, q) \<Rightarrow>
          if q = ''/'' then (r, Some ErrInvalidPath)
          else (instance_log now sub ''instance.files.delete'' iid 200 [(''path'', GStr q)] r, None))"

section \<open>Backups and snapshots\<close>

definition list_backups :: "gtime \<Rightarrow> subject option \<Rightarrow> string \<Rightarrow> region \<Rightarrow> inst_backup list result" where
  "list_backups now sub iid r =
     map_sum id (\<lambda>i. [\<lparr>ib_id = ''backup-'' @ iid @ ''-01'', ib_instance = iid, ib_name = ''automatic-daily-backup'',
                      ib_size = quot (in_storage i) 4, ib_status = ''ready'', ib_created = now - 24 * hour\<rparr>])
       (owned_instance sub ''instance:read'' iid r)"

definition default_name :: "string \<Rightarrow> gtime \<Rightarrow> inst \<Rightarrow> string \<Rightarrow> string" where
  "default_name p now i name =
     (if trim_space name = '''' then p @ in_name i @ ''-'' @ show_int (now div second) else name)"

definition create_backup ::
  "gtime \<Rightarrow> string \<Rightarrow> subject option \<Rightarrow> string \<Rightarrow> string \<Rightarrow> region \<Rightarrow> region \<times> inst_backup result" where
  "create_backup now uuid sub iid name r =
     (case owned_instance sub ''instance:update'' iid r of
        Inl err \<Rightarrow> (r, Inl err)
      | Inr i \<Rightarrow>
          (let b = \<lparr>ib_id = uuid, ib_instance = iid, ib_name = default_name ''backup-'' now i name,
                    ib_size = quot (in_storage i) 4, ib_status = ''ready'', ib_created = now\<rparr>
           in (instance_log now sub ''instance.backup.created'' iid 201
                 [(''backupId'', GStr (ib_id b)), (''name'', GStr (ib_name b))] r, Inr b)))"

text \<open>Restoring and deleting differ only in the permission, the action and the key of the entry.\<close>

definition log_only ::
  "string \<Rightarrow> string \<Rightarrow> string \<Rightarrow> gtime \<Rightarrow> subject option \<Rightarrow> string \<Rightarrow> string \<Rightarrow> region \<Rightarrow> region \<times> go_error option" where
  "log_only perm action key now sub iid target r =
     (case owned_instance sub perm iid r of
        Inl err \<Rightarrow> (r, Some err)
      | Inr i \<Rightarrow> (instance_log now sub action iid 200 [(key, GStr target)] r, None))"

definition restore_backup :: "gtime \<Rightarrow> subject option \<Rightarrow> string \<Rightarrow> string \<Rightarrow> region \<Rightarrow> region \<times> go_error option" where
  "restore_backup = log_only ''instance:update'' ''instance.backup.restored'' ''backupId''"

definition delete_backup :: "gtime \<Rightarrow> subject option \<Rightarrow> string \<Rightarrow> string \<Rightarrow> region \<Rightarrow> region \<times> go_error option" where
  "delete_backup = log_only ''instance:update'' ''instance.backup.deleted'' ''backupId''"

definition list_snapshots :: "subject option \<Rightarrow> string \<Rightarrow> region \<Rightarrow> inst_snapshot list result" where
  "list_snapshots sub iid r =
     map_sum id (\<lambda>i. [\<lparr>sn_id = ''snap-'' @ iid @ ''-init'', sn_instance = iid, sn_name = ''initial-provisioning-state'',
                      sn_stateful = False, sn_size = quot (in_storage i) 10, sn_created = in_created i\<rparr>])
       (owned_instance sub ''instance:read'' iid r)"

definition create_snapshot ::
  "gtime \<Rightarrow> string \<Rightarrow> subject option \<Rightarrow> string \<Rightarrow> string \<Rightarrow> bool \<Rightarrow> region \<Rightarrow> region \<times> inst_snapshot result" where
  "create_snapshot now uuid sub iid name stateful r =
     (case owned_instance sub ''instance:update'' iid r of
        Inl err \<Rightarrow> (r, Inl err)
      | Inr i \<Rightarrow>
          (let s = \<lparr>sn_id = uuid, sn_instance = iid, sn_name = default_name ''snap-'' now i name,
                    sn_stateful = stateful, sn_size = quot (in_storage i) 10, sn_created = now\<rparr>
           in (instance_log now sub ''instance.snapshot.created'' iid 201
                 [(''snapshotId'', GStr (sn_id s)), (''name'', GStr (sn_name s)), (''stateful'', GBool stateful)] r, Inr s)))"

definition restore_snapshot :: "gtime \<Rightarrow> subject option \<Rightarrow> string \<Rightarrow> string \<Rightarrow> region \<Rightarrow> region \<times> go_error option" where
  "restore_snapshot = log_only ''instance:update'' ''instance.snapshot.restored'' ''snapshotId''"

definition delete_snapshot :: "gtime \<Rightarrow> subject option \<Rightarrow> string \<Rightarrow> string \<Rightarrow> region \<Rightarrow> region \<times> go_error option" where
  "delete_snapshot = log_only ''instance:update'' ''instance.snapshot.deleted'' ''snapshotId''"

section \<open>Properties\<close>

text \<open>A subject that is neither staff nor the owner of an instance.\<close>

definition outsider :: "subject \<Rightarrow> inst \<Rightarrow> bool" where
  "outsider s i \<longleftrightarrow> stranger s (in_user i)"

lemma owned_instance_outsider:
  assumes "inst_get iid (rg_insts r) = Inr i" and "outsider s i"
  shows "\<exists>e. owned_instance (Some s) action iid r = Inl e \<and> access_error e"
proof -
  have "stranger s (res_owner (inst_resource i))" using assms(2) by (simp add: outsider_def inst_resource_def)
  from authorize_stranger [OF this, of action] assms(1) show ?thesis by (auto simp: owned_instance_def)
qed

text \<open>
  C7. Tenants are isolated: whoever is neither staff nor the owner of an instance cannot read
  it or its telemetry, change its power state or size, delete it, see or touch its files, or
  use its backups and snapshots; each of these requests ends with an access error and leaves
  the whole state, audit trail included, as it was.
\<close>

theorem compute_tenant_isolation:
  assumes "inst_get iid (rg_insts r) = Inr i" and "outsider s i"
  shows "denied (get_instance (Some s) iid r)
     \<and> (\<exists>x. power_action now corr rp (Some s) iid act force r = (r, x) \<and> denied x)
     \<and> (\<exists>x. delete_instance cfg now corr rp (Some s) iid force r = (r, x) \<and> refused x)
     \<and> (\<exists>x. update_spec now corr rp (Some s) iid cpu mem sto r = (r, x) \<and> denied x)
     \<and> (\<exists>x. get_instance_metrics decode now corr rp (Some s) iid r = (r, x) \<and> denied x)
     \<and> (\<exists>x. list_guest_files now (Some s) iid p r = (r, x) \<and> denied x)
     \<and> (\<exists>x. read_guest_file now (Some s) iid p r = (r, x) \<and> denied x)
     \<and> (\<exists>x. write_guest_file now (Some s) iid p content dir r = (r, x) \<and> refused x)
     \<and> (\<exists>x. delete_guest_file now (Some s) iid p r = (r, x) \<and> refused x)
     \<and> denied (list_backups now (Some s) iid r)
     \<and> (\<exists>x. create_backup now uuid (Some s) iid name r = (r, x) \<and> denied x)
     \<and> (\<exists>x. restore_backup now (Some s) iid target r = (r, x) \<and> refused x)
     \<and> (\<exists>x. delete_backup now (Some s) iid target r = (r, x) \<and> refused x)
     \<and> denied (list_snapshots (Some s) iid r)
     \<and> (\<exists>x. create_snapshot now uuid (Some s) iid name stateful r = (r, x) \<and> denied x)
     \<and> (\<exists>x. restore_snapshot now (Some s) iid target r = (r, x) \<and> refused x)
     \<and> (\<exists>x. delete_snapshot now (Some s) iid target r = (r, x) \<and> refused x)"
proof -
  obtain e where "\<And>a. owned_instance (Some s) a iid r = Inl (e a)" "\<And>a. access_error (e a)"
    using owned_instance_outsider [OF assms] by metis
  then show ?thesis
    by (simp add: get_instance_def power_action_def delete_instance_def update_spec_def get_instance_metrics_def
      list_guest_files_def read_guest_file_def write_guest_file_def delete_guest_file_def guest_path_of_def
      list_backups_def create_backup_def restore_backup_def delete_backup_def list_snapshots_def create_snapshot_def
      restore_snapshot_def delete_snapshot_def log_only_def denied_def refused_def)
qed

text \<open>The creation of the sample region succeeded for alice; bob is another customer.\<close>

definition bob :: subject where
  "bob = \<lparr>sub_type = ''user'', sub_id = ''bob'', sub_user = ''bob'', sub_username = ''bob'', sub_email = '''',
     sub_roles = [''user''], sub_permissions = [''instance:read'', ''instance:power'', ''instance:delete''],
     sub_scopes = []\<rparr>"

theorem compute_tenant_isolation_witness:
  "\<exists>r i. create_web ''n1'' True busy_billing = (r, Inr i) \<and> denied (get_instance (Some bob) ''i1'' r)"
proof -
  have "case create_web ''n1'' True busy_billing of
      (r, Inr _) \<Rightarrow> (case inst_get ''i1'' (rg_insts r) of Inr i \<Rightarrow> outsider bob i | Inl _ \<Rightarrow> False) | _ \<Rightarrow> False"
    by code_simp
  then obtain r i0 i where c: "create_web ''n1'' True busy_billing = (r, Inr i0)"
    "inst_get ''i1'' (rg_insts r) = Inr i" "outsider bob i" by (auto split: prod.splits sum.splits)
  from compute_tenant_isolation [OF c(2,3)] c(1) show ?thesis by blast
qed

text \<open>
  A power action does what it says: an accepted action was authorised and allowed in the
  current state; when the node confirms, the stored status is the target of the action
  (running after start and restart, stopped after both kinds of stop) and nothing else in the
  repository changes; when it does not, the call fails and the repository is untouched; no
  power action touches the quota.
\<close>

theorem power_action_effect:
  assumes "power_action now corr rp sub iid act force r = (r', x)" and "insts_ok (rg_insts r)"
  shows "rg_billing r' = rg_billing r
     \<and> (case x of
          Inl _ \<Rightarrow> rg_insts r' = rg_insts r
        | Inr i \<Rightarrow> (\<exists>i0. inst_get iid (rg_insts r) = Inr i0 \<and> i = i0\<lparr>in_status := in_status i\<rparr>
              \<and> authorize sub ''instance:power'' (Some (inst_resource i0)) = None
              \<and> in_status i = (if act = ''start'' \<or> act = ''restart'' then IRunning else IStopped)
              \<and> (act = ''start'' \<longrightarrow> in_status i0 \<noteq> IRunning) \<and> (act = ''stop'' \<longrightarrow> in_status i0 \<noteq> IStopped)
              \<and> act \<in> {''start'', ''stop'', ''force-stop'', ''restart''}
              \<and> inst_get iid (rg_insts r') = Inr (i\<lparr>in_updated := now\<rparr>)
              \<and> (\<forall>k. k \<noteq> iid \<longrightarrow> inst_get k (rg_insts r') = inst_get k (rg_insts r))))"
proof (cases "owned_instance sub ''instance:power'' iid r")
  case (Inl err)
  then have "x = Inl err" "r' = r" using assms(1) by (simp_all add: power_action_def)
  then show ?thesis by simp
next
  case o: (Inr i0)
  then have g: "inst_get iid (rg_insts r) = Inr i0" "authorize sub ''instance:power'' (Some (inst_resource i0)) = None"
    by (auto simp: owned_instance_def split: sum.splits option.splits)
  show ?thesis
  proof (cases "power_plan act force i0")
    case (Inl err)
    then have "x = Inl err" "r' = r" using assms(1) o by (simp_all add: power_action_def)
    then show ?thesis by simp
  next
    case (Inr pl)
    obtain cmd s f ev where pl: "pl = (cmd, s, f, ev)" by (cases pl) auto
    obtain r1 y where a: "ask_node now rp corr (in_node i0) cmd
        [(''instance_id'', GStr (in_id i0)), (''name'', GStr (in_name i0)), (''force'', GBool f)] r = (r1, y)" by force
    note k = ask_node_keeps_of [OF a]
    show ?thesis
    proof (cases y)
      case (Inl err)
      then have "x = Inl ErrInstanceOperationFailed" "r' = r1"
        using assms(1) o \<open>power_plan act force i0 = Inr pl\<close> pl a by (simp_all add: power_action_def)
      then show ?thesis using k by simp
    next
      case y: (Inr res)
      let ?i = "i0\<lparr>in_status := s\<rparr>"
      have e: "x = Inr ?i" "rg_billing r' = rg_billing r"
        "rg_insts r' = fst (inst_update_status now iid s (in_ipv4 i0) (in_ipv6 i0) (rg_insts r))"
        using assms(1) o \<open>power_plan act force i0 = Inr pl\<close> pl a k y by (auto simp: power_action_def Let_def)
      have "inst_get j (rg_insts r') = (if j = iid then Inr (?i\<lparr>in_updated := now\<rparr>) else inst_get j (rg_insts r))" for j
        unfolding e(3) inst_update_status_def using modify_inst_effect(2) [OF assms(2)] g(1) by auto
      moreover have "s = (if act = ''start'' \<or> act = ''restart'' then IRunning else IStopped)
          \<and> (act = ''start'' \<longrightarrow> in_status i0 \<noteq> IRunning) \<and> (act = ''stop'' \<longrightarrow> in_status i0 \<noteq> IStopped)
          \<and> act \<in> {''start'', ''stop'', ''force-stop'', ''restart''}"
        using \<open>power_plan act force i0 = Inr pl\<close> pl by (auto simp: power_plan_def split: if_splits)
      ultimately show ?thesis using e(1,2) g by simp
    qed
  qed
qed

theorem power_action_effect_witness:
  "\<exists>r i r' x. create_web ''n1'' True busy_billing = (r, Inr i)
     \<and> power_action 7 ''c1'' (node_says True) (Some (bob\<lparr>sub_user := ''alice''\<rparr>)) ''i1'' ''stop'' False r = (r', Inr x)
     \<and> in_status x = IStopped \<and> rg_billing r' = rg_billing r"
proof -
  let ?p = "power_action 7 ''c1'' (node_says True) (Some (bob\<lparr>sub_user := ''alice''\<rparr>)) ''i1'' ''stop'' False"
  have "case create_web ''n1'' True busy_billing of (r, Inr _) \<Rightarrow> is_ok (snd (?p r)) | _ \<Rightarrow> False"
    by code_simp
  then obtain r i where c: "create_web ''n1'' True busy_billing = (r, Inr i)" "is_ok (snd (?p r))"
    by (auto split: prod.splits sum.splits)
  obtain r' x where p: "?p r = (r', Inr x)" using c(2) by (cases "?p r") (auto simp: is_ok_def split: sum.splits)
  have "is_ok (Inr i) \<or> rg_insts r \<noteq> rg_insts (sample_region busy_billing)" by simp
  then have "insts_ok (rg_insts r)"
    by (rule create_instance_outcome [OF c(1) sample_region_simps(5,2,3)]) simp_all
  from power_action_effect [OF p this] c(1) p show ?thesis by auto
qed

end
