(* ===== verification/Account_Store.thy ===== *)
theory Account_Store
  imports Domain_Events Identity
begin

text \<open>
  Accounts, roles, API keys and refresh sessions: the records of \<open>internal/domain/identity\<close>
  (\<open>user.go\<close>, \<open>role.go\<close>, \<open>api_key.go\<close>, \<open>session.go\<close>) and the repositories of
  \<open>internal/infra/memory/memory_repos.go\<close> with the seeded roles. An API key is one object
  behind two maps (by identifier and by hash); the maps hold addresses and the objects live
  in a heap. Users and sessions are behind one map each, and roles are never changed.
\<close>

section \<open>Data\<close>

record user =
  us_id :: string
  us_name :: string
  us_email :: string
  us_hash :: string
  us_active :: bool
  us_secret :: string
  us_two_factor :: bool
  us_prefs :: gobj
  us_created :: gtime
  us_updated :: gtime
  us_login :: "gtime option"

record permission =
  pm_code :: string
  pm_desc :: string
  pm_category :: string

record role =
  rl_id :: string
  rl_name :: string
  rl_desc :: string
  rl_system :: bool
  rl_perms :: "permission list"
  rl_created :: gtime

record role_grant =
  gr_id :: string
  gr_user :: string
  gr_role :: string
  gr_name :: string
  gr_scope_type :: string
  gr_scope :: "string option"
  gr_by :: "string option"
  gr_created :: gtime

record api_key =
  ak_id :: string
  ak_user :: string
  ak_name :: string
  ak_hash :: string
  ak_prefix :: string
  ak_scopes :: "string list"
  ak_used :: "gtime option"
  ak_expires :: "gtime option"
  ak_created :: gtime
  ak_revoked :: bool

definition key_valid :: "gtime \<Rightarrow> api_key \<Rightarrow> bool" where
  "key_valid now k =
     (if ak_revoked k then False
      else if (case ak_expires k of None \<Rightarrow> False | Some t \<Rightarrow> t < now) then False
      else True)"

record session =
  se_id :: string
  se_user :: string
  se_hash :: string
  se_family :: string
  se_agent :: string
  se_ip :: string
  se_expires :: gtime
  se_created :: gtime
  se_revoked :: bool
  se_revoked_at :: "gtime option"
  se_replaced :: "string option"

definition session_valid :: "gtime \<Rightarrow> session \<Rightarrow> bool" where
  "session_valid now s = (if se_revoked s then False else now < se_expires s)"

record iam =
  im_users :: "string \<rightharpoonup> user"
  im_roles :: "string \<rightharpoonup> role"
  im_perms :: "string \<rightharpoonup> permission"
  im_grants :: "string \<Rightarrow> role_grant list"
  im_kheap :: "nat \<rightharpoonup> api_key"
  im_knext :: nat
  im_keys :: "string \<rightharpoonup> nat"
  im_keys_by_h :: "string \<rightharpoonup> nat"
  im_sessions :: "string \<rightharpoonup> session"
  im_trails :: trails

section \<open>Seeded roles and permissions\<close>

definition permission_of :: "string \<Rightarrow> string \<Rightarrow> string \<Rightarrow> permission" where
  "permission_of c d k = \<lparr>pm_code = c, pm_desc = d, pm_category = k\<rparr>"

definition seed_permissions :: "permission list" where
  "seed_permissions =
     [
      permission_of ''*'' ''All permissions (Superadmin wildcard)'' ''system'',
      permission_of ''instance:read'' ''View instances'' ''instance'',
      permission_of ''instance:create'' ''Create new instances'' ''instance'',
      permission_of ''instance:update'' ''Update instance specs'' ''instance'',
      permission_of ''instance:delete'' ''Delete instances'' ''instance'',
      permission_of ''instance:power'' ''Power control instances'' ''instance'',
      permission_of ''instance:console'' ''Access instance web console'' ''instance'',
      permission_of ''instance:files:read'' ''Read instance files'' ''instance'',
      permission_of ''instance:files:write'' ''Write instance files'' ''instance'',
      permission_of ''node:read'' ''View hypervisor nodes'' ''node'',
      permission_of ''node:create'' ''Enroll new nodes'' ''node'',
      permission_of ''node:update'' ''Edit node configuration'' ''node'',
      permission_of ''node:maintenance'' ''Toggle node maintenance'' ''node'',
      permission_of ''node:drain'' ''Drain and undrain hypervisor nodes'' ''node'',
      permission_of ''node:evacuate'' ''Evacuate workloads from hypervisor nodes'' ''node'',
      permission_of ''job:read'' ''View async jobs'' ''job'',
      permission_of ''job:manage'' ''Cancel, retry, and manage async jobs'' ''job'',
      permission_of ''migration:read'' ''View instance migrations'' ''compute'',
      permission_of ''migration:manage'' ''Initiate and control instance migrations'' ''compute'',
      permission_of ''backup:read'' ''View and inspect backups'' ''backup'',
      permission_of ''backup:create'' ''Create backup recovery points'' ''backup'',
      permission_of ''backup:restore'' ''Restore workloads from backups'' ''backup'',
      permission_of ''backup:delete'' ''Delete backup recovery points'' ''backup'',
      permission_of ''backup:manage'' ''Configure backup policies and disaster recovery'' ''backup'',
      permission_of ''reconcile:manage'' ''Execute control plane state reconciliation'' ''system'',
      permission_of ''keys:manage'' ''Rotate and revoke cryptographic credentials'' ''security'',
      permission_of ''ipam:read'' ''View IP pools and subnets'' ''ipam'',
      permission_of ''ipam:manage'' ''Manage IP pools and port forwards'' ''ipam'',
      permission_of ''storage:read'' ''View storage pools'' ''storage'',
      permission_of ''storage:manage'' ''Manage storage pools'' ''storage'',
      permission_of ''volume:read'' ''View volumes and snapshots'' ''storage'',
      permission_of ''volume:create'' ''Create storage volumes'' ''storage'',
      permission_of ''volume:update'' ''Update or resize volumes'' ''storage'',
      permission_of ''volume:delete'' ''Delete storage volumes'' ''storage'',
      permission_of ''volume:attach'' ''Attach volume to instance'' ''storage'',
      permission_of ''volume:detach'' ''Detach volume from instance'' ''storage'',
      permission_of ''volume:snapshot'' ''Create volume snapshots'' ''storage'',
      permission_of ''volume:restore'' ''Restore volume from snapshot'' ''storage'',
      permission_of ''monitoring:read'' ''View telemetry metrics and alerts'' ''monitoring'',
      permission_of ''monitoring:manage'' ''Configure alert thresholds and acknowledge alerts'' ''monitoring'',
      permission_of ''user:read'' ''View user accounts'' ''user'',
      permission_of ''user:manage'' ''Manage users and roles'' ''user'',
      permission_of ''audit:read'' ''View security audit trails'' ''audit'',
      permission_of ''audit:manage'' ''Configure SIEM destinations and export compliance reports'' ''audit'',
      permission_of ''template:read'' ''View OS templates'' ''template'',
      permission_of ''template:create'' ''Create new OS templates'' ''template'',
      permission_of ''template:update'' ''Update OS template metadata'' ''template'',
      permission_of ''template:delete'' ''Delete or deprecate OS templates'' ''template'',
      permission_of ''image:read'' ''View image artifacts and node cache availability'' ''image'',
      permission_of ''image:manage'' ''Register, sync, verify, and retire image artifacts'' ''image'',
      permission_of ''billing:read'' ''View plans, subscriptions, quotas, and invoices'' ''billing'',
      permission_of ''billing:manage'' ''Subscribe, change plans, and manage billing'' ''billing'',
      permission_of ''billing:plans'' ''Create and update system billing plans'' ''billing'',
      permission_of ''billing:admin'' ''Manage cross-tenant subscriptions, usage, and invoices'' ''billing'',
      permission_of ''notification:read'' ''View user notifications and preferences'' ''notification'',
      permission_of ''notification:manage'' ''Manage notifications and preferences'' ''notification'',
      permission_of ''webhook:read'' ''View webhook endpoints and delivery history'' ''webhook'',
      permission_of ''webhook:create'' ''Create webhook endpoints'' ''webhook'',
      permission_of ''webhook:update'' ''Update webhook endpoints'' ''webhook'',
      permission_of ''webhook:delete'' ''Delete webhook endpoints'' ''webhook'',
      permission_of ''webhook:rotate'' ''Rotate webhook signing secret'' ''webhook'',
      permission_of ''webhook:test'' ''Trigger test webhook delivery ping'' ''webhook'']"

definition pick_permissions :: "string list \<Rightarrow> permission list" where
  "pick_permissions codes =
     List.map_filter (map_of (map (\<lambda>p. (pm_code p, p)) seed_permissions)) codes"

definition customer_codes :: "string list" where
  "customer_codes =
     [''instance:read'', ''instance:create'', ''instance:power'', ''instance:console'',
      ''instance:files:read'', ''instance:files:write'', ''backup:read'', ''backup:create'',
      ''backup:restore'', ''volume:read'', ''volume:create'', ''volume:update'',
      ''volume:delete'', ''volume:attach'', ''volume:detach'', ''volume:snapshot'',
      ''volume:restore'', ''storage:read'', ''monitoring:read'', ''monitoring:manage'',
      ''template:read'', ''billing:read'', ''billing:manage'', ''notification:read'',
      ''notification:manage'', ''webhook:read'', ''webhook:create'', ''webhook:update'',
      ''webhook:delete'', ''webhook:rotate'', ''webhook:test'']"

definition operator_codes :: "string list" where
  "operator_codes =
     [''instance:read'', ''node:read'', ''node:maintenance'', ''ipam:read'', ''audit:read'']"

definition superadmin_role :: "gtime \<Rightarrow> role" where
  "superadmin_role now = \<lparr>rl_id = ''role_superadmin'', rl_name = ''superadmin'',
     rl_desc = ''Unrestricted platform administrator'', rl_system = True,
     rl_perms = seed_permissions, rl_created = now\<rparr>"

definition customer_role :: "gtime \<Rightarrow> role" where
  "customer_role now = \<lparr>rl_id = ''role_customer'', rl_name = ''customer'',
     rl_desc = ''Standard tenant / VPS owner'', rl_system = True,
     rl_perms = pick_permissions customer_codes, rl_created = now\<rparr>"

definition operator_role :: "gtime \<Rightarrow> role" where
  "operator_role now = \<lparr>rl_id = ''role_operator'', rl_name = ''operator'',
     rl_desc = ''Infrastructure hypervisor operator'', rl_system = True,
     rl_perms = pick_permissions operator_codes, rl_created = now\<rparr>"

definition seed_roles :: "gtime \<Rightarrow> string \<rightharpoonup> role" where
  "seed_roles now =
     [''role_superadmin'' \<mapsto> superadmin_role now, ''superadmin'' \<mapsto> superadmin_role now,
      ''role_customer'' \<mapsto> customer_role now, ''customer'' \<mapsto> customer_role now,
      ''role_operator'' \<mapsto> operator_role now, ''operator'' \<mapsto> operator_role now]"

definition new_iam :: "gtime \<Rightarrow> iam" where
  "new_iam now = \<lparr>im_users = Map.empty, im_roles = seed_roles now,
     im_perms = map_of (map (\<lambda>p. (pm_code p, p)) seed_permissions), im_grants = (\<lambda>_. []),
     im_kheap = Map.empty, im_knext = 0, im_keys = Map.empty, im_keys_by_h = Map.empty,
     im_sessions = Map.empty, im_trails = empty_trails\<rparr>"

section \<open>User repository\<close>

text \<open>The loop of \<open>Create\<close>: the first clash in the order of the map decides the error.\<close>

fun user_clash :: "user \<Rightarrow> user list \<Rightarrow> go_error option" where
  "user_clash u [] = None"
| "user_clash u (e # es) =
     (if us_name e = us_name u then Some ErrUsernameExists
      else if us_email e = us_email u then Some ErrEmailExists
      else user_clash u es)"

definition user_create :: "string list \<Rightarrow> user \<Rightarrow> iam \<Rightarrow> iam \<times> go_error option" where
  "user_create ks u st =
     (case user_clash u (vals (im_users st) ks) of
        Some e \<Rightarrow> (st, Some e)
      | None \<Rightarrow> (st\<lparr>im_users := (im_users st)(us_id u \<mapsto> u)\<rparr>, None))"

definition user_get :: "string \<Rightarrow> iam \<Rightarrow> user result" where
  "user_get uid st = (case im_users st uid of None \<Rightarrow> Inl ErrUserNotFound | Some u \<Rightarrow> Inr u)"

definition find_user :: "(user \<Rightarrow> bool) \<Rightarrow> string list \<Rightarrow> iam \<Rightarrow> user result" where
  "find_user P ks st =
     (case List.find P (vals (im_users st) ks) of None \<Rightarrow> Inl ErrUserNotFound | Some u \<Rightarrow> Inr u)"

definition user_by_name :: "string list \<Rightarrow> string \<Rightarrow> iam \<Rightarrow> user result" where
  "user_by_name ks n = find_user (\<lambda>u. us_name u = n) ks"

definition user_by_email :: "string list \<Rightarrow> string \<Rightarrow> iam \<Rightarrow> user result" where
  "user_by_email ks e = find_user (\<lambda>u. us_email u = e) ks"

definition modify_user :: "string \<Rightarrow> (user \<Rightarrow> user) \<Rightarrow> iam \<Rightarrow> iam \<times> go_error option" where
  "modify_user uid f st =
     (case im_users st uid of
        None \<Rightarrow> (st, Some ErrUserNotFound)
      | Some u \<Rightarrow> (st\<lparr>im_users := (im_users st)(uid \<mapsto> f u)\<rparr>, None))"

definition user_update :: "gtime \<Rightarrow> user \<Rightarrow> iam \<Rightarrow> iam \<times> go_error option" where
  "user_update now u = modify_user (us_id u) (\<lambda>e. e\<lparr>us_name := us_name u, us_email := us_email u,
     us_active := us_active u, us_prefs := us_prefs u, us_updated := now\<rparr>)"

definition update_password :: "gtime \<Rightarrow> string \<Rightarrow> string \<Rightarrow> iam \<Rightarrow> iam \<times> go_error option" where
  "update_password now uid h = modify_user uid (\<lambda>e. e\<lparr>us_hash := h, us_updated := now\<rparr>)"

definition update_2fa :: "gtime \<Rightarrow> string \<Rightarrow> bool \<Rightarrow> string \<Rightarrow> iam \<Rightarrow> iam \<times> go_error option" where
  "update_2fa now uid enabled enc =
     modify_user uid (\<lambda>e. e\<lparr>us_two_factor := enabled, us_secret := enc, us_updated := now\<rparr>)"

definition update_last_login :: "gtime \<Rightarrow> string \<Rightarrow> iam \<Rightarrow> iam \<times> go_error option" where
  "update_last_login now uid = modify_user uid (\<lambda>e. e\<lparr>us_login := Some now\<rparr>)"

definition user_count :: "string list \<Rightarrow> iam \<Rightarrow> int" where
  "user_count ks st = int (length (vals (im_users st) ks))"

section \<open>Role repository\<close>

definition role_get :: "string \<Rightarrow> iam \<Rightarrow> role result" where
  "role_get rid st = (case im_roles st rid of None \<Rightarrow> Inl ErrRoleNotFound | Some r \<Rightarrow> Inr r)"

definition role_by_name :: "string list \<Rightarrow> string \<Rightarrow> iam \<Rightarrow> role result" where
  "role_by_name ks n st =
     (case List.find (\<lambda>r. rl_name r = n) (vals (im_roles st) ks) of
        None \<Rightarrow> Inl ErrRoleNotFound | Some r \<Rightarrow> Inr r)"

fun role_list_loop :: "string set \<Rightarrow> role list \<Rightarrow> role list" where
  "role_list_loop seen [] = []"
| "role_list_loop seen (r # rs) =
     (if rl_id r \<notin> seen then r # role_list_loop (insert (rl_id r) seen) rs
      else role_list_loop seen rs)"

definition role_list :: "string list \<Rightarrow> iam \<Rightarrow> role list" where
  "role_list ks st = role_list_loop {} (vals (im_roles st) ks)"

definition get_grants :: "string \<Rightarrow> iam \<Rightarrow> role_grant list" where
  "get_grants uid st = im_grants st uid"

definition assign_role :: "role_grant \<Rightarrow> iam \<Rightarrow> iam" where
  "assign_role g st = st\<lparr>im_grants := (im_grants st)(gr_user g := im_grants st (gr_user g) @ [g])\<rparr>"

definition revoke_role :: "string \<Rightarrow> string \<Rightarrow> string \<Rightarrow> string option \<Rightarrow> iam \<Rightarrow> iam" where
  "revoke_role uid rid scope_type scope_id st =
     st\<lparr>im_grants := (im_grants st)(uid := filter (\<lambda>g.
       \<not> (gr_role g = rid \<and> gr_scope_type g = scope_type \<and>
          ((scope_id = None \<and> gr_scope g = None) \<or>
           (scope_id \<noteq> None \<and> gr_scope g \<noteq> None \<and> scope_id = gr_scope g)))) (im_grants st uid))\<rparr>"

text \<open>
  The loop of \<open>GetUserPermissions\<close>: \<open>None\<close> stands for the early return with the wildcard.
  The codes are collected in a Go map, so the listing is an arrangement of this set.
\<close>

fun permission_codes :: "(string \<rightharpoonup> role) \<Rightarrow> string set \<Rightarrow> role_grant list \<Rightarrow> string set option" where
  "permission_codes roles acc [] = Some acc"
| "permission_codes roles acc (g # gs) =
     (case roles (gr_role g) of
        None \<Rightarrow> permission_codes roles acc gs
      | Some r \<Rightarrow> if rl_name r = ''superadmin'' then None
                  else permission_codes roles (acc \<union> set (map pm_code (rl_perms r))) gs)"

definition get_user_permissions :: "string list \<Rightarrow> string \<Rightarrow> iam \<Rightarrow> string list" where
  "get_user_permissions cs uid st =
     (case permission_codes (im_roles st) {} (im_grants st uid) of
        None \<Rightarrow> [''*''] | Some codes \<Rightarrow> filter (\<lambda>c. c \<in> codes) cs)"

definition permission_get :: "string \<Rightarrow> iam \<Rightarrow> permission result" where
  "permission_get c st = (case im_perms st c of None \<Rightarrow> Inl ErrPermissionNotFound | Some p \<Rightarrow> Inr p)"

section \<open>API key repository\<close>

definition key_create :: "api_key \<Rightarrow> iam \<Rightarrow> iam" where
  "key_create k st =
     (let a = im_knext st
      in st\<lparr>im_kheap := (im_kheap st)(a \<mapsto> k), im_knext := a + 1,
            im_keys := (im_keys st)(ak_id k \<mapsto> a), im_keys_by_h := (im_keys_by_h st)(ak_hash k \<mapsto> a)\<rparr>)"

definition deref_key :: "nat option \<Rightarrow> iam \<Rightarrow> api_key result" where
  "deref_key p st = (case p of None \<Rightarrow> Inl ErrAPIKeyNotFound
     | Some a \<Rightarrow> (case im_kheap st a of None \<Rightarrow> Inl Panic | Some k \<Rightarrow> Inr k))"

definition key_get :: "string \<Rightarrow> iam \<Rightarrow> api_key result" where
  "key_get kid st = deref_key (im_keys st kid) st"

definition key_by_hash :: "string \<Rightarrow> iam \<Rightarrow> api_key result" where
  "key_by_hash h st = deref_key (im_keys_by_h st h) st"

definition keys_of_user :: "string list \<Rightarrow> string \<Rightarrow> iam \<Rightarrow> api_key list" where
  "keys_of_user ks uid st =
     filter (\<lambda>k. ak_user k = uid) (List.map_filter (im_kheap st) (vals (im_keys st) ks))"

definition modify_key :: "string \<Rightarrow> (api_key \<Rightarrow> api_key) \<Rightarrow> iam \<Rightarrow> iam \<times> go_error option" where
  "modify_key kid f st =
     (case im_keys st kid of
        None \<Rightarrow> (st, Some ErrAPIKeyNotFound)
      | Some a \<Rightarrow> (case im_kheap st a of
                     None \<Rightarrow> (st, Some Panic)
                   | Some k \<Rightarrow> (st\<lparr>im_kheap := (im_kheap st)(a \<mapsto> f k)\<rparr>, None)))"

definition key_touch :: "gtime \<Rightarrow> string \<Rightarrow> iam \<Rightarrow> iam \<times> go_error option" where
  "key_touch now kid = modify_key kid (\<lambda>k. k\<lparr>ak_used := Some now\<rparr>)"

definition key_revoke :: "string \<Rightarrow> iam \<Rightarrow> iam \<times> go_error option" where
  "key_revoke kid = modify_key kid (\<lambda>k. k\<lparr>ak_revoked := True\<rparr>)"

section \<open>Session repository\<close>

definition session_create :: "session \<Rightarrow> iam \<Rightarrow> iam" where
  "session_create s st = st\<lparr>im_sessions := (im_sessions st)(se_hash s \<mapsto> s)\<rparr>"

definition session_by_hash :: "string \<Rightarrow> iam \<Rightarrow> session result" where
  "session_by_hash h st =
     (case im_sessions st h of None \<Rightarrow> Inl ErrRefreshTokenInvalid | Some s \<Rightarrow> Inr s)"

text \<open>\<open>Revoke\<close> changes the first session with the identifier, in the order of the map.\<close>

definition session_revoke :: "gtime \<Rightarrow> string list \<Rightarrow> string \<Rightarrow> string option \<Rightarrow> iam \<Rightarrow> iam" where
  "session_revoke now ks sid repl st =
     (case find_key (im_sessions st) (\<lambda>s. se_id s = sid) ks of
        None \<Rightarrow> st
      | Some h \<Rightarrow> st\<lparr>im_sessions := (im_sessions st)(h := map_option
          (\<lambda>s. s\<lparr>se_revoked := True, se_revoked_at := Some now, se_replaced := repl\<rparr>) (im_sessions st h))\<rparr>)"

text \<open>The two loops over all sessions change each matching one; their order does not matter.\<close>

definition revoke_where :: "gtime \<Rightarrow> (session \<Rightarrow> bool) \<Rightarrow> iam \<Rightarrow> iam" where
  "revoke_where now P st = st\<lparr>im_sessions := (\<lambda>h. map_option
     (\<lambda>s. if P s then s\<lparr>se_revoked := True, se_revoked_at := Some now\<rparr> else s) (im_sessions st h))\<rparr>"

definition revoke_family :: "gtime \<Rightarrow> string \<Rightarrow> iam \<Rightarrow> iam" where
  "revoke_family now fam = revoke_where now (\<lambda>s. se_family s = fam)"

definition revoke_all_for_user :: "gtime \<Rightarrow> string \<Rightarrow> iam \<Rightarrow> iam" where
  "revoke_all_for_user now uid = revoke_where now (\<lambda>s. se_user s = uid)"

end
