(* ===== verification/Auth_Service.thy ===== *)
theory Auth_Service
  imports Account_Store
begin

text \<open>
  Registration, login, two-factor verification, refresh rotation and logout:
  \<open>internal/app/auth/service.go\<close>, with the token manager of \<open>internal/infra/jwt/jwt.go\<close> and
  the wrapper of \<open>internal/infra/totp/totp.go\<close>. The cryptographic libraries are the record
  \<open>crypt\<close>: signing and parsing of JSON web tokens, SHA-256 with hex encoding, verification of
  a password against a stored hash, the secret protector and the time-based codes. What one
  request draws (identifiers, random tokens) and the orders in which it ranges over maps are
  the record \<open>draws\<close>.
\<close>

section \<open>Libraries and random inputs\<close>

record claims =
  cm_user :: string
  cm_username :: string
  cm_email :: string
  cm_roles :: "string list"
  cm_perms :: "string list"
  cm_scopes :: "string list"
  cm_type :: string
  cm_issuer :: string
  cm_subject :: string
  cm_audience :: "string list"
  cm_exp :: gtime
  cm_nbf :: gtime
  cm_iat :: gtime
  cm_jti :: string

datatype jwt_failure = JwtExpired | JwtMalformed

record crypt =
  cr_sign :: "claims \<Rightarrow> string result"
  cr_parse :: "gtime \<Rightarrow> string \<Rightarrow> string \<Rightarrow> string \<Rightarrow> jwt_failure + claims \<times> bool"
  cr_sha :: "string \<Rightarrow> string"
  cr_verify :: "string \<Rightarrow> string \<Rightarrow> bool result"
  cr_encrypt :: "string \<Rightarrow> string result"
  cr_decrypt :: "string \<Rightarrow> string result"
  cr_totp :: "gtime \<Rightarrow> string \<Rightarrow> string \<Rightarrow> bool"

record draws =
  dr_session :: string
  dr_family :: string
  dr_jti :: string
  dr_refresh :: "string option"
  dr_users :: "string list"
  dr_emails :: "string list"
  dr_sessions :: "string list"
  dr_codes :: "string list"
  dr_summary :: "string list"

section \<open>Token manager\<close>

definition generate_access_token ::
  "crypt \<Rightarrow> gtime \<Rightarrow> string \<Rightarrow> user \<Rightarrow> string list \<Rightarrow> string list \<Rightarrow> string result" where
  "generate_access_token cr now jti u roles perms =
     cr_sign cr \<lparr>cm_user = us_id u, cm_username = us_name u, cm_email = us_email u,
       cm_roles = roles, cm_perms = perms, cm_scopes = [], cm_type = ''access'',
       cm_issuer = ''aurora-control-plane'', cm_subject = us_id u, cm_audience = [''aurora-api''],
       cm_exp = now + 15 * minute, cm_nbf = now, cm_iat = now, cm_jti = jti\<rparr>"

definition validate_access_token :: "crypt \<Rightarrow> gtime \<Rightarrow> string \<Rightarrow> subject result" where
  "validate_access_token cr now tok =
     (case cr_parse cr now ''aurora-control-plane'' ''aurora-api'' tok of
        Inl JwtExpired \<Rightarrow> Inl ErrTokenExpired
      | Inl JwtMalformed \<Rightarrow> Inl ErrTokenInvalid
      | Inr (c, valid) \<Rightarrow>
          if \<not> valid \<or> cm_type c \<noteq> ''access'' then Inl ErrTokenInvalid
          else Inr \<lparr>sub_type = ''user'', sub_id = cm_user c, sub_user = cm_user c,
                    sub_username = cm_username c, sub_email = cm_email c, sub_roles = cm_roles c,
                    sub_permissions = cm_perms c, sub_scopes = cm_scopes c\<rparr>)"

definition hash_refresh_token :: "crypt \<Rightarrow> string \<Rightarrow> string" where
  "hash_refresh_token cr tok = cr_sha cr tok"

definition generate_refresh_token :: "crypt \<Rightarrow> string option \<Rightarrow> (string \<times> string) result" where
  "generate_refresh_token cr rnd =
     (case rnd of None \<Rightarrow> Inl (ErrText ''failed to generate random token'')
      | Some plain \<Rightarrow> Inr (plain, hash_refresh_token cr plain))"

definition validate_code :: "crypt \<Rightarrow> gtime \<Rightarrow> string \<Rightarrow> string \<Rightarrow> bool" where
  "validate_code cr now sec code = (if sec = '''' \<or> code = '''' then False else cr_totp cr now code sec)"

section \<open>Registration\<close>

record register_request =
  rq_name :: string
  rq_email :: string
  rq_password :: string
  rq_ip :: string
  rq_agent :: string

definition iam_log :: "gtime \<Rightarrow> audit_log \<Rightarrow> iam \<Rightarrow> iam" where
  "iam_log now l st = st\<lparr>im_trails := log_audit now l (im_trails st)\<rparr>"

definition new_user :: "gtime \<Rightarrow> string \<Rightarrow> string \<Rightarrow> register_request \<Rightarrow> user" where
  "new_user now uid h rq = \<lparr>us_id = uid, us_name = rq_name rq, us_email = rq_email rq, us_hash = h,
     us_active = True, us_secret = '''', us_two_factor = False, us_prefs = [], us_created = now,
     us_updated = now, us_login = None\<rparr>"

text \<open>
  \<open>hashed\<close> is what the hasher returned for the password, \<open>uid\<close> and \<open>gid\<close> the new
  identifiers, \<open>ks\<close> and \<open>rs\<close> the orders of the user and role maps. The service mutex is held
  from the count to the end, so that the first registration is decided without a race.
\<close>

definition register ::
  "gtime \<Rightarrow> string \<Rightarrow> string \<Rightarrow> string result \<Rightarrow> string list \<Rightarrow> string list \<Rightarrow> register_request \<Rightarrow>
     iam \<Rightarrow> iam \<times> user result" where
  "register now uid gid hashed ks rs rq st =
     (if length (rq_password rq) < 8
      then (st, Inl (ErrText ''password must be at least 8 characters long''))
      else case hashed of
        Inl e \<Rightarrow> (st, Inl e)
      | Inr h \<Rightarrow>
          let first = (user_count ks st = 0);
              u = new_user now uid h rq
          in case user_create ks u st of
               (st, Some e) \<Rightarrow> (st, Inl e)
             | (st, None) \<Rightarrow>
                 let name = (if first then ''superadmin'' else ''customer'');
                     st = (case role_by_name rs name st of
                             Inl e \<Rightarrow> st
                           | Inr r \<Rightarrow> assign_role \<lparr>gr_id = gid, gr_user = us_id u, gr_role = rl_id r,
                               gr_name = rl_name r, gr_scope_type = ''global'', gr_scope = None,
                               gr_by = None, gr_created = now\<rparr> st)
                 in (iam_log now (empty_log\<lparr>al_actor := Some (us_id u), al_ip := rq_ip rq,
                       al_agent := rq_agent rq, al_action := ''auth.register'', al_rtype := ''user'',
                       al_rid := Some (us_id u), al_status := 201,
                       al_details := [(''username'', GStr (us_name u)), (''role'', GStr name)],
                       al_created := now\<rparr>) st,
                     Inr u))"

section \<open>Roles, permissions and new sessions\<close>

record token_pair =
  tp_access :: string
  tp_refresh :: string
  tp_type :: string
  tp_expires :: int

record user_summary =
  um_id :: string
  um_name :: string
  um_email :: string
  um_roles :: "string list"
  um_perms :: "string list"
  um_two_factor :: bool

record login_result =
  lr_requires_2fa :: bool
  lr_challenge :: string
  lr_tokens :: "token_pair option"
  lr_user :: "user_summary option"

fun role_names :: "(string \<rightharpoonup> role) \<Rightarrow> role_grant list \<Rightarrow> string list" where
  "role_names roles [] = []"
| "role_names roles (g # gs) =
     (if gr_name g \<noteq> '''' then gr_name g # role_names roles gs
      else if gr_role g \<noteq> ''''
      then (case roles (gr_role g) of None \<Rightarrow> role_names roles gs
            | Some r \<Rightarrow> rl_name r # role_names roles gs)
      else role_names roles gs)"

definition roles_and_permissions :: "string list \<Rightarrow> string \<Rightarrow> iam \<Rightarrow> string list \<times> string list" where
  "roles_and_permissions cs uid st =
     (role_names (im_roles st) (get_grants uid st), get_user_permissions cs uid st)"

definition new_session ::
  "gtime \<Rightarrow> string \<Rightarrow> string \<Rightarrow> string \<Rightarrow> string \<Rightarrow> string \<Rightarrow> string \<Rightarrow> session" where
  "new_session now sid uid h fam agent ip = \<lparr>se_id = sid, se_user = uid, se_hash = h,
     se_family = fam, se_agent = agent, se_ip = ip, se_expires = now + 7 * 24 * hour,
     se_created = now, se_revoked = False, se_revoked_at = None, se_replaced = None\<rparr>"

definition issue_tokens ::
  "crypt \<Rightarrow> gtime \<Rightarrow> draws \<Rightarrow> user \<Rightarrow> string \<Rightarrow> string \<Rightarrow> string \<Rightarrow> iam \<Rightarrow> iam \<times> token_pair result" where
  "issue_tokens cr now d u ip agent fam st =
     (let (roles, perms) = roles_and_permissions (dr_codes d) (us_id u) st
      in case generate_access_token cr now (dr_jti d) u roles perms of
           Inl e \<Rightarrow> (st, Inl e)
         | Inr access \<Rightarrow>
             (case generate_refresh_token cr (dr_refresh d) of
                Inl e \<Rightarrow> (st, Inl e)
              | Inr (plain, h) \<Rightarrow>
                  (session_create (new_session now (dr_session d) (us_id u) h fam agent ip) st,
                   Inr \<lparr>tp_access = access, tp_refresh = plain, tp_type = ''Bearer'', tp_expires = 900\<rparr>)))"

text \<open>The end of \<open>Login\<close> and of \<open>VerifyTOTP\<close>: the two differ in the action they log.\<close>

definition finish_login ::
  "crypt \<Rightarrow> gtime \<Rightarrow> draws \<Rightarrow> string \<Rightarrow> user \<Rightarrow> string \<Rightarrow> string \<Rightarrow> iam \<Rightarrow> iam \<times> login_result result" where
  "finish_login cr now d action u ip agent st =
     (case issue_tokens cr now d u ip agent (dr_family d) st of
        (st, Inl e) \<Rightarrow> (st, Inl e)
      | (st, Inr tokens) \<Rightarrow>
          let (roles, perms) = roles_and_permissions (dr_summary d) (us_id u) st;
              st = fst (update_last_login now (us_id u) st);
              st = iam_log now (empty_log\<lparr>al_actor := Some (us_id u), al_ip := ip, al_agent := agent,
                     al_action := action, al_rtype := ''user'', al_rid := Some (us_id u),
                     al_status := 200, al_created := now\<rparr>) st
          in (st, Inr \<lparr>lr_requires_2fa = False, lr_challenge = '''', lr_tokens = Some tokens,
                lr_user = Some \<lparr>um_id = us_id u, um_name = us_name u, um_email = us_email u,
                  um_roles = roles, um_perms = perms, um_two_factor = us_two_factor u\<rparr>\<rparr>))"

section \<open>Login and second factor\<close>

record login_request =
  lq_ident :: string
  lq_password :: string
  lq_ip :: string
  lq_agent :: string

definition login_user :: "draws \<Rightarrow> string \<Rightarrow> iam \<Rightarrow> user result" where
  "login_user d ident st =
     (case user_by_name (dr_users d) ident st of
        Inr u \<Rightarrow> Inr u | Inl e \<Rightarrow> user_by_email (dr_emails d) ident st)"

definition login :: "crypt \<Rightarrow> gtime \<Rightarrow> draws \<Rightarrow> login_request \<Rightarrow> iam \<Rightarrow> iam \<times> login_result result" where
  "login cr now d rq st =
     (case login_user d (lq_ident rq) st of
        Inl e \<Rightarrow>
          (iam_log now (empty_log\<lparr>al_ip := lq_ip rq, al_agent := lq_agent rq,
             al_action := ''auth.login.failed'', al_status := 401,
             al_details := [(''identifier'', GStr (lq_ident rq)), (''reason'', GStr ''user_not_found'')],
             al_created := now\<rparr>) st, Inl ErrInvalidCredentials)
      | Inr u \<Rightarrow>
          if \<not> us_active u then (st, Inl ErrAccountDisabled)
          else if cr_verify cr (lq_password rq) (us_hash u) \<noteq> Inr True
          then (iam_log now (empty_log\<lparr>al_actor := Some (us_id u), al_ip := lq_ip rq,
                  al_agent := lq_agent rq, al_action := ''auth.login.failed'', al_status := 401,
                  al_details := [(''reason'', GStr ''invalid_password'')], al_created := now\<rparr>) st,
                Inl ErrInvalidCredentials)
          else if us_two_factor u
          then (case generate_access_token cr now (dr_jti d) u [''2fa_challenge''] [] of
                  Inl e \<Rightarrow> (st, Inl e)
                | Inr tok \<Rightarrow> (st, Inr \<lparr>lr_requires_2fa = True, lr_challenge = tok, lr_tokens = None,
                                     lr_user = None\<rparr>))
          else finish_login cr now d ''auth.login.success'' u (lq_ip rq) (lq_agent rq) st)"

definition verify_totp ::
  "crypt \<Rightarrow> gtime \<Rightarrow> draws \<Rightarrow> string \<Rightarrow> string \<Rightarrow> string \<Rightarrow> string \<Rightarrow> iam \<Rightarrow> iam \<times> login_result result" where
  "verify_totp cr now d challenge code ip agent st =
     (case validate_access_token cr now challenge of
        Inl e \<Rightarrow> (st, Inl ErrTokenInvalid)
      | Inr sub \<Rightarrow>
     (case user_get (sub_user sub) st of
        Inl e \<Rightarrow> (st, Inl ErrUserNotFound)
      | Inr u \<Rightarrow>
          if \<not> us_two_factor u \<or> us_secret u = '''' then (st, Inl ErrTOTPNotEnabled)
          else (case cr_decrypt cr (us_secret u) of
                  Inl e \<Rightarrow> (st, Inl e)
                | Inr sec \<Rightarrow>
                    if \<not> validate_code cr now sec code
                    then (iam_log now (empty_log\<lparr>al_actor := Some (us_id u), al_ip := ip,
                            al_agent := agent, al_action := ''auth.2fa.failed'', al_status := 401,
                            al_created := now\<rparr>) st, Inl ErrTOTPInvalid)
                    else finish_login cr now d ''auth.login.2fa_success'' u ip agent st)))"

section \<open>Refresh and logout\<close>

text \<open>
  \<open>refresh_with\<close> is \<open>RefreshSession\<close> from the point where it holds its copy \<open>s\<close> of the
  session. The method takes no lock of its own: two requests can both hold a copy before
  either rotates.
\<close>

definition refresh_with ::
  "crypt \<Rightarrow> gtime \<Rightarrow> draws \<Rightarrow> session \<Rightarrow> string \<Rightarrow> string \<Rightarrow> iam \<Rightarrow> iam \<times> token_pair result" where
  "refresh_with cr now d s ip agent st =
     (if se_revoked s
      then (iam_log now (empty_log\<lparr>al_actor := Some (se_user s), al_ip := ip, al_agent := agent,
              al_action := ''auth.refresh.reuse_detected'', al_rtype := ''session'',
              al_rid := Some (se_id s), al_status := 401,
              al_details := [(''familyId'', GStr (se_family s))], al_created := now\<rparr>)
              (revoke_family now (se_family s) st),
            Inl ErrRefreshTokenReused)
      else if se_expires s < now then (st, Inl ErrRefreshTokenInvalid)
      else case user_get (se_user s) st of
        Inl e \<Rightarrow> (st, Inl ErrAccountDisabled)
      | Inr u \<Rightarrow>
          if \<not> us_active u then (st, Inl ErrAccountDisabled)
          else (case generate_refresh_token cr (dr_refresh d) of
            Inl e \<Rightarrow> (st, Inl e)
          | Inr (plain, h) \<Rightarrow>
              let st = session_create (new_session now (dr_session d) (us_id u) h (se_family s) agent ip) st;
                  st = session_revoke now (dr_sessions d) (se_id s) (Some (dr_session d)) st;
                  (roles, perms) = roles_and_permissions (dr_codes d) (us_id u) st
              in (case generate_access_token cr now (dr_jti d) u roles perms of
                    Inl e \<Rightarrow> (st, Inl e)
                  | Inr access \<Rightarrow> (st, Inr \<lparr>tp_access = access, tp_refresh = plain,
                      tp_type = ''Bearer'', tp_expires = 900\<rparr>))))"

definition refresh_session ::
  "crypt \<Rightarrow> gtime \<Rightarrow> draws \<Rightarrow> string \<Rightarrow> string \<Rightarrow> string \<Rightarrow> iam \<Rightarrow> iam \<times> token_pair result" where
  "refresh_session cr now d tok ip agent st =
     (case session_by_hash (hash_refresh_token cr tok) st of
        Inl e \<Rightarrow> (st, Inl ErrRefreshTokenInvalid)
      | Inr s \<Rightarrow> refresh_with cr now d s ip agent st)"

definition logout :: "crypt \<Rightarrow> gtime \<Rightarrow> draws \<Rightarrow> string \<Rightarrow> iam \<Rightarrow> iam" where
  "logout cr now d tok st =
     (case session_by_hash (hash_refresh_token cr tok) st of
        Inl e \<Rightarrow> st
      | Inr s \<Rightarrow>
          iam_log now (empty_log\<lparr>al_actor := Some (se_user s), al_action := ''auth.logout'',
            al_rtype := ''session'', al_rid := Some (se_id s), al_status := 200, al_created := now\<rparr>)
            (session_revoke now (dr_sessions d) (se_id s) None st))"

end
