(* ===== verification/Api_Access.thy ===== *)
theory Api_Access
  imports Auth_Service
begin

text \<open>
  API keys (\<open>internal/app/apikeys/service.go\<close>), two-factor enrollment
  (\<open>internal/app/account/service.go\<close>) and the request authentication of
  \<open>internal/transport/http/middleware.go\<close>, which turns an API key or an access token into the
  subject the handlers pass to the services.
\<close>

section \<open>API keys\<close>

record create_key_request =
  kq_name :: string
  kq_scopes :: "string list"
  kq_expires :: "gtime option"

text \<open>\<open>rnd\<close> is the hex text of the 32 random bytes, if they could be read.\<close>

definition create_api_key ::
  "crypt \<Rightarrow> gtime \<Rightarrow> string \<Rightarrow> string option \<Rightarrow> string \<Rightarrow> create_key_request \<Rightarrow>
     iam \<Rightarrow> iam \<times> (api_key \<times> string) result" where
  "create_api_key cr now kid rnd uid rq st =
     (if kq_name rq = '''' then (st, Inl (ErrText ''api key name is required''))
      else case user_get uid st of
        Inl e \<Rightarrow> (st, Inl ErrUserNotFound)
      | Inr u \<Rightarrow>
     (case rnd of
        None \<Rightarrow> (st, Inl (ErrText ''failed to generate random key''))
      | Some r \<Rightarrow>
          let plain = ''aur_live_'' @ r;
              k = \<lparr>ak_id = kid, ak_user = us_id u, ak_name = kq_name rq, ak_hash = cr_sha cr plain,
                   ak_prefix = ''aur_live_'' @ take 6 r @ ''...'', ak_scopes = kq_scopes rq,
                   ak_used = None, ak_expires = kq_expires rq, ak_created = now, ak_revoked = False\<rparr>;
              st = key_create k st;
              st = iam_log now (empty_log\<lparr>al_actor := Some uid, al_action := ''apikey.created'',
                     al_rtype := ''apikey'', al_rid := Some kid, al_status := 201,
                     al_details := [(''name'', GStr (ak_name k)), (''prefix'', GStr (ak_prefix k)),
                       (''scopes'', GList (map GStr (ak_scopes k)))],
                     al_created := now\<rparr>) st
          in (st, Inr (k, plain))))"

definition list_api_keys :: "string list \<Rightarrow> string \<Rightarrow> iam \<Rightarrow> api_key list" where
  "list_api_keys ks uid st = keys_of_user ks uid st"

definition revoke_api_key :: "gtime \<Rightarrow> string \<Rightarrow> string \<Rightarrow> iam \<Rightarrow> iam \<times> go_error option" where
  "revoke_api_key now uid kid st =
     (case key_get kid st of
        Inl e \<Rightarrow> (st, Some ErrAPIKeyNotFound)
      | Inr k \<Rightarrow>
          if ak_user k \<noteq> uid then (st, Some ErrResourceForbidden)
          else case key_revoke kid st of
                 (st, Some e) \<Rightarrow> (st, Some e)
               | (st, None) \<Rightarrow>
                   (iam_log now (empty_log\<lparr>al_actor := Some uid, al_action := ''apikey.revoked'',
                      al_rtype := ''apikey'', al_rid := Some kid, al_status := 200,
                      al_created := now\<rparr>) st, None))"

text \<open>
  Authentication reads the store; the goroutine it starts, \<open>UpdateLastUsed\<close>, is the separate
  operation \<open>key_touch\<close>.
\<close>

definition authenticate_api_key :: "crypt \<Rightarrow> gtime \<Rightarrow> string list \<Rightarrow> string \<Rightarrow> iam \<Rightarrow> subject result" where
  "authenticate_api_key cr now cs plain st =
     (case key_by_hash (cr_sha cr plain) st of
        Inl e \<Rightarrow> Inl ErrAPIKeyInvalid
      | Inr k \<Rightarrow>
          if \<not> key_valid now k then (if ak_revoked k then Inl ErrAPIKeyRevoked else Inl ErrAPIKeyExpired)
          else (case user_get (ak_user k) st of
                  Inl e \<Rightarrow> Inl ErrAccountDisabled
                | Inr u \<Rightarrow>
                    if \<not> us_active u then Inl ErrAccountDisabled
                    else Inr \<lparr>sub_type = ''api_key'', sub_id = ak_id k, sub_user = us_id u,
                           sub_username = us_name u, sub_email = us_email u, sub_roles = [],
                           sub_permissions = get_user_permissions cs (us_id u) st,
                           sub_scopes = ak_scopes k\<rparr>))"

section \<open>Two-factor enrollment\<close>

text \<open>\<open>generated\<close> is what the TOTP library returned: a secret and the address of its QR code.\<close>

definition setup_2fa :: "(string \<times> string) result \<Rightarrow> string \<Rightarrow> iam \<Rightarrow> (string \<times> string) result" where
  "setup_2fa generated uid st =
     (case user_get uid st of
        Inl e \<Rightarrow> Inl ErrUserNotFound
      | Inr u \<Rightarrow> if us_two_factor u then Inl ErrTOTPAlreadyEnabled else generated)"

definition enable_2fa ::
  "crypt \<Rightarrow> gtime \<Rightarrow> string \<Rightarrow> string \<Rightarrow> string \<Rightarrow> iam \<Rightarrow> iam \<times> go_error option" where
  "enable_2fa cr now uid sec code st =
     (case user_get uid st of
        Inl e \<Rightarrow> (st, Some ErrUserNotFound)
      | Inr u \<Rightarrow>
          if us_two_factor u then (st, Some ErrTOTPAlreadyEnabled)
          else if \<not> validate_code cr now sec code then (st, Some ErrTOTPInvalid)
          else (case cr_encrypt cr sec of
                  Inl e \<Rightarrow> (st, Some e)
                | Inr enc \<Rightarrow>
                    (case update_2fa now uid True enc st of
                       (st, Some e) \<Rightarrow> (st, Some e)
                     | (st, None) \<Rightarrow>
                         (iam_log now (empty_log\<lparr>al_actor := Some uid, al_action := ''auth.2fa.enabled'',
                            al_rtype := ''user'', al_rid := Some uid, al_status := 200,
                            al_created := now\<rparr>) st, None))))"

definition disable_2fa ::
  "crypt \<Rightarrow> gtime \<Rightarrow> string \<Rightarrow> string \<Rightarrow> string \<Rightarrow> iam \<Rightarrow> iam \<times> go_error option" where
  "disable_2fa cr now uid password code st =
     (case user_get uid st of
        Inl e \<Rightarrow> (st, Some ErrUserNotFound)
      | Inr u \<Rightarrow>
          if \<not> us_two_factor u then (st, Some ErrTOTPNotEnabled)
          else if cr_verify cr password (us_hash u) \<noteq> Inr True then (st, Some ErrInvalidCredentials)
          else (case cr_decrypt cr (us_secret u) of
                  Inl e \<Rightarrow> (st, Some e)
                | Inr sec \<Rightarrow>
                    if \<not> validate_code cr now sec code then (st, Some ErrTOTPInvalid)
                    else (case update_2fa now uid False '''' st of
                            (st, Some e) \<Rightarrow> (st, Some e)
                          | (st, None) \<Rightarrow>
                              (iam_log now (empty_log\<lparr>al_actor := Some uid, al_action := ''auth.2fa.disabled'',
                                 al_rtype := ''user'', al_rid := Some uid, al_status := 200,
                                 al_created := now\<rparr>) st, None))))"

section \<open>Authentication of a request\<close>

datatype http_reply = Rejected int string | Passed subject

text \<open>\<open>strings.SplitN(h, sep, 2)\<close>: the text before the first separator and the rest, if any.\<close>

fun cut :: "char \<Rightarrow> string \<Rightarrow> (string \<times> string) option" where
  "cut c [] = None"
| "cut c (x # xs) =
     (if x = c then Some ([], xs) else map_option (\<lambda>(a, b). (x # a, b)) (cut c xs))"

definition authenticate_request ::
  "crypt \<Rightarrow> gtime \<Rightarrow> string list \<Rightarrow> string \<Rightarrow> string \<Rightarrow> iam \<Rightarrow> http_reply" where
  "authenticate_request cr now cs key_header auth_header st =
     (if key_header \<noteq> ''''
      then (case authenticate_api_key cr now cs key_header st of
              Inl e \<Rightarrow> if e = ErrAPIKeyRevoked then Rejected 401 ''AUTH_API_KEY_REVOKED''
                      else if e = ErrAPIKeyExpired then Rejected 401 ''AUTH_API_KEY_EXPIRED''
                      else Rejected 401 ''AUTH_API_KEY_INVALID''
            | Inr s \<Rightarrow> Passed s)
      else if auth_header = '''' then Rejected 401 ''AUTH_UNAUTHORIZED''
      else (case cut (CHR '' '') auth_header of
              None \<Rightarrow> Rejected 401 ''AUTH_TOKEN_INVALID''
            | Some (scheme, tok) \<Rightarrow>
                if \<not> equal_fold scheme ''bearer'' then Rejected 401 ''AUTH_TOKEN_INVALID''
                else (case validate_access_token cr now tok of
                        Inl e \<Rightarrow> if e = ErrTokenExpired then Rejected 401 ''AUTH_TOKEN_EXPIRED''
                                else Rejected 401 ''AUTH_TOKEN_INVALID''
                      | Inr s \<Rightarrow> Passed s)))"

definition require_permission :: "string \<Rightarrow> subject option \<Rightarrow> http_reply" where
  "require_permission code sub =
     (case sub of
        None \<Rightarrow> Rejected 401 ''AUTH_UNAUTHORIZED''
      | Some s \<Rightarrow> if authorize (Some s) code None \<noteq> None
                  then Rejected 403 ''AUTH_INSUFFICIENT_PERMISSION'' else Passed s)"

text \<open>
  \<open>APIKeyHandler.Create\<close>: behind the authentication and nothing else, the key is created for
  the user of the subject.
\<close>

definition handle_create_key ::
  "crypt \<Rightarrow> gtime \<Rightarrow> string list \<Rightarrow> string \<Rightarrow> string option \<Rightarrow> string \<Rightarrow> string \<Rightarrow> create_key_request \<Rightarrow>
     iam \<Rightarrow> iam \<times> (api_key \<times> string) option" where
  "handle_create_key cr now cs kid rnd key_header auth_header rq st =
     (case authenticate_request cr now cs key_header auth_header st of
        Rejected code text \<Rightarrow> (st, None)
      | Passed sub \<Rightarrow>
          (case create_api_key cr now kid rnd (sub_user sub) rq st of
             (st, Inl e) \<Rightarrow> (st, None)
           | (st, Inr r) \<Rightarrow> (st, Some r)))"

end
