(* ===== verification/Session_Security.thy ===== *)
theory Session_Security
  imports Api_Access
begin

text \<open>
  What login, refresh rotation, two-factor authentication and API keys guarantee over any
  sequence of requests. \<open>iam_step\<close> is one request to the services of \<open>app/auth\<close>,
  \<open>app/account\<close> and \<open>app/apikeys\<close>, run without interleaving; identifiers and random tokens
  are drawn fresh. The race that interleaving allows is the theorem \<open>concurrent_refresh_forks\<close>.
\<close>

section \<open>Requests as steps\<close>

definition fresh_draws :: "crypt \<Rightarrow> iam \<Rightarrow> draws \<Rightarrow> bool" where
  "fresh_draws cr st d \<longleftrightarrow>
     (\<forall>p. dr_refresh d = Some p \<longrightarrow> im_sessions st (cr_sha cr p) = None) \<and>
     (\<forall>h s. im_sessions st h = Some s \<longrightarrow> se_id s \<noteq> dr_session d \<and> se_family s \<noteq> dr_family d) \<and>
     dom (im_sessions st) \<subseteq> set (dr_sessions d)"

inductive iam_step :: "crypt \<Rightarrow> iam \<Rightarrow> iam \<Rightarrow> bool" for cr where
  register: "iterates (im_users st) ks \<Longrightarrow> iterates (im_roles st) rs \<Longrightarrow> im_users st uid = None \<Longrightarrow>
     register now uid gid hashed ks rs rq st = (st', r) \<Longrightarrow> iam_step cr st st'"
| login: "fresh_draws cr st d \<Longrightarrow> login cr now d lq st = (st', lr) \<Longrightarrow> iam_step cr st st'"
| verify_totp: "fresh_draws cr st d \<Longrightarrow>
     verify_totp cr now d challenge code ip agent st = (st', lr) \<Longrightarrow> iam_step cr st st'"
| refresh: "fresh_draws cr st d \<Longrightarrow> refresh_session cr now d tok ip agent st = (st', tp) \<Longrightarrow>
     iam_step cr st st'"
| logout: "fresh_draws cr st d \<Longrightarrow> iam_step cr st (logout cr now d tok st)"
| create_key: "im_keys st kid = None \<Longrightarrow> (\<forall>x. rnd = Some x \<longrightarrow> im_keys_by_h st (cr_sha cr (''aur_live_'' @ x)) = None) \<Longrightarrow>
     create_api_key cr now kid rnd uid kq st = (st', kr) \<Longrightarrow> iam_step cr st st'"
| revoke_key: "revoke_api_key now uid kid st = (st', e) \<Longrightarrow> iam_step cr st st'"
| touch_key: "key_touch now kid st = (st', e) \<Longrightarrow> iam_step cr st st'"
| enable_2fa: "enable_2fa cr now uid sec code st = (st', e) \<Longrightarrow> iam_step cr st st'"
| disable_2fa: "disable_2fa cr now uid pw code st = (st', e) \<Longrightarrow> iam_step cr st st'"

section \<open>How sessions evolve\<close>

definition sessions_ok :: "iam \<Rightarrow> bool" where
  "sessions_ok st \<longleftrightarrow>
     (\<forall>h s. im_sessions st h = Some s \<longrightarrow> se_hash s = h) \<and>
     (\<forall>h h' s s'. im_sessions st h = Some s \<longrightarrow> im_sessions st h' = Some s' \<longrightarrow> se_id s = se_id s' \<longrightarrow> h = h')"

definition same_session :: "session \<Rightarrow> session \<Rightarrow> bool" where
  "same_session s s' \<longleftrightarrow> se_id s' = se_id s \<and> se_user s' = se_user s \<and> se_hash s' = se_hash s \<and>
     se_family s' = se_family s \<and> se_expires s' = se_expires s \<and> (se_revoked s \<longrightarrow> se_revoked s')"

text \<open>
  Old sessions keep their identity and never lose their revocation; at most one session is
  new, and its family is new or has a session that was not revoked.
\<close>

definition sess_evolve :: "iam \<Rightarrow> iam \<Rightarrow> bool" where
  "sess_evolve st st' \<longleftrightarrow>
     (\<forall>h s. im_sessions st h = Some s \<longrightarrow> (\<exists>s'. im_sessions st' h = Some s' \<and> same_session s s')) \<and>
     (\<forall>h s. im_sessions st h = None \<longrightarrow> im_sessions st' h = Some s \<longrightarrow>
        se_hash s = h \<and> (\<forall>h0 s0. im_sessions st h0 = Some s0 \<longrightarrow> se_id s0 \<noteq> se_id s) \<and>
        ((\<forall>h0 s0. im_sessions st h0 = Some s0 \<longrightarrow> se_family s0 \<noteq> se_family s) \<or>
         (\<exists>h0 s0. im_sessions st h0 = Some s0 \<and> se_family s0 = se_family s \<and> \<not> se_revoked s0))) \<and>
     (\<exists>hn. \<forall>h. im_sessions st h = None \<longrightarrow> im_sessions st' h \<noteq> None \<longrightarrow> h = hn)"

lemma same_session_refl [simp]: "same_session s s"
  by (simp add: same_session_def)

lemma evolve_same: "im_sessions st' = im_sessions st \<Longrightarrow> sess_evolve st st'"
  by (auto simp: sess_evolve_def)

lemma evolve_create:
  assumes "im_sessions st' = (im_sessions st)(se_hash s \<mapsto> s)" and "im_sessions st (se_hash s) = None"
    and "\<forall>h0 s0. im_sessions st h0 = Some s0 \<longrightarrow> se_id s0 \<noteq> se_id s"
    and "(\<forall>h0 s0. im_sessions st h0 = Some s0 \<longrightarrow> se_family s0 \<noteq> se_family s) \<or>
         (\<exists>h0 s0. im_sessions st h0 = Some s0 \<and> se_family s0 = se_family s \<and> \<not> se_revoked s0)"
  shows "sess_evolve st st'"
  unfolding sess_evolve_def
proof (intro conjI allI impI)
  show "\<exists>s'. im_sessions st' h = Some s' \<and> same_session t s'" if "im_sessions st h = Some t" for h t
    using assms(1,2) that by auto
  show "\<exists>hn. \<forall>h. im_sessions st h = None \<longrightarrow> im_sessions st' h \<noteq> None \<longrightarrow> h = hn"
    using assms(1) by (intro exI [of _ "se_hash s"]) (auto split: if_splits)
qed (use assms in \<open>auto split: if_splits\<close>)

text \<open>A map of the sessions in place followed by any such change is such a change again.\<close>

lemma evolve_after_map:
  assumes "sess_evolve st st1"
    and "\<And>h. im_sessions st2 h = map_option (f h) (im_sessions st1 h)" and "\<And>h s. same_session s (f h s)"
  shows "sess_evolve st st2"
proof -
  have inv: "(\<forall>h s. im_sessions st h = Some s \<longrightarrow> (\<exists>s'. im_sessions st1 h = Some s' \<and> same_session s s'))"
    and new: "\<And>h s. im_sessions st h = None \<Longrightarrow> im_sessions st1 h = Some s \<Longrightarrow>
        se_hash s = h \<and> (\<forall>h0 s0. im_sessions st h0 = Some s0 \<longrightarrow> se_id s0 \<noteq> se_id s) \<and>
        ((\<forall>h0 s0. im_sessions st h0 = Some s0 \<longrightarrow> se_family s0 \<noteq> se_family s) \<or>
         (\<exists>h0 s0. im_sessions st h0 = Some s0 \<and> se_family s0 = se_family s \<and> \<not> se_revoked s0))"
    and one: "\<exists>hn. \<forall>h. im_sessions st h = None \<longrightarrow> im_sessions st1 h \<noteq> None \<longrightarrow> h = hn"
    using assms(1) by (auto simp: sess_evolve_def)
  have same: "se_id (f h s) = se_id s" "se_hash (f h s) = se_hash s" "se_family (f h s) = se_family s" for h s
    using assms(3) [of s h] by (simp_all add: same_session_def)
  have trans: "same_session s t \<Longrightarrow> same_session s (f h t)" for h s t
    using assms(3) [of t h] by (auto simp: same_session_def)
  show ?thesis
    unfolding sess_evolve_def
  proof (intro conjI)
    show "\<forall>h s. im_sessions st h = Some s \<longrightarrow> (\<exists>s'. im_sessions st2 h = Some s' \<and> same_session s s')"
      using inv trans assms(2) by fastforce
    show "\<forall>h s. im_sessions st h = None \<longrightarrow> im_sessions st2 h = Some s \<longrightarrow>
        se_hash s = h \<and> (\<forall>h0 s0. im_sessions st h0 = Some s0 \<longrightarrow> se_id s0 \<noteq> se_id s) \<and>
        ((\<forall>h0 s0. im_sessions st h0 = Some s0 \<longrightarrow> se_family s0 \<noteq> se_family s) \<or>
         (\<exists>h0 s0. im_sessions st h0 = Some s0 \<and> se_family s0 = se_family s \<and> \<not> se_revoked s0))"
    proof (intro allI impI)
      fix h s assume "im_sessions st h = None" "im_sessions st2 h = Some s"
      moreover then obtain t where "im_sessions st1 h = Some t" "s = f h t" using assms(2) by auto
      ultimately show "se_hash s = h \<and> (\<forall>h0 s0. im_sessions st h0 = Some s0 \<longrightarrow> se_id s0 \<noteq> se_id s) \<and>
        ((\<forall>h0 s0. im_sessions st h0 = Some s0 \<longrightarrow> se_family s0 \<noteq> se_family s) \<or>
         (\<exists>h0 s0. im_sessions st h0 = Some s0 \<and> se_family s0 = se_family s \<and> \<not> se_revoked s0))"
        using new [of h t] same by simp
    qed
    show "\<exists>hn. \<forall>h. im_sessions st h = None \<longrightarrow> im_sessions st2 h \<noteq> None \<longrightarrow> h = hn"
      using one assms(2) by auto
  qed
qed

subsection \<open>Operations\<close>

lemma iam_log_frame [simp]:
  "im_sessions (iam_log now l st) = im_sessions st" "im_users (iam_log now l st) = im_users st"
  "im_grants (iam_log now l st) = im_grants st" "im_roles (iam_log now l st) = im_roles st"
  "im_kheap (iam_log now l st) = im_kheap st" "im_keys (iam_log now l st) = im_keys st"
  "im_keys_by_h (iam_log now l st) = im_keys_by_h st" "im_knext (iam_log now l st) = im_knext st"
  by (simp_all add: iam_log_def)

lemma update_last_login_frame [simp]:
  "im_sessions (fst (update_last_login now uid st)) = im_sessions st"
  "im_grants (fst (update_last_login now uid st)) = im_grants st"
  "im_roles (fst (update_last_login now uid st)) = im_roles st"
  "im_kheap (fst (update_last_login now uid st)) = im_kheap st"
  "im_keys (fst (update_last_login now uid st)) = im_keys st"
  "im_keys_by_h (fst (update_last_login now uid st)) = im_keys_by_h st"
  "im_knext (fst (update_last_login now uid st)) = im_knext st"
  "dom (im_users (fst (update_last_login now uid st))) = dom (im_users st)"
  by (auto simp: update_last_login_def modify_user_def split: option.splits if_splits)

lemma new_session_simps [simp]:
  "se_hash (new_session now sid uid h fam ua ip) = h" "se_id (new_session now sid uid h fam ua ip) = sid"
  "se_family (new_session now sid uid h fam ua ip) = fam" "se_user (new_session now sid uid h fam ua ip) = uid"
  "\<not> se_revoked (new_session now sid uid h fam ua ip)"
  "se_expires (new_session now sid uid h fam ua ip) = now + 7 * 24 * hour"
  by (simp_all add: new_session_def)

text \<open>The two shapes of a state in which a token was issued, or was not.\<close>

lemma issue_tokens_cases:
  assumes "issue_tokens cr now d u ip ua fam st = (st', r)"
  obtains (fail) e where "st' = st" "r = Inl e"
  | (ok) p tp where "dr_refresh d = Some p" "r = Inr tp" "tp_refresh tp = p"
      "st' = session_create (new_session now (dr_session d) (us_id u) (cr_sha cr p) fam ua ip) st"
  using assms
  by (auto simp: issue_tokens_def roles_and_permissions_def generate_refresh_token_def hash_refresh_token_def
      split: sum.splits option.splits)

lemma finish_login_cases:
  assumes "finish_login cr now d act u ip ua st = (st', r)"
  obtains (fail) e where "st' = st" "r = Inl e"
  | (ok) p tp lr where "dr_refresh d = Some p" "r = Inr lr" "\<not> lr_requires_2fa lr" "lr_tokens lr = Some tp"
      "tp_refresh tp = p"
      "im_sessions st' = (im_sessions st)(cr_sha cr p \<mapsto>
         new_session now (dr_session d) (us_id u) (cr_sha cr p) (dr_family d) ua ip)"
proof -
  obtain st1 r1 where i: "issue_tokens cr now d u ip ua (dr_family d) st = (st1, r1)" by fastforce
  from i show thesis
  proof (cases rule: issue_tokens_cases)
    case (fail e)
    with assms i that(1) show thesis by (auto simp: finish_login_def)
  next
    case (ok p tp)
    with assms i that(2) show thesis
      by (auto simp: finish_login_def roles_and_permissions_def session_create_def)
  qed
qed

lemma evolve_finish_login:
  assumes "fresh_draws cr st d" and "finish_login cr now d act u ip ua st = (st', r)"
  shows "sess_evolve st st'"
  using assms(2)
proof (cases rule: finish_login_cases)
  case (ok p tp lr)
  with assms(1) show ?thesis
    by (intro evolve_create [where s = "new_session now (dr_session d) (us_id u) (cr_sha cr p) (dr_family d) ua ip"])
      (auto simp: fresh_draws_def)
qed (simp add: evolve_same)

lemma session_revoke_map:
  obtains f where "\<And>h. im_sessions (session_revoke now ks sid repl st) h = map_option (f h) (im_sessions st h)"
    "\<And>h s. same_session s (f h s)"
proof -
  let ?k = "find_key (im_sessions st) (\<lambda>s. se_id s = sid) ks"
  let ?f = "\<lambda>h s. if ?k = Some h
    then s\<lparr>se_revoked := True, se_revoked_at := Some now, se_replaced := repl\<rparr> else s"
  have "im_sessions (session_revoke now ks sid repl st) h = map_option (?f h) (im_sessions st h)" for h
    by (cases ?k; cases "im_sessions st h") (auto simp: session_revoke_def)
  moreover have "same_session s (?f h s)" for h s
    by (simp add: same_session_def)
  ultimately show thesis by (rule that)
qed

lemma session_revoke_frame [simp]:
  "im_users (session_revoke now ks sid repl st) = im_users st"
  "im_grants (session_revoke now ks sid repl st) = im_grants st"
  "im_roles (session_revoke now ks sid repl st) = im_roles st"
  "im_kheap (session_revoke now ks sid repl st) = im_kheap st"
  "im_keys (session_revoke now ks sid repl st) = im_keys st"
  "im_keys_by_h (session_revoke now ks sid repl st) = im_keys_by_h st"
  "im_knext (session_revoke now ks sid repl st) = im_knext st"
  by (simp_all add: session_revoke_def split: option.splits)

lemma session_frame [simp]:
  "im_users (session_create s st) = im_users st" "im_users (revoke_where now P st) = im_users st"
  "im_grants (session_create s st) = im_grants st" "im_grants (revoke_where now P st) = im_grants st"
  "im_roles (session_create s st) = im_roles st" "im_roles (revoke_where now P st) = im_roles st"
  "im_kheap (session_create s st) = im_kheap st" "im_kheap (revoke_where now P st) = im_kheap st"
  "im_keys (session_create s st) = im_keys st" "im_keys (revoke_where now P st) = im_keys st"
  "im_keys_by_h (session_create s st) = im_keys_by_h st" "im_keys_by_h (revoke_where now P st) = im_keys_by_h st"
  "im_knext (session_create s st) = im_knext st" "im_knext (revoke_where now P st) = im_knext st"
  by (simp_all add: session_create_def revoke_where_def)

text \<open>With unique identifiers, \<open>Revoke\<close> reaches the session it means.\<close>

lemma session_revoke_hits:
  assumes "sessions_ok st" and "im_sessions st h = Some s" and "h \<in> set ks"
  shows "im_sessions (session_revoke now ks (se_id s) repl st) =
    (im_sessions st)(h \<mapsto> s\<lparr>se_revoked := True, se_revoked_at := Some now, se_replaced := repl\<rparr>)"
proof -
  from assms(3) obtain k where k: "find_key (im_sessions st) (\<lambda>t. se_id t = se_id s) ks = Some k"
    using assms(2) by (cases "find_key (im_sessions st) (\<lambda>t. se_id t = se_id s) ks") (auto simp: find_key_None)
  then obtain t where "im_sessions st k = Some t" "se_id t = se_id s" by (rule find_key_Some) blast
  with assms(1,2) have "k = h" unfolding sessions_ok_def by metis
  with k assms(2) show ?thesis by (simp add: session_revoke_def)
qed

text \<open>The ways a refresh with a session at hand can end.\<close>

lemma refresh_with_cases:
  assumes "refresh_with cr now d s ip ua st = (st', r)"
  obtains (reused) "se_revoked s" "r = Inl ErrRefreshTokenReused"
      "im_sessions st' = im_sessions (revoke_family now (se_family s) st)"
  | (fail) e where "\<not> se_revoked s" "r = Inl e" "e \<noteq> ErrRefreshTokenReused" "st' = st"
  | (rotated) p u where "\<not> se_revoked s" "now \<le> se_expires s" "im_users st (se_user s) = Some u" "us_active u"
      "dr_refresh d = Some p" "\<And>tp. r = Inr tp \<Longrightarrow> tp_refresh tp = p"
      "st' = session_revoke now (dr_sessions d) (se_id s) (Some (dr_session d))
        (session_create (new_session now (dr_session d) (us_id u) (cr_sha cr p) (se_family s) ua ip) st)"
proof (cases "se_revoked s")
  case True
  with assms that(1) show thesis by (auto simp: refresh_with_def)
next
  case False
  show thesis
  proof (cases "\<exists>p u. dr_refresh d = Some p \<and> im_users st (se_user s) = Some u \<and> us_active u \<and> \<not> se_expires s < now")
    case True
    then obtain p u where "dr_refresh d = Some p" "im_users st (se_user s) = Some u" "us_active u" "\<not> se_expires s < now"
      by blast
    with False assms that(3) [of u p] show thesis
      by (auto simp: refresh_with_def user_get_def generate_refresh_token_def hash_refresh_token_def
          roles_and_permissions_def Let_def split: sum.splits)
  next
    case no: False
    with False assms that(2) show thesis
      by (auto simp: refresh_with_def user_get_def generate_refresh_token_def split: option.splits if_splits)
  qed
qed

lemma evolve_refresh_with:
  assumes "fresh_draws cr st d" and "im_sessions st h = Some s"
    and "refresh_with cr now d s ip ua st = (st', r)"
  shows "sess_evolve st st'"
  using assms(3)
proof (cases rule: refresh_with_cases)
  case reused
  then show ?thesis
    by (intro evolve_after_map [OF evolve_same [OF refl],
        where f = "\<lambda>_ t. if se_family t = se_family s then t\<lparr>se_revoked := True, se_revoked_at := Some now\<rparr> else t"])
      (auto simp: revoke_family_def revoke_where_def same_session_def)
next
  case (fail e)
  then show ?thesis by (simp add: evolve_same)
next
  case (rotated p u)
  let ?n = "new_session now (dr_session d) (us_id u) (cr_sha cr p) (se_family s) ua ip"
  have "sess_evolve st (session_create ?n st)"
    using assms(1,2) rotated by (intro evolve_create [where s = ?n]) (auto simp: fresh_draws_def session_create_def)
  moreover obtain f where "\<And>h. im_sessions st' h = map_option (f h) (im_sessions (session_create ?n st) h)"
    "\<And>h s. same_session s (f h s)"
    unfolding rotated by (rule session_revoke_map) blast
  ultimately show ?thesis by (rule evolve_after_map)
qed

lemma evolve_refresh:
  assumes "fresh_draws cr st d" and "refresh_session cr now d tok ip ua st = (st', r)"
  shows "sess_evolve st st'"
  using assms evolve_refresh_with [OF assms(1)]
  by (auto simp: refresh_session_def session_by_hash_def evolve_same split: option.splits)

lemma evolve_logout: "sess_evolve st (logout cr now d tok st)"
proof (cases "im_sessions st (cr_sha cr tok)")
  case None
  then show ?thesis by (simp add: logout_def session_by_hash_def hash_refresh_token_def evolve_same)
next
  case (Some s)
  obtain f where f: "\<And>h. im_sessions (session_revoke now (dr_sessions d) (se_id s) None st) h =
      map_option (f h) (im_sessions st h)" "\<And>h s. same_session s (f h s)"
    by (rule session_revoke_map [of now "dr_sessions d" "se_id s" None st]) blast
  show ?thesis
    by (rule evolve_after_map [OF evolve_same [OF refl] _ f(2)])
      (simp add: logout_def Some session_by_hash_def hash_refresh_token_def f(1))
qed

lemma evolve_login:
  assumes "fresh_draws cr st d" and "login cr now d rq st = (st', r)"
  shows "sess_evolve st st'"
  using assms evolve_finish_login [OF assms(1)]
  by (auto simp: login_def evolve_same split: sum.splits if_splits)

lemma evolve_verify_totp:
  assumes "fresh_draws cr st d" and "verify_totp cr now d ch code ip ua st = (st', r)"
  shows "sess_evolve st st'"
  using assms evolve_finish_login [OF assms(1)]
  by (auto simp: verify_totp_def evolve_same split: sum.splits if_splits)

lemma user_ops_frame:
  assumes "modify_user uid f st = (st', e)"
  shows "im_sessions st' = im_sessions st" "im_grants st' = im_grants st" "im_roles st' = im_roles st"
    "im_kheap st' = im_kheap st" "im_keys st' = im_keys st" "im_keys_by_h st' = im_keys_by_h st"
    "im_knext st' = im_knext st" "dom (im_users st') = dom (im_users st)"
  using assms by (auto simp: modify_user_def split: option.splits if_splits)

lemma key_ops_frame:
  assumes "modify_key kid f st = (st', e)"
  shows "im_sessions st' = im_sessions st" "im_grants st' = im_grants st" "im_roles st' = im_roles st"
    "im_users st' = im_users st" "im_keys st' = im_keys st" "im_keys_by_h st' = im_keys_by_h st"
    "im_knext st' = im_knext st"
  using assms by (auto simp: modify_key_def split: option.splits)

lemma register_cases:
  assumes "register now uid gid hashed ks rs rq st = (st', r)"
  obtains (fail) e where "st' = st" "r = Inl e"
  | (ok) h where "hashed = Inr h" "r = Inr (new_user now uid h rq)" "8 \<le> length (rq_password rq)"
      "user_clash (new_user now uid h rq) (vals (im_users st) ks) = None"
      "im_users st' = (im_users st)(uid \<mapsto> new_user now uid h rq)"
      "im_sessions st' = im_sessions st" "im_roles st' = im_roles st"
      "im_kheap st' = im_kheap st" "im_keys st' = im_keys st" "im_keys_by_h st' = im_keys_by_h st"
      "im_knext st' = im_knext st"
      "im_grants st' = (case role_by_name rs (if user_count ks st = 0 then ''superadmin'' else ''customer'') st of
         Inl e \<Rightarrow> im_grants st
       | Inr ro \<Rightarrow> (im_grants st)(uid := im_grants st uid @ [\<lparr>gr_id = gid, gr_user = uid, gr_role = rl_id ro,
           gr_name = rl_name ro, gr_scope_type = ''global'', gr_scope = None, gr_by = None, gr_created = now\<rparr>]))"
proof (cases hashed)
  case (Inl e)
  with assms that(1) show thesis by (auto simp: register_def split: if_splits)
next
  case (Inr h)
  show thesis
  proof (cases "length (rq_password rq) < 8 \<or> user_clash (new_user now uid h rq) (vals (im_users st) ks) \<noteq> None")
    case True
    with assms Inr that(1) show thesis
      by (auto simp: register_def user_create_def Let_def split: if_splits option.splits)
  next
    case False
    have rn: "role_by_name rs n (st\<lparr>im_users := us\<rparr>) = role_by_name rs n st" for n us
      by (simp add: role_by_name_def)
    have [simp]: "us_id (new_user now uid h rq) = uid" by (simp add: new_user_def)
    show thesis
    proof (rule that(2) [OF Inr])
    qed (use assms Inr False in \<open>auto simp: register_def user_create_def Let_def assign_role_def rn split: sum.splits if_splits\<close>)
  qed
qed

lemma create_api_key_cases:
  assumes "create_api_key cr now kid rnd uid rq st = (st', r)"
  obtains (fail) e where "st' = st" "r = Inl e"
  | (ok) u x k l where "im_users st uid = Some u" "rnd = Some x" "kq_name rq \<noteq> ''''" "r = Inr (k, ''aur_live_'' @ x)"
      "k = \<lparr>ak_id = kid, ak_user = us_id u, ak_name = kq_name rq, ak_hash = cr_sha cr (''aur_live_'' @ x),
         ak_prefix = ''aur_live_'' @ take 6 x @ ''...'', ak_scopes = kq_scopes rq, ak_used = None,
         ak_expires = kq_expires rq, ak_created = now, ak_revoked = False\<rparr>"
      "st' = iam_log now l (key_create k st)"
  using assms by (auto simp: create_api_key_def user_get_def Let_def split: option.splits if_splits)

lemma revoke_api_key_cases:
  assumes "revoke_api_key now uid kid st = (st', e)"
  obtains (fail) "st' = st" "e \<noteq> None"
  | (ok) a k l where "e = None" "im_keys st kid = Some a" "im_kheap st a = Some k" "ak_user k = uid"
      "st' = iam_log now l (st\<lparr>im_kheap := (im_kheap st)(a \<mapsto> k\<lparr>ak_revoked := True\<rparr>)\<rparr>)"
proof (cases "\<exists>a k. im_keys st kid = Some a \<and> im_kheap st a = Some k \<and> ak_user k = uid")
  case True
  then obtain a k where ak: "im_keys st kid = Some a" "im_kheap st a = Some k" "ak_user k = uid" by blast
  with assms have "e = None" by (auto simp: revoke_api_key_def key_get_def deref_key_def key_revoke_def modify_key_def)
  from ok [OF this ak] ak assms show thesis
    by (auto simp: revoke_api_key_def key_get_def deref_key_def key_revoke_def modify_key_def)
next
  case False
  with assms have "st' = st \<and> e \<noteq> None"
    by (auto simp: revoke_api_key_def key_get_def deref_key_def split: option.splits if_splits)
  then show thesis by (intro fail) simp_all
qed

lemma enable_2fa_cases:
  assumes "enable_2fa cr now uid sec code st = (st', e)"
  obtains (fail) "st' = st" "e \<noteq> None"
  | (ok) u enc l where "e = None" "im_users st uid = Some u" "validate_code cr now sec code" "cr_encrypt cr sec = Inr enc"
      "st' = iam_log now l (st\<lparr>im_users := (im_users st)(uid \<mapsto>
         u\<lparr>us_two_factor := True, us_secret := enc, us_updated := now\<rparr>)\<rparr>)"
  using assms
  by (auto simp: enable_2fa_def user_get_def update_2fa_def modify_user_def
      split: option.splits if_splits sum.splits)

lemma disable_2fa_cases:
  assumes "disable_2fa cr now uid pw code st = (st', e)"
  obtains (fail) "st' = st" "e \<noteq> None"
  | (ok) u sec l where "e = None" "im_users st uid = Some u" "cr_verify cr pw (us_hash u) = Inr True"
      "cr_decrypt cr (us_secret u) = Inr sec" "validate_code cr now sec code"
      "st' = iam_log now l (st\<lparr>im_users := (im_users st)(uid \<mapsto>
         u\<lparr>us_two_factor := False, us_secret := '''', us_updated := now\<rparr>)\<rparr>)"
  using assms
  by (auto simp: disable_2fa_def user_get_def update_2fa_def modify_user_def
      split: option.splits if_splits sum.splits)

lemma step_evolves: "iam_step cr st st' \<Longrightarrow> sess_evolve st st'"
proof (induction rule: iam_step.induct)
  case (register st ks rs uid now gid hashed rq st' r)
  from register(4) show ?case by (cases rule: register_cases) (simp_all add: evolve_same)
next
  case (create_key st kid rnd now uid kq st' kr)
  from create_key(3) show ?case by (cases rule: create_api_key_cases) (simp_all add: evolve_same key_create_def Let_def)
next
  case (revoke_key now uid kid st st' e)
  from revoke_key show ?case by (cases rule: revoke_api_key_cases) (simp_all add: evolve_same)
next
  case (touch_key now kid st st' e)
  then show ?case by (auto simp: key_touch_def intro: evolve_same dest: key_ops_frame(1))
next
  case (enable_2fa now uid sec code st st' e)
  from enable_2fa show ?case by (cases rule: enable_2fa_cases) (simp_all add: evolve_same)
next
  case (disable_2fa now uid pw code st st' e)
  from disable_2fa show ?case by (cases rule: disable_2fa_cases) (simp_all add: evolve_same)
qed (auto intro: evolve_login evolve_verify_totp evolve_refresh evolve_logout)

section \<open>Invariants\<close>

definition spent :: "string \<Rightarrow> iam \<Rightarrow> bool" where
  "spent h st \<longleftrightarrow> (\<exists>s. im_sessions st h = Some s \<and> se_revoked s)"

definition burnt :: "string \<Rightarrow> iam \<Rightarrow> bool" where
  "burnt fam st \<longleftrightarrow> (\<exists>h s. im_sessions st h = Some s \<and> se_family s = fam) \<and>
     (\<forall>h s. im_sessions st h = Some s \<longrightarrow> se_family s = fam \<longrightarrow> se_revoked s)"

lemma evolve_keeps_ok:
  assumes "sessions_ok st" and "sess_evolve st st'"
  shows "sessions_ok st'"
proof -
  have old: "\<exists>s'. im_sessions st' h = Some s' \<and> same_session s s'" if "im_sessions st h = Some s" for h s
    using assms(2) that by (auto simp: sess_evolve_def)
  have new: "se_hash s = h \<and> (\<forall>h0 s0. im_sessions st h0 = Some s0 \<longrightarrow> se_id s0 \<noteq> se_id s)"
    if "im_sessions st h = None" "im_sessions st' h = Some s" for h s
    using assms(2) that by (auto simp: sess_evolve_def)
  obtain hn where one: "\<And>h. im_sessions st h = None \<Longrightarrow> im_sessions st' h \<noteq> None \<Longrightarrow> h = hn"
    using assms(2) by (auto simp: sess_evolve_def)
  have ids: "h = h'" if "im_sessions st h = Some s" "im_sessions st h' = Some s'" "se_id s = se_id s'" for h h' s s'
    using assms(1) that unfolding sessions_ok_def by blast
  have hs: "se_hash s = h" if "im_sessions st h = Some s" for h s
    using assms(1) that unfolding sessions_ok_def by blast
  show ?thesis
    unfolding sessions_ok_def
  proof (intro conjI allI impI)
    fix h s assume s: "im_sessions st' h = Some s"
    show "se_hash s = h"
    proof (cases "im_sessions st h")
      case None with new [OF None s] show ?thesis by simp
    next
      case (Some t) with old [OF Some] s hs [OF Some] show ?thesis by (auto simp: same_session_def)
    qed
  next
    fix h h' s s' assume a: "im_sessions st' h = Some s" "im_sessions st' h' = Some s'" "se_id s = se_id s'"
    show "h = h'"
    proof (cases "im_sessions st h"; cases "im_sessions st h'")
      assume "im_sessions st h = None" "im_sessions st h' = None"
      with one [of h] one [of h'] a show ?thesis by simp
    next
      fix t assume "im_sessions st h = None" "im_sessions st h' = Some t"
      with new [of h s] old [of h' t] a show ?thesis by (auto simp: same_session_def)
    next
      fix t assume "im_sessions st h = Some t" "im_sessions st h' = None"
      with new [of h' s'] old [of h t] a show ?thesis by (auto simp: same_session_def)
    next
      fix t t' assume "im_sessions st h = Some t" "im_sessions st h' = Some t'"
      moreover with old [of h t] old [of h' t'] a have "se_id t = se_id t'" by (auto simp: same_session_def)
      ultimately show ?thesis by (rule ids)
    qed
  qed
qed

lemma evolve_keeps_spent: "spent h st \<Longrightarrow> sess_evolve st st' \<Longrightarrow> spent h st'"
  unfolding spent_def sess_evolve_def same_session_def by blast

lemma evolve_keeps_burnt:
  assumes "burnt fam st" and "sess_evolve st st'"
  shows "burnt fam st'"
proof -
  obtain h0 s0 where s0: "im_sessions st h0 = Some s0" "se_family s0 = fam"
    using assms(1) by (auto simp: burnt_def)
  then obtain s1 where "im_sessions st' h0 = Some s1" "same_session s0 s1"
    using assms(2) unfolding sess_evolve_def by blast
  with s0 have "\<exists>h s. im_sessions st' h = Some s \<and> se_family s = fam" by (auto simp: same_session_def)
  moreover have "se_revoked s" if s: "im_sessions st' h = Some s" "se_family s = fam" for h s
  proof (cases "im_sessions st h")
    case None
    then have "(\<forall>h0 s0. im_sessions st h0 = Some s0 \<longrightarrow> se_family s0 \<noteq> se_family s) \<or>
      (\<exists>h0 s0. im_sessions st h0 = Some s0 \<and> se_family s0 = se_family s \<and> \<not> se_revoked s0)"
      using assms(2) s(1) unfolding sess_evolve_def by blast
    with assms(1) s0 s(2) show ?thesis unfolding burnt_def by metis
  next
    case (Some t)
    then obtain s' where "im_sessions st' h = Some s'" "same_session t s'"
      using assms(2) unfolding sess_evolve_def by blast
    with s(1) have "same_session t s" by simp
    with Some assms(1) s(2) show ?thesis by (auto simp: same_session_def burnt_def)
  qed
  ultimately show ?thesis by (auto simp: burnt_def)
qed

interpretation sessions: invariant_machine "iam_step cr" sessions_ok for cr
  by unfold_locales (rule evolve_keeps_ok [OF _ step_evolves])

interpretation spent_tokens: invariant_machine "iam_step cr" "spent h" for cr h
  by unfold_locales (rule evolve_keeps_spent [OF _ step_evolves])

interpretation burnt_families: invariant_machine "iam_step cr" "burnt fam" for cr fam
  by unfold_locales (rule evolve_keeps_burnt [OF _ step_evolves])

section \<open>Properties of sessions\<close>

lemma rotate_effect:
  assumes "sessions_ok q" and "fresh_draws cr q d" and "dr_refresh d = Some p" and "im_sessions q h = Some t"
  shows "im_sessions (session_revoke now (dr_sessions d) (se_id t) x
      (session_create (new_session now (dr_session d) uid (cr_sha cr p) fam ua ip) q)) =
    (im_sessions q)(cr_sha cr p \<mapsto> new_session now (dr_session d) uid (cr_sha cr p) fam ua ip,
      h \<mapsto> t\<lparr>se_revoked := True, se_revoked_at := Some now, se_replaced := x\<rparr>)"
proof -
  let ?n = "new_session now (dr_session d) uid (cr_sha cr p) fam ua ip"
  have fresh: "im_sessions q (cr_sha cr p) = None" using assms(2,3) by (simp add: fresh_draws_def)
  have ok: "sessions_ok (session_create ?n q)"
    using assms(1,2) by (auto simp: sessions_ok_def session_create_def fresh_draws_def) metis
  have at: "im_sessions (session_create ?n q) h = Some t" using assms(4) fresh by (auto simp: session_create_def)
  have "h \<in> set (dr_sessions d)" using assms(2,4) by (auto simp: fresh_draws_def)
  from session_revoke_hits [OF ok at this] show ?thesis by (simp add: session_create_def)
qed

lemma refresh_rotates:
  assumes "sessions_ok st" and "fresh_draws cr st d"
    and "refresh_session cr now d tok ip ua st = (st', Inr tp)"
  obtains s n where "im_sessions st (cr_sha cr tok) = Some s" "\<not> se_revoked s" "spent (cr_sha cr tok) st'"
    "im_sessions st' (cr_sha cr (tp_refresh tp)) = Some n" "\<not> se_revoked n" "se_family n = se_family s"
proof -
  from assms(3) obtain s where s: "im_sessions st (cr_sha cr tok) = Some s"
    and w: "refresh_with cr now d s ip ua st = (st', Inr tp)"
    by (auto simp: refresh_session_def session_by_hash_def hash_refresh_token_def split: option.splits)
  from w show thesis
  proof (cases rule: refresh_with_cases)
    case (rotated p u)
    have "cr_sha cr p \<noteq> cr_sha cr tok" using s assms(2) rotated(5) by (auto simp: fresh_draws_def)
    with rotate_effect [OF assms(1,2) rotated(5) s] s rotated(1,6) show thesis
      by (intro that [of s "new_session now (dr_session d) (us_id u) (cr_sha cr p) (se_family s) ua ip"])
        (auto simp: spent_def rotated(7))
  qed simp_all
qed

lemma revoked_fixpoint: "z = z\<lparr>se_revoked := True, se_revoked_at := x\<rparr> \<Longrightarrow> se_revoked z"
  by (drule arg_cong [where f = se_revoked]) simp

lemma refresh_spent:
  assumes "im_sessions st (cr_sha cr tok) = Some s" and "se_revoked s"
  shows "snd (refresh_session cr now d tok ip ua st) = Inl ErrRefreshTokenReused"
    and "burnt (se_family s) (fst (refresh_session cr now d tok ip ua st))"
proof -
  have "im_sessions (fst (refresh_session cr now d tok ip ua st)) =
      (\<lambda>h. map_option (\<lambda>t. if se_family t = se_family s
         then t\<lparr>se_revoked := True, se_revoked_at := Some now\<rparr> else t) (im_sessions st h))"
    using assms by (simp add: refresh_session_def session_by_hash_def hash_refresh_token_def refresh_with_def
        revoke_family_def revoke_where_def)
  with assms show "burnt (se_family s) (fst (refresh_session cr now d tok ip ua st))"
    by (auto simp: burnt_def intro!: exI [of _ "cr_sha cr tok"] split: if_splits dest: revoked_fixpoint)
qed (use assms in \<open>simp add: refresh_session_def session_by_hash_def hash_refresh_token_def refresh_with_def\<close>)


text \<open>
  C31. Reuse detection: presenting a revoked token revokes its whole family for good. Whatever
  requests follow, every session of that family, whenever it was created, is revoked, and its
  token is refused.
\<close>

theorem reuse_revokes_family:
  assumes "im_sessions st (cr_sha cr tok) = Some s" and "se_revoked s"
    and "refresh_session cr now d tok ip ua st = (st1, r)" and "(iam_step cr)\<^sup>*\<^sup>* st1 st2"
    and "im_sessions st2 (cr_sha cr tok2) = Some s2" and "se_family s2 = se_family s"
  shows "r = Inl ErrRefreshTokenReused \<and> se_revoked s2 \<and>
    snd (refresh_session cr now2 d2 tok2 ip2 ua2 st2) = Inl ErrRefreshTokenReused"
proof -
  have r: "r = Inl ErrRefreshTokenReused" and "burnt (se_family s) st1"
    using refresh_spent [OF assms(1,2), of now d ip ua] assms(3) by simp_all
  then have "burnt (se_family s) st2" using assms(4) burnt_families.steps_keep by blast
  with assms(5,6) have "se_revoked s2" by (auto simp: burnt_def)
  with r refresh_spent(1) [OF assms(5)] show ?thesis by simp
qed

text \<open>
  Two requests that both read the session before either rotates it both succeed: the single
  refresh token becomes two live tokens of the family, and no reuse is noticed.
\<close>

theorem concurrent_refresh_forks:
  assumes "sessions_ok st" and "im_sessions st (cr_sha cr tok) = Some s" and "\<not> se_revoked s"
    and "now \<le> se_expires s" and "im_users st (se_user s) = Some u" and "us_active u"
    and "\<And>c. \<exists>t. cr_sign cr c = Inr t" and "dr_refresh da = Some a" and "dr_refresh db = Some b"
    and "fresh_draws cr st da" and "fresh_draws cr (fst (refresh_with cr now da s ip ua st)) db"
  shows "\<exists>sta pa stb pb na nb. refresh_with cr now da s ip ua st = (sta, Inr pa) \<and>
     refresh_with cr now db s ip ua sta = (stb, Inr pb) \<and>
     im_sessions stb (cr_sha cr (tp_refresh pa)) = Some na \<and> \<not> se_revoked na \<and>
     im_sessions stb (cr_sha cr (tp_refresh pb)) = Some nb \<and> \<not> se_revoked nb \<and>
     tp_refresh pa \<noteq> tp_refresh pb \<and> se_family na = se_family nb"
proof -
  let ?n = "\<lambda>d p. new_session now (dr_session d) (us_id u) (cr_sha cr p) (se_family s) ua ip"
  let ?r = "\<lambda>d p q. session_revoke now (dr_sessions d) (se_id s) (Some (dr_session d)) (session_create (?n d p) q)"
  have g: "\<exists>tp. refresh_with cr now d s ip ua q = (?r d p q, Inr tp) \<and> tp_refresh tp = p"
    if "im_users q (se_user s) = Some u" "dr_refresh d = Some p" for d p q
  proof -
    obtain t where "generate_access_token cr now (dr_jti d) u (role_names (im_roles q) (get_grants (us_id u) (?r d p q)))
      (get_user_permissions (dr_codes d) (us_id u) (?r d p q)) = Inr t"
      using assms(7) by (auto simp: generate_access_token_def)
    with that assms(3,4,6) show ?thesis
      by (simp add: refresh_with_def user_get_def generate_refresh_token_def hash_refresh_token_def
          roles_and_permissions_def Let_def)
  qed
  obtain pa where pa: "refresh_with cr now da s ip ua st = (?r da a st, Inr pa)" "tp_refresh pa = a"
    using g [OF assms(5,8)] by blast
  have "im_users (?r da a st) (se_user s) = Some u" using assms(5) by simp
  from g [OF this assms(9)] obtain pb where
    pb: "refresh_with cr now db s ip ua (?r da a st) = (?r db b (?r da a st), Inr pb)" "tp_refresh pb = b" by blast
  note fa = rotate_effect [OF assms(1,10,8,2), of now "Some (dr_session da)" "us_id u" "se_family s" ua ip]
  have ok: "sessions_ok (?r da a st)"
    by (rule evolve_keeps_ok [OF assms(1) evolve_refresh_with [OF assms(10,2) pa(1)]])
  have db: "fresh_draws cr (?r da a st) db" using assms(11) pa(1) by simp
  have ne: "cr_sha cr a \<noteq> cr_sha cr tok" using assms(2,8,10) by (auto simp: fresh_draws_def)
  note fb = rotate_effect [OF ok db assms(9), of "cr_sha cr tok"
      "s\<lparr>se_revoked := True, se_revoked_at := Some now, se_replaced := Some (dr_session da)\<rparr>"
      now "Some (dr_session db)" "us_id u" "se_family s" ua ip]
  have "im_sessions (?r da a st) (cr_sha cr b) = None" using db assms(9) by (simp add: fresh_draws_def)
  then have "cr_sha cr b \<noteq> cr_sha cr tok" "cr_sha cr b \<noteq> cr_sha cr a"
    by (auto simp: fa split: if_splits)
  with fb ne have "im_sessions (?r db b (?r da a st)) (cr_sha cr a) = Some (?n da a)"
    "im_sessions (?r db b (?r da a st)) (cr_sha cr b) = Some (?n db b)"
    by (simp_all add: fa)
  with pa pb \<open>cr_sha cr b \<noteq> cr_sha cr a\<close> show ?thesis
    by (intro exI [of _ "?r da a st"] exI [of _ pa] exI [of _ "?r db b (?r da a st)"] exI [of _ pb]
        exI [of _ "?n da a"] exI [of _ "?n db b"]) auto
qed

section \<open>A small instance\<close>

definition toy_crypt :: crypt where
  "toy_crypt = \<lparr>cr_sign = (\<lambda>c. Inr ''jwt''), cr_parse = (\<lambda>_ _ _ _. Inl JwtMalformed), cr_sha = (\<lambda>s. ''h'' @ s),
     cr_verify = (\<lambda>p h. Inr (p = h)), cr_encrypt = Inr, cr_decrypt = Inr, cr_totp = (\<lambda>_ code sec. code = sec)\<rparr>"

definition alice :: user where
  "alice = \<lparr>us_id = ''u1'', us_name = ''alice'', us_email = ''a@x'', us_hash = ''password'', us_active = True,
     us_secret = ''seed'', us_two_factor = False, us_prefs = [], us_created = 0, us_updated = 0, us_login = None\<rparr>"

definition alice_session :: session where
  "alice_session = new_session 0 ''s1'' ''u1'' ''ha'' ''f1'' '''' ''''"

definition alice_iam :: iam where
  "alice_iam = (new_iam 0)\<lparr>im_users := [''u1'' \<mapsto> alice], im_sessions := [''ha'' \<mapsto> alice_session]\<rparr>"

definition toy_draws :: "string \<Rightarrow> string \<Rightarrow> draws" where
  "toy_draws sid p = \<lparr>dr_session = sid, dr_family = ''f2'', dr_jti = ''j'', dr_refresh = Some p,
     dr_users = [''u1''], dr_emails = [''u1''], dr_sessions = [''ha'', ''hb''], dr_codes = [], dr_summary = []\<rparr>"

lemma toy_sessions_ok: "sessions_ok alice_iam"
  by (simp add: sessions_ok_def alice_iam_def alice_session_def)

lemma toy_fresh: "fresh_draws toy_crypt alice_iam (toy_draws ''s2'' ''b'')"
  by (simp add: fresh_draws_def toy_crypt_def alice_iam_def alice_session_def toy_draws_def)

lemma hour_pos [simp]: "0 < hour" "0 \<le> hour"
  by (simp_all add: hour_def minute_def second_def)

definition alice_pair :: token_pair where
  "alice_pair = \<lparr>tp_access = ''jwt'', tp_refresh = ''b'', tp_type = ''Bearer'', tp_expires = 900\<rparr>"

definition alice_rotated :: iam where
  "alice_rotated = session_revoke 5 [''ha'', ''hb''] ''s1'' (Some ''s2'')
     (session_create (new_session 5 ''s2'' ''u1'' ''hb'' ''f1'' '''' '''') alice_iam)"

lemma toy_refresh:
  "refresh_session toy_crypt 5 (toy_draws ''s2'' ''b'') ''a'' '''' '''' alice_iam = (alice_rotated, Inr alice_pair)"
  by (simp add: refresh_session_def session_by_hash_def hash_refresh_token_def toy_crypt_def refresh_with_def
      alice_iam_def alice_session_def user_get_def alice_def generate_refresh_token_def toy_draws_def
      roles_and_permissions_def generate_access_token_def alice_rotated_def alice_pair_def Let_def)
    (simp add: new_session_def hour_def minute_def second_def)


definition alice_spent :: iam where
  "alice_spent = alice_iam\<lparr>im_sessions := [''ha'' \<mapsto> alice_session\<lparr>se_revoked := True\<rparr>, ''hb'' \<mapsto> new_session 5 ''s2'' ''u1'' ''hb'' ''f1'' '''' '''']\<rparr>"

theorem reuse_revokes_family_witness:
  "snd (refresh_session toy_crypt 9 (toy_draws ''s3'' ''c'') ''b'' '''' ''''
     (fst (refresh_session toy_crypt 8 (toy_draws ''s3'' ''c'') ''a'' '''' '''' alice_spent))) = Inl ErrRefreshTokenReused"
proof -
  let ?st1 = "fst (refresh_session toy_crypt 8 (toy_draws ''s3'' ''c'') ''a'' '''' '''' alice_spent)"
  have a: "im_sessions alice_spent (cr_sha toy_crypt ''a'') = Some (alice_session\<lparr>se_revoked := True\<rparr>)"
    by (simp add: alice_spent_def toy_crypt_def)
  have p: "refresh_session toy_crypt 8 (toy_draws ''s3'' ''c'') ''a'' '''' '''' alice_spent =
      (?st1, snd (refresh_session toy_crypt 8 (toy_draws ''s3'' ''c'') ''a'' '''' '''' alice_spent))" by simp
  have q: "im_sessions ?st1 (cr_sha toy_crypt ''b'') =
      Some ((new_session 5 ''s2'' ''u1'' ''hb'' ''f1'' '''' '''')\<lparr>se_revoked := True, se_revoked_at := Some 8\<rparr>)"
    by (simp add: refresh_session_def session_by_hash_def hash_refresh_token_def refresh_with_def toy_crypt_def
        alice_spent_def alice_session_def revoke_family_def revoke_where_def)
  show ?thesis
    using reuse_revokes_family [OF a _ p rtranclp.rtrancl_refl q] by (simp add: alice_session_def)
qed

theorem concurrent_refresh_forks_witness:
  "\<exists>sta pa stb pb na nb. refresh_with toy_crypt 5 (toy_draws ''s2'' ''b'') alice_session '''' '''' alice_iam = (sta, Inr pa) \<and>
     refresh_with toy_crypt 5 (toy_draws ''s3'' ''c'') alice_session '''' '''' sta = (stb, Inr pb) \<and>
     im_sessions stb (cr_sha toy_crypt (tp_refresh pa)) = Some na \<and> \<not> se_revoked na \<and>
     im_sessions stb (cr_sha toy_crypt (tp_refresh pb)) = Some nb \<and> \<not> se_revoked nb \<and>
     tp_refresh pa \<noteq> tp_refresh pb \<and> se_family na = se_family nb"
proof (rule concurrent_refresh_forks [where u = alice and tok = "''a''", OF toy_sessions_ok _ _ _ _ _ _ _ _ toy_fresh])
  have "fst (refresh_with toy_crypt 5 (toy_draws ''s2'' ''b'') alice_session '''' '''' alice_iam) = alice_rotated"
    using toy_refresh
    by (simp add: refresh_session_def session_by_hash_def hash_refresh_token_def alice_iam_def toy_crypt_def)
  moreover have "im_sessions alice_rotated = [''ha'' \<mapsto> alice_session\<lparr>se_revoked := True, se_revoked_at := Some 5, se_replaced := Some ''s2''\<rparr>,
      ''hb'' \<mapsto> new_session 5 ''s2'' ''u1'' ''hb'' ''f1'' '''' '''']"
    by (simp add: alice_rotated_def session_revoke_def session_create_def alice_iam_def alice_session_def find_key_def fun_upd_twist)
  ultimately show "fresh_draws toy_crypt (fst (refresh_with toy_crypt 5 (toy_draws ''s2'' ''b'') alice_session '''' '''' alice_iam))
      (toy_draws ''s3'' ''c'')"
    by (simp add: fresh_draws_def toy_crypt_def toy_draws_def alice_session_def)
qed (simp_all add: toy_crypt_def toy_draws_def alice_iam_def alice_session_def alice_def new_session_def hour_def minute_def second_def)

end
