(* ===== verification/Account_Security.thy ===== *)
theory Account_Security
  imports Session_Security
begin

text \<open>
  Accounts and API keys over any sequence of requests: who becomes superadmin, what an API
  key may do and for how long, what the second factor protects, and where it does not.
\<close>

section \<open>How users, grants and keys evolve\<close>

lemma issue_tokens_frame:
  assumes "issue_tokens cr now d u ip ua fam st = (st', r)"
  shows "im_users st' = im_users st" "im_grants st' = im_grants st" "im_roles st' = im_roles st"
    "im_kheap st' = im_kheap st" "im_keys st' = im_keys st" "im_keys_by_h st' = im_keys_by_h st"
    "im_knext st' = im_knext st"
  using assms by (cases rule: issue_tokens_cases; simp)+

lemma finish_login_frame:
  assumes "finish_login cr now d act u ip ua st = (st', r)"
  shows "dom (im_users st') = dom (im_users st)" "im_grants st' = im_grants st" "im_roles st' = im_roles st"
    "im_kheap st' = im_kheap st" "im_keys st' = im_keys st" "im_keys_by_h st' = im_keys_by_h st"
    "im_knext st' = im_knext st"
proof -
  obtain st1 r1 where i: "issue_tokens cr now d u ip ua (dr_family d) st = (st1, r1)" by fastforce
  have "\<exists>l. st' = st1 \<or> st' = iam_log now l (fst (update_last_login now (us_id u) st1))"
    using assms i by (cases r1) (auto simp: finish_login_def Let_def split: prod.splits)
  with issue_tokens_frame [OF i] show "dom (im_users st') = dom (im_users st)" "im_grants st' = im_grants st"
    "im_roles st' = im_roles st" "im_kheap st' = im_kheap st" "im_keys st' = im_keys st"
    "im_keys_by_h st' = im_keys_by_h st" "im_knext st' = im_knext st"
    by (elim exE disjE; simp)+
qed

lemma login_frame:
  assumes "login cr now d rq st = (st', r)"
  shows "dom (im_users st') = dom (im_users st)" "im_grants st' = im_grants st" "im_roles st' = im_roles st"
    "im_kheap st' = im_kheap st" "im_keys st' = im_keys st" "im_keys_by_h st' = im_keys_by_h st"
    "im_knext st' = im_knext st"
proof -
  have "(\<exists>l. st' = st \<or> st' = iam_log now l st) \<or>
      (\<exists>act u. finish_login cr now d act u (lq_ip rq) (lq_agent rq) st = (st', r))"
    using assms by (auto simp: login_def split: sum.splits if_splits)
  then show "dom (im_users st') = dom (im_users st)" "im_grants st' = im_grants st"
    "im_roles st' = im_roles st" "im_kheap st' = im_kheap st" "im_keys st' = im_keys st"
    "im_keys_by_h st' = im_keys_by_h st" "im_knext st' = im_knext st"
    by (elim disjE exE; simp add: finish_login_frame)+
qed

lemma verify_totp_frame:
  assumes "verify_totp cr now d ch code ip ua st = (st', r)"
  shows "dom (im_users st') = dom (im_users st)" "im_grants st' = im_grants st" "im_roles st' = im_roles st"
    "im_kheap st' = im_kheap st" "im_keys st' = im_keys st" "im_keys_by_h st' = im_keys_by_h st"
    "im_knext st' = im_knext st"
proof -
  have "(\<exists>l. st' = st \<or> st' = iam_log now l st) \<or>
      (\<exists>act u. finish_login cr now d act u ip ua st = (st', r))"
    using assms by (auto simp: verify_totp_def split: sum.splits if_splits)
  then show "dom (im_users st') = dom (im_users st)" "im_grants st' = im_grants st"
    "im_roles st' = im_roles st" "im_kheap st' = im_kheap st" "im_keys st' = im_keys st"
    "im_keys_by_h st' = im_keys_by_h st" "im_knext st' = im_knext st"
    by (elim disjE exE; simp add: finish_login_frame)+
qed

lemma refresh_frame:
  assumes "refresh_session cr now d tok ip ua st = (st', r)"
  shows "im_users st' = im_users st" "im_grants st' = im_grants st" "im_roles st' = im_roles st"
    "im_kheap st' = im_kheap st" "im_keys st' = im_keys st" "im_keys_by_h st' = im_keys_by_h st"
    "im_knext st' = im_knext st"
  using assms
  by (auto simp: refresh_session_def refresh_with_def revoke_family_def Let_def split: sum.splits if_splits prod.splits)

lemma logout_frame [simp]:
  "im_users (logout cr now d tok st) = im_users st" "im_grants (logout cr now d tok st) = im_grants st"
  "im_roles (logout cr now d tok st) = im_roles st" "im_kheap (logout cr now d tok st) = im_kheap st"
  "im_keys (logout cr now d tok st) = im_keys st" "im_keys_by_h (logout cr now d tok st) = im_keys_by_h st"
  "im_knext (logout cr now d tok st) = im_knext st"
  by (simp_all add: logout_def split: sum.splits)

section \<open>API keys\<close>

definition same_key :: "api_key \<Rightarrow> api_key \<Rightarrow> bool" where
  "same_key k k' \<longleftrightarrow> ak_id k' = ak_id k \<and> ak_user k' = ak_user k \<and> ak_hash k' = ak_hash k \<and>
     ak_scopes k' = ak_scopes k \<and> ak_expires k' = ak_expires k \<and> (ak_revoked k \<longrightarrow> ak_revoked k')"

text \<open>A key object is reached by its identifier and by its hash, and both lead to one object.\<close>

definition key_at :: "nat \<Rightarrow> api_key \<Rightarrow> iam \<Rightarrow> bool" where
  "key_at a k st \<longleftrightarrow> a < im_knext st \<and> im_keys st (ak_id k) = Some a \<and> im_keys_by_h st (ak_hash k) = Some a \<and>
     (\<exists>k'. im_kheap st a = Some k' \<and> same_key k k')"

lemma key_at_frame:
  "im_knext st' = im_knext st \<Longrightarrow> im_keys st' = im_keys st \<Longrightarrow> im_keys_by_h st' = im_keys_by_h st \<Longrightarrow>
   im_kheap st' = im_kheap st \<Longrightarrow> key_at a k st \<Longrightarrow> key_at a k st'"
  by (simp add: key_at_def)

lemma key_at_modify:
  assumes "key_at a k st" and "im_knext st' = im_knext st" and "im_keys st' = im_keys st"
    and "im_keys_by_h st' = im_keys_by_h st" and "im_kheap st' = (im_kheap st)(b \<mapsto> f x)" and "im_kheap st b = Some x"
    and "same_key x (f x)"
  shows "key_at a k st'"
  using assms by (auto simp: key_at_def same_key_def)

lemma key_at_create:
  assumes "key_at a k st" and "im_keys st (ak_id n) = None" and "im_keys_by_h st (ak_hash n) = None"
  shows "key_at a k (key_create n st)"
  using assms by (auto simp: key_at_def key_create_def Let_def)

lemma step_key_at: "iam_step cr st st' \<Longrightarrow> key_at a k st \<Longrightarrow> key_at a k st'"
proof (induction rule: iam_step.induct)
  case (register st ks rs uid now gid hashed rq st' r)
  from register(4) register(5) show ?case by (cases rule: register_cases) (auto intro: key_at_frame)
next
  case (login st d now lq st' lr)
  then show ?case using login_frame key_at_frame by metis
next
  case (verify_totp st d now ch code ip agent st' lr)
  then show ?case using verify_totp_frame key_at_frame by metis
next
  case (refresh st d now tok ip agent st' tp)
  then show ?case using refresh_frame key_at_frame by metis
next
  case (logout st d now tok)
  then show ?case by (simp add: key_at_def)
next
  case (create_key st kid rnd now uid kq st' kr)
  from create_key(3) show ?case
  proof (cases rule: create_api_key_cases)
    case (ok u x n l)
    with create_key(1,2) have "key_at a k (key_create n st)"
      by (intro key_at_create [OF create_key(4)]) simp_all
    then show ?thesis unfolding ok(6) by (simp add: key_at_def)
  qed (use create_key(4) in simp)
next
  case (revoke_key now uid kid st st' e)
  from revoke_key(1) show ?case
  proof (cases rule: revoke_api_key_cases)
    case (ok b x l)
    with key_at_modify [OF revoke_key(2), of st' b "\<lambda>x. x\<lparr>ak_revoked := True\<rparr>" x] show ?thesis
      by (simp add: same_key_def)
  qed (use revoke_key(2) in simp)
next
  case (touch_key now kid st st' e)
  show ?case
  proof (cases "\<exists>b x. im_keys st kid = Some b \<and> im_kheap st b = Some x")
    case True
    then obtain b x where "im_keys st kid = Some b" "im_kheap st b = Some x" by blast
    with key_at_modify [OF touch_key(2), of st' b "\<lambda>x. x\<lparr>ak_used := Some now\<rparr>" x] touch_key(1) show ?thesis
      by (auto simp: key_touch_def modify_key_def same_key_def)
  next
    case False
    with touch_key show ?thesis by (auto simp: key_touch_def modify_key_def split: option.splits)
  qed
next
  case (enable_2fa now uid sec code st st' e)
  from enable_2fa show ?case by (cases rule: enable_2fa_cases) (auto intro: key_at_frame)
next
  case (disable_2fa now uid pw code st st' e)
  from disable_2fa show ?case by (cases rule: disable_2fa_cases) (auto intro: key_at_frame)
qed

interpretation key_objects: invariant_machine "iam_step cr" "key_at a k" for cr a k
  by unfold_locales (rule step_key_at)

lemma key_at_lookups:
  assumes "key_at a k st"
  obtains k' where "key_get (ak_id k) st = Inr k'" "key_by_hash (ak_hash k) st = Inr k'" "same_key k k'"
    "im_keys st (ak_id k) = Some a" "im_kheap st a = Some k'"
  using assms by (auto simp: key_at_def key_get_def key_by_hash_def deref_key_def)

lemma revoke_marks:
  assumes "key_at a k st"
  shows "snd (revoke_api_key now (ak_user k) (ak_id k) st) = None"
    and "key_at a (k\<lparr>ak_revoked := True\<rparr>) (fst (revoke_api_key now (ak_user k) (ak_id k) st))"
    and "uid \<noteq> ak_user k \<Longrightarrow> revoke_api_key now uid (ak_id k) st = (st, Some ErrResourceForbidden)"
proof -
  obtain k' where k': "key_get (ak_id k) st = Inr k'" "same_key k k'" "im_keys st (ak_id k) = Some a"
    "im_kheap st a = Some k'"
    using assms by (rule key_at_lookups)
  then have "ak_user k' = ak_user k" by (simp add: same_key_def)
  with k' assms show "snd (revoke_api_key now (ak_user k) (ak_id k) st) = None"
    "key_at a (k\<lparr>ak_revoked := True\<rparr>) (fst (revoke_api_key now (ak_user k) (ak_id k) st))"
    "uid \<noteq> ak_user k \<Longrightarrow> revoke_api_key now uid (ak_id k) st = (st, Some ErrResourceForbidden)"
    by (auto simp: revoke_api_key_def key_revoke_def modify_key_def key_at_def same_key_def)
qed

lemma authenticate_key_at:
  assumes "key_at a k st" and "cr_sha cr plain = ak_hash k"
  shows "authenticate_api_key cr now cs plain st = Inr sub \<Longrightarrow>
      sub_id sub = ak_id k \<and> sub_scopes sub = ak_scopes k \<and> sub_roles sub = [] \<and>
      (\<exists>u. im_users st (ak_user k) = Some u \<and> us_active u \<and> sub_user sub = us_id u) \<and>
      (\<forall>t. ak_expires k = Some t \<longrightarrow> now \<le> t) \<and>
      sub_permissions sub = get_user_permissions cs (sub_user sub) st"
    and "ak_revoked k \<Longrightarrow> authenticate_api_key cr now cs plain st = Inl ErrAPIKeyRevoked"
proof -
  obtain k' where k': "key_by_hash (ak_hash k) st = Inr k'" "same_key k k'"
    using assms(1) by (rule key_at_lookups)
  then have eq: "ak_id k' = ak_id k" "ak_user k' = ak_user k" "ak_scopes k' = ak_scopes k"
    "ak_expires k' = ak_expires k" "ak_revoked k \<Longrightarrow> ak_revoked k'"
    by (simp_all add: same_key_def)
  show "ak_revoked k \<Longrightarrow> authenticate_api_key cr now cs plain st = Inl ErrAPIKeyRevoked"
    using k'(1) assms(2) eq by (simp add: authenticate_api_key_def key_valid_def)
  show "sub_id sub = ak_id k \<and> sub_scopes sub = ak_scopes k \<and> sub_roles sub = [] \<and>
      (\<exists>u. im_users st (ak_user k) = Some u \<and> us_active u \<and> sub_user sub = us_id u) \<and>
      (\<forall>t. ak_expires k = Some t \<longrightarrow> now \<le> t) \<and>
      sub_permissions sub = get_user_permissions cs (sub_user sub) st"
    if "authenticate_api_key cr now cs plain st = Inr sub"
    using that k'(1) assms(2) eq
    by (auto simp: authenticate_api_key_def user_get_def key_valid_def split: option.splits if_splits)
qed

lemma create_key_at:
  assumes "im_keys st kid = None" and "create_api_key cr now kid rnd uid rq st = (st', Inr (k, plain))"
  shows "key_at (im_knext st) k st'" "cr_sha cr plain = ak_hash k" "ak_id k = kid" "ak_scopes k = kq_scopes rq"
    "\<exists>u. im_users st uid = Some u \<and> ak_user k = us_id u"
  using assms(2) by (cases rule: create_api_key_cases; auto simp: key_at_def key_create_def Let_def same_key_def)+


section \<open>The first user\<close>

lemma ran_seed_roles: "ran (seed_roles t) = {superadmin_role t, customer_role t, operator_role t}"
  by (simp add: seed_roles_def insert_commute)

text \<open>The seeded roles, by name, in whatever order the map is visited.\<close>

lemma seed_role_by_name:
  assumes "iterates (im_roles st) rs" and "im_roles st = seed_roles t" and "n \<in> {''superadmin'', ''customer''}"
  shows "\<exists>r. role_by_name rs n st = Inr r \<and> rl_id r = ''role_'' @ n \<and> rl_name r = n"
proof -
  have v: "set (vals (im_roles st) rs) = {superadmin_role t, customer_role t, operator_role t}"
    using set_vals_ran [OF assms(1)] by (simp add: assms(2) ran_seed_roles)
  then have "\<exists>r \<in> set (vals (im_roles st) rs). rl_name r = n"
    using assms(3) by (auto simp: superadmin_role_def customer_role_def)
  then obtain r where f: "List.find (\<lambda>r. rl_name r = n) (vals (im_roles st) rs) = Some r"
    by (cases "List.find (\<lambda>r. rl_name r = n) (vals (im_roles st) rs)") (auto simp: find_None_iff)
  then have "r \<in> {superadmin_role t, customer_role t, operator_role t}" and n: "rl_name r = n"
    unfolding v [symmetric] by (auto simp: find_Some_iff)
  then have "rl_id r = ''role_'' @ n"
    using assms(3) by (elim insertE emptyE) (simp_all add: superadmin_role_def customer_role_def operator_role_def)
  with f n show ?thesis by (simp add: role_by_name_def)
qed

text \<open>Every grant of the superadmin role belongs to one user, and without users nobody has one.\<close>

definition one_superadmin :: "gtime \<Rightarrow> iam \<Rightarrow> bool" where
  "one_superadmin t st \<longleftrightarrow> im_roles st = seed_roles t \<and>
     (\<exists>u0. \<forall>u g. g \<in> set (im_grants st u) \<longrightarrow> gr_role g = ''role_superadmin'' \<longrightarrow> u = u0) \<and>
     (\<forall>u g. g \<in> set (im_grants st u) \<longrightarrow>
        gr_role g = ''role_superadmin'' \<and> gr_name g = ''superadmin'' \<or>
        gr_role g = ''role_customer'' \<and> gr_name g = ''customer'') \<and>
     (im_users st = Map.empty \<longrightarrow> (\<forall>u. im_grants st u = []))"

lemma one_superadmin_frame:
  "im_roles st' = im_roles st \<Longrightarrow> im_grants st' = im_grants st \<Longrightarrow> dom (im_users st') = dom (im_users st) \<Longrightarrow>
   one_superadmin t st \<Longrightarrow> one_superadmin t st'"
  by (simp add: one_superadmin_def) (metis dom_eq_empty_conv)

lemma user_count_zero: "iterates (im_users st) ks \<Longrightarrow> user_count ks st = 0 \<longleftrightarrow> im_users st = Map.empty"
proof
  assume a: "iterates (im_users st) ks" "user_count ks st = 0"
  then have "ran (im_users st) = {}" using set_vals_ran [OF a(1)] by (simp add: user_count_def)
  then show "im_users st = Map.empty" by (auto simp: ran_def fun_eq_iff) (metis not_Some_eq)
qed (simp add: user_count_def)

lemma one_superadmin_register:
  assumes "one_superadmin t st" and "iterates (im_users st) ks" and "iterates (im_roles st) rs"
    and "register now uid gid hashed ks rs rq st = (st', r)"
  shows "one_superadmin t st'"
  using assms(4)
proof (cases rule: register_cases)
  case (ok h)
  have roles: "im_roles st = seed_roles t" using assms(1) by (simp add: one_superadmin_def)
  show ?thesis
  proof (cases "im_users st = Map.empty")
    case True
    then have "user_count ks st = 0" using user_count_zero [OF assms(2)] by simp
    moreover obtain ro where "role_by_name rs ''superadmin'' st = Inr ro" "rl_id ro = ''role_superadmin''"
      "rl_name ro = ''superadmin''"
      using seed_role_by_name [OF assms(3) roles, of "''superadmin''"] by auto
    ultimately show ?thesis
      using ok roles True assms(1) by (auto simp: one_superadmin_def intro!: exI [of _ uid])
  next
    case False
    then have "user_count ks st \<noteq> 0" using user_count_zero [OF assms(2)] by simp
    moreover obtain ro where "role_by_name rs ''customer'' st = Inr ro" "rl_id ro = ''role_customer''"
      "rl_name ro = ''customer''"
      using seed_role_by_name [OF assms(3) roles, of "''customer''"] by auto
    moreover obtain u0 where "\<forall>u g. g \<in> set (im_grants st u) \<longrightarrow> gr_role g = ''role_superadmin'' \<longrightarrow> u = u0"
      using assms(1) by (auto simp: one_superadmin_def)
    ultimately show ?thesis
      using ok roles assms(1) by (auto simp: one_superadmin_def intro!: exI [of _ u0])
  qed
qed (use assms(1) in simp)

lemma step_one_superadmin: "iam_step cr st st' \<Longrightarrow> one_superadmin t st \<Longrightarrow> one_superadmin t st'"
proof (induction rule: iam_step.induct)
  case (register st ks rs uid now gid hashed rq st' r)
  then show ?case using one_superadmin_register by blast
next
  case (login st d now lq st' lr)
  then show ?case using one_superadmin_frame login_frame by metis
next
  case (verify_totp st d now ch code ip agent st' lr)
  then show ?case using one_superadmin_frame verify_totp_frame by metis
next
  case (refresh st d now tok ip agent st' tp)
  then show ?case using one_superadmin_frame refresh_frame by metis
next
  case (logout st d now tok)
  then show ?case by (simp add: one_superadmin_def)
next
  case (create_key st kid rnd now uid kq st' kr)
  from create_key(3,4) show ?case
    by (cases rule: create_api_key_cases) (simp_all add: one_superadmin_def key_create_def Let_def)
next
  case (revoke_key now uid kid st st' e)
  from revoke_key show ?case by (cases rule: revoke_api_key_cases) (simp_all add: one_superadmin_def)
next
  case (touch_key now kid st st' e)
  then show ?case using one_superadmin_frame key_ops_frame unfolding key_touch_def by metis
next
  case (enable_2fa now uid sec code st st' e)
  from enable_2fa show ?case by (cases rule: enable_2fa_cases) (auto simp: one_superadmin_def)
next
  case (disable_2fa now uid pw code st st' e)
  from disable_2fa show ?case by (cases rule: disable_2fa_cases) (auto simp: one_superadmin_def)
qed

interpretation superadmin: invariant_machine "iam_step cr" "one_superadmin t" for cr t
  by unfold_locales (rule step_one_superadmin)

text \<open>
  A user is privileged when its tokens carry the role \<open>superadmin\<close> or its permissions, which
  also go into API keys, contain the wildcard.
\<close>

definition privileged :: "string list \<Rightarrow> string \<Rightarrow> iam \<Rightarrow> bool" where
  "privileged cs uid st \<longleftrightarrow>
     ''superadmin'' \<in> set (fst (roles_and_permissions cs uid st)) \<or>
     ''*'' \<in> set (snd (roles_and_permissions cs uid st))"

lemma pick_permissions_codes: "set (map pm_code (pick_permissions codes)) \<subseteq> set codes"
proof -
  have code: "pm_code p = c" if "map_of (map (\<lambda>p. (pm_code p, p)) ps) c = Some p" for ps c p
    using map_of_SomeD [OF that] by auto
  show ?thesis
    by (auto simp: pick_permissions_def map_filter_def) (drule code, simp)
qed

lemma customer_has_no_wildcard: "''*'' \<notin> set (map pm_code (rl_perms (customer_role t)))"
  using pick_permissions_codes [of customer_codes] by (auto simp: customer_role_def customer_codes_def)

lemma customer_permission_codes:
  assumes "\<forall>g \<in> set gs. gr_role g = ''role_customer''" and "''*'' \<notin> acc"
  shows "\<exists>A. permission_codes (seed_roles t) acc gs = Some A \<and> ''*'' \<notin> A"
  using assms
proof (induction gs arbitrary: acc)
  case (Cons g gs)
  have r: "seed_roles t (gr_role g) = Some (customer_role t)" using Cons(2) by (simp add: seed_roles_def)
  have "rl_name (customer_role t) \<noteq> ''superadmin''" by (simp add: customer_role_def)
  moreover have "''*'' \<notin> acc \<union> set (map pm_code (rl_perms (customer_role t)))"
    using Cons(3) customer_has_no_wildcard by simp
  ultimately show ?case using Cons(1) [of "acc \<union> set (map pm_code (rl_perms (customer_role t)))"] Cons(2) r
    by simp
qed simp

lemma role_names_grants:
  "\<forall>g \<in> set gs. gr_name g \<noteq> '''' \<Longrightarrow> role_names roles gs = map gr_name gs"
  by (induction gs) auto

lemma privileged_has_grant:
  assumes "one_superadmin t st" and "privileged cs uid st"
  shows "\<exists>g \<in> set (im_grants st uid). gr_role g = ''role_superadmin''"
proof (rule ccontr)
  assume "\<not> ?thesis"
  with assms(1) have g: "\<forall>g \<in> set (im_grants st uid). gr_role g = ''role_customer'' \<and> gr_name g = ''customer''"
    unfolding one_superadmin_def by blast
  then have "role_names (im_roles st) (im_grants st uid) = map gr_name (im_grants st uid)"
    by (intro role_names_grants) auto
  with g have "''superadmin'' \<notin> set (role_names (im_roles st) (im_grants st uid))" by auto
  moreover obtain A where "permission_codes (im_roles st) {} (im_grants st uid) = Some A" "''*'' \<notin> A"
    using customer_permission_codes [of "im_grants st uid" "{}" t] g assms(1) by (auto simp: one_superadmin_def)
  ultimately show False
    using assms(2) by (simp add: privileged_def roles_and_permissions_def get_grants_def get_user_permissions_def)
qed


section \<open>The second factor\<close>

text \<open>
  What the JSON web token library promises: a signed token parses back to its claims, for the
  same issuer and audience, from its start to a second before its end (the library keeps
  whole seconds).
\<close>

definition jwt_faithful :: "crypt \<Rightarrow> bool" where
  "jwt_faithful cr \<longleftrightarrow> (\<forall>c tok now iss aud. cr_sign cr c = Inr tok \<longrightarrow> cm_issuer c = iss \<longrightarrow>
     aud \<in> set (cm_audience c) \<longrightarrow> cm_nbf c \<le> now \<longrightarrow> now + second \<le> cm_exp c \<longrightarrow>
     cr_parse cr now iss aud tok = Inr (c, True))"

lemma jwt_faithfulD:
  "jwt_faithful cr \<Longrightarrow> cr_sign cr c = Inr tok \<Longrightarrow> cm_issuer c = iss \<Longrightarrow> aud \<in> set (cm_audience c) \<Longrightarrow>
   cm_nbf c \<le> now \<Longrightarrow> now + second \<le> cm_exp c \<Longrightarrow> cr_parse cr now iss aud tok = Inr (c, True)"
  unfolding jwt_faithful_def by blast

definition users_keyed :: "iam \<Rightarrow> bool" where
  "users_keyed st \<longleftrightarrow> (\<forall>uid u. im_users st uid = Some u \<longrightarrow> us_id u = uid)"

lemma login_user_in:
  "login_user d ident st = Inr u \<Longrightarrow> \<exists>uid. im_users st uid = Some u"
  by (auto simp: login_user_def user_by_name_def user_by_email_def find_user_def find_Some_iff set_vals
      in_set_conv_nth [symmetric] split: sum.splits option.splits dest!: nth_mem)

text \<open>
  C30. A login of an account with the second factor enabled never creates a session: it ends in an
  error or in a challenge without tokens. A challenge becomes a session only through
  \<open>VerifyTOTP\<close> with a code that is valid for the decrypted secret of an account that has the
  second factor enabled.
\<close>

theorem login_needs_second_factor:
  assumes "login_user d (lq_ident rq) st = Inr u" and "us_two_factor u"
  shows "im_sessions (fst (login cr now d rq st)) = im_sessions st \<and>
    (\<forall>lr. snd (login cr now d rq st) = Inr lr \<longrightarrow>
       lr_requires_2fa lr \<and> lr_tokens lr = None \<and>
       us_active u \<and> cr_verify cr (lq_password rq) (us_hash u) = Inr True) \<and>
    (\<forall>now' d' ch code ip ua st'. im_sessions (fst (verify_totp cr now' d' ch code ip ua st')) \<noteq> im_sessions st' \<longrightarrow>
       (\<exists>sub v sec. validate_access_token cr now' ch = Inr sub \<and> im_users st' (sub_user sub) = Some v \<and>
          us_two_factor v \<and> cr_decrypt cr (us_secret v) = Inr sec \<and> validate_code cr now' sec code))"
proof (intro conjI allI impI)
  show "im_sessions (fst (login cr now d rq st)) = im_sessions st"
    using assms by (simp add: login_def split: sum.splits)
  show "lr_requires_2fa lr" "lr_tokens lr = None" "us_active u" "cr_verify cr (lq_password rq) (us_hash u) = Inr True"
    if "snd (login cr now d rq st) = Inr lr" for lr
    using assms that by (auto simp: login_def split: sum.splits if_splits)
  show "\<exists>sub v sec. validate_access_token cr now' ch = Inr sub \<and> im_users st' (sub_user sub) = Some v \<and>
      us_two_factor v \<and> cr_decrypt cr (us_secret v) = Inr sec \<and> validate_code cr now' sec code"
    if "im_sessions (fst (verify_totp cr now' d' ch code ip ua st')) \<noteq> im_sessions st'" for now' d' ch code ip ua st'
    using that by (auto simp: verify_totp_def user_get_def split: sum.splits option.splits if_splits)
qed

text \<open>
  The challenge token passes as an access token: whoever has the password of an account with
  the second factor enabled can, with the challenge alone and no code, create an API key that
  authenticates as the account with all of its permissions.
\<close>

theorem challenge_bypasses_second_factor:
  assumes "jwt_faithful cr" and "users_keyed st"
    and "login cr now d rq st = (st1, Inr lr)" and "lr_requires_2fa lr"
    and "now \<le> now2" and "now2 + second \<le> now + 15 * minute"
    and "kq_name kq \<noteq> ''''" and "kq_scopes kq = []" and "kq_expires kq = None"
  shows "\<exists>u st2 k plain. login_user d (lq_ident rq) st = Inr u \<and>
    handle_create_key cr now2 cs kid (Some x) '''' (''Bearer '' @ lr_challenge lr) kq st1 = (st2, Some (k, plain)) \<and>
    (\<exists>sub. authenticate_api_key cr now3 cs plain st2 = Inr sub \<and> sub_user sub = us_id u \<and>
       sub_permissions sub = get_user_permissions cs (us_id u) st \<and> sub_scopes sub = [])"
proof -
  obtain u where u: "login_user d (lq_ident rq) st = Inr u" "us_active u" "st1 = st"
    and tok: "generate_access_token cr now (dr_jti d) u [''2fa_challenge''] [] = Inr (lr_challenge lr)"
    using assms(3,4) by (auto simp: login_def finish_login_def split: sum.splits if_splits prod.splits)
  obtain uid where "im_users st uid = Some u" using login_user_in [OF u(1)] by blast
  with assms(2) have us: "im_users st (us_id u) = Some u" by (auto simp: users_keyed_def)
  define c where "c = \<lparr>cm_user = us_id u, cm_username = us_name u, cm_email = us_email u,
       cm_roles = [''2fa_challenge''], cm_perms = [], cm_scopes = [], cm_type = ''access'',
       cm_issuer = ''aurora-control-plane'', cm_subject = us_id u, cm_audience = [''aurora-api''],
       cm_exp = now + 15 * minute, cm_nbf = now, cm_iat = now, cm_jti = dr_jti d\<rparr>"
  have "cr_sign cr c = Inr (lr_challenge lr)" using tok by (simp add: generate_access_token_def c_def)
  then have "cr_parse cr now2 ''aurora-control-plane'' ''aurora-api'' (lr_challenge lr) = Inr (c, True)"
    by (rule jwt_faithfulD [OF assms(1)]) (use assms(5,6) in \<open>simp_all add: c_def\<close>)
  then obtain sub where sub: "validate_access_token cr now2 (lr_challenge lr) = Inr sub" "sub_user sub = us_id u"
    by (simp add: validate_access_token_def c_def)
  have "equal_fold ''Bearer'' ''bearer''" by code_simp
  then have req: "authenticate_request cr now2 cs '''' (''Bearer '' @ lr_challenge lr) st = Passed sub"
    using sub(1) by (simp add: authenticate_request_def)
  obtain st2 k where ck: "create_api_key cr now2 kid (Some x) (us_id u) kq st = (st2, Inr (k, ''aur_live_'' @ x))"
    and k: "ak_user k = us_id u" "ak_hash k = cr_sha cr (''aur_live_'' @ x)" "ak_scopes k = []" "ak_expires k = None"
      "\<not> ak_revoked k"
    and st2: "key_by_hash (cr_sha cr (''aur_live_'' @ x)) st2 = Inr k" "im_users st2 = im_users st"
      "im_grants st2 = im_grants st" "im_roles st2 = im_roles st"
    using us assms(7-9)
    by (auto simp: create_api_key_def user_get_def Let_def key_by_hash_def deref_key_def key_create_def)
  have "handle_create_key cr now2 cs kid (Some x) '''' (''Bearer '' @ lr_challenge lr) kq st1 = (st2, Some (k, ''aur_live_'' @ x))"
    using req ck sub(2) u(3) by (simp add: handle_create_key_def)
  moreover have "get_user_permissions cs (us_id u) st2 = get_user_permissions cs (us_id u) st"
    using st2 by (simp add: get_user_permissions_def)
  ultimately show ?thesis
    using u st2 us k
    by (intro exI [of _ u] exI [of _ st2] exI [of _ k] exI [of _ "''aur_live_'' @ x"])
      (simp add: authenticate_api_key_def user_get_def key_valid_def)
qed

section \<open>Instances\<close>

definition toy_key :: create_key_request where
  "toy_key = \<lparr>kq_name = ''ci'', kq_scopes = [], kq_expires = None\<rparr>"


definition toy_register :: "string \<Rightarrow> register_request" where
  "toy_register n = \<lparr>rq_name = n, rq_email = n @ ''@x'', rq_password = ''password'', rq_ip = '''', rq_agent = ''''\<rparr>"

definition role_keys :: "string list" where
  "role_keys = [''role_superadmin'', ''superadmin'', ''role_customer'', ''customer'', ''role_operator'', ''operator'']"

lemma iterates_role_keys: "iterates (seed_roles t) role_keys"
  by (auto simp: iterates_def role_keys_def seed_roles_def)


definition careful_alice :: iam where
  "careful_alice = (new_iam 0)\<lparr>im_users := [''u1'' \<mapsto> alice\<lparr>us_two_factor := True\<rparr>]\<rparr>"

definition alice_login :: login_request where
  "alice_login = \<lparr>lq_ident = ''alice'', lq_password = ''password'', lq_ip = '''', lq_agent = ''''\<rparr>"

lemma alice_login_user:
  "login_user (toy_draws ''s'' ''p'') ''alice'' careful_alice = Inr (alice\<lparr>us_two_factor := True\<rparr>)"
  by (simp add: login_user_def user_by_name_def find_user_def toy_draws_def careful_alice_def alice_def)

theorem login_needs_second_factor_witness:
  "im_sessions (fst (login toy_crypt 0 (toy_draws ''s'' ''p'') alice_login careful_alice)) = Map.empty"
proof -
  have "login_user (toy_draws ''s'' ''p'') (lq_ident alice_login) careful_alice = Inr (alice\<lparr>us_two_factor := True\<rparr>)"
    by (simp add: alice_login_user alice_login_def)
  from login_needs_second_factor [OF this] show ?thesis by (simp add: careful_alice_def new_iam_def)
qed

text \<open>A library with one token: the challenge of the login below.\<close>

definition challenge_claims :: claims where
  "challenge_claims = \<lparr>cm_user = ''u1'', cm_username = ''alice'', cm_email = ''a@x'',
     cm_roles = [''2fa_challenge''], cm_perms = [], cm_scopes = [], cm_type = ''access'',
     cm_issuer = ''aurora-control-plane'', cm_subject = ''u1'', cm_audience = [''aurora-api''],
     cm_exp = 15 * minute, cm_nbf = 0, cm_iat = 0, cm_jti = ''j''\<rparr>"

definition one_token :: crypt where
  "one_token = toy_crypt\<lparr>
     cr_sign := (\<lambda>c. if c = challenge_claims then Inr ''jwt'' else Inl (ErrText ''no key'')),
     cr_parse := (\<lambda>now iss aud t. if t = ''jwt'' \<and> iss = ''aurora-control-plane'' \<and> aud = ''aurora-api''
        then Inr (challenge_claims, True) else Inl JwtMalformed)\<rparr>"

lemma one_token_faithful: "jwt_faithful one_token"
  by (auto simp: jwt_faithful_def one_token_def challenge_claims_def split: if_splits)

theorem challenge_bypasses_second_factor_witness:
  "\<exists>st1 lr st2 k plain sub. login one_token 0 (toy_draws ''s'' ''p'') alice_login careful_alice = (st1, Inr lr) \<and>
     lr_requires_2fa lr \<and>
     handle_create_key one_token 1 [] ''k1'' (Some ''x'') '''' (''Bearer '' @ lr_challenge lr) toy_key st1 = (st2, Some (k, plain)) \<and>
     authenticate_api_key one_token 2 [] plain st2 = Inr sub \<and> sub_user sub = ''u1''"
proof -
  have "generate_access_token one_token 0 ''j'' (alice\<lparr>us_two_factor := True\<rparr>) [''2fa_challenge''] [] = Inr ''jwt''"
    by (simp add: generate_access_token_def one_token_def challenge_claims_def alice_def)
  then obtain st1 lr where l: "login one_token 0 (toy_draws ''s'' ''p'') alice_login careful_alice = (st1, Inr lr)" "lr_requires_2fa lr"
    using alice_login_user
    by (simp add: login_def alice_login_def) (simp add: one_token_def toy_crypt_def alice_def toy_draws_def)
  have "users_keyed careful_alice" by (simp add: users_keyed_def careful_alice_def alice_def)
  from challenge_bypasses_second_factor [OF one_token_faithful this l, of 1 toy_key "[]" "''k1''" "''x''" 2] l alice_login_user
  show ?thesis by (auto simp: toy_key_def alice_login_def alice_def minute_def second_def)
qed

end
