(* ===== verification/Telemetry.thy ===== *)
theory Telemetry
  imports Float64 Aurora_Prelude
begin

text \<open>
  The telemetry ring buffer of \<open>internal/infra/telemetry/ringbuffer.go\<close>: a fixed array with a
  head index and a fill count. The abstract specification is a bounded history, the list of
  the newest samples; the locale \<open>bounded_history\<close> states it and the ring buffer refines it.
  The range query groups samples into buckets of whole steps and averages them in
  \<open>float64\<close>; its final loop runs over 64-bit instants and is shown to end.
\<close>

section \<open>Data\<close>

record sample =
  sm_rtype :: string
  sm_rid :: string
  sm_metric :: string
  sm_value :: f64
  sm_time :: gtime

record data_point =
  dp_time :: gtime
  dp_value :: f64

record time_series =
  ts_metric :: string
  ts_unit :: string
  ts_points :: "data_point list"

text \<open>A nil pointer in the array or in a batch is \<open>None\<close>.\<close>

record ring =
  rb_capacity :: nat
  rb_samples :: "sample option list"
  rb_head :: nat
  rb_size :: nat

definition new_ring :: "int \<Rightarrow> ring" where
  "new_ring capacity =
     (let c = nat (if capacity \<le> 0 then 50000 else capacity)
      in \<lparr>rb_capacity = c, rb_samples = replicate c None, rb_head = 0, rb_size = 0\<rparr>)"

section \<open>Pushing\<close>

definition put_sample :: "sample \<Rightarrow> ring \<Rightarrow> ring" where
  "put_sample s rb = rb\<lparr>rb_samples := (rb_samples rb)[rb_head rb := Some s],
     rb_head := (rb_head rb + 1) mod rb_capacity rb,
     rb_size := (if rb_size rb < rb_capacity rb then rb_size rb + 1 else rb_size rb)\<rparr>"

definition push :: "sample option \<Rightarrow> ring \<Rightarrow> ring" where
  "push s rb = (case s of None \<Rightarrow> rb | Some s \<Rightarrow> put_sample s rb)"

fun push_batch :: "sample option list \<Rightarrow> ring \<Rightarrow> ring" where
  "push_batch [] rb = rb"
| "push_batch (None # ss) rb = push_batch ss rb"
| "push_batch (Some s # ss) rb = push_batch ss (put_sample s rb)"

section \<open>Queries\<close>

text \<open>\<open>(rb.head - 1 - i + rb.capacity) % rb.capacity\<close>; Go's remainder has the sign of the dividend.\<close>

definition slot_index :: "ring \<Rightarrow> nat \<Rightarrow> int" where
  "slot_index rb i = (let a = int (rb_head rb) - 1 - int i + int (rb_capacity rb) in a - quot a (int (rb_capacity rb)) * int (rb_capacity rb))"

definition sample_matches :: "string \<Rightarrow> string \<Rightarrow> string \<Rightarrow> gtime \<Rightarrow> gtime \<Rightarrow> sample \<Rightarrow> bool" where
  "sample_matches rtype rid name from to s \<longleftrightarrow>
     sm_rtype s = rtype \<and> sm_rid s = rid \<and> sm_metric s = name \<and> \<not> sm_time s < from \<and> \<not> to < sm_time s"

definition ring_list :: "ring \<Rightarrow> sample list" where
  "ring_list rb = List.map_filter (\<lambda>i. rb_samples rb ! nat (slot_index rb i)) [0..<rb_size rb]"

text \<open>\<open>Time.Unix()\<close> rounds down to seconds; the division of buckets truncates.\<close>

definition unix :: "gtime \<Rightarrow> int" where
  "unix t = t div second"

definition bucket_of :: "int \<Rightarrow> gtime \<Rightarrow> int" where
  "bucket_of step t = quot (unix t) step * step"

fun add_bucket :: "int \<Rightarrow> sample \<Rightarrow> (int \<rightharpoonup> f64 \<times> int) \<Rightarrow> (int \<rightharpoonup> f64 \<times> int)" where
  "add_bucket step s bs =
     (let k = bucket_of step (sm_time s)
      in case bs k of
           Some (tot, n) \<Rightarrow> bs(k \<mapsto> (f_add tot (sm_value s), n + 1))
         | None \<Rightarrow> bs(k \<mapsto> (sm_value s, 1)))"

definition bucket_point :: "(int \<rightharpoonup> f64 \<times> int) \<Rightarrow> int \<Rightarrow> data_point option" where
  "bucket_point bs t =
     (case bs t of
        None \<Rightarrow> None
      | Some (tot, n) \<Rightarrow>
          if n > 0
          then Some \<lparr>dp_time = t * second,
                     dp_value = f_div (of_int (math_round (f_mul (f_div tot (f_of_int n)) 100))) 100\<rparr>
          else None)"

text \<open>The loop \<open>for t := startBucket; t <= endBucket; t += step\<close> on 64-bit integers.\<close>

partial_function (option) bucket_loop ::
  "(int \<rightharpoonup> f64 \<times> int) \<Rightarrow> int \<Rightarrow> int \<Rightarrow> int \<Rightarrow> data_point list option" where
  "bucket_loop bs step e t =
     (if t \<le> e
      then Option.bind (bucket_loop bs step e (wrap64 (t + step)))
             (\<lambda>ps. Some (case bucket_point bs t of None \<Rightarrow> ps | Some p \<Rightarrow> p # ps))
      else Some [])"

definition metric_unit :: "string \<Rightarrow> string" where
  "metric_unit name =
     (if name = ''cpu_percent'' then ''%''
      else if name \<in> {''memory_used_bytes'', ''memory_total_bytes'', ''disk_used_bytes'',
                      ''disk_total_bytes'', ''net_rx_bytes'', ''net_tx_bytes''} then ''bytes''
      else if name \<in> {''load_1m'', ''load_5m'', ''load_15m''} then ''load''
      else ''value'')"

definition query_range ::
  "string \<Rightarrow> string \<Rightarrow> string \<Rightarrow> gtime \<Rightarrow> gtime \<Rightarrow> int \<Rightarrow> ring \<Rightarrow> time_series option" where
  "query_range rtype rid name from to step rb =
     (let step = (if step \<le> 0 then 10 else step);
          matching = filter (sample_matches rtype rid name from to) (ring_list rb)
      in if matching = [] then Some \<lparr>ts_metric = name, ts_unit = metric_unit name, ts_points = []\<rparr>
         else map_option (\<lambda>ps. \<lparr>ts_metric = name, ts_unit = metric_unit name, ts_points = ps\<rparr>)
                (bucket_loop (fold (add_bucket step) matching Map.empty) step (bucket_of step to) (bucket_of step from)))"

section \<open>The bounded history and its refinement\<close>

text \<open>
  A bounded history keeps the newest elements, newest first: pushing puts an element in front
  and drops what exceeds the capacity.
\<close>

locale bounded_history =
  fixes put :: "'a \<Rightarrow> 's \<Rightarrow> 's" and hist :: "'s \<Rightarrow> 'a list" and cap :: "'s \<Rightarrow> nat" and ok :: "'s \<Rightarrow> bool"
  assumes hist_put: "ok s \<Longrightarrow> hist (put x s) = take (cap s) (x # hist s)"
    and cap_put: "ok s \<Longrightarrow> cap (put x s) = cap s"
    and ok_put: "ok s \<Longrightarrow> ok (put x s)"
begin

lemma fold_put:
  assumes "ok s"
  shows "ok (fold put xs s)" and "cap (fold put xs s) = cap s"
  using assms by (induction xs arbitrary: s) (simp_all add: ok_put cap_put)

lemma hist_fold:
  assumes "ok s"
  shows "hist (fold put xs s) = (if xs = [] then hist s else take (cap s) (rev xs @ hist s))"
  using assms
proof (induction xs arbitrary: s)
  case (Cons x xs)
  have "hist (fold put xs (put x s)) = (if xs = [] then hist (put x s) else take (cap s) (rev xs @ hist (put x s)))"
    using Cons(1) [OF ok_put [OF Cons(2)], of x] by (simp add: cap_put [OF Cons(2)])
  also have "\<dots> = take (cap s) (rev xs @ x # hist s)"
    by (simp add: hist_put [OF Cons(2)] min_def)
  finally show ?case by simp
qed simp

end

definition ring_ok :: "ring \<Rightarrow> bool" where
  "ring_ok rb \<longleftrightarrow> 0 < rb_capacity rb \<and> length (rb_samples rb) = rb_capacity rb \<and>
     rb_head rb < rb_capacity rb \<and> rb_size rb \<le> rb_capacity rb \<and>
     (\<forall>i < rb_size rb. rb_samples rb ! nat (slot_index rb i) \<noteq> None)"

text \<open>Going back from the head, slot \<open>i\<close> is \<open>head - 1 - i\<close>, around the end of the array.\<close>

lemma slot_index_nat:
  assumes "i < rb_capacity rb" and "rb_head rb < rb_capacity rb"
  shows "nat (slot_index rb i) = (if i < rb_head rb then rb_head rb - 1 - i else rb_capacity rb + rb_head rb - 1 - i)"
proof -
  let ?c = "int (rb_capacity rb)" and ?a = "int (rb_head rb) - 1 - int i + int (rb_capacity rb)"
  have "slot_index rb i = ?a - ?a div ?c * ?c"
    using assms by (simp add: slot_index_def Let_def)
  also have "\<dots> = ?a mod ?c" by (simp add: minus_div_mult_eq_mod)
  also have "\<dots> = (if i < rb_head rb then int (rb_head rb) - 1 - int i else ?a)"
  proof (cases "i < rb_head rb")
    case True
    with assms show ?thesis using mod_add_self2 [of "int (rb_head rb) - 1 - int i" ?c] by simp
  next
    case False
    with assms have "0 \<le> ?a" "?a < ?c" by auto
    with False show ?thesis by (simp only: mod_pos_pos_trivial if_False)
  qed
  finally show ?thesis using assms by auto
qed

lemma slot_index_less:
  "ring_ok rb \<Longrightarrow> i < rb_size rb \<Longrightarrow> nat (slot_index rb i) < rb_capacity rb"
  by (subst slot_index_nat) (auto simp: ring_ok_def)

lemma ring_ok_new: "ring_ok (new_ring c)"
  by (simp add: ring_ok_def new_ring_def Let_def)

lemma ring_list_ok:
  assumes "ring_ok rb"
  shows "ring_list rb = map (\<lambda>i. the (rb_samples rb ! nat (slot_index rb i))) [0..<rb_size rb]"
  using assms by (auto simp: ring_list_def map_filter_def ring_ok_def intro!: filter_True)

lemma put_sample_slots:
  assumes "ring_ok rb" and "i < rb_size (put_sample s rb)"
  shows "rb_samples (put_sample s rb) ! nat (slot_index (put_sample s rb) i) =
     (if i = 0 then Some s else rb_samples rb ! nat (slot_index rb (i - 1)))"
proof -
  let ?c = "rb_capacity rb" and ?h = "rb_head rb" and ?p = "put_sample s rb"
  have ok: "0 < ?c" "length (rb_samples rb) = ?c" "?h < ?c" "rb_size rb \<le> ?c" using assms(1) by (auto simp: ring_ok_def)
  have p: "rb_capacity ?p = ?c" "rb_head ?p = (?h + 1) mod ?c" "rb_samples ?p = (rb_samples rb)[?h := Some s]"
    by (simp_all add: put_sample_def)
  have i: "i < ?c" using assms(2) ok by (auto simp: put_sample_def split: if_splits)
  have hd: "rb_head ?p = (if ?h + 1 = ?c then 0 else ?h + 1)" using ok p(2) by auto
  have "nat (slot_index ?p i) = (if i = 0 then ?h else nat (slot_index rb (i - 1)))"
  proof -
    have "nat (slot_index ?p i) = (if i < rb_head ?p then rb_head ?p - 1 - i else ?c + rb_head ?p - 1 - i)"
      by (subst slot_index_nat) (use i ok hd p in auto)
    moreover have "nat (slot_index rb (i - 1)) = (if i - 1 < ?h then ?h - 1 - (i - 1) else ?c + ?h - 1 - (i - 1))"
      by (subst slot_index_nat) (use i ok in auto)
    ultimately show ?thesis using hd i ok by (auto split: if_splits)
  qed
  moreover have "?h \<noteq> nat (slot_index rb (i - 1))" if "i \<noteq> 0"
    by (subst slot_index_nat) (use that i ok in auto)
  ultimately show ?thesis using p(3) ok by (cases "i = 0") simp_all
qed

lemma ring_ok_put: "ring_ok rb \<Longrightarrow> ring_ok (put_sample s rb)"
proof -
  assume ok: "ring_ok rb"
  have "rb_samples (put_sample s rb) ! nat (slot_index (put_sample s rb) i) \<noteq> None" if "i < rb_size (put_sample s rb)" for i
    using put_sample_slots [OF ok that] ok that by (auto simp: ring_ok_def put_sample_def split: if_splits)
  with ok show ?thesis by (auto simp: ring_ok_def put_sample_def)
qed

lemma ring_list_put:
  assumes "ring_ok rb"
  shows "ring_list (put_sample s rb) = take (rb_capacity rb) (s # ring_list rb)"
proof (rule nth_equalityI)
  have size: "rb_size (put_sample s rb) = min (rb_capacity rb) (Suc (rb_size rb))"
    using assms by (auto simp: put_sample_def ring_ok_def)
  note lists = ring_list_ok [OF assms] ring_list_ok [OF ring_ok_put [OF assms]]
  show len: "length (ring_list (put_sample s rb)) = length (take (rb_capacity rb) (s # ring_list rb))"
    by (simp add: lists size min_def)
  fix i assume "i < length (ring_list (put_sample s rb))"
  then have i: "i < rb_size (put_sample s rb)" by (simp add: lists)
  then show "ring_list (put_sample s rb) ! i = take (rb_capacity rb) (s # ring_list rb) ! i"
    using put_sample_slots [OF assms i] size by (cases i) (auto simp: lists)
qed

interpretation telemetry_ring: bounded_history put_sample ring_list rb_capacity ring_ok
proof unfold_locales
  show "rb_capacity (put_sample x s) = rb_capacity s" for x s by (simp add: put_sample_def)
qed (simp_all add: ring_list_put ring_ok_put)

lemma push_batch_fold: "push_batch ss rb = fold put_sample (List.map_filter (\<lambda>s. s) ss) rb"
  by (induction ss rb rule: push_batch.induct) (simp_all add: map_filter_simps)

lemma new_ring_capacity: "rb_capacity (new_ring c) = nat (if c \<le> 0 then 50000 else c)"
  by (simp add: new_ring_def Let_def)

lemma ring_list_new: "ring_list (new_ring c) = []"
  by (simp add: ring_list_def new_ring_def Let_def map_filter_simps)

text \<open>
  C11. The ring buffer implements the bounded history: after any batches of samples (nil entries
  are skipped) its contents, read back from the head as the queries do, are the newest samples
  up to the capacity, newest first.
\<close>

theorem ring_refines_history:
  "ring_list (fold push_batch batches (new_ring c)) =
     take (nat (if c \<le> 0 then 50000 else c)) (rev (List.map_filter (\<lambda>s. s) (concat batches)))"
proof -
  have "fold push_batch batches rb = fold put_sample (List.map_filter (\<lambda>s. s) (concat batches)) rb" for rb
    by (induction batches arbitrary: rb) (simp_all add: push_batch_fold map_filter_def map_filter_simps)
  then show ?thesis
    using telemetry_ring.hist_fold [OF ring_ok_new]
    by (simp add: ring_list_new new_ring_capacity map_filter_def del: if_split)
qed

section \<open>The range query ends and loses no sample\<close>

lemma quot_pos: "0 < b \<Longrightarrow> quot a b = (if 0 \<le> a then a div b else - (- a div b))"
  by (cases "a = 0") (auto simp: quot_def sgn_if)

lemma quot_mono: "0 < b \<Longrightarrow> a \<le> c \<Longrightarrow> quot a b \<le> quot c b"
proof -
  assume b: "0 < b" and ac: "a \<le> c"
  have nonneg: "0 \<le> x div b" if "0 \<le> x" for x using that b by (simp add: pos_imp_zdiv_nonneg_iff)
  have mono: "x div b \<le> y div b" if "x \<le> y" for x y using that b by (rule zdiv_mono1)
  show ?thesis
    using ac b nonneg [of "- a"] nonneg [of c] mono [of a c] mono [of "- c" "- a"]
    by (cases "0 \<le> a"; cases "0 \<le> c") (simp_all add: quot_pos)
qed

lemma quot_mult_bounds: "0 < b \<Longrightarrow> \<bar>quot a b * b\<bar> \<le> \<bar>a\<bar>"
proof -
  assume b: "0 < b"
  have "x div b * b \<le> x \<and> 0 \<le> x div b * b" if "0 \<le> x" for x
    using that b zmod_le_nonneg_dividend [of x b]
    by (simp add: minus_mod_eq_div_mult [symmetric] pos_imp_zdiv_nonneg_iff)
  from this [of a] this [of "- a"] b show ?thesis by (auto simp: quot_pos)
qed

lemma unix_mono: "t \<le> u \<Longrightarrow> unix t \<le> unix u"
  by (simp add: unix_def second_def zdiv_mono1)

lemma bucket_loop_steps:
  assumes "0 < step" and "step \<le> max_int64" and "\<bar>m * step\<bar> < 4611686018427387904"
    and "\<bar>k * step\<bar> < 4611686018427387904"
  shows "bucket_loop bs step (m * step) (k * step) =
    Some (List.map_filter (\<lambda>j. bucket_point bs (j * step)) [k..m])"
  using assms(4)
proof (induction "nat (m - k + 1)" arbitrary: k)
  case 0
  then have "m < k" by simp
  then have "\<not> k * step \<le> m * step" using assms(1) by simp
  then show ?case using \<open>m < k\<close> by (subst bucket_loop.simps) (simp add: map_filter_simps)
next
  case (Suc n)
  then have km: "k \<le> m" by simp
  have sum: "k * step + step = (k + 1) * step" by (simp add: algebra_simps)
  have le: "(k + 1) * step \<le> max_int64 \<and> - 4611686018427387904 < (k + 1) * step"
  proof (cases "0 < k")
    case True
    then have "1 * step \<le> k * step" using assms(1) by (intro mult_right_mono) auto
    with Suc(3) sum assms(1) show ?thesis unfolding max_int64_def by linarith
  next
    case False
    then have "k * step \<le> 0" using assms(1) by (simp add: mult_nonpos_nonneg)
    with Suc(3) sum assms(1,2) show ?thesis by simp
  qed
  then have w: "wrap64 (k * step + step) = (k + 1) * step"
    by (simp add: sum int64_def min_int64_def)
  have "bucket_loop bs step (m * step) ((k + 1) * step) =
      Some (List.map_filter (\<lambda>j. bucket_point bs (j * step)) [k + 1..m])"
  proof (cases "k + 1 \<le> m")
    case True
    then have "(k + 1) * step \<le> m * step" using assms(1) by simp
    with le assms(3) have "\<bar>(k + 1) * step\<bar> < 4611686018427387904" by linarith
    with Suc(1) [of "k + 1"] Suc(2) show ?thesis by simp
  next
    case False
    then have "\<not> (k + 1) * step \<le> m * step" using assms(1) by simp
    then show ?thesis using False by (subst bucket_loop.simps) (simp add: map_filter_simps)
  qed
  moreover have "k * step \<le> m * step" using km assms(1) by simp
  ultimately show ?case
    using km w by (subst bucket_loop.simps) (simp add: upto_rec1 map_filter_simps split: option.splits)
qed

lemma fold_buckets_pos:
  assumes "\<And>k c n. bs k = Some (c, n) \<Longrightarrow> 0 < n" and "fold (add_bucket step) xs bs k = Some (c, n)"
  shows "0 < n"
  using assms
proof (induction xs arbitrary: bs)
  case (Cons s xs)
  have pos: "0 < n" if "add_bucket step s bs k = Some (c, n)" for k c n
    using that Cons(2) by (fastforce simp: Let_def split: option.splits prod.splits if_splits)
  show ?case using Cons(1) [OF pos] Cons(3) by simp
qed simp

lemma fold_buckets_dom:
  "dom (fold (add_bucket step) xs bs) = dom bs \<union> (\<lambda>s. bucket_of step (sm_time s)) ` set xs"
proof (induction xs arbitrary: bs)
  case (Cons s xs)
  have "dom (add_bucket step s bs) = insert (bucket_of step (sm_time s)) (dom bs)"
    by (auto simp: Let_def split: option.splits prod.splits if_splits)
  with Cons show ?case by auto
qed simp

lemma bucket_point_Some:
  assumes "\<forall>k c n. bs k = Some (c, n) \<longrightarrow> 0 < n"
  shows "bs t \<noteq> None \<Longrightarrow> \<exists>p. bucket_point bs t = Some p \<and> dp_time p = t * second"
    and "bucket_point bs t = Some p \<Longrightarrow> dp_time p = t * second \<and> bs t \<noteq> None"
  using assms by (auto simp: bucket_point_def split: option.splits prod.splits if_splits)

text \<open>
  C32. Range queries return: for every 64-bit step and instants within 2 to the 62 seconds of the
  epoch, the loop over the buckets ends without wrapping around. The points are in strictly
  ascending order, every retained sample of the metric in the range is in the bucket of some
  point, and every point is the bucket of such a sample.
\<close>

theorem query_range_returns:
  assumes "int64 step" and "\<bar>unix from\<bar> < 4611686018427387904" and "\<bar>unix to\<bar> < 4611686018427387904"
  shows "\<exists>ts. query_range rtype rid name from to step rb = Some ts \<and>
    sorted_wrt (<) (map dp_time (ts_points ts)) \<and>
    dp_time ` set (ts_points ts) =
      (\<lambda>s. bucket_of (if step \<le> 0 then 10 else step) (sm_time s) * second) `
        {s \<in> set (ring_list rb). sample_matches rtype rid name from to s}"
proof -
  define st where "st = (if step \<le> 0 then 10 else step)"
  define ms where "ms = filter (sample_matches rtype rid name from to) (ring_list rb)"
  define bs where "bs = fold (add_bucket st) ms Map.empty"
  define f where "f j = bucket_point bs (j * st)" for j
  have st: "0 < st" "st \<le> max_int64" using assms(1) by (auto simp: st_def int64_def max_int64_def)
  let ?m = "quot (unix to) st" and ?k = "quot (unix from) st"
  have "bucket_loop bs st (?m * st) (?k * st) = Some (List.map_filter f [?k..?m])"
    unfolding f_def using st quot_mult_bounds [OF st(1), of "unix to"] quot_mult_bounds [OF st(1), of "unix from"] assms(2,3)
    by (intro bucket_loop_steps) linarith+
  then have q: "query_range rtype rid name from to step rb = Some \<lparr>ts_metric = name, ts_unit = metric_unit name,
      ts_points = (if ms = [] then [] else List.map_filter f [?k..?m])\<rparr>"
    by (simp add: query_range_def Let_def bucket_of_def flip: st_def ms_def bs_def)
  have pos: "\<forall>k c n. bs k = Some (c, n) \<longrightarrow> 0 < n"
    using fold_buckets_pos [of Map.empty st ms] by (simp add: bs_def)
  have time: "dp_time p = j * st * second \<and> bs (j * st) \<noteq> None" if "f j = Some p" for j p
    using bucket_point_Some(2) [of bs, OF pos] that unfolding f_def by blast
  have asc: "sorted_wrt (<) (map dp_time (List.map_filter f [?k..?m]))"
  proof -
    have "sorted_wrt (<) (map dp_time (List.map_filter f [k..m]))" for k m
    proof (induction "nat (m - k + 1)" arbitrary: k)
      case (Suc n)
      have "dp_time p < dp_time r" if p: "f k = Some p" and r: "r \<in> set (List.map_filter f [k + 1..m])" for p r
      proof -
        obtain j where "k + 1 \<le> j" "f j = Some r" using r by (auto simp: map_filter_def)
        then show ?thesis using time [OF p] time [of j r] st(1) by (simp add: second_def)
      qed
      with Suc show ?case by (auto simp: upto_rec1 map_filter_simps split: option.splits)
    qed (simp add: map_filter_simps)
    then show ?thesis .
  qed
  have dom: "dom bs = (\<lambda>s. bucket_of st (sm_time s)) ` set ms" by (simp add: bs_def fold_buckets_dom)
  have range: "?k \<le> quot (unix (sm_time s)) st \<and> quot (unix (sm_time s)) st \<le> ?m" if "s \<in> set ms" for s
    using that st(1) by (auto simp: ms_def sample_matches_def intro!: quot_mono unix_mono)
  have "dp_time ` set (List.map_filter f [?k..?m]) = (\<lambda>b. b * second) ` dom bs"
  proof (intro equalityI subsetI)
    fix t assume "t \<in> dp_time ` set (List.map_filter f [?k..?m])"
    then obtain j p where "f j = Some p" "t = dp_time p" by (auto simp: map_filter_def)
    with time [of j p] show "t \<in> (\<lambda>b. b * second) ` dom bs" by auto
  next
    fix t assume "t \<in> (\<lambda>b. b * second) ` dom bs"
    then obtain s where s: "s \<in> set ms" "t = bucket_of st (sm_time s) * second" by (auto simp: dom)
    then have "bucket_of st (sm_time s) \<in> dom bs" unfolding dom by blast
    then have "bs (bucket_of st (sm_time s)) \<noteq> None" by (simp add: domIff)
    then obtain p where "f (quot (unix (sm_time s)) st) = Some p" "dp_time p = t"
      using bucket_point_Some(1) [of bs, OF pos] s(2) by (fastforce simp: f_def bucket_of_def)
    with range [OF s(1)] show "t \<in> dp_time ` set (List.map_filter f [?k..?m])"
      by (force simp: map_filter_def)
  qed
  moreover have "set ms = {s \<in> set (ring_list rb). sample_matches rtype rid name from to s}" by (simp add: ms_def)
  ultimately show ?thesis
    using q asc dom by (auto simp: image_image st_def [symmetric])
qed

definition cpu_sample :: "gtime \<Rightarrow> f64 \<Rightarrow> sample" where
  "cpu_sample t v = \<lparr>sm_rtype = ''node'', sm_rid = ''n1'', sm_metric = ''cpu_percent'', sm_value = v, sm_time = t\<rparr>"

theorem query_range_returns_witness:
  "\<exists>ts. query_range ''node'' ''n1'' ''cpu_percent'' 0 (25 * second) 0 (push (Some (cpu_sample (13 * second) 7)) (new_ring 4)) = Some ts \<and>
     dp_time ` set (ts_points ts) = {10 * second}"
proof -
  let ?rb = "push (Some (cpu_sample (13 * second) 7)) (new_ring 4)"
  have l: "ring_list ?rb = [cpu_sample (13 * second) 7]"
    using ring_list_put [OF ring_ok_new, of "cpu_sample (13 * second) 7" 4]
    by (simp add: push_def ring_list_new new_ring_capacity)
  have m: "{s \<in> set (ring_list ?rb). sample_matches ''node'' ''n1'' ''cpu_percent'' 0 (25 * second) s} = {cpu_sample (13 * second) 7}"
    unfolding l by (auto simp: sample_matches_def cpu_sample_def second_def)
  have "int64 0" by (simp add: int64_def min_int64_def max_int64_def)
  moreover have "unix 0 = 0" "unix (25 * second) = 25" by (simp_all add: unix_def second_def)
  ultimately obtain ts where
    "query_range ''node'' ''n1'' ''cpu_percent'' 0 (25 * second) 0 ?rb = Some ts"
    "dp_time ` set (ts_points ts) = (\<lambda>s. bucket_of 10 (sm_time s) * second) `
        {s \<in> set (ring_list ?rb). sample_matches ''node'' ''n1'' ''cpu_percent'' 0 (25 * second) s}"
    using query_range_returns [of 0 0 "25 * second" "''node''" "''n1''" "''cpu_percent''" ?rb] by auto
  moreover have "bucket_of 10 (sm_time (cpu_sample (13 * second) 7)) = 10"
    by (simp add: cpu_sample_def bucket_of_def unix_def second_def)
  ultimately show ?thesis unfolding m by simp
qed

end
