(* ===== verification/Monitoring.thy ===== *)
theory Monitoring
  imports Telemetry Instance_Store Node_Store Domain_Events
begin

text \<open>
  Metrics and alerts: \<open>internal/domain/monitoring\<close>, the repositories of
  \<open>internal/infra/memory/monitoring_repo.go\<close> and \<open>internal/app/monitoring/service.go\<close>. The
  text of an alert message, which formats floating point numbers, is the argument \<open>msg\<close>; the
  identifiers of new events are the argument \<open>ids\<close>.
\<close>

section \<open>Data\<close>

record threshold =
  th_id :: string
  th_user :: string
  th_rtype :: string
  th_rid :: string
  th_metric :: string
  th_op :: string
  th_value :: f64
  th_duration :: int
  th_severity :: string
  th_enabled :: bool
  th_created :: gtime
  th_updated :: gtime

definition threshold_evaluate :: "threshold \<Rightarrow> f64 \<Rightarrow> bool" where
  "threshold_evaluate t v =
     (if \<not> th_enabled t then False
      else if th_op t = ''gt'' then v > th_value t
      else if th_op t = ''gte'' then v \<ge> th_value t
      else if th_op t = ''lt'' then v < th_value t
      else if th_op t = ''lte'' then v \<le> th_value t
      else if th_op t = ''eq'' then v = th_value t
      else False)"

definition threshold_resource :: "threshold \<Rightarrow> resource" where
  "threshold_resource t = \<lparr>res_type = ''alert_threshold'', res_id = th_id t, res_owner = th_user t, res_location = ''''\<rparr>"

record alert_event =
  ae_id :: string
  ae_threshold :: string
  ae_rtype :: string
  ae_rid :: string
  ae_value :: f64
  ae_severity :: string
  ae_message :: string
  ae_state :: string
  ae_triggered :: gtime
  ae_resolved :: "gtime option"

record monitor =
  mo_ring :: ring
  mo_thresholds :: "string \<rightharpoonup> threshold"
  mo_events :: "string \<rightharpoonup> alert_event"
  mo_insts :: inst_store
  mo_nodes :: node_store
  mo_trails :: trails

section \<open>Repositories\<close>

definition insert_samples :: "sample option list \<Rightarrow> monitor \<Rightarrow> monitor" where
  "insert_samples ss m = m\<lparr>mo_ring := push_batch ss (mo_ring m)\<rparr>"

text \<open>\<open>Create\<close> completes the caller's object before it stores a copy.\<close>

definition threshold_create :: "gtime \<Rightarrow> string \<Rightarrow> threshold \<Rightarrow> monitor \<Rightarrow> monitor \<times> threshold" where
  "threshold_create now uuid t m =
     (let t = (if th_id t = '''' then t\<lparr>th_id := uuid\<rparr> else t);
          t = t\<lparr>th_created := now, th_updated := now\<rparr>
      in (m\<lparr>mo_thresholds := (mo_thresholds m)(th_id t \<mapsto> t)\<rparr>, t))"

definition threshold_get :: "string \<Rightarrow> monitor \<Rightarrow> threshold result" where
  "threshold_get tid m = (case mo_thresholds m tid of None \<Rightarrow> Inl ErrThresholdNotFound | Some t \<Rightarrow> Inr t)"

definition thresholds_by_resource :: "string list \<Rightarrow> string \<Rightarrow> string \<Rightarrow> monitor \<Rightarrow> threshold list" where
  "thresholds_by_resource ks rtype rid m =
     filter (\<lambda>t. th_rtype t = rtype \<and> (rid = '''' \<or> th_rid t = rid)) (vals (mo_thresholds m) ks)"

definition threshold_list_all :: "string list \<Rightarrow> monitor \<Rightarrow> threshold list" where
  "threshold_list_all ks m = vals (mo_thresholds m) ks"

definition threshold_update :: "gtime \<Rightarrow> threshold \<Rightarrow> monitor \<Rightarrow> monitor \<times> go_error option" where
  "threshold_update now t m =
     (if mo_thresholds m (th_id t) = None then (m, Some ErrThresholdNotFound)
      else (m\<lparr>mo_thresholds := (mo_thresholds m)(th_id t \<mapsto> t\<lparr>th_updated := now\<rparr>)\<rparr>, None))"

definition threshold_delete :: "string \<Rightarrow> monitor \<Rightarrow> monitor \<times> go_error option" where
  "threshold_delete tid m =
     (if mo_thresholds m tid = None then (m, Some ErrThresholdNotFound)
      else (m\<lparr>mo_thresholds := (mo_thresholds m)(tid := None)\<rparr>, None))"

definition event_create :: "gtime \<Rightarrow> string \<Rightarrow> alert_event \<Rightarrow> monitor \<Rightarrow> monitor" where
  "event_create now uuid e m =
     (let e = (if ae_id e = '''' then e\<lparr>ae_id := uuid\<rparr> else e);
          e = (if ae_triggered e = zero_time then e\<lparr>ae_triggered := now\<rparr> else e)
      in m\<lparr>mo_events := (mo_events m)(ae_id e \<mapsto> e)\<rparr>)"

definition event_get :: "string \<Rightarrow> monitor \<Rightarrow> alert_event result" where
  "event_get eid m = (case mo_events m eid of None \<Rightarrow> Inl ErrAlertEventNotFound | Some e \<Rightarrow> Inr e)"

definition event_list :: "string list \<Rightarrow> string \<Rightarrow> string \<Rightarrow> string \<Rightarrow> monitor \<Rightarrow> alert_event list" where
  "event_list ks rtype rid state m =
     filter (\<lambda>e. (rtype = '''' \<or> ae_rtype e = rtype) \<and> (rid = '''' \<or> ae_rid e = rid) \<and>
                 (state = '''' \<or> ae_state e = state)) (vals (mo_events m) ks)"

definition event_update :: "alert_event \<Rightarrow> monitor \<Rightarrow> monitor \<times> go_error option" where
  "event_update e m =
     (if mo_events m (ae_id e) = None then (m, Some ErrAlertEventNotFound)
      else (m\<lparr>mo_events := (mo_events m)(ae_id e \<mapsto> e)\<rparr>, None))"

section \<open>Ingestion and alerting\<close>

definition alert_for :: "(threshold \<Rightarrow> sample \<Rightarrow> string) \<Rightarrow> gtime \<Rightarrow> threshold \<Rightarrow> sample \<Rightarrow> alert_event" where
  "alert_for msg now t s = \<lparr>ae_id = '''', ae_threshold = th_id t, ae_rtype = th_rtype t, ae_rid = th_rid t,
     ae_value = sm_value s, ae_severity = th_severity t, ae_message = msg t s, ae_state = ''firing'',
     ae_triggered = now, ae_resolved = None\<rparr>"

definition fires :: "sample \<Rightarrow> threshold \<Rightarrow> bool" where
  "fires s t \<longleftrightarrow> th_metric t = sm_metric s \<and> threshold_evaluate t (sm_value s)"

text \<open>The two nested loops; \<open>n\<close> counts the events created so far.\<close>

fun alert_loop ::
  "(threshold \<Rightarrow> sample \<Rightarrow> string) \<Rightarrow> gtime \<Rightarrow> (nat \<Rightarrow> string) \<Rightarrow> sample \<Rightarrow> threshold list \<Rightarrow> nat \<Rightarrow> monitor \<Rightarrow> nat \<times> monitor" where
  "alert_loop msg now ids s [] n m = (n, m)"
| "alert_loop msg now ids s (t # ts) n m =
     (if fires s t then alert_loop msg now ids s ts (n + 1) (event_create now (ids n) (alert_for msg now t s) m)
      else alert_loop msg now ids s ts n m)"

fun sample_loop ::
  "(threshold \<Rightarrow> sample \<Rightarrow> string) \<Rightarrow> gtime \<Rightarrow> (nat \<Rightarrow> string) \<Rightarrow> string list \<Rightarrow> sample option list \<Rightarrow> nat \<Rightarrow> monitor \<Rightarrow> nat \<times> monitor" where
  "sample_loop msg now ids ks [] n m = (n, m)"
| "sample_loop msg now ids ks (None # ss) n m = sample_loop msg now ids ks ss n m"
| "sample_loop msg now ids ks (Some s # ss) n m =
     (let (n, m) = alert_loop msg now ids s (thresholds_by_resource ks (sm_rtype s) (sm_rid s) m) n m
      in sample_loop msg now ids ks ss n m)"

definition ingest_metrics ::
  "(threshold \<Rightarrow> sample \<Rightarrow> string) \<Rightarrow> gtime \<Rightarrow> (nat \<Rightarrow> string) \<Rightarrow> string list \<Rightarrow> sample option list \<Rightarrow> monitor \<Rightarrow> monitor" where
  "ingest_metrics msg now ids ks ss m =
     (if ss = [] then m else snd (sample_loop msg now ids ks ss 0 (insert_samples ss m)))"

section \<open>Queries\<close>

text \<open>A Go map from metric names to series; the loop over the buckets may be entered several times.\<close>

fun query_all ::
  "string \<Rightarrow> string \<Rightarrow> string list \<Rightarrow> gtime \<Rightarrow> gtime \<Rightarrow> int \<Rightarrow> ring \<Rightarrow> (string \<rightharpoonup> time_series) \<Rightarrow> (string \<rightharpoonup> time_series) option" where
  "query_all rtype rid [] from to step rb acc = Some acc"
| "query_all rtype rid (n # ns) from to step rb acc =
     Option.bind (query_range rtype rid n from to step rb)
       (\<lambda>ts. query_all rtype rid ns from to step rb (acc(n \<mapsto> ts)))"

text \<open>The outer \<open>option\<close> is termination.\<close>

definition query_instance_metrics ::
  "subject option \<Rightarrow> string \<Rightarrow> string list \<Rightarrow> gtime \<Rightarrow> gtime \<Rightarrow> int \<Rightarrow> monitor \<Rightarrow> (string \<rightharpoonup> time_series) result option" where
  "query_instance_metrics sub iid names from to step m =
     (case inst_get iid (mo_insts m) of
        Inl e \<Rightarrow> Some (Inl e)
      | Inr i \<Rightarrow>
          (case authorize sub ''instance:read'' (Some (inst_resource i)) of
             Some e \<Rightarrow> Some (Inl e)
           | None \<Rightarrow>
               let names = (if names = [] then [''cpu_percent'', ''memory_used_bytes'', ''disk_used_bytes'',
                              ''net_rx_bytes'', ''net_tx_bytes''] else names)
               in map_option Inr (query_all ''instance'' iid names from to step (mo_ring m) Map.empty)))"

definition query_node_metrics ::
  "subject option \<Rightarrow> string \<Rightarrow> string list \<Rightarrow> gtime \<Rightarrow> gtime \<Rightarrow> int \<Rightarrow> monitor \<Rightarrow> (string \<rightharpoonup> time_series) result option" where
  "query_node_metrics sub nid names from to step m =
     (case node_get nid (mo_nodes m) of
        Inl e \<Rightarrow> Some (Inl e)
      | Inr n \<Rightarrow>
          (case authorize sub ''node:read'' (Some (node_resource n)) of
             Some e \<Rightarrow> Some (Inl e)
           | None \<Rightarrow>
               let names = (if names = [] then [''cpu_percent'', ''memory_used_bytes'', ''disk_used_bytes'',
                              ''load_1m'', ''load_5m'', ''load_15m''] else names)
               in map_option Inr (query_all ''node'' nid names from to step (mo_ring m) Map.empty)))"

section \<open>Thresholds and alerts\<close>

definition monitor_log :: "gtime \<Rightarrow> subject option \<Rightarrow> string \<Rightarrow> string \<Rightarrow> gobj \<Rightarrow> monitor \<Rightarrow> monitor" where
  "monitor_log now sub action rid details m =
     m\<lparr>mo_trails := log_audit now (empty_log\<lparr>
        al_actor := (case sub of None \<Rightarrow> None | Some s \<Rightarrow> if sub_user s \<noteq> '''' then Some (sub_user s) else None),
        al_action := action, al_rid := (if rid \<noteq> '''' then Some rid else None), al_details := details,
        al_created := now\<rparr>) (mo_trails m)\<rparr>"

record create_threshold_request =
  tq_rtype :: string
  tq_rid :: string
  tq_metric :: string
  tq_op :: string
  tq_value :: f64
  tq_duration :: int
  tq_severity :: string
  tq_enabled :: bool

text \<open>\<open>num\<close> is the JSON text of a number in the audit details.\<close>

definition create_threshold ::
  "(f64 \<Rightarrow> string) \<Rightarrow> gtime \<Rightarrow> string \<Rightarrow> subject option \<Rightarrow> create_threshold_request \<Rightarrow> monitor \<Rightarrow> monitor \<times> threshold result" where
  "create_threshold num now uuid sub rq m =
     (if tq_rid rq = '''' \<or> tq_metric rq = '''' \<or> tq_op rq = '''' then (m, Inl ErrInvalidThresholdSpec)
      else case authorize sub ''monitoring:manage'' None of
        Some e \<Rightarrow> (m, Inl e)
      | None \<Rightarrow>
          let t = \<lparr>th_id = '''', th_user = (case sub of None \<Rightarrow> '''' | Some s \<Rightarrow> sub_user s), th_rtype = tq_rtype rq,
                 th_rid = tq_rid rq, th_metric = tq_metric rq, th_op = tq_op rq, th_value = tq_value rq,
                 th_duration = (if tq_duration rq \<le> 0 then 60 else tq_duration rq),
                 th_severity = (if tq_severity rq = '''' then ''warning'' else tq_severity rq),
                 th_enabled = True, th_created = now, th_updated = now\<rparr>;
              (m, t) = threshold_create now uuid t m
          in (monitor_log now sub ''alert_threshold:create'' (th_id t)
                [(''resourceType'', GStr (th_rtype t)), (''resourceId'', GStr (th_rid t)),
                 (''metricName'', GStr (th_metric t)), (''thresholdValue'', GStr (num (th_value t)))] m, Inr t))"

definition list_thresholds ::
  "string list \<Rightarrow> subject option \<Rightarrow> string \<Rightarrow> string \<Rightarrow> monitor \<Rightarrow> threshold list result" where
  "list_thresholds ks sub rtype rid m =
     (case authorize sub ''monitoring:read'' None of
        Some e \<Rightarrow> Inl e
      | None \<Rightarrow> Inr (if rtype \<noteq> '''' then thresholds_by_resource ks rtype rid m else threshold_list_all ks m))"

definition list_alert_events ::
  "string list \<Rightarrow> subject option \<Rightarrow> string \<Rightarrow> string \<Rightarrow> string \<Rightarrow> monitor \<Rightarrow> alert_event list result" where
  "list_alert_events ks sub rtype rid state m =
     (case authorize sub ''monitoring:read'' None of
        Some e \<Rightarrow> Inl e | None \<Rightarrow> Inr (event_list ks rtype rid state m))"

text \<open>The common course of \<open>AcknowledgeAlert\<close> and \<open>ResolveAlert\<close>.\<close>

definition change_alert ::
  "gtime \<Rightarrow> string \<Rightarrow> (alert_event \<Rightarrow> alert_event) \<Rightarrow> subject option \<Rightarrow> string \<Rightarrow> monitor \<Rightarrow> monitor \<times> alert_event result" where
  "change_alert now action f sub eid m =
     (case authorize sub ''monitoring:manage'' None of
        Some e \<Rightarrow> (m, Inl e)
      | None \<Rightarrow>
     (case event_get eid m of
        Inl e \<Rightarrow> (m, Inl e)
      | Inr ev \<Rightarrow>
          let ev = f ev
          in case event_update ev m of
               (m, Some e) \<Rightarrow> (m, Inl e)
             | (m, None) \<Rightarrow> (monitor_log now sub action (ae_id ev) [] m, Inr ev)))"

definition acknowledge_alert ::
  "gtime \<Rightarrow> subject option \<Rightarrow> string \<Rightarrow> monitor \<Rightarrow> monitor \<times> alert_event result" where
  "acknowledge_alert now = change_alert now ''alert_event:acknowledge'' (\<lambda>e. e\<lparr>ae_state := ''acknowledged''\<rparr>)"

definition resolve_alert ::
  "gtime \<Rightarrow> subject option \<Rightarrow> string \<Rightarrow> monitor \<Rightarrow> monitor \<times> alert_event result" where
  "resolve_alert now = change_alert now ''alert_event:resolve''
     (\<lambda>e. e\<lparr>ae_state := ''resolved'', ae_resolved := Some now\<rparr>)"

section \<open>Which alerts a batch raises\<close>

definition raised :: "string list \<Rightarrow> monitor \<Rightarrow> sample option list \<Rightarrow> (threshold \<times> sample) list" where
  "raised ks m ss = concat (map (\<lambda>s. map (\<lambda>t. (t, s)) (filter (fires s) (thresholds_by_resource ks (sm_rtype s) (sm_rid s) m)))
     (List.map_filter (\<lambda>s. s) ss))"

lemma event_create_frame [simp]:
  "mo_thresholds (event_create now u e m) = mo_thresholds m" "mo_ring (event_create now u e m) = mo_ring m"
  by (simp_all add: event_create_def Let_def)

lemma thresholds_cong: "mo_thresholds m' = mo_thresholds m \<Longrightarrow> thresholds_by_resource ks a b m' = thresholds_by_resource ks a b m"
  by (simp add: thresholds_by_resource_def)

text \<open>Events from \<open>n\<close> on: one for each pair of a threshold and a sample, in order.\<close>

definition recorded :: "(threshold \<Rightarrow> sample \<Rightarrow> string) \<Rightarrow> gtime \<Rightarrow> (nat \<Rightarrow> string) \<Rightarrow> nat \<Rightarrow> (threshold \<times> sample) list \<Rightarrow> monitor \<Rightarrow> monitor \<Rightarrow> bool" where
  "recorded msg now ids n ps m m' \<longleftrightarrow> mo_thresholds m' = mo_thresholds m \<and> mo_ring m' = mo_ring m \<and>
     (\<forall>i < length ps. mo_events m' (ids (n + i)) = Some ((alert_for msg now (fst (ps ! i)) (snd (ps ! i)))\<lparr>ae_id := ids (n + i)\<rparr>)) \<and>
     (\<forall>k. k \<notin> (\<lambda>i. ids (n + i)) ` {..<length ps} \<longrightarrow> mo_events m' k = mo_events m k)"

lemma recorded_trans:
  assumes "recorded msg now ids n ps m m1" and "recorded msg now ids (n + length ps) qs m1 m2" and "inj ids"
  shows "recorded msg now ids n (ps @ qs) m m2"
  unfolding recorded_def
proof (intro conjI allI impI)
  show "mo_thresholds m2 = mo_thresholds m" "mo_ring m2 = mo_ring m" using assms(1,2) by (simp_all add: recorded_def)
next
  fix i assume i: "i < length (ps @ qs)"
  show "mo_events m2 (ids (n + i)) = Some ((alert_for msg now (fst ((ps @ qs) ! i)) (snd ((ps @ qs) ! i)))\<lparr>ae_id := ids (n + i)\<rparr>)"
  proof (cases "i < length ps")
    case True
    then have "ids (n + i) \<notin> (\<lambda>j. ids (n + length ps + j)) ` {..<length qs}"
      using assms(3) by (auto dest!: injD)
    with assms(1,2) True show ?thesis by (simp add: recorded_def nth_append)
  next
    case False
    then obtain j where "i = length ps + j" "j < length qs" using i by (metis add_less_cancel_left le_Suc_ex length_append not_less)
    with assms(2) show ?thesis by (simp add: recorded_def nth_append add.assoc)
  qed
next
  fix k assume k: "k \<notin> (\<lambda>i. ids (n + i)) ` {..<length (ps @ qs)}"
  have "k \<notin> (\<lambda>i. ids (n + i)) ` {..<length ps}" using k by auto
  moreover have "k \<notin> (\<lambda>j. ids (n + length ps + j)) ` {..<length qs}"
  proof
    assume "k \<in> (\<lambda>j. ids (n + length ps + j)) ` {..<length qs}"
    then obtain j where "j < length qs" "k = ids (n + (length ps + j))" by (auto simp: add.assoc)
    with k show False by auto
  qed
  ultimately show "mo_events m2 k = mo_events m k" using assms(1,2) by (simp add: recorded_def)
qed

lemma recorded_refl: "recorded msg now ids n [] m m"
  by (simp add: recorded_def)

lemma recorded_create:
  assumes "now \<noteq> zero_time" and "ids n \<noteq> ''''"
  shows "recorded msg now ids n [(t, s)] m (event_create now (ids n) (alert_for msg now t s) m)"
  using assms by (auto simp: recorded_def event_create_def alert_for_def Let_def)

lemma alert_loop_effect:
  assumes "alert_loop msg now ids s ts n m = (n', m')" and "now \<noteq> zero_time" and "\<And>i. ids i \<noteq> ''''" and "inj ids"
  shows "n' = n + length (filter (fires s) ts) \<and> recorded msg now ids n (map (\<lambda>t. (t, s)) (filter (fires s) ts)) m m'"
  using assms(1)
proof (induction ts arbitrary: n m)
  case (Cons t ts)
  show ?case
  proof (cases "fires s t")
    case True
    with Cons(2) have "alert_loop msg now ids s ts (n + 1) (event_create now (ids n) (alert_for msg now t s) m) = (n', m')" by simp
    from Cons(1) [OF this] recorded_trans [OF recorded_create [OF assms(2,3)] _ assms(4)] True show ?thesis
      by force
  next
    case False
    with Cons show ?thesis by simp
  qed
qed (simp add: recorded_refl)

lemma sample_loop_effect:
  assumes "sample_loop msg now ids ks ss n m = (n', m')" and "now \<noteq> zero_time" and "\<And>i. ids i \<noteq> ''''" and "inj ids"
  shows "recorded msg now ids n (raised ks m ss) m m'"
  using assms(1)
proof (induction ss arbitrary: n m)
  case (Cons x ss)
  show ?case
  proof (cases x)
    case None
    with Cons show ?thesis by (simp add: raised_def map_filter_simps)
  next
    case (Some s)
    let ?ts = "thresholds_by_resource ks (sm_rtype s) (sm_rid s) m"
    obtain n1 m1 where a: "alert_loop msg now ids s ?ts n m = (n1, m1)" by fastforce
    note eff = alert_loop_effect [OF a assms(2-4)]
    with Cons(2) Some a have "sample_loop msg now ids ks ss (n + length (filter (fires s) ?ts)) m1 = (n', m')" by simp
    from Cons(1) [OF this] have "recorded msg now ids (n + length (map (\<lambda>t. (t, s)) (filter (fires s) ?ts))) (raised ks m1 ss) m1 m'" by simp
    moreover have "raised ks m1 ss = raised ks m ss"
      using eff by (auto simp: raised_def recorded_def intro!: arg_cong [of _ _ concat] map_cong thresholds_cong arg_cong [of _ _ "filter _"])
    ultimately show ?thesis
      using recorded_trans [OF conjunct2 [OF eff] _ assms(4)] Some by (simp add: raised_def map_filter_simps)
  qed
qed (simp add: raised_def map_filter_simps recorded_refl)


lemma raised_iff:
  "(t, s) \<in> set (raised ks m ss) \<longleftrightarrow> Some s \<in> set ss \<and> t \<in> set (vals (mo_thresholds m) ks) \<and>
     th_rtype t = sm_rtype s \<and> (sm_rid s = '''' \<or> th_rid t = sm_rid s) \<and> th_metric t = sm_metric s \<and>
     threshold_evaluate t (sm_value s)"
  by (auto simp: raised_def map_filter_def thresholds_by_resource_def fires_def)

definition cpu_rule :: threshold where
  "cpu_rule = \<lparr>th_id = ''t1'', th_user = ''alice'', th_rtype = ''node'', th_rid = ''n1'', th_metric = ''cpu_percent'',
     th_op = ''gt'', th_value = 90, th_duration = 300, th_severity = ''critical'', th_enabled = True,
     th_created = 0, th_updated = 0\<rparr>"

definition watched :: monitor where
  "watched = \<lparr>mo_ring = new_ring 4, mo_thresholds = [''t1'' \<mapsto> cpu_rule], mo_events = Map.empty,
     mo_insts = empty_insts, mo_nodes = empty_nodes, mo_trails = empty_trails\<rparr>"


text \<open>
  Alerts are not separated by tenant: whoever holds the permission to manage monitoring, as
  every customer does, changes the state of every alert event, whoever owns its threshold.
\<close>

theorem alerts_not_isolated:
  assumes "authorize (Some s) ''monitoring:manage'' None = None" and "mo_events m eid = Some e" and "ae_id e = eid"
  shows "snd (resolve_alert now (Some s) eid m) = Inr (e\<lparr>ae_state := ''resolved'', ae_resolved := Some now\<rparr>) \<and>
    mo_events (fst (resolve_alert now (Some s) eid m)) eid = Some (e\<lparr>ae_state := ''resolved'', ae_resolved := Some now\<rparr>)"
  using assms by (simp add: resolve_alert_def change_alert_def event_get_def event_update_def monitor_log_def Let_def)

end
