(* ===== verification/Storage_Service.thy ===== *)
theory Storage_Service
  imports Node_Service Instance_Store
begin

text \<open>
  Storage pools, volumes and snapshots: \<open>internal/domain/storage\<close>, the repositories of
  \<open>internal/infra/memory/storage_repo.go\<close> and \<open>internal/app/storage/service.go\<close>. A request
  runs without interleaving; the identifier it draws, the time and what the node answers to
  its command are the record \<open>visit\<close>. The results of the commands are ignored by the code.
\<close>

section \<open>Data\<close>

record pool =
  pl_id :: string
  pl_node :: string
  pl_name :: string
  pl_driver :: string
  pl_total :: int
  pl_used :: int
  pl_status :: string
  pl_config :: gobj
  pl_created :: gtime
  pl_updated :: gtime

definition free_space :: "pool \<Rightarrow> int" where
  "free_space p = (let f = wrap64 (pl_total p - pl_used p) in if f < 0 then 0 else f)"

definition usage_percentage :: "pool \<Rightarrow> f64" where
  "usage_percentage p =
     (if pl_total p \<le> 0 then 0
      else let pct = f_mul (f_div (f_of_int (pl_used p)) (f_of_int (pl_total p))) 100
           in f_div (of_int (math_round (f_mul pct 100))) 100)"

definition spool_resource :: "pool \<Rightarrow> resource" where
  "spool_resource p = \<lparr>res_type = ''storage_pool'', res_id = pl_id p, res_owner = '''', res_location = pl_node p\<rparr>"

record volume =
  vo_id :: string
  vo_user :: string
  vo_pool :: string
  vo_inst :: "string option"
  vo_name :: string
  vo_size :: int
  vo_content :: string
  vo_mount :: string
  vo_readonly :: bool
  vo_status :: string
  vo_created :: gtime
  vo_updated :: gtime

definition is_attached :: "volume \<Rightarrow> bool" where
  "is_attached v \<longleftrightarrow> vo_inst v \<noteq> None \<and> vo_inst v \<noteq> Some ''''"

definition volume_resource :: "volume \<Rightarrow> resource" where
  "volume_resource v = \<lparr>res_type = ''volume'', res_id = vo_id v, res_owner = vo_user v, res_location = ''''\<rparr>"

record vsnapshot =
  sn_id :: string
  sn_volume :: string
  sn_name :: string
  sn_size :: int
  sn_created :: gtime

record storage =
  so_pools :: "string \<rightharpoonup> pool"
  so_volumes :: "string \<rightharpoonup> volume"
  so_snaps :: "string \<rightharpoonup> vsnapshot"
  so_insts :: inst_store
  so_hub :: node_hub

section \<open>Repositories\<close>

definition spool_create :: "gtime \<Rightarrow> string \<Rightarrow> string list \<Rightarrow> pool \<Rightarrow> storage \<Rightarrow> storage \<times> pool result" where
  "spool_create now uuid ks p st =
     (if list_ex (\<lambda>e. pl_node e = pl_node p \<and> pl_name e = pl_name p) (vals (so_pools st) ks)
      then (st, Inl ErrStoragePoolAlreadyExists)
      else let p = (if pl_id p = '''' then p\<lparr>pl_id := uuid\<rparr> else p);
               p = p\<lparr>pl_created := now, pl_updated := now\<rparr>
           in (st\<lparr>so_pools := (so_pools st)(pl_id p \<mapsto> p)\<rparr>, Inr p))"

definition spool_get :: "string \<Rightarrow> storage \<Rightarrow> pool result" where
  "spool_get pid st = (case so_pools st pid of None \<Rightarrow> Inl ErrStoragePoolNotFound | Some p \<Rightarrow> Inr p)"

definition spool_by_node_and_name :: "string list \<Rightarrow> string \<Rightarrow> string \<Rightarrow> storage \<Rightarrow> pool result" where
  "spool_by_node_and_name ks nid n st =
     (case List.find (\<lambda>p. pl_node p = nid \<and> pl_name p = n) (vals (so_pools st) ks) of
        None \<Rightarrow> Inl ErrStoragePoolNotFound | Some p \<Rightarrow> Inr p)"

definition spool_list :: "string list \<Rightarrow> string \<Rightarrow> storage \<Rightarrow> pool list" where
  "spool_list ks nid st = filter (\<lambda>p. nid = '''' \<or> pl_node p = nid) (vals (so_pools st) ks)"

definition spool_update :: "gtime \<Rightarrow> pool \<Rightarrow> storage \<Rightarrow> storage \<times> go_error option" where
  "spool_update now p st =
     (if so_pools st (pl_id p) = None then (st, Some ErrStoragePoolNotFound)
      else (st\<lparr>so_pools := (so_pools st)(pl_id p \<mapsto> p\<lparr>pl_updated := now\<rparr>)\<rparr>, None))"

definition spool_delete :: "string \<Rightarrow> storage \<Rightarrow> storage \<times> go_error option" where
  "spool_delete pid st =
     (if so_pools st pid = None then (st, Some ErrStoragePoolNotFound)
      else (st\<lparr>so_pools := (so_pools st)(pid := None)\<rparr>, None))"

definition volume_create :: "gtime \<Rightarrow> string \<Rightarrow> string list \<Rightarrow> volume \<Rightarrow> storage \<Rightarrow> storage \<times> volume result" where
  "volume_create now uuid ks v st =
     (if list_ex (\<lambda>e. vo_pool e = vo_pool v \<and> vo_name e = vo_name v) (vals (so_volumes st) ks)
      then (st, Inl ErrVolumeAlreadyExists)
      else let v = (if vo_id v = '''' then v\<lparr>vo_id := uuid\<rparr> else v);
               v = v\<lparr>vo_created := now, vo_updated := now\<rparr>
           in (st\<lparr>so_volumes := (so_volumes st)(vo_id v \<mapsto> v)\<rparr>, Inr v))"

definition volume_get :: "string \<Rightarrow> storage \<Rightarrow> volume result" where
  "volume_get vid st = (case so_volumes st vid of None \<Rightarrow> Inl ErrVolumeNotFound | Some v \<Rightarrow> Inr v)"

definition volume_by_pool_and_name :: "string list \<Rightarrow> string \<Rightarrow> string \<Rightarrow> storage \<Rightarrow> volume result" where
  "volume_by_pool_and_name ks pid n st =
     (case List.find (\<lambda>v. vo_pool v = pid \<and> vo_name v = n) (vals (so_volumes st) ks) of
        None \<Rightarrow> Inl ErrVolumeNotFound | Some v \<Rightarrow> Inr v)"

definition volumes_by_user :: "string list \<Rightarrow> string \<Rightarrow> storage \<Rightarrow> volume list" where
  "volumes_by_user ks uid st = filter (\<lambda>v. uid = '''' \<or> vo_user v = uid) (vals (so_volumes st) ks)"

definition volumes_by_pool :: "string list \<Rightarrow> string \<Rightarrow> storage \<Rightarrow> volume list" where
  "volumes_by_pool ks pid st = filter (\<lambda>v. vo_pool v = pid) (vals (so_volumes st) ks)"

definition volumes_by_instance :: "string list \<Rightarrow> string \<Rightarrow> storage \<Rightarrow> volume list" where
  "volumes_by_instance ks iid st = filter (\<lambda>v. vo_inst v = Some iid) (vals (so_volumes st) ks)"

definition volume_update :: "gtime \<Rightarrow> volume \<Rightarrow> storage \<Rightarrow> storage \<times> volume result" where
  "volume_update now v st =
     (if so_volumes st (vo_id v) = None then (st, Inl ErrVolumeNotFound)
      else (st\<lparr>so_volumes := (so_volumes st)(vo_id v \<mapsto> v\<lparr>vo_updated := now\<rparr>)\<rparr>, Inr (v\<lparr>vo_updated := now\<rparr>)))"

definition volume_remove :: "string \<Rightarrow> storage \<Rightarrow> storage \<times> go_error option" where
  "volume_remove vid st =
     (if so_volumes st vid = None then (st, Some ErrVolumeNotFound)
      else (st\<lparr>so_volumes := (so_volumes st)(vid := None)\<rparr>, None))"

definition snap_create :: "gtime \<Rightarrow> string \<Rightarrow> string list \<Rightarrow> vsnapshot \<Rightarrow> storage \<Rightarrow> storage \<times> vsnapshot result" where
  "snap_create now uuid ks s st =
     (if list_ex (\<lambda>e. sn_volume e = sn_volume s \<and> sn_name e = sn_name s) (vals (so_snaps st) ks)
      then (st, Inl ErrVolumeSnapshotAlreadyExists)
      else let s = (if sn_id s = '''' then s\<lparr>sn_id := uuid\<rparr> else s);
               s = s\<lparr>sn_created := now\<rparr>
           in (st\<lparr>so_snaps := (so_snaps st)(sn_id s \<mapsto> s)\<rparr>, Inr s))"

definition snap_get :: "string \<Rightarrow> storage \<Rightarrow> vsnapshot result" where
  "snap_get sid st = (case so_snaps st sid of None \<Rightarrow> Inl ErrVolumeSnapshotNotFound | Some s \<Rightarrow> Inr s)"

definition snap_by_volume_and_name :: "string list \<Rightarrow> string \<Rightarrow> string \<Rightarrow> storage \<Rightarrow> vsnapshot result" where
  "snap_by_volume_and_name ks vid n st =
     (case List.find (\<lambda>s. sn_volume s = vid \<and> sn_name s = n) (vals (so_snaps st) ks) of
        None \<Rightarrow> Inl ErrVolumeSnapshotNotFound | Some s \<Rightarrow> Inr s)"

definition snaps_by_volume :: "string list \<Rightarrow> string \<Rightarrow> storage \<Rightarrow> vsnapshot list" where
  "snaps_by_volume ks vid st = filter (\<lambda>s. sn_volume s = vid) (vals (so_snaps st) ks)"

definition snap_remove :: "string \<Rightarrow> storage \<Rightarrow> storage \<times> go_error option" where
  "snap_remove sid st =
     (if so_snaps st sid = None then (st, Some ErrVolumeSnapshotNotFound)
      else (st\<lparr>so_snaps := (so_snaps st)(sid := None)\<rparr>, None))"

section \<open>Commands and the audit trail\<close>

record visit =
  vt_now :: gtime
  vt_uuid :: string
  vt_corr :: string
  vt_sent :: "go_error option"
  vt_results :: "command_result list"
  vt_order :: "string list"

definition tell_node :: "visit \<Rightarrow> string \<Rightarrow> string \<Rightarrow> gobj \<Rightarrow> storage \<Rightarrow> storage" where
  "tell_node vt nid kind args st =
     st\<lparr>so_hub := fst (exchange (vt_now vt) (vt_corr vt) (vt_sent vt) (vt_results vt) nid
        \<lparr>cmd_corr = '''', cmd_type = kind, cmd_payload = args, cmd_created = zero_time\<rparr> (so_hub st))\<rparr>"

definition storage_log :: "gtime \<Rightarrow> subject option \<Rightarrow> string \<Rightarrow> string \<Rightarrow> gobj \<Rightarrow> storage \<Rightarrow> storage" where
  "storage_log now sub action rid details st =
     st\<lparr>so_hub := (so_hub st)\<lparr>nh_trails := log_audit now (empty_log\<lparr>
        al_actor := (case sub of None \<Rightarrow> None | Some s \<Rightarrow> if sub_user s \<noteq> '''' then Some (sub_user s) else None),
        al_action := action, al_rid := (if rid \<noteq> '''' then Some rid else None), al_details := details,
        al_created := now\<rparr>) (nh_trails (so_hub st))\<rparr>\<rparr>"

definition caller :: "subject option \<Rightarrow> string" where
  "caller sub = (case sub of None \<Rightarrow> '''' | Some s \<Rightarrow> sub_user s)"

section \<open>Pools\<close>

record create_storage_request =
  pq_node :: string
  pq_name :: string
  pq_driver :: string
  pq_total :: int
  pq_config :: gobj

definition create_storage_pool ::
  "visit \<Rightarrow> subject option \<Rightarrow> create_storage_request \<Rightarrow> storage \<Rightarrow> storage \<times> pool result" where
  "create_storage_pool vt sub rq st =
     (if pq_node rq = '''' \<or> pq_name rq = '''' then (st, Inl ErrInvalidStoragePoolSpec)
      else case authorize sub ''storage:manage''
             (Some \<lparr>res_type = ''node'', res_id = pq_node rq, res_owner = '''', res_location = ''''\<rparr>) of
        Some e \<Rightarrow> (st, Inl e)
      | None \<Rightarrow>
     (case node_get (pq_node rq) (nh_store (so_hub st)) of
        Inl e \<Rightarrow> (st, Inl e)
      | Inr n \<Rightarrow>
     (case spool_create (vt_now vt) (vt_uuid vt) (vt_order vt)
             \<lparr>pl_id = '''', pl_node = nd_id n, pl_name = pq_name rq,
              pl_driver = (if pq_driver rq = '''' then ''dir'' else pq_driver rq), pl_total = pq_total rq,
              pl_used = 0, pl_status = ''online'', pl_config = pq_config rq, pl_created = vt_now vt,
              pl_updated = vt_now vt\<rparr> st of
        (st, Inl e) \<Rightarrow> (st, Inl e)
      | (st, Inr p) \<Rightarrow>
          (storage_log (vt_now vt) sub ''storage_pool:create'' (pl_id p)
             [(''nodeId'', GStr (pl_node p)), (''name'', GStr (pl_name p)), (''driver'', GStr (pl_driver p))] st,
           Inr p))))"

definition list_storage_pools :: "string list \<Rightarrow> subject option \<Rightarrow> string \<Rightarrow> storage \<Rightarrow> pool list result" where
  "list_storage_pools ks sub nid st =
     (case authorize sub ''storage:read'' None of Some e \<Rightarrow> Inl e | None \<Rightarrow> Inr (spool_list ks nid st))"

definition get_storage_pool :: "subject option \<Rightarrow> string \<Rightarrow> storage \<Rightarrow> pool result" where
  "get_storage_pool sub pid st =
     (case spool_get pid st of
        Inl e \<Rightarrow> Inl e
      | Inr p \<Rightarrow> (case authorize sub ''storage:read'' (Some (spool_resource p)) of Some e \<Rightarrow> Inl e | None \<Rightarrow> Inr p))"

section \<open>Volumes\<close>

record create_volume_request =
  vq_pool :: string
  vq_name :: string
  vq_size :: int
  vq_content :: string
  vq_mount :: string
  vq_readonly :: bool

definition new_volume :: "gtime \<Rightarrow> string \<Rightarrow> string \<Rightarrow> create_volume_request \<Rightarrow> volume" where
  "new_volume now uid pid rq = \<lparr>vo_id = '''', vo_user = uid, vo_pool = pid, vo_inst = None, vo_name = vq_name rq,
     vo_size = vq_size rq, vo_content = (if vq_content rq = '''' then ''filesystem'' else vq_content rq),
     vo_mount = (if vq_mount rq = '''' then ''/mnt/'' @ vq_name rq else vq_mount rq),
     vo_readonly = vq_readonly rq, vo_status = ''ready'', vo_created = now, vo_updated = now\<rparr>"

definition create_volume ::
  "visit \<Rightarrow> subject option \<Rightarrow> create_volume_request \<Rightarrow> storage \<Rightarrow> storage \<times> volume result" where
  "create_volume vt sub rq st =
     (if vq_pool rq = '''' \<or> vq_name rq = '''' \<or> vq_size rq \<le> 0 then (st, Inl ErrInvalidVolumeSpec)
      else case spool_get (vq_pool rq) st of
        Inl e \<Rightarrow> (st, Inl e)
      | Inr p \<Rightarrow>
     (case authorize sub ''volume:create'' (Some (spool_resource p)) of
        Some e \<Rightarrow> (st, Inl e)
      | None \<Rightarrow>
     (case volume_create (vt_now vt) (vt_uuid vt) (vt_order vt) (new_volume (vt_now vt) (caller sub) (pl_id p) rq) st of
        (st, Inl e) \<Rightarrow> (st, Inl e)
      | (st, Inr v) \<Rightarrow>
          let p = p\<lparr>pl_used := wrap64 (pl_used p + vq_size rq)\<rparr>;
              st = fst (spool_update (vt_now vt) p st);
              st = tell_node vt (pl_node p) ''create_volume''
                     [(''volume_id'', GStr (vo_id v)), (''pool_name'', GStr (pl_name p)), (''volume_name'', GStr (vo_name v)),
                      (''size_bytes'', GInt (vo_size v)), (''content_type'', GStr (vo_content v))] st;
              st = storage_log (vt_now vt) sub ''volume:create'' (vo_id v)
                     [(''poolId'', GStr (vo_pool v)), (''name'', GStr (vo_name v)), (''sizeBytes'', GInt (vo_size v))] st
          in (st, Inr v))))"

definition is_global_admin :: "subject option \<Rightarrow> bool" where
  "is_global_admin sub \<longleftrightarrow>
     (case sub of None \<Rightarrow> False | Some s \<Rightarrow> list_ex (\<lambda>r. r = ''superadmin'' \<or> r = ''operator'') (sub_roles s))"

definition list_volumes ::
  "string list \<Rightarrow> subject option \<Rightarrow> string \<Rightarrow> string \<Rightarrow> storage \<Rightarrow> volume list result" where
  "list_volumes ks sub pid iid st =
     (case authorize sub ''volume:read'' None of
        Some e \<Rightarrow> Inl e
      | None \<Rightarrow>
          if iid \<noteq> ''''
          then (case inst_get iid (so_insts st) of
                  Inl e \<Rightarrow> Inl e
                | Inr i \<Rightarrow> (case authorize sub ''instance:read'' (Some (inst_resource i)) of
                             Some e \<Rightarrow> Inl e | None \<Rightarrow> Inr (volumes_by_instance ks iid st)))
          else if pid \<noteq> '''' then Inr (volumes_by_pool ks pid st)
          else if is_global_admin sub then Inr (volumes_by_user ks '''' st)
          else Inr (volumes_by_user ks (caller sub) st))"

text \<open>The lookup and the ownership check that the operations on one volume start with.\<close>

definition owned_volume :: "subject option \<Rightarrow> string \<Rightarrow> string \<Rightarrow> storage \<Rightarrow> volume result" where
  "owned_volume sub action vid st =
     (case volume_get vid st of
        Inl e \<Rightarrow> Inl e
      | Inr v \<Rightarrow> (case authorize sub action (Some (volume_resource v)) of Some e \<Rightarrow> Inl e | None \<Rightarrow> Inr v))"

definition get_volume :: "subject option \<Rightarrow> string \<Rightarrow> storage \<Rightarrow> volume result" where
  "get_volume sub vid st = owned_volume sub ''volume:read'' vid st"

definition attach_volume ::
  "visit \<Rightarrow> subject option \<Rightarrow> string \<Rightarrow> string \<Rightarrow> string \<Rightarrow> bool \<Rightarrow> storage \<Rightarrow> storage \<times> volume result" where
  "attach_volume vt sub vid iid mount readonly st =
     (case owned_volume sub ''volume:attach'' vid st of
        Inl e \<Rightarrow> (st, Inl e)
      | Inr v \<Rightarrow>
          if is_attached v then (st, Inl ErrVolumeAttached)
          else case inst_get iid (so_insts st) of
            Inl e \<Rightarrow> (st, Inl e)
          | Inr i \<Rightarrow>
         (case authorize sub ''instance:update'' (Some (inst_resource i)) of
            Some e \<Rightarrow> (st, Inl e)
          | None \<Rightarrow>
         (case spool_get (vo_pool v) st of
            Inl e \<Rightarrow> (st, Inl e)
          | Inr p \<Rightarrow>
              if pl_node p \<noteq> in_node i
              then (st, Inl (ErrText ''volume storage pool and instance reside on different hypervisor nodes''))
              else let v = v\<lparr>vo_mount := (if mount \<noteq> '''' then mount else vo_mount v), vo_readonly := readonly,
                             vo_inst := Some (in_id i), vo_status := ''attached''\<rparr>
                   in case volume_update (vt_now vt) v st of
                        (st, Inl e) \<Rightarrow> (st, Inl e)
                      | (st, Inr v) \<Rightarrow>
                          let st = tell_node vt (in_node i) ''attach_volume''
                                [(''instance_id'', GStr (in_id i)), (''instance_name'', GStr (in_name i)),
                                 (''pool_name'', GStr (pl_name p)), (''volume_name'', GStr (vo_name v)),
                                 (''mount_path'', GStr (vo_mount v)), (''read_only'', GBool (vo_readonly v))] st
                          in (storage_log (vt_now vt) sub ''volume:attach'' (vo_id v)
                                [(''instanceId'', GStr (in_id i)), (''mountPath'', GStr (vo_mount v))] st, Inr v))))"

definition detach_volume :: "visit \<Rightarrow> subject option \<Rightarrow> string \<Rightarrow> storage \<Rightarrow> storage \<times> volume result" where
  "detach_volume vt sub vid st =
     (case owned_volume sub ''volume:detach'' vid st of
        Inl e \<Rightarrow> (st, Inl e)
      | Inr v \<Rightarrow>
          if \<not> is_attached v then (st, Inl ErrVolumeNotAttached)
          else case inst_get (case vo_inst v of None \<Rightarrow> '''' | Some i \<Rightarrow> i) (so_insts st) of
            Inl e \<Rightarrow> (st, Inl e)
          | Inr i \<Rightarrow>
              (case volume_update (vt_now vt) (v\<lparr>vo_inst := None, vo_status := ''ready''\<rparr>) st of
                 (st, Inl e) \<Rightarrow> (st, Inl e)
               | (st, Inr v) \<Rightarrow>
                   let st = tell_node vt (in_node i) ''detach_volume''
                         [(''instance_id'', GStr (in_id i)), (''instance_name'', GStr (in_name i)),
                          (''volume_name'', GStr (vo_name v))] st
                   in (storage_log (vt_now vt) sub ''volume:detach'' (vo_id v) [(''instanceId'', GStr (in_id i))] st, Inr v)))"

definition resize_volume :: "visit \<Rightarrow> subject option \<Rightarrow> string \<Rightarrow> int \<Rightarrow> storage \<Rightarrow> storage \<times> volume result" where
  "resize_volume vt sub vid bytes st =
     (case owned_volume sub ''volume:update'' vid st of
        Inl e \<Rightarrow> (st, Inl e)
      | Inr v \<Rightarrow>
          if bytes < vo_size v then (st, Inl ErrVolumeResizeDownNotAllowed)
          else case spool_get (vo_pool v) st of
            Inl e \<Rightarrow> (st, Inl e)
          | Inr p \<Rightarrow>
              let delta = wrap64 (bytes - vo_size v)
              in case volume_update (vt_now vt) (v\<lparr>vo_size := bytes\<rparr>) st of
                   (st, Inl e) \<Rightarrow> (st, Inl e)
                 | (st, Inr v) \<Rightarrow>
                     let p = p\<lparr>pl_used := wrap64 (pl_used p + delta)\<rparr>;
                         st = fst (spool_update (vt_now vt) p st);
                         st = tell_node vt (pl_node p) ''resize_volume''
                                [(''volume_id'', GStr (vo_id v)), (''pool_name'', GStr (pl_name p)),
                                 (''volume_name'', GStr (vo_name v)), (''new_size_bytes'', GInt bytes)] st
                     in (storage_log (vt_now vt) sub ''volume:resize'' (vo_id v) [(''newSizeBytes'', GInt bytes)] st, Inr v))"

definition delete_volume :: "visit \<Rightarrow> subject option \<Rightarrow> string \<Rightarrow> storage \<Rightarrow> storage \<times> go_error option" where
  "delete_volume vt sub vid st =
     (case owned_volume sub ''volume:delete'' vid st of
        Inl e \<Rightarrow> (st, Some e)
      | Inr v \<Rightarrow>
          if is_attached v then (st, Some ErrVolumeAttached)
          else case spool_get (vo_pool v) st of
            Inl e \<Rightarrow> (st, Some e)
          | Inr p \<Rightarrow>
              (case volume_remove (vo_id v) st of
                 (st, Some e) \<Rightarrow> (st, Some e)
               | (st, None) \<Rightarrow>
                   let used = wrap64 (pl_used p - vo_size v);
                       p = p\<lparr>pl_used := (if used < 0 then 0 else used)\<rparr>;
                       st = fst (spool_update (vt_now vt) p st);
                       st = tell_node vt (pl_node p) ''delete_volume''
                              [(''volume_id'', GStr (vo_id v)), (''pool_name'', GStr (pl_name p)),
                               (''volume_name'', GStr (vo_name v))] st
                   in (storage_log (vt_now vt) sub ''volume:delete'' (vo_id v)
                         [(''poolId'', GStr (vo_pool v)), (''name'', GStr (vo_name v))] st, None)))"

section \<open>Snapshots\<close>

definition create_volume_snapshot ::
  "visit \<Rightarrow> subject option \<Rightarrow> string \<Rightarrow> string \<Rightarrow> storage \<Rightarrow> storage \<times> vsnapshot result" where
  "create_volume_snapshot vt sub vid name st =
     (let name = (if name = '''' then ''snap-'' @ show_int (vt_now vt div second) else name)
      in case owned_volume sub ''volume:snapshot'' vid st of
        Inl e \<Rightarrow> (st, Inl e)
      | Inr v \<Rightarrow>
     (case spool_get (vo_pool v) st of
        Inl e \<Rightarrow> (st, Inl e)
      | Inr p \<Rightarrow>
     (case snap_create (vt_now vt) (vt_uuid vt) (vt_order vt)
             \<lparr>sn_id = '''', sn_volume = vo_id v, sn_name = name, sn_size = vo_size v, sn_created = vt_now vt\<rparr> st of
        (st, Inl e) \<Rightarrow> (st, Inl e)
      | (st, Inr s) \<Rightarrow>
          let st = tell_node vt (pl_node p) ''create_volume_snapshot''
                [(''volume_id'', GStr (vo_id v)), (''pool_name'', GStr (pl_name p)), (''volume_name'', GStr (vo_name v)),
                 (''snapshot_name'', GStr (sn_name s))] st
          in (storage_log (vt_now vt) sub ''volume:snapshot:create'' (sn_id s)
                [(''volumeId'', GStr (vo_id v)), (''snapshotName'', GStr (sn_name s))] st, Inr s))))"

definition list_volume_snapshots :: "string list \<Rightarrow> subject option \<Rightarrow> string \<Rightarrow> storage \<Rightarrow> vsnapshot list result" where
  "list_volume_snapshots ks sub vid st =
     (case owned_volume sub ''volume:read'' vid st of Inl e \<Rightarrow> Inl e | Inr v \<Rightarrow> Inr (snaps_by_volume ks vid st))"

definition restore_volume_snapshot :: "visit \<Rightarrow> subject option \<Rightarrow> string \<Rightarrow> string \<Rightarrow> storage \<Rightarrow> storage \<times> go_error option" where
  "restore_volume_snapshot vt sub vid sid st =
     (case owned_volume sub ''volume:restore'' vid st of
        Inl e \<Rightarrow> (st, Some e)
      | Inr v \<Rightarrow>
     (case snap_get sid st of
        Inl e \<Rightarrow> (st, Some e)
      | Inr s \<Rightarrow>
     (case spool_get (vo_pool v) st of
        Inl e \<Rightarrow> (st, Some e)
      | Inr p \<Rightarrow>
          let st = tell_node vt (pl_node p) ''restore_volume_snapshot''
                [(''volume_id'', GStr (vo_id v)), (''pool_name'', GStr (pl_name p)), (''volume_name'', GStr (vo_name v)),
                 (''snapshot_name'', GStr (sn_name s))] st
          in (storage_log (vt_now vt) sub ''volume:snapshot:restore'' (sn_id s) [(''volumeId'', GStr (vo_id v))] st, None))))"

definition delete_volume_snapshot :: "visit \<Rightarrow> subject option \<Rightarrow> string \<Rightarrow> string \<Rightarrow> storage \<Rightarrow> storage \<times> go_error option" where
  "delete_volume_snapshot vt sub vid sid st =
     (case owned_volume sub ''volume:snapshot'' vid st of
        Inl e \<Rightarrow> (st, Some e)
      | Inr v \<Rightarrow>
     (case snap_get sid st of
        Inl e \<Rightarrow> (st, Some e)
      | Inr s \<Rightarrow>
     (case spool_get (vo_pool v) st of
        Inl e \<Rightarrow> (st, Some e)
      | Inr p \<Rightarrow>
     (case snap_remove sid st of
        (st, Some e) \<Rightarrow> (st, Some e)
      | (st, None) \<Rightarrow>
          let st = tell_node vt (pl_node p) ''delete_volume_snapshot''
                [(''volume_id'', GStr (vo_id v)), (''pool_name'', GStr (pl_name p)), (''volume_name'', GStr (vo_name v)),
                 (''snapshot_name'', GStr (sn_name s))] st
          in (storage_log (vt_now vt) sub ''volume:snapshot:delete'' (sn_id s) [(''volumeId'', GStr (vo_id v))] st, None)))))"

end
