(* ===== verification/Storage_Safety.thy ===== *)
theory Storage_Safety
  imports Storage_Service
begin

text \<open>
  What the storage service guarantees: the used space of every pool is the sum of its volumes
  under every sequence of requests, and volumes are closed to strangers. The exception are the
  snapshots, which are looked up without regard to the volume they belong to.
\<close>

section \<open>Frame lemmas\<close>

lemma tell_node_keeps [simp]:
  "so_pools (tell_node vt nid k fs st) = so_pools st"
  "so_volumes (tell_node vt nid k fs st) = so_volumes st"
  "so_snaps (tell_node vt nid k fs st) = so_snaps st"
  "so_insts (tell_node vt nid k fs st) = so_insts st"
  by (simp_all add: tell_node_def)

lemma storage_log_keeps [simp]:
  "so_pools (storage_log now sub a rid d st) = so_pools st"
  "so_volumes (storage_log now sub a rid d st) = so_volumes st"
  "so_snaps (storage_log now sub a rid d st) = so_snaps st"
  "so_insts (storage_log now sub a rid d st) = so_insts st"
  by (simp_all add: storage_log_def)

lemma snap_ops_keep [simp]:
  "so_pools (fst (snap_create now uuid ks s st)) = so_pools st"
  "so_volumes (fst (snap_create now uuid ks s st)) = so_volumes st"
  "so_pools (fst (snap_remove sid st)) = so_pools st"
  "so_volumes (fst (snap_remove sid st)) = so_volumes st"
  by (simp_all add: snap_create_def snap_remove_def Let_def)

section \<open>The space of a pool\<close>

definition weight :: "string \<Rightarrow> volume option \<Rightarrow> int" where
  "weight pid ov = (case ov of None \<Rightarrow> 0 | Some v \<Rightarrow> if vo_pool v = pid then vo_size v else 0)"

definition volume_bytes :: "(string \<rightharpoonup> volume) \<Rightarrow> string \<Rightarrow> int" where
  "volume_bytes V pid = (\<Sum>vid\<in>dom V. weight pid (V vid))"

lemma weight_simps [simp]:
  "weight pid None = 0" "weight pid (Some v) = (if vo_pool v = pid then vo_size v else 0)"
  by (simp_all add: weight_def)

lemma volume_bytes_upd:
  assumes "finite (dom V)"
  shows "volume_bytes (V(vid := ov)) pid = volume_bytes V pid - weight pid (V vid) + weight pid ov"
proof -
  have *: "volume_bytes W pid = (\<Sum>k\<in>insert vid (dom V). weight pid (W k))"
    if "dom W \<subseteq> insert vid (dom V)" for W
    unfolding volume_bytes_def using assms that by (intro sum.mono_neutral_left) (auto simp: domIff)
  have "dom V \<subseteq> insert vid (dom V)" "dom (V(vid := ov)) \<subseteq> insert vid (dom V)" by (auto split: if_splits)
  from this [THEN *] show ?thesis using assms by (simp add: sum.insert_remove)
qed

text \<open>The books are balanced when every pool records the bytes of its volumes.\<close>

definition balanced :: "(string \<rightharpoonup> pool) \<Rightarrow> (string \<rightharpoonup> volume) \<Rightarrow> bool" where
  "balanced P V \<longleftrightarrow> finite (dom V)
     \<and> (\<forall>k p. P k = Some p \<longrightarrow> pl_id p = k \<and> pl_used p = volume_bytes V k \<and> volume_bytes V k \<le> max_int64)
     \<and> (\<forall>k v. V k = Some v \<longrightarrow> vo_id v = k \<and> 0 < vo_size v \<and> P (vo_pool v) \<noteq> None)"

lemma balancedD:
  assumes "balanced P V"
  shows "finite (dom V)" "P k = Some p \<Longrightarrow> pl_id p = k" "P k = Some p \<Longrightarrow> pl_used p = volume_bytes V k"
    "V j = Some v \<Longrightarrow> vo_id v = j" "V j = Some v \<Longrightarrow> 0 < vo_size v" "V j = Some v \<Longrightarrow> P (vo_pool v) \<noteq> None"
    "P k = Some p \<Longrightarrow> pl_used p \<le> max_int64"
  using assms by (auto simp: balanced_def)

lemma balanced_bytes:
  assumes "balanced P V" and "V j = Some v"
  shows "vo_size v \<le> volume_bytes V (vo_pool v)"
proof -
  have f: "finite (dom V)" by (rule balancedD(1) [OF assms(1)])
  have nn: "0 \<le> weight k (V x)" for k x
    using balancedD(5) [OF assms(1), of x] by (cases "V x") (auto simp: less_imp_le)
  have "weight (vo_pool v) (V j) \<le> volume_bytes V (vo_pool v)"
    unfolding volume_bytes_def by (rule member_le_sum) (use assms f nn in auto)
  then show ?thesis using assms(2) by simp
qed

lemma volume_bytes_nonneg: "balanced P V \<Longrightarrow> 0 \<le> volume_bytes V pid"
  unfolding volume_bytes_def
  by (rule sum_nonneg) (auto dest: balancedD(5) simp: less_imp_le)

text \<open>One update of the books: a volume is added, replaced or removed and its pool follows.\<close>

lemma balanced_update:
  assumes b: "balanced P V" and p: "P pid = Some p" and q: "pl_id q = pid"
    and old: "\<And>v. V vid = Some v \<Longrightarrow> vo_pool v = pid"
    and new: "\<And>v. ov = Some v \<Longrightarrow> vo_id v = vid \<and> 0 < vo_size v \<and> vo_pool v = pid"
    and used: "pl_used q = pl_used p - weight pid (V vid) + weight pid ov" and le: "pl_used q \<le> max_int64"
  shows "balanced (P(pid \<mapsto> q)) (V(vid := ov))"
proof -
  have w: "weight k (V vid) = 0" "weight k ov = 0" if "k \<noteq> pid" for k
    using that old new by (cases "V vid"; cases ov; auto)+
  have v: "volume_bytes (V(vid := ov)) k = volume_bytes V k - weight k (V vid) + weight k ov" for k
    by (rule volume_bytes_upd) (rule balancedD(1) [OF b])
  show ?thesis
    using b new q used p w le by (auto simp: balanced_def v split: if_splits)
qed

lemma balanced_new_pool:
  assumes "balanced P V" and "P pid = None" and "pl_id q = pid" and "pl_used q = 0"
  shows "balanced (P(pid \<mapsto> q)) V"
proof -
  have "weight pid (V k) = 0" for k
    using balancedD(6) [OF assms(1), of k] assms(2) by (cases "V k") auto
  then have "volume_bytes V pid = 0" by (simp add: volume_bytes_def)
  then show ?thesis using assms by (auto simp: balanced_def max_int64_def split: if_splits)
qed

section \<open>What each operation does to the books\<close>

lemma owned_volumeD:
  assumes "owned_volume sub action vid st = Inr v"
  shows "so_volumes st vid = Some v" "authorize sub action (Some (volume_resource v)) = None"
  using assms by (auto simp: owned_volume_def volume_get_def split: option.splits sum.splits)

lemma spool_getD: "spool_get pid st = Inr p \<Longrightarrow> so_pools st pid = Some p"
  by (simp add: spool_get_def split: option.splits)

lemma spool_update_keeps [simp]: "so_volumes (fst (spool_update now p st)) = so_volumes st"
  by (simp add: spool_update_def)

lemma create_storage_pool_books:
  assumes "balanced (so_pools st) (so_volumes st)" and "so_pools st (vt_uuid vt) = None"
  shows "balanced (so_pools (fst (create_storage_pool vt sub rq st))) (so_volumes st)"
  using assms
  by (auto simp: create_storage_pool_def spool_create_def Let_def intro!: balanced_new_pool split: option.splits sum.splits)

lemma create_storage_pool_volumes [simp]: "so_volumes (fst (create_storage_pool vt sub rq st)) = so_volumes st"
  by (auto simp: create_storage_pool_def spool_create_def Let_def split: option.splits sum.splits)

lemma create_volume_volumes:
  "so_volumes (fst (create_volume vt sub rq st)) = so_volumes st \<or>
   (\<exists>v. so_volumes (fst (create_volume vt sub rq st)) = (so_volumes st)(vt_uuid vt \<mapsto> v) \<and> vo_size v = vq_size rq)"
  by (auto simp: create_volume_def volume_create_def new_volume_def Let_def split: option.splits sum.splits)

lemma create_volume_books:
  assumes b: "balanced (so_pools st) (so_volumes st)" and fresh: "so_volumes st (vt_uuid vt) = None"
    and fits: "volume_bytes (so_volumes st) (vq_pool rq) + vq_size rq \<le> max_int64"
  shows "balanced (so_pools (fst (create_volume vt sub rq st))) (so_volumes (fst (create_volume vt sub rq st)))"
proof (cases "\<exists>v. snd (create_volume vt sub rq st) = Inr v")
  case False
  then have "so_pools (fst (create_volume vt sub rq st)) = so_pools st"
    "so_volumes (fst (create_volume vt sub rq st)) = so_volumes st"
    by (auto simp: create_volume_def volume_create_def Let_def split: option.splits sum.splits if_splits)
  then show ?thesis using b by simp
next
  case True
  then obtain p where p: "so_pools st (vq_pool rq) = Some p" "0 < vq_size rq"
    by (auto simp: create_volume_def spool_get_def split: option.splits sum.splits if_splits)
  define v where "v = (new_volume (vt_now vt) (caller sub) (pl_id p) rq)\<lparr>vo_id := vt_uuid vt, vo_created := vt_now vt,
      vo_updated := vt_now vt\<rparr>"
  define q where "q = p\<lparr>pl_used := wrap64 (pl_used p + vq_size rq), pl_updated := vt_now vt\<rparr>"
  have "so_volumes (fst (create_volume vt sub rq st)) = (so_volumes st)(vt_uuid vt \<mapsto> v)"
    "so_pools (fst (create_volume vt sub rq st)) = (so_pools st)(vq_pool rq \<mapsto> q)"
    using True p balancedD(2) [OF b p(1)]
    by (auto simp: create_volume_def spool_get_def volume_create_def Let_def new_volume_def v_def q_def spool_update_def
        split: option.splits if_splits)
  moreover have "wrap64 (pl_used p + vq_size rq) = pl_used p + vq_size rq"
    using fits p(2) balancedD(3) [OF b p(1)] volume_bytes_nonneg [OF b, of "vq_pool rq"]
    by (intro wrap64_pos) auto
  ultimately show ?thesis
    using b p fresh balancedD(2,3) [OF b p(1)] fits
    by (auto simp: v_def q_def new_volume_def intro!: balanced_update)
qed

lemma same_book_volume:
  assumes "balanced P V" and "V vid = Some v" and "vo_id w = vid" "vo_pool w = vo_pool v" "vo_size w = vo_size v"
  shows "balanced P (V(vid \<mapsto> w))"
proof -
  obtain p where p: "P (vo_pool v) = Some p" using balancedD(6) [OF assms(1,2)] by auto
  have "balanced (P(vo_pool v \<mapsto> p)) (V(vid \<mapsto> w))"
    using assms p balancedD [OF assms(1)] balancedD(7) [OF assms(1) p]
    by (intro balanced_update [OF assms(1) p]) auto
  then show ?thesis using p by (simp add: fun_upd_idem)
qed

lemma attach_volume_books:
  assumes b: "balanced (so_pools st) (so_volumes st)"
  shows "balanced (so_pools (fst (attach_volume vt sub vid iid m r st))) (so_volumes (fst (attach_volume vt sub vid iid m r st)))"
  using b
  by (auto simp: attach_volume_def volume_update_def Let_def balancedD(4) [OF b] dest!: owned_volumeD(1) spool_getD
      intro!: same_book_volume [OF b] split: option.splits sum.splits if_splits)

lemma detach_volume_books:
  assumes b: "balanced (so_pools st) (so_volumes st)"
  shows "balanced (so_pools (fst (detach_volume vt sub vid st))) (so_volumes (fst (detach_volume vt sub vid st)))"
  using b
  by (auto simp: detach_volume_def volume_update_def Let_def balancedD(4) [OF b] dest!: owned_volumeD(1)
      intro!: same_book_volume [OF b] split: option.splits sum.splits if_splits)

lemma resize_volume_books:
  assumes b: "balanced (so_pools st) (so_volumes st)"
    and fits: "\<And>v. so_volumes st vid = Some v \<Longrightarrow> volume_bytes (so_volumes st) (vo_pool v) + (n - vo_size v) \<le> max_int64"
  shows "balanced (so_pools (fst (resize_volume vt sub vid n st))) (so_volumes (fst (resize_volume vt sub vid n st)))"
proof (cases "\<exists>v. snd (resize_volume vt sub vid n st) = Inr v")
  case False
  then have "fst (resize_volume vt sub vid n st) = st"
    by (auto simp: resize_volume_def volume_update_def Let_def split: option.splits sum.splits if_splits)
  then show ?thesis using b by simp
next
  case True
  then obtain v where o: "owned_volume sub ''volume:update'' vid st = Inr v"
    by (auto simp: resize_volume_def split: sum.splits)
  then have v: "so_volumes st vid = Some v" by (rule owned_volumeD)
  obtain p where v2: "vo_size v \<le> n" and p: "so_pools st (vo_pool v) = Some p"
    using True o by (auto simp: resize_volume_def spool_get_def split: option.splits if_splits)
  note id = balancedD(2) [OF b p] balancedD(4) [OF b v]
  define d where "d = n - vo_size v"
  define w where "w = v\<lparr>vo_size := n, vo_updated := vt_now vt\<rparr>"
  define q where "q = p\<lparr>pl_used := wrap64 (pl_used p + wrap64 d), pl_updated := vt_now vt\<rparr>"
  have s: "so_volumes (fst (resize_volume vt sub vid n st)) = (so_volumes st)(vid \<mapsto> w)"
    "so_pools (fst (resize_volume vt sub vid n st)) = (so_pools st)(vo_pool v \<mapsto> q)"
    using v v2 p id o
    by (simp_all add: resize_volume_def spool_get_def volume_update_def spool_update_def w_def q_def d_def)
  have f: "volume_bytes (so_volumes st) (vo_pool v) + d \<le> max_int64" using fits [OF v] by (simp add: d_def)
  have nn: "0 \<le> d" "0 \<le> volume_bytes (so_volumes st) (vo_pool v)" using v2 volume_bytes_nonneg [OF b] by (simp_all add: d_def)
  then have "wrap64 d = d" using f by (intro wrap64_pos) auto
  moreover have "wrap64 (pl_used p + d) = pl_used p + d"
    using f nn balancedD(3) [OF b p] by (intro wrap64_pos) auto
  ultimately have "balanced ((so_pools st)(vo_pool v \<mapsto> q)) ((so_volumes st)(vid \<mapsto> w))"
    using v v2 id balancedD(5) [OF b v] balancedD(3) [OF b p] f
    by (intro balanced_update [OF b p]) (auto simp: w_def q_def d_def)
  then show ?thesis by (simp add: s)
qed

lemma delete_volume_books:
  assumes b: "balanced (so_pools st) (so_volumes st)"
  shows "balanced (so_pools (fst (delete_volume vt sub vid st))) (so_volumes (fst (delete_volume vt sub vid st)))"
proof (cases "snd (delete_volume vt sub vid st) = None")
  case False
  then have "fst (delete_volume vt sub vid st) = st"
    by (auto simp: delete_volume_def volume_remove_def Let_def split: option.splits sum.splits if_splits)
  then show ?thesis using b by simp
next
  case True
  then obtain v where o: "owned_volume sub ''volume:delete'' vid st = Inr v"
    by (auto simp: delete_volume_def split: sum.splits)
  then have v1: "so_volumes st vid = Some v" by (rule owned_volumeD)
  obtain p where "\<not> is_attached v" and p: "so_pools st (vo_pool v) = Some p"
    using True o by (auto simp: delete_volume_def spool_get_def split: option.splits if_splits)
  note v = v1 this(1)
  note id = balancedD(2) [OF b p] balancedD(4) [OF b v(1)]
  have u: "wrap64 (pl_used p - vo_size v) = pl_used p - vo_size v" "\<not> pl_used p - vo_size v < 0"
    using balanced_bytes [OF b v(1)] balancedD(3) [OF b p] balancedD(5) [OF b v(1)] balancedD(7) [OF b p]
    by (auto intro!: wrap64_pos)
  define q where "q = p\<lparr>pl_used := pl_used p - vo_size v, pl_updated := vt_now vt\<rparr>"
  have s: "so_volumes (fst (delete_volume vt sub vid st)) = (so_volumes st)(vid := None)"
    "so_pools (fst (delete_volume vt sub vid st)) = (so_pools st)(vo_pool v \<mapsto> q)"
    using v p id o u
    by (simp_all add: delete_volume_def spool_get_def volume_remove_def spool_update_def q_def)
  have "balanced ((so_pools st)(vo_pool v \<mapsto> q)) ((so_volumes st)(vid := None))"
    using v id balancedD(5) [OF b v(1)] balancedD(7) [OF b p] by (intro balanced_update [OF b p]) (auto simp: q_def)
  then show ?thesis by (simp add: s)
qed

lemma snapshot_books [simp]:
  "so_pools (fst (create_volume_snapshot vt sub vid nm st)) = so_pools st"
  "so_volumes (fst (create_volume_snapshot vt sub vid nm st)) = so_volumes st"
  "so_pools (fst (restore_volume_snapshot vt sub vid sid st)) = so_pools st"
  "so_volumes (fst (restore_volume_snapshot vt sub vid sid st)) = so_volumes st"
  "so_pools (fst (delete_volume_snapshot vt sub vid sid st)) = so_pools st"
  "so_volumes (fst (delete_volume_snapshot vt sub vid sid st)) = so_volumes st"
  by (auto simp: create_volume_snapshot_def restore_volume_snapshot_def delete_volume_snapshot_def snap_create_def
      snap_remove_def Let_def split: sum.splits)

section \<open>Reachable states\<close>

text \<open>
  Requests one after the other. New identifiers are fresh, and the bytes of a pool stay within
  the range of a 64-bit integer.
\<close>

inductive storage_step :: "storage \<Rightarrow> storage \<Rightarrow> bool" where
  pool: "so_pools st (vt_uuid vt) = None \<Longrightarrow> storage_step st (fst (create_storage_pool vt sub rq st))"
| vol: "so_volumes st (vt_uuid vt) = None \<Longrightarrow>
    volume_bytes (so_volumes st) (vq_pool vrq) + vq_size vrq \<le> max_int64 \<Longrightarrow>
    storage_step st (fst (create_volume vt sub vrq st))"
| attach: "storage_step st (fst (attach_volume vt sub vid iid m ro st))"
| detach: "storage_step st (fst (detach_volume vt sub vid st))"
| resize: "(\<forall>v. so_volumes st vid = Some v \<longrightarrow> volume_bytes (so_volumes st) (vo_pool v) + (n - vo_size v) \<le> max_int64) \<Longrightarrow>
    storage_step st (fst (resize_volume vt sub vid n st))"
| del: "storage_step st (fst (delete_volume vt sub vid st))"
| snap: "storage_step st (fst (create_volume_snapshot vt sub vid nm st))"
| restore: "storage_step st (fst (restore_volume_snapshot vt sub vid sid st))"
| unsnap: "storage_step st (fst (delete_volume_snapshot vt sub vid sid st))"

interpretation storage_books: invariant_machine storage_step "\<lambda>st. balanced (so_pools st) (so_volumes st)"
proof unfold_locales
  fix st st' assume b: "balanced (so_pools st) (so_volumes st)" and s: "storage_step st st'"
  from s b show "balanced (so_pools st') (so_volumes st')"
    by cases (simp_all add: create_storage_pool_books create_volume_books attach_volume_books detach_volume_books
      resize_volume_books delete_volume_books)
qed

section \<open>A sample store\<close>

definition ops :: subject where
  "ops = \<lparr>sub_type = ''user'', sub_id = ''ops'', sub_user = ''ops'', sub_username = ''ops'', sub_email = '''',
     sub_roles = [''superadmin''], sub_permissions = [], sub_scopes = []\<rparr>"

definition tenant :: "string \<Rightarrow> subject" where
  "tenant u = \<lparr>sub_type = ''user'', sub_id = u, sub_user = u, sub_username = u, sub_email = '''',
     sub_roles = [''user''], sub_permissions = [''volume:create'', ''volume:snapshot'', ''volume:read''], sub_scopes = []\<rparr>"

definition disk_node :: node where
  "disk_node = \<lparr>nd_id = ''n1'', nd_location = '''', nd_name = ''n1'', nd_fqdn = ''n1.test'', nd_status = NOnline,
     nd_fp = '''', nd_cpu = 4, nd_mem = 8, nd_storage = 100, nd_cpu_ratio = 1, nd_mem_ratio = 1, nd_caps = None,
     nd_maintenance = False, nd_drain = False, nd_reason = '''', nd_heartbeat = None, nd_changed = None, nd_created = 0,
     nd_updated = 0\<rparr>"

definition store0 :: storage where
  "store0 = \<lparr>so_pools = Map.empty, so_volumes = Map.empty, so_snaps = Map.empty, so_insts = empty_insts,
     so_hub = new_hub\<lparr>nh_store := fst (node_create disk_node empty_nodes)\<rparr>\<rparr>"

definition at_time :: "gtime \<Rightarrow> string \<Rightarrow> string list \<Rightarrow> visit" where
  "at_time t uuid ks = \<lparr>vt_now = t, vt_uuid = uuid, vt_corr = ''c'', vt_sent = None, vt_results = [], vt_order = ks\<rparr>"

definition store1 :: storage where
  "store1 = fst (create_storage_pool (at_time 1 ''p'' []) (Some ops)
     \<lparr>pq_node = ''n1'', pq_name = ''ssd'', pq_driver = '''', pq_total = 100, pq_config = []\<rparr> store0)"

definition disk_request :: "string \<Rightarrow> int \<Rightarrow> create_volume_request" where
  "disk_request n k = \<lparr>vq_pool = ''p'', vq_name = n, vq_size = k, vq_content = '''', vq_mount = '''', vq_readonly = False\<rparr>"

definition store2 :: storage where
  "store2 = fst (create_volume (at_time 2 ''va'' []) (Some (tenant ''alice'')) (disk_request ''da'' 30) store1)"

definition store3 :: storage where
  "store3 = fst (create_volume (at_time 3 ''vb'' [''va'']) (Some (tenant ''bob'')) (disk_request ''db'' 20) store2)"

definition store4 :: storage where
  "store4 = fst (create_volume_snapshot (at_time 4 ''s'' []) (Some (tenant ''alice'')) ''va'' ''nightly'' store3)"

lemma store3_reached: "storage_step\<^sup>*\<^sup>* store0 store3"
proof -
  have "storage_step store0 store1"
    unfolding store1_def by (rule storage_step.pool) (simp add: store0_def)
  moreover have v1: "so_volumes store1 = Map.empty"
    by (simp add: store1_def store0_def)
  then have "storage_step store1 store2"
    unfolding store2_def by (intro storage_step.vol) (simp_all add: volume_bytes_def disk_request_def max_int64_def)
  moreover have "storage_step store2 store3"
  proof -
    have "so_volumes store2 = Map.empty \<or> (\<exists>v. so_volumes store2 = [''va'' \<mapsto> v] \<and> vo_size v = 30)"
      using create_volume_volumes [of "at_time 2 ''va'' []" "Some (tenant ''alice'')" "disk_request ''da'' 30" store1] v1
      by (auto simp: store2_def at_time_def disk_request_def)
    then show ?thesis
      unfolding store3_def by (intro storage_step.vol) (auto simp: volume_bytes_def disk_request_def max_int64_def at_time_def)
  qed
  ultimately show ?thesis by (meson rtranclp.rtrancl_into_rtrancl rtranclp.rtrancl_refl)
qed



text \<open>
  C36. Volumes are closed to strangers: whoever is neither staff nor the owner of a volume can
  neither read, attach, detach, resize or delete it, nor list, take or use snapshots through
  it; each request ends with an access error and leaves the whole state as it was.
\<close>

theorem volume_tenant_isolation:
  assumes "so_volumes st vid = Some v" and "stranger s (vo_user v)"
  shows "denied (get_volume (Some s) vid st)
     \<and> (\<exists>x. attach_volume vt (Some s) vid iid m ro st = (st, x) \<and> denied x)
     \<and> (\<exists>x. detach_volume vt (Some s) vid st = (st, x) \<and> denied x)
     \<and> (\<exists>x. resize_volume vt (Some s) vid n st = (st, x) \<and> denied x)
     \<and> (\<exists>x. delete_volume vt (Some s) vid st = (st, x) \<and> refused x)
     \<and> (\<exists>x. create_volume_snapshot vt (Some s) vid nm st = (st, x) \<and> denied x)
     \<and> denied (list_volume_snapshots ks (Some s) vid st)
     \<and> (\<exists>x. restore_volume_snapshot vt (Some s) vid sid st = (st, x) \<and> refused x)
     \<and> (\<exists>x. delete_volume_snapshot vt (Some s) vid sid st = (st, x) \<and> refused x)"
proof -
  have "stranger s (res_owner (volume_resource v))" using assms(2) by (simp add: volume_resource_def)
  then have "\<exists>e. owned_volume (Some s) a vid st = Inl e \<and> access_error e" for a
    using authorize_stranger [of s "volume_resource v" a] assms(1) by (auto simp: owned_volume_def volume_get_def)
  then obtain e where "\<And>a. owned_volume (Some s) a vid st = Inl (e a)" "\<And>a. access_error (e a)" by metis
  then show ?thesis
    by (simp add: get_volume_def attach_volume_def detach_volume_def resize_volume_def delete_volume_def
      create_volume_snapshot_def list_volume_snapshots_def restore_volume_snapshot_def delete_volume_snapshot_def
      denied_def refused_def)
qed

theorem volume_tenant_isolation_witness:
  "denied (get_volume (Some (tenant ''bob'')) ''va'' store4)"
proof -
  have "case so_volumes store4 ''va'' of None \<Rightarrow> False | Some v \<Rightarrow> stranger (tenant ''bob'') (vo_user v)" by code_simp
  then obtain v where "so_volumes store4 ''va'' = Some v" "stranger (tenant ''bob'') (vo_user v)" by (auto split: option.splits)
  from volume_tenant_isolation [OF this] show ?thesis by blast
qed

text \<open>
  Snapshots are not isolated: whoever may snapshot one volume can delete any snapshot by
  its identifier, including the snapshots of volumes that belong to others, because the code
  never compares the volume of the snapshot with the volume of the request.
\<close>

theorem foreign_snapshot_deleted:
  assumes "owned_volume sub ''volume:snapshot'' vid st = Inr v" and "so_snaps st sid = Some sn"
    and "so_pools st (vo_pool v) = Some p" and "sn_volume sn \<noteq> vid"
  shows "\<exists>st'. delete_volume_snapshot vt sub vid sid st = (st', None) \<and> so_snaps st' = (so_snaps st)(sid := None)"
  using assms by (simp add: delete_volume_snapshot_def snap_get_def snap_remove_def spool_get_def Let_def)

theorem foreign_snapshot_deleted_witness:
  "\<exists>st'. delete_volume_snapshot (at_time 5 '''' []) (Some (tenant ''bob'')) ''vb'' ''s'' store4 = (st', None)
     \<and> so_snaps store4 ''s'' \<noteq> None \<and> so_snaps st' ''s'' = None"
proof -
  have "case (owned_volume (Some (tenant ''bob'')) ''volume:snapshot'' ''vb'' store4, so_snaps store4 ''s'') of
      (Inr v, Some sn) \<Rightarrow> so_pools store4 (vo_pool v) \<noteq> None \<and> sn_volume sn = ''va'' | _ \<Rightarrow> False" by code_simp
  then obtain v sn p where "owned_volume (Some (tenant ''bob'')) ''volume:snapshot'' ''vb'' store4 = Inr v"
    "so_snaps store4 ''s'' = Some sn" "so_pools store4 (vo_pool v) = Some p" "sn_volume sn \<noteq> ''vb''"
    by (auto split: sum.splits option.splits)
  from foreign_snapshot_deleted [OF this, of "at_time 5 '''' []"] this(2) show ?thesis by auto
qed

end
