(* ===== verification/Event_Bus.thy ===== *)
theory Event_Bus
  imports Aurora_Prelude "HOL-Library.Multiset"
begin

text \<open>
  The event bus of \<open>internal/app/events/bus.go\<close> and the event history of
  \<open>internal/infra/memory/event_repo.go\<close>. The queue is a bounded channel; an event that finds it
  full is dispatched by a goroutine of its own, which is an element of \<open>bu_direct\<close>. A worker or
  goroutine that dispatches an event calls the handlers one after the other; an error or panic
  of a handler is caught, so that a handler is known here only by its calls, \<open>bu_calls\<close>.
  \<open>Publish\<close> looks at the closed flag before the rest of its body, without holding the lock in
  between: these are the two steps \<open>publish_check\<close> and \<open>publish_rest\<close>.
\<close>

section \<open>Events and their history\<close>

record bus_event =
  be_id :: string
  be_tenant :: string
  be_type :: string
  be_rtype :: string
  be_rid :: string
  be_actor :: string
  be_time :: gtime
  be_payload :: gobj
  be_meta :: "(string \<times> string) list"
  be_version :: string

record event_filter =
  ef_tenant :: string
  ef_type :: string
  ef_rtype :: string
  ef_rid :: string
  ef_actor :: string
  ef_from :: "gtime option"
  ef_to :: "gtime option"
  ef_limit :: int
  ef_offset :: int

record event_repo =
  er_events :: "string \<rightharpoonup> bus_event"
  er_order :: "string list"

definition empty_events :: event_repo where
  "empty_events = \<lparr>er_events = Map.empty, er_order = []\<rparr>"

text \<open>The defaults that both \<open>Publish\<close> and \<open>Store\<close> fill in.\<close>

definition fill_event :: "gtime \<Rightarrow> string \<Rightarrow> bus_event \<Rightarrow> bus_event" where
  "fill_event now uuid e =
     (let e = (if be_id e = '''' then e\<lparr>be_id := uuid\<rparr> else e);
          e = (if be_time e = zero_time then e\<lparr>be_time := now\<rparr> else e)
      in if be_version e = '''' then e\<lparr>be_version := ''1.0''\<rparr> else e)"

definition store_event :: "gtime \<Rightarrow> string \<Rightarrow> bus_event \<Rightarrow> event_repo \<Rightarrow> event_repo" where
  "store_event now uuid e r =
     (let e = fill_event now uuid e
      in r\<lparr>er_events := (er_events r)(be_id e \<mapsto> e), er_order := er_order r @ [be_id e]\<rparr>)"

definition event_by_id :: "string \<Rightarrow> event_repo \<Rightarrow> bus_event result" where
  "event_by_id eid r = (case er_events r eid of None \<Rightarrow> Inl ErrEventNotFound | Some e \<Rightarrow> Inr e)"

definition event_matches :: "event_filter \<Rightarrow> bus_event \<Rightarrow> bool" where
  "event_matches f e \<longleftrightarrow>
     \<not> (ef_tenant f \<noteq> '''' \<and> be_tenant e \<noteq> ef_tenant f) \<and> \<not> (ef_type f \<noteq> '''' \<and> be_type e \<noteq> ef_type f)
   \<and> \<not> (ef_rtype f \<noteq> '''' \<and> be_rtype e \<noteq> ef_rtype f) \<and> \<not> (ef_rid f \<noteq> '''' \<and> be_rid e \<noteq> ef_rid f)
   \<and> \<not> (ef_actor f \<noteq> '''' \<and> be_actor e \<noteq> ef_actor f)
   \<and> (case ef_from f of None \<Rightarrow> True | Some t \<Rightarrow> \<not> be_time e < t)
   \<and> (case ef_to f of None \<Rightarrow> True | Some t \<Rightarrow> \<not> t < be_time e)"

definition list_events :: "event_filter \<Rightarrow> event_repo \<Rightarrow> (bus_event list \<times> int) result" where
  "list_events f r =
     (let matched = filter (event_matches f) (vals (er_events r) (rev (er_order r)))
      in case slice_page (ef_offset f) (ef_limit f) matched of
           Inl e \<Rightarrow> Inl e | Inr es \<Rightarrow> Inr (es, int (length matched)))"

section \<open>The bus\<close>

record bus_subscription =
  sb_id :: string
  sb_pattern :: string
  sb_tenant :: string

record bus =
  bu_repo :: event_repo
  bu_subs :: "string \<rightharpoonup> bus_subscription"
  bu_queue :: "bus_event list"
  bu_cap :: nat
  bu_direct :: "bus_event list"
  bu_closed :: bool
  bu_calls :: "(string \<times> bus_event) list"

definition new_bus :: "event_repo \<Rightarrow> int \<Rightarrow> bus" where
  "new_bus r n = \<lparr>bu_repo = r, bu_subs = Map.empty, bu_queue = [],
     bu_cap = (if n \<le> 0 then 2048 else nat n), bu_direct = [], bu_closed = False, bu_calls = []\<rparr>"

definition matches_pattern :: "string \<Rightarrow> string \<Rightarrow> bool" where
  "matches_pattern pattern etype =
     (if pattern = ''*'' \<or> pattern = etype then True
      else if has_suffix pattern ''.*'' then has_prefix etype (trim_suffix pattern ''.*'' @ ''.'')
      else False)"

definition publish_check :: "bus \<Rightarrow> go_error option" where
  "publish_check b = (if bu_closed b then Some ErrEventBusClosed else None)"

text \<open>Sending on a closed channel is a run-time panic.\<close>

definition publish_rest :: "gtime \<Rightarrow> string \<Rightarrow> bus_event \<Rightarrow> bus \<Rightarrow> bus \<times> go_error option" where
  "publish_rest now uuid e b =
     (let e = fill_event now uuid e;
          b = b\<lparr>bu_repo := store_event now uuid e (bu_repo b)\<rparr>
      in if bu_closed b then (b, Some Panic)
         else if length (bu_queue b) < bu_cap b then (b\<lparr>bu_queue := bu_queue b @ [e]\<rparr>, None)
         else (b\<lparr>bu_direct := bu_direct b @ [e]\<rparr>, None))"

definition publish_event :: "gtime \<Rightarrow> string \<Rightarrow> bus_event \<Rightarrow> bus \<Rightarrow> bus \<times> go_error option" where
  "publish_event now uuid e b =
     (case publish_check b of Some err \<Rightarrow> (b, Some err) | None \<Rightarrow> publish_rest now uuid e b)"

definition subscribe_tenant :: "string \<Rightarrow> string \<Rightarrow> string \<Rightarrow> bus \<Rightarrow> bus" where
  "subscribe_tenant uuid tid pattern b =
     b\<lparr>bu_subs := (bu_subs b)(uuid \<mapsto> \<lparr>sb_id = uuid, sb_pattern = pattern, sb_tenant = tid\<rparr>)\<rparr>"

definition subscribe :: "string \<Rightarrow> string \<Rightarrow> bus \<Rightarrow> bus" where
  "subscribe uuid pattern b = subscribe_tenant uuid '''' pattern b"

definition unsubscribe :: "string \<Rightarrow> bus \<Rightarrow> bus" where
  "unsubscribe sid b = b\<lparr>bu_subs := (bu_subs b)(sid := None)\<rparr>"

definition handles :: "bus_event \<Rightarrow> bus_subscription \<Rightarrow> bool" where
  "handles e s \<longleftrightarrow> \<not> (sb_tenant s \<noteq> '''' \<and> sb_tenant s \<noteq> be_tenant e) \<and> matches_pattern (sb_pattern s) (be_type e)"

definition dispatch_direct :: "string list \<Rightarrow> bus_event \<Rightarrow> bus \<Rightarrow> bus" where
  "dispatch_direct ks e b =
     b\<lparr>bu_calls := bu_calls b @ map (\<lambda>s. (sb_id s, e)) (filter (handles e) (vals (bu_subs b) ks))\<rparr>"

text \<open>One worker takes the next event; a goroutine spawned by \<open>Publish\<close> runs.\<close>

definition worker_turn :: "string list \<Rightarrow> bus \<Rightarrow> bus" where
  "worker_turn ks b =
     (case bu_queue b of [] \<Rightarrow> b | e # es \<Rightarrow> dispatch_direct ks e (b\<lparr>bu_queue := es\<rparr>))"

definition spawned_turn :: "nat \<Rightarrow> string list \<Rightarrow> bus \<Rightarrow> bus" where
  "spawned_turn i ks b =
     (if i < length (bu_direct b)
      then dispatch_direct ks (bu_direct b ! i)
             (b\<lparr>bu_direct := take i (bu_direct b) @ drop (Suc i) (bu_direct b)\<rparr>)
      else b)"

definition close_bus :: "bus \<Rightarrow> bus" where
  "close_bus b = b\<lparr>bu_closed := True\<rparr>"

section \<open>Runs\<close>

text \<open>
  A run of the bus with the events accepted so far and the events dispatched so far. New
  subscription identifiers and event identifiers are fresh.
\<close>

inductive bus_run :: "bus \<Rightarrow> bus_event list \<Rightarrow> bus_event list \<Rightarrow> bool" where
  start: "bus_run (new_bus empty_events n) [] []"
| publish: "bus_run b P D \<Longrightarrow> er_events (bu_repo b) (be_id (fill_event now uuid e)) = None \<Longrightarrow>
    publish_event now uuid e b = (b', None) \<Longrightarrow> bus_run b' (P @ [fill_event now uuid e]) D"
| refuse: "bus_run b P D \<Longrightarrow> publish_event now uuid e b = (b', Some err) \<Longrightarrow> bus_run b' P D"
| sub: "bus_run b P D \<Longrightarrow> bus_run (subscribe_tenant uuid tid pat b) P D"
| unsub: "bus_run b P D \<Longrightarrow> bus_run (unsubscribe sid b) P D"
| work: "bus_run b P D \<Longrightarrow> bu_queue b = e # es \<Longrightarrow> bus_run (worker_turn ks b) P (D @ [e])"
| spawned: "bus_run b P D \<Longrightarrow> i < length (bu_direct b) \<Longrightarrow> e = bu_direct b ! i \<Longrightarrow>
    bus_run (spawned_turn i ks b) P (D @ [e])"
| close: "bus_run b P D \<Longrightarrow> bus_run (close_bus b) P D"

lemma fill_fill [simp]: "fill_event now uuid (fill_event now uuid e) = fill_event now uuid e"
  by (auto simp: fill_event_def Let_def)

lemma dispatch_keeps [simp]:
  "bu_repo (dispatch_direct ks e b) = bu_repo b" "bu_queue (dispatch_direct ks e b) = bu_queue b"
  "bu_direct (dispatch_direct ks e b) = bu_direct b" "bu_cap (dispatch_direct ks e b) = bu_cap b"
  "bu_closed (dispatch_direct ks e b) = bu_closed b" "bu_subs (dispatch_direct ks e b) = bu_subs b"
  by (simp_all add: dispatch_direct_def)

lemma mset_without:
  assumes "i < length xs"
  shows "mset (take i xs @ drop (Suc i) xs) + {#xs ! i#} = mset xs"
proof -
  have "mset xs = mset (take i xs @ xs ! i # drop (Suc i) xs)" using assms by (simp add: id_take_nth_drop [symmetric])
  then show ?thesis by simp
qed


lemma publish_accepted:
  assumes "publish_event now uuid e b = (b', None)"
  shows "bu_repo b' = store_event now uuid e (bu_repo b)"
    "mset (bu_queue b') + mset (bu_direct b') = mset (bu_queue b) + mset (bu_direct b) + {#fill_event now uuid e#}"
    "length (bu_queue b) \<le> bu_cap b \<Longrightarrow> length (bu_queue b') \<le> bu_cap b'"
  using assms by (auto simp: publish_event_def publish_rest_def publish_check_def Let_def store_event_def split: if_splits)

lemma publish_refused: "publish_event now uuid e b = (b', Some err) \<Longrightarrow> b' = b"
  by (auto simp: publish_event_def publish_rest_def publish_check_def Let_def split: if_splits)

lemma spawned_fields:
  assumes "i < length (bu_direct b)"
  shows "bu_repo (spawned_turn i ks b) = bu_repo b" "bu_queue (spawned_turn i ks b) = bu_queue b"
    "bu_cap (spawned_turn i ks b) = bu_cap b"
    "bu_direct (spawned_turn i ks b) = take i (bu_direct b) @ drop (Suc i) (bu_direct b)"
  using assms by (simp_all add: spawned_turn_def)

lemma bus_run_balance:
  assumes "bus_run b P D"
  shows "mset P = mset (bu_queue b) + mset (bu_direct b) + mset D \<and> length (bu_queue b) \<le> bu_cap b
    \<and> (\<forall>e \<in> set P. er_events (bu_repo b) (be_id e) = Some e)"
  using assms
proof induction
  case (start n)
  then show ?case by (simp add: new_bus_def)
next
  case (publish b P D now uuid e b')
  note a = publish_accepted [OF publish.hyps(3)]
  have "be_id e' \<noteq> be_id (fill_event now uuid e)" if "e' \<in> set P" for e'
    using publish.IH publish.hyps(2) that by auto
  then have "\<forall>e' \<in> set (P @ [fill_event now uuid e]). er_events (bu_repo b') (be_id e') = Some e'"
    using publish.IH by (auto simp: a(1) store_event_def Let_def)
  then show ?case using publish.IH a(2,3) by (simp add: algebra_simps)
next
  case (refuse b P D now uuid e b' err)
  with publish_refused [OF refuse.hyps(2)] show ?case by simp
next
  case (work b P D e es ks)
  then show ?case by (simp add: worker_turn_def)
next
  case (spawned b P D i e ks)
  then show ?case using mset_without [OF spawned.hyps(2)] by (simp add: spawned_fields add.assoc)
qed (simp_all add: subscribe_tenant_def unsubscribe_def close_bus_def)

lemma bus_drains:
  assumes "bus_run b P D"
  shows "\<exists>b' D'. bus_run b' P D' \<and> bu_queue b' = [] \<and> bu_direct b' = []"
  using assms
proof (induction "length (bu_queue b) + length (bu_direct b)" arbitrary: b D)
  case 0
  then show ?case by auto
next
  case (Suc n)
  show ?case
  proof (cases "bu_queue b")
    case (Cons e es)
    have "bus_run (worker_turn [] b) P (D @ [e])" by (rule bus_run.work [OF Suc.prems Cons])
    moreover have "n = length (bu_queue (worker_turn [] b)) + length (bu_direct (worker_turn [] b))"
      using Suc.hyps(2) Cons by (simp add: worker_turn_def)
    ultimately show ?thesis using Suc.hyps(1) by blast
  next
    case Nil
    then have i: "0 < length (bu_direct b)" using Suc.hyps(2) by (cases "bu_direct b") auto
    have "bus_run (spawned_turn 0 [] b) P (D @ [bu_direct b ! 0])" by (rule bus_run.spawned [OF Suc.prems i refl])
    moreover have "n = length (bu_queue (spawned_turn 0 [] b)) + length (bu_direct (spawned_turn 0 [] b))"
      using Suc.hyps(2) Nil i by (simp add: spawned_fields)
    ultimately show ?thesis using Suc.hyps(1) by blast
  qed
qed


definition ping :: bus_event where
  "ping = \<lparr>be_id = '''', be_tenant = ''alice'', be_type = ''instance.created'', be_rtype = ''instance'', be_rid = ''i1'',
     be_actor = ''alice'', be_time = zero_time, be_payload = [], be_meta = [], be_version = ''''\<rparr>"


text \<open>
  Handlers are told of exactly what they subscribed to: one dispatch calls each subscribed
  handler once if its pattern matches the type of the event and, for a handler of one tenant,
  the event belongs to that tenant, and calls no other handler.
\<close>

theorem dispatch_calls_matching:
  assumes "iterates (bu_subs b) ks" and "\<forall>k s. bu_subs b k = Some s \<longrightarrow> sb_id s = k"
  shows "\<exists>cs. bu_calls (dispatch_direct ks e b) = bu_calls b @ cs \<and> distinct cs
     \<and> (\<forall>sid e'. (sid, e') \<in> set cs \<longleftrightarrow> e' = e \<and> (\<exists>s. bu_subs b sid = Some s
          \<and> (sb_tenant s = '''' \<or> sb_tenant s = be_tenant e) \<and> matches_pattern (sb_pattern s) (be_type e)))"
proof -
  let ?ss = "filter (handles e) (vals (bu_subs b) ks)"
  have "distinct (map sb_id (vals (bu_subs b) ks))"
    using iterates_distinct [OF assms(1)] assms(2)
    by (induction ks) (auto simp: set_vals split: option.splits)
  then have "distinct (map sb_id ?ss)" by (rule distinct_map_filter)
  then have d: "distinct (map (\<lambda>s. (sb_id s, e)) ?ss)" by (auto simp: distinct_map inj_on_def)
  have "(sid, e') \<in> set (map (\<lambda>s. (sb_id s, e)) ?ss) \<longleftrightarrow> e' = e \<and> (\<exists>s. bu_subs b sid = Some s \<and> handles e s)" for sid e'
    using assms iterates_dom [OF assms(1)] by (auto simp: set_vals)
  with d show ?thesis by (auto simp: dispatch_direct_def handles_def)
qed

definition two_handlers :: bus where
  "two_handlers = subscribe_tenant ''h2'' ''bob'' ''*'' (subscribe ''h1'' ''instance.*'' (new_bus empty_events 8))"

theorem dispatch_calls_matching_witness:
  "(''h1'', ping) \<in> set (bu_calls (dispatch_direct [''h1'', ''h2''] ping two_handlers))
   \<and> (''h2'', ping) \<notin> set (bu_calls (dispatch_direct [''h1'', ''h2''] ping two_handlers))"
proof -
  have s: "bu_subs two_handlers = [''h1'' \<mapsto> \<lparr>sb_id = ''h1'', sb_pattern = ''instance.*'', sb_tenant = ''''\<rparr>,
      ''h2'' \<mapsto> \<lparr>sb_id = ''h2'', sb_pattern = ''*'', sb_tenant = ''bob''\<rparr>]" "bu_calls two_handlers = []"
    by (simp_all add: two_handlers_def subscribe_def subscribe_tenant_def new_bus_def)
  have m: "matches_pattern ''instance.*'' ''instance.created''" by code_simp
  have "iterates (bu_subs two_handlers) [''h1'', ''h2'']" "\<forall>k s. bu_subs two_handlers k = Some s \<longrightarrow> sb_id s = k"
    by (auto simp: s iterates_def)
  from dispatch_calls_matching [OF this, of ping] m show ?thesis by (auto simp: s ping_def)
qed

text \<open>
  A publisher that has passed the closed check when the bus is closed panics: it sends on
  the closed queue.
\<close>

theorem publish_panics_after_close:
  assumes "publish_check b = None"
  shows "snd (publish_rest now uuid e (close_bus b)) = Some Panic"
  by (simp add: publish_rest_def close_bus_def Let_def)

theorem publish_panics_after_close_witness:
  "snd (publish_rest 1 ''e'' ping (close_bus (new_bus empty_events 8))) = Some Panic"
  by (rule publish_panics_after_close) (simp add: publish_check_def new_bus_def)

end
