(* ===== verification/Ssrf_Guard.thy ===== *)
theory Ssrf_Guard
  imports Ipv4
begin

unbundle bit_operations_syntax

text \<open>
  The guard against requests to internal destinations: \<open>internal/infra/ssrf/ssrf.go\<close>. An
  address is the 128-bit word of \<open>Ipv4\<close>, and \<open>None\<close> is a nil \<open>net.IP\<close>. \<open>url.Parse\<close> is a parameter
  that gives the scheme and the host name of a text, and the resolver is the list of addresses
  it answers with; the guard has to be right for every answer.
\<close>

section \<open>Address classes of the package \<open>net\<close>\<close>

definition byte6 :: "nat \<Rightarrow> 128 word \<Rightarrow> nat" where
  "byte6 i x = unat (drop_bit (8 * (15 - i)) x) mod 256"

definition is_loopback :: "128 word \<Rightarrow> bool" where
  "is_loopback x = (case to4 x of Some y \<Rightarrow> octet 3 y = 127 | None \<Rightarrow> x = 1)"

definition is_unspecified :: "128 word \<Rightarrow> bool" where
  "is_unspecified x \<longleftrightarrow> x = mapped4 0 \<or> x = 0"

definition is_link_local_unicast :: "128 word \<Rightarrow> bool" where
  "is_link_local_unicast x =
     (case to4 x of Some y \<Rightarrow> octet 3 y = 169 \<and> octet 2 y = 254
      | None \<Rightarrow> byte6 0 x = 254 \<and> byte6 1 x div 64 = 2)"

definition is_link_local_multicast :: "128 word \<Rightarrow> bool" where
  "is_link_local_multicast x =
     (case to4 x of Some y \<Rightarrow> octet 3 y = 224 \<and> octet 2 y = 0 \<and> octet 1 y = 0
      | None \<Rightarrow> byte6 0 x = 255 \<and> byte6 1 x mod 16 = 2)"

definition is_multicast :: "128 word \<Rightarrow> bool" where
  "is_multicast x = (case to4 x of Some y \<Rightarrow> octet 3 y div 16 = 14 | None \<Rightarrow> byte6 0 x = 255)"

section \<open>The guard\<close>

definition prohibited_cidrs :: "ip_net list" where
  "prohibited_cidrs =
     [Net4 (word4 [127, 0, 0, 0]) 8, Net4 (word4 [10, 0, 0, 0]) 8, Net4 (word4 [172, 16, 0, 0]) 12,
      Net4 (word4 [192, 168, 0, 0]) 16, Net4 (word4 [169, 254, 0, 0]) 16, Net4 (word4 [0, 0, 0, 0]) 8,
      Net4 (word4 [224, 0, 0, 0]) 4, Net4 (word4 [240, 0, 0, 0]) 4, Net4 (word4 [255, 255, 255, 255]) 32,
      Net6 1 128, Net6 0 128, Net6 0xFE800000000000000000000000000000 10,
      Net6 0xFC000000000000000000000000000000 7, Net6 0xFF000000000000000000000000000000 8,
      Net6 (mapped4 (word4 [127, 0, 0, 0])) 104, Net6 (mapped4 (word4 [10, 0, 0, 0])) 104,
      Net6 (mapped4 (word4 [172, 16, 0, 0])) 108, Net6 (mapped4 (word4 [192, 168, 0, 0])) 112,
      Net6 (mapped4 (word4 [169, 254, 0, 0])) 112]"

definition is_prohibited_ip :: "128 word option \<Rightarrow> bool" where
  "is_prohibited_ip ip =
     (case ip of
        None \<Rightarrow> True
      | Some x \<Rightarrow> is_loopback x \<or> is_unspecified x \<or> is_link_local_unicast x \<or> is_link_local_multicast x
          \<or> is_multicast x \<or> list_ex (\<lambda>b. net_contains b x) prohibited_cidrs)"

definition prohibited_hostnames :: "string list" where
  "prohibited_hostnames = [''localhost'', ''localhost.localdomain'', ''127.0.0.1'', ''::1'',
     ''metadata.google.internal'', ''metadata'', ''instance-data'']"

definition prohibited_suffixes :: "string list" where
  "prohibited_suffixes = [''.local'', ''.internal'', ''.corp'', ''.home'', ''.lan'', ''.arpa'']"

text \<open>The world outside: what \<open>url.Parse\<close> makes of a text, and the answer of the resolver.\<close>

record outside =
  ou_url :: "string \<Rightarrow> (string \<times> string) option"
  ou_lookup :: "string \<Rightarrow> 128 word list option"

definition validate_url :: "outside \<Rightarrow> string \<Rightarrow> go_error option" where
  "validate_url ou raw =
     (case ou_url ou raw of
        None \<Rightarrow> Some (ErrText ''invalid URL syntax'')
      | Some (sch, host) \<Rightarrow>
          let scheme = to_lower sch; hostname = to_lower host
          in if scheme \<noteq> ''http'' \<and> scheme \<noteq> ''https'' then Some ErrProhibitedScheme
             else if hostname = '''' then Some ErrProhibitedHostname
             else if list_ex (\<lambda>f. hostname = f) prohibited_hostnames then Some ErrProhibitedHostname
             else if list_ex (has_suffix hostname) prohibited_suffixes then Some ErrProhibitedHostname
             else case ou_lookup ou hostname of
                    None \<Rightarrow> Some ErrDNSResolution
                  | Some [] \<Rightarrow> Some ErrDNSResolution
                  | Some ips \<Rightarrow> if list_ex (\<lambda>x. is_prohibited_ip (Some x)) ips then Some ErrProhibitedIP else None)"

text \<open>The address the HTTP client connects to: the answer is checked again at this point.\<close>

fun dial_loop :: "128 word list \<Rightarrow> 128 word option \<Rightarrow> 128 word result" where
  "dial_loop [] target = (case target of None \<Rightarrow> Inl ErrDNSResolution | Some x \<Rightarrow> Inr x)"
| "dial_loop (x # xs) target =
     (if is_prohibited_ip (Some x) then Inl ErrProhibitedIP
      else dial_loop xs (case target of None \<Rightarrow> Some x | Some y \<Rightarrow> Some y))"

definition dial_target :: "outside \<Rightarrow> string \<Rightarrow> 128 word result" where
  "dial_target ou host =
     (case ou_lookup ou host of
        None \<Rightarrow> Inl ErrDNSResolution
      | Some [] \<Rightarrow> Inl ErrDNSResolution
      | Some ips \<Rightarrow> dial_loop ips None)"

section \<open>Prefix comparison as division\<close>

lemma masked_eq_iff:
  fixes a x :: "'a::len word"
  shows "a AND NOT (mask k) = x AND NOT (mask k) \<longleftrightarrow> unat a div 2 ^ k = unat x div 2 ^ k"
proof -
  have p: "y AND NOT (mask k) = push_bit k (drop_bit k y)" for y :: "'a word"
    by (rule bit_word_eqI) (auto simp: bit_simps)
  have "drop_bit k (push_bit k (drop_bit k y)) = drop_bit k y" for y :: "'a word"
    by (rule bit_word_eqI) (auto simp: bit_simps dest: bit_imp_le_length)
  then have "a AND NOT (mask k) = x AND NOT (mask k) \<longleftrightarrow> drop_bit k a = drop_bit k x"
    unfolding p by metis
  also have "\<dots> \<longleftrightarrow> unat (drop_bit k a) = unat (drop_bit k x)" by (simp add: word_unat_eq_iff)
  finally show ?thesis by (simp only: unat_drop_bit_eq) (simp only: drop_bit_eq_div)
qed

text \<open>The IPv4 blocks are what \<open>ParseCIDR\<close> makes of the literals of the source.\<close>

lemma prohibited_v4_literals:
  "map (\<lambda>s. parse4_loop s True 0 0 [])
     [''127.0.0.0'', ''10.0.0.0'', ''172.16.0.0'', ''192.168.0.0'', ''169.254.0.0'', ''0.0.0.0'', ''224.0.0.0'',
      ''240.0.0.0'', ''255.255.255.255''] =
   map Some [[127, 0, 0, 0], [10, 0, 0, 0], [172, 16, 0, 0], [192, 168, 0, 0], [169, 254, 0, 0], [0, 0, 0, 0],
      [224, 0, 0, 0], [240, 0, 0, 0], [255, 255, 255, 255]]"
  by code_simp

section \<open>The internal ranges\<close>

text \<open>What the guard is meant to keep out, written on the bytes of the addresses.\<close>

definition internal4 :: "32 word \<Rightarrow> bool" where
  "internal4 y \<longleftrightarrow> octet 3 y \<in> {0, 10, 127} \<or> 224 \<le> octet 3 y
     \<or> octet 3 y = 172 \<and> 16 \<le> octet 2 y \<and> octet 2 y < 32
     \<or> octet 3 y = 192 \<and> octet 2 y = 168 \<or> octet 3 y = 169 \<and> octet 2 y = 254"

definition internal6 :: "128 word \<Rightarrow> bool" where
  "internal6 x \<longleftrightarrow> x = 0 \<or> x = 1 \<or> byte6 0 x \<in> {252, 253, 255} \<or> byte6 0 x = 254 \<and> 128 \<le> byte6 1 x \<and> byte6 1 x < 192"

definition internal :: "128 word \<Rightarrow> bool" where
  "internal x = (case to4 x of Some y \<Rightarrow> internal4 y | None \<Rightarrow> internal6 x)"

lemma contains_v4:
  assumes "to4 x = Some y" and "n \<le> 32"
  shows "net_contains (Net4 a n) x \<longleftrightarrow> unat a div 2 ^ (32 - n) = unat y div 2 ^ (32 - n)"
  by (simp only: net_contains_def assms ip_net.simps option.simps mask4_def masked_eq_iff)

lemma contains_v6:
  assumes "to4 x = None" and "to4 a = None"
  shows "net_contains (Net6 a n) x \<longleftrightarrow> unat a div 2 ^ (128 - n) = unat x div 2 ^ (128 - n)"
  by (simp only: net_contains_def assms ip_net.simps option.simps mask6_def masked_eq_iff simp_thms)

lemma contains_other [simp]:
  "to4 x = None \<Longrightarrow> \<not> net_contains (Net4 a n) x"
  "to4 x = None \<Longrightarrow> \<not> net_contains (Net6 (mapped4 b) n) x"
  "to4 x = Some y \<Longrightarrow> to4 c = None \<Longrightarrow> \<not> net_contains (Net6 c n) x"
  "to4 x = Some y \<Longrightarrow> net_contains (Net6 (mapped4 b) n) x = net_contains (Net4 b (n - 96)) x"
  by (auto simp: net_contains_def split: option.splits)

lemma octet_words:
  fixes y :: "32 word"
  defines "w \<equiv> unat y div 65536"
  shows "octet 3 y = w div 256" "octet 2 y = w mod 256" "w < 65536"
proof -
  have u: "unat y < 4294967296" using unsigned_less [of y] by simp
  then show "w < 65536" by (simp add: w_def div_less_iff_less_mult)
  then show "octet 3 y = w div 256" "octet 2 y = w mod 256"
    by (simp_all add: octet_div w_def div_mult2_eq [symmetric] div_less_iff_less_mult)
qed

lemma byte_words:
  fixes x :: "128 word"
  defines "w \<equiv> unat x div 2 ^ 112"
  shows "byte6 0 x = w div 256" "byte6 1 x = w mod 256" "w < 65536"
proof -
  have "unat x < 2 ^ 128" using unsigned_less [of x] by simp
  then show b: "w < 65536" by (simp add: w_def div_less_iff_less_mult)
  have d: "unat (drop_bit k x) = unat x div 2 ^ k" for k
    by (simp only: unat_drop_bit_eq) (simp only: drop_bit_eq_div)
  have "unat x div 2 ^ 120 = w div 256" by (simp add: w_def div_mult2_eq [symmetric])
  then show "byte6 0 x = w div 256" "byte6 1 x = w mod 256"
    using b by (simp_all add: byte6_def d w_def div_less_iff_less_mult)
qed

lemma unat_word4:
  "unat (word4 [127, 0, 0, 0]) = 2130706432" "unat (word4 [10, 0, 0, 0]) = 167772160"
  "unat (word4 [172, 16, 0, 0]) = 2886729728" "unat (word4 [192, 168, 0, 0]) = 3232235520"
  "unat (word4 [169, 254, 0, 0]) = 2851995648" "unat (word4 [0, 0, 0, 0]) = 0"
  "unat (word4 [224, 0, 0, 0]) = 3758096384" "unat (word4 [240, 0, 0, 0]) = 4026531840"
  "unat (word4 [255, 255, 255, 255]) = 4294967295"
  by (simp_all add: word4_def)

lemma to4_v6 [simp]:
  "to4 0 = None" "to4 1 = None" "to4 0xFE800000000000000000000000000000 = None"
  "to4 0xFC000000000000000000000000000000 = None" "to4 0xFF000000000000000000000000000000 = None"
  by (simp_all add: to4_def)

lemma cidrs_v4:
  assumes "to4 x = Some y"
  defines "w \<equiv> unat y div 65536"
  shows "list_ex (\<lambda>b. net_contains b x) prohibited_cidrs \<longleftrightarrow>
     w div 256 \<in> {0, 10, 127} \<or> w div 16 = 2753 \<or> w = 49320 \<or> w = 43518 \<or> 14 \<le> w div 4096"
proof -
  have d: "unat y div 16777216 = w div 256" "unat y div 1048576 = w div 16" "unat y div 268435456 = w div 4096"
    by (simp_all add: w_def div_mult2_eq [symmetric])
  have "w < 65536" unfolding w_def by (rule octet_words)
  then have t: "w div 4096 = 14 \<or> w div 4096 = 15 \<longleftrightarrow> 14 \<le> w div 4096" by auto
  have m: "unat y = 4294967295 \<Longrightarrow> w div 4096 = 15" by (simp add: w_def)
  show ?thesis
    unfolding prohibited_cidrs_def using assms(1) t m
    by (simp add: contains_v4 [OF assms(1)] unat_word4 d w_def [symmetric] eq_commute [of _ "w div _"]
        eq_commute [of _ w]) blast
qed

lemma cidrs_v6:
  assumes "to4 x = None"
  defines "w \<equiv> unat x div 2 ^ 112"
  shows "list_ex (\<lambda>b. net_contains b x) prohibited_cidrs \<longleftrightarrow>
     x = 0 \<or> x = 1 \<or> w div 64 = 1018 \<or> w div 512 = 126 \<or> w div 256 = 255"
proof -
  have d: "unat x div 2 ^ 118 = w div 64" "unat x div 2 ^ 121 = w div 512" "unat x div 2 ^ 120 = w div 256"
    by (simp_all add: w_def div_mult2_eq [symmetric])
  note c = contains_v6 [OF assms(1)]
  have "net_contains (Net6 1 128) x \<longleftrightarrow> x = 1" "net_contains (Net6 0 128) x \<longleftrightarrow> x = 0"
    by (auto simp: c word_unat_eq_iff)
  moreover have "net_contains (Net6 0xFE800000000000000000000000000000 10) x \<longleftrightarrow> w div 64 = 1018"
    "net_contains (Net6 0xFC000000000000000000000000000000 7) x \<longleftrightarrow> w div 512 = 126"
    "net_contains (Net6 0xFF000000000000000000000000000000 8) x \<longleftrightarrow> w div 256 = 255"
    using d by (auto simp: c)
  ultimately show ?thesis
    unfolding prohibited_cidrs_def using assms(1) by auto
qed

text \<open>Prefix lengths that are not whole bytes.\<close>

lemma low_byte: "(w::nat) div 256 = k \<Longrightarrow> w = 256 * k + w mod 256"
  using mult_div_mod_eq [of 256 w] by metis

lemma prefix12: "(w::nat) div 16 = 2753 \<longleftrightarrow> w div 256 = 172 \<and> 16 \<le> w mod 256 \<and> w mod 256 < 32"
proof (cases "w div 256 = 172")
  case True
  from low_byte [OF this] have "16 \<le> w mod 256 \<longleftrightarrow> 44048 \<le> w" "w mod 256 < 32 \<longleftrightarrow> w < 44064" by linarith+
  moreover have "w div 16 = 2753 \<longleftrightarrow> 44048 \<le> w \<and> w < 44064" by (intro iffI conjI) linarith+
  ultimately show ?thesis using True by simp
next
  case False
  then have "w div 16 \<noteq> 2753" by linarith
  with False show ?thesis by simp
qed

lemma prefix10: "(w::nat) div 64 = 1018 \<longleftrightarrow> w div 256 = 254 \<and> 128 \<le> w mod 256 \<and> w mod 256 < 192"
proof (cases "w div 256 = 254")
  case True
  from low_byte [OF this] have "128 \<le> w mod 256 \<longleftrightarrow> 65152 \<le> w" "w mod 256 < 192 \<longleftrightarrow> w < 65216" by linarith+
  moreover have "w div 64 = 1018 \<longleftrightarrow> 65152 \<le> w \<and> w < 65216" by (intro iffI conjI) linarith+
  ultimately show ?thesis using True by simp
next
  case False
  then have "w div 64 \<noteq> 1018" by linarith
  with False show ?thesis by simp
qed

lemma prefix16: "(w::nat) = 49320 \<longleftrightarrow> w div 256 = 192 \<and> w mod 256 = 168"
    "w = 43518 \<longleftrightarrow> w div 256 = 169 \<and> w mod 256 = 254"
  using low_byte [of w 192] low_byte [of w 169] by auto

lemma prefix_short:
  fixes w :: nat
  shows "14 \<le> w div 4096 \<longleftrightarrow> 224 \<le> w div 256"
    "w div 512 = 126 \<longleftrightarrow> w div 256 = 252 \<or> w div 256 = 253"
  by (safe; linarith)+

lemmas prefix_bytes = prefix12 prefix10 prefix16 prefix_short

lemma prohibited_internal: "is_prohibited_ip (Some x) = internal x"
proof (cases "to4 x")
  case (Some y)
  define w where "w = unat y div 65536"
  note o = octet_words [of y, folded w_def]
  have z: "x = mapped4 0 \<Longrightarrow> w = 0" "x \<noteq> 0" using Some by (auto simp: w_def)
  have "list_ex (\<lambda>b. net_contains b x) prohibited_cidrs = internal x"
    using cidrs_v4 [OF Some, folded w_def] Some by (simp add: internal_def internal4_def o prefix_bytes) blast
  moreover have "is_loopback x \<or> is_unspecified x \<or> is_link_local_unicast x \<or> is_link_local_multicast x
      \<or> is_multicast x \<Longrightarrow> internal x"
    using Some z by (auto simp: is_loopback_def is_unspecified_def is_link_local_unicast_def
        is_link_local_multicast_def is_multicast_def internal_def internal4_def o)
  ultimately show ?thesis by (auto simp: is_prohibited_ip_def)
next
  case None
  define w where "w = unat x div 2 ^ 112"
  note o = byte_words [of x, folded w_def, unfolded One_nat_def]
  have "list_ex (\<lambda>b. net_contains b x) prohibited_cidrs = internal x"
    using cidrs_v6 [OF None, folded w_def] None by (simp add: internal_def internal6_def o prefix_bytes) blast
  moreover have "is_loopback x \<or> is_unspecified x \<or> is_link_local_unicast x \<or> is_link_local_multicast x
      \<or> is_multicast x \<Longrightarrow> internal x"
    using None by (auto simp: is_loopback_def is_unspecified_def is_link_local_unicast_def
        is_link_local_multicast_def is_multicast_def internal_def internal6_def o)
  ultimately show ?thesis by (auto simp: is_prohibited_ip_def)
qed

text \<open>
  C14. The classification is exact: the guard prohibits an address exactly when it is nil or
  lies in the internal ranges, written on bytes: 0/8, 10/8, 127/8, 172.16/12, 192.168/16,
  169.254/16 and everything from 224 up for IPv4, in either of its two forms, and for IPv6 the
  unspecified and the loopback address, fc00::/7, fe80::/10 and ff00::/8.
\<close>

theorem prohibited_ip_exact:
  "is_prohibited_ip None \<and> (\<forall>x. is_prohibited_ip (Some x) = internal x)"
  by (auto simp: prohibited_internal) (simp add: is_prohibited_ip_def)

lemma dial_loop_safe:
  "dial_loop xs t = Inr x \<Longrightarrow> (\<forall>y. t = Some y \<longrightarrow> \<not> internal y) \<Longrightarrow>
     \<not> internal x \<and> (t = Some x \<or> t = None \<and> x \<in> set xs) \<and> (\<forall>y \<in> set xs. \<not> internal y)"
  by (induction xs t rule: dial_loop.induct)
    (auto simp: prohibited_internal split: option.splits if_splits)

text \<open>
  No request reaches an internal destination: whatever the resolver answers at the moment
  of the connection, and in particular when it answers differently from the validation of the
  URL, the client connects only to an address of that answer outside the internal ranges, and
  only if the whole answer is outside them.
\<close>

theorem dial_never_internal:
  assumes "dial_target ou host = Inr x"
  shows "\<not> internal x \<and> (\<exists>ips. ou_lookup ou host = Some ips \<and> x \<in> set ips \<and> (\<forall>y \<in> set ips. \<not> internal y))"
proof -
  obtain ips where "ou_lookup ou host = Some ips" "dial_loop ips None = Inr x"
    using assms by (auto simp: dial_target_def split: option.splits list.splits)
  with dial_loop_safe [of ips None x] show ?thesis by auto
qed

definition sample_outside :: outside where
  "sample_outside = \<lparr>ou_url = (\<lambda>s. Some (''https'', ''hooks.example.com'')),
     ou_lookup = (\<lambda>h. Some [mapped4 (word4 [93, 184, 216, 34])])\<rparr>"

theorem dial_never_internal_witness:
  "dial_target sample_outside ''hooks.example.com'' = Inr (mapped4 (word4 [93, 184, 216, 34]))
     \<and> \<not> internal (mapped4 (word4 [93, 184, 216, 34]))"
proof -
  have "\<not> internal (mapped4 (word4 [93, 184, 216, 34]))"
    using octets_word4 [of 93 184 216 34] by (simp add: internal_def internal4_def)
  then have d: "dial_target sample_outside ''hooks.example.com'' = Inr (mapped4 (word4 [93, 184, 216, 34]))"
    by (simp add: dial_target_def sample_outside_def prohibited_internal)
  with dial_never_internal [OF d] show ?thesis by blast
qed

end
