(* ===== verification/Webhooks.thy ===== *)
theory Webhooks
  imports Event_Bus Ssrf_Guard Domain_Events Identity Float64
begin

text \<open>
  Webhook endpoints and their deliveries: \<open>internal/domain/webhook/webhook.go\<close>, the repositories
  of \<open>internal/infra/memory/webhook_repo.go\<close>, the service of \<open>internal/app/webhook/service.go\<close>
  and the dispatcher of \<open>internal/infra/webhooks/dispatcher.go\<close>. HMAC-SHA256 in hexadecimal is
  the parameter \<open>mac\<close> (key and message), \<open>json.Marshal\<close> of an event and the answer of the HTTP
  client are part of the record \<open>attempt\<close>, what one delivery attempt meets. Random secrets and
  identifiers are arguments.
\<close>

section \<open>Data\<close>

record endpoint =
  wh_id :: string
  wh_tenant :: string
  wh_name :: string
  wh_url :: string
  wh_descr :: string
  wh_secret :: string
  wh_active :: bool
  wh_types :: "string list"
  wh_created :: gtime
  wh_updated :: gtime
  wh_last :: "gtime option"
  wh_status :: string
  wh_failures :: int

datatype delivery_status = DPending | DDelivered | DFailed | DDeadLetter

record delivery =
  dv_id :: string
  dv_event :: string
  dv_hook :: string
  dv_tenant :: string
  dv_type :: string
  dv_attempt :: int
  dv_status :: delivery_status
  dv_http :: int
  dv_ms :: int
  dv_error :: string
  dv_next :: "gtime option"
  dv_delivered :: "gtime option"
  dv_created :: gtime

record webhook_filter =
  wf_tenant :: string
  wf_active :: "bool option"
  wf_limit :: int
  wf_offset :: int

record delivery_filter =
  df_tenant :: string
  df_hook :: string
  df_event :: string
  df_status :: "delivery_status option"
  df_limit :: int
  df_offset :: int

record http_request =
  hr_url :: string
  hr_headers :: "(string \<times> string) list"
  hr_body :: string

text \<open>The repositories, the audit trail and the requests handed to the HTTP client.\<close>

record hooks =
  hk_eps :: "string \<rightharpoonup> endpoint"
  hk_eorder :: "string list"
  hk_dels :: "string \<rightharpoonup> delivery"
  hk_dorder :: "string list"
  hk_sent :: "http_request list"
  hk_trails :: trails

section \<open>Secrets, subscriptions and signatures\<close>

text \<open>\<open>GenerateSecret\<close> puts the prefix before the random text it draws.\<close>

definition generate_secret :: "string \<Rightarrow> string" where
  "generate_secret rand = ''whsec_'' @ rand"

definition rotate_endpoint_secret :: "gtime \<Rightarrow> string \<Rightarrow> endpoint \<Rightarrow> endpoint" where
  "rotate_endpoint_secret now rand w = w\<lparr>wh_secret := generate_secret rand, wh_updated := now\<rparr>"

definition type_matches :: "string \<Rightarrow> string \<Rightarrow> bool" where
  "type_matches etype et \<longleftrightarrow> (et = ''*'' \<or> et = etype)
     \<or> has_suffix et ''.*'' \<and> has_prefix etype (trim_suffix et ''.*'' @ ''.'')"

definition subscribes_to :: "endpoint \<Rightarrow> string \<Rightarrow> bool" where
  "subscribes_to w etype = (if \<not> wh_active w then False else list_ex (type_matches etype) (wh_types w))"

definition sign_payload :: "(string \<Rightarrow> string \<Rightarrow> string) \<Rightarrow> string \<Rightarrow> int \<Rightarrow> string \<Rightarrow> string" where
  "sign_payload mac sec ts body = mac sec (show_int ts @ ''.'' @ body)"

text \<open>\<open>Duration.Seconds\<close>.\<close>

definition seconds :: "duration \<Rightarrow> f64" where
  "seconds d = f_add (f_of_int (quot d second)) (f_div (f_of_int (d - quot d second * second)) (f_of_int second))"

definition verify_signature ::
  "(string \<Rightarrow> string \<Rightarrow> string) \<Rightarrow> gtime \<Rightarrow> string \<Rightarrow> string \<Rightarrow> int \<Rightarrow> string \<Rightarrow> duration \<Rightarrow> bool" where
  "verify_signature mac now sec header ts body tolerance =
     (if seconds tolerance < \<bar>seconds (time_sub now (ts * second))\<bar> then False
      else let expected = sign_payload mac sec ts body;
               actual = (if has_prefix header ''sha256='' then drop 7 header else header)
           in expected = actual)"

section \<open>Repositories\<close>

definition hook_create :: "gtime \<Rightarrow> string \<Rightarrow> endpoint \<Rightarrow> hooks \<Rightarrow> hooks \<times> endpoint" where
  "hook_create now uuid w h =
     (let w = (if wh_id w = '''' then w\<lparr>wh_id := uuid\<rparr> else w);
          w = w\<lparr>wh_created := now, wh_updated := now\<rparr>
      in (h\<lparr>hk_eps := (hk_eps h)(wh_id w \<mapsto> w), hk_eorder := hk_eorder h @ [wh_id w]\<rparr>, w))"

definition hook_get :: "string \<Rightarrow> hooks \<Rightarrow> endpoint result" where
  "hook_get wid h = (case hk_eps h wid of None \<Rightarrow> Inl ErrWebhookNotFound | Some w \<Rightarrow> Inr w)"

definition hook_list :: "webhook_filter \<Rightarrow> hooks \<Rightarrow> (endpoint list \<times> int) result" where
  "hook_list f h =
     (let matched = filter (\<lambda>w. \<not> (wf_tenant f \<noteq> '''' \<and> wh_tenant w \<noteq> wf_tenant f)
                              \<and> (case wf_active f of None \<Rightarrow> True | Some a \<Rightarrow> wh_active w = a))
                      (vals (hk_eps h) (rev (hk_eorder h)))
      in case slice_page (wf_offset f) (wf_limit f) matched of
           Inl e \<Rightarrow> Inl e | Inr ws \<Rightarrow> Inr (ws, int (length matched)))"

definition list_subscribed :: "string list \<Rightarrow> string \<Rightarrow> hooks \<Rightarrow> endpoint list" where
  "list_subscribed ks etype h = filter (\<lambda>w. subscribes_to w etype) (vals (hk_eps h) ks)"

definition hook_update :: "gtime \<Rightarrow> endpoint \<Rightarrow> hooks \<Rightarrow> hooks \<times> endpoint result" where
  "hook_update now w h =
     (case hk_eps h (wh_id w) of
        None \<Rightarrow> (h, Inl ErrWebhookNotFound)
      | Some old \<Rightarrow> let w = w\<lparr>wh_created := wh_created old, wh_updated := now\<rparr>
                    in (h\<lparr>hk_eps := (hk_eps h)(wh_id w \<mapsto> w)\<rparr>, Inr w))"

definition hook_delete :: "string \<Rightarrow> hooks \<Rightarrow> hooks \<times> go_error option" where
  "hook_delete wid h =
     (if hk_eps h wid = None then (h, Some ErrWebhookNotFound)
      else (h\<lparr>hk_eps := (hk_eps h)(wid := None), hk_eorder := filter (\<lambda>i. i \<noteq> wid) (hk_eorder h)\<rparr>, None))"

definition update_delivery_stats :: "gtime \<Rightarrow> string \<Rightarrow> string \<Rightarrow> bool \<Rightarrow> hooks \<Rightarrow> hooks \<times> go_error option" where
  "update_delivery_stats now wid st failed h =
     (case hk_eps h wid of
        None \<Rightarrow> (h, Some ErrWebhookNotFound)
      | Some w \<Rightarrow> (h\<lparr>hk_eps := (hk_eps h)(wid \<mapsto> w\<lparr>wh_last := Some now, wh_status := st,
            wh_failures := (if failed then wh_failures w + 1 else 0), wh_updated := now\<rparr>)\<rparr>, None))"

definition delivery_create :: "gtime \<Rightarrow> string \<Rightarrow> delivery \<Rightarrow> hooks \<Rightarrow> hooks" where
  "delivery_create now uuid d h =
     (let d = (if dv_id d = '''' then d\<lparr>dv_id := uuid\<rparr> else d);
          d = (if dv_created d = zero_time then d\<lparr>dv_created := now\<rparr> else d)
      in h\<lparr>hk_dels := (hk_dels h)(dv_id d \<mapsto> d), hk_dorder := hk_dorder h @ [dv_id d]\<rparr>)"

definition delivery_get :: "string \<Rightarrow> hooks \<Rightarrow> delivery result" where
  "delivery_get did h = (case hk_dels h did of None \<Rightarrow> Inl ErrDeliveryNotFound | Some d \<Rightarrow> Inr d)"

definition delivery_list :: "delivery_filter \<Rightarrow> hooks \<Rightarrow> (delivery list \<times> int) result" where
  "delivery_list f h =
     (let matched = filter (\<lambda>d. \<not> (df_tenant f \<noteq> '''' \<and> dv_tenant d \<noteq> df_tenant f)
                              \<and> \<not> (df_hook f \<noteq> '''' \<and> dv_hook d \<noteq> df_hook f)
                              \<and> \<not> (df_event f \<noteq> '''' \<and> dv_event d \<noteq> df_event f)
                              \<and> (case df_status f of None \<Rightarrow> True | Some s \<Rightarrow> dv_status d = s))
                      (vals (hk_dels h) (rev (hk_dorder h)))
      in case slice_page (df_offset f) (df_limit f) matched of
           Inl e \<Rightarrow> Inl e | Inr ds \<Rightarrow> Inr (ds, int (length matched)))"

definition due :: "gtime \<Rightarrow> delivery \<Rightarrow> bool" where
  "due before d \<longleftrightarrow> dv_status d = DPending \<and> (case dv_next d of None \<Rightarrow> False | Some t \<Rightarrow> t \<le> before)"

definition list_pending_retries :: "string list \<Rightarrow> gtime \<Rightarrow> int \<Rightarrow> hooks \<Rightarrow> delivery list" where
  "list_pending_retries ks before limit h =
     (let ds = filter (due before) (vals (hk_dels h) ks) in if 0 < limit then take (nat limit) ds else ds)"

definition delivery_update :: "delivery \<Rightarrow> hooks \<Rightarrow> hooks \<times> go_error option" where
  "delivery_update d h =
     (case hk_dels h (dv_id d) of
        None \<Rightarrow> (h, Some ErrDeliveryNotFound)
      | Some old \<Rightarrow> (h\<lparr>hk_dels := (hk_dels h)(dv_id d \<mapsto> d\<lparr>dv_created := dv_created old\<rparr>)\<rparr>, None))"

section \<open>The service\<close>

definition hook_log :: "gtime \<Rightarrow> subject option \<Rightarrow> string \<Rightarrow> string \<Rightarrow> string \<Rightarrow> gobj \<Rightarrow> hooks \<Rightarrow> hooks" where
  "hook_log now sub action rtype rid details h =
     h\<lparr>hk_trails := log_audit now (empty_log\<lparr>
        al_actor := (case sub of None \<Rightarrow> None | Some s \<Rightarrow> if sub_user s \<noteq> '''' then Some (sub_user s) else None),
        al_action := action, al_rtype := rtype, al_rid := (if rid \<noteq> '''' then Some rid else None),
        al_details := details, al_severity := ''info'', al_created := now\<rparr>) (hk_trails h)\<rparr>"

definition hook_details :: "endpoint \<Rightarrow> gobj" where
  "hook_details w = [(''name'', GStr (wh_name w)), (''url'', GStr (wh_url w)), (''eventTypes'', GList (map GStr (wh_types w))),
     (''active'', GBool (wh_active w))]"

record create_hook_input =
  ci_name :: string
  ci_url :: string
  ci_descr :: string
  ci_types :: "string list"
  ci_active :: "bool option"

definition create_endpoint ::
  "outside \<Rightarrow> gtime \<Rightarrow> string \<Rightarrow> string \<Rightarrow> subject option \<Rightarrow> create_hook_input \<Rightarrow> hooks \<Rightarrow> hooks \<times> (endpoint \<times> string) result" where
  "create_endpoint ou now uuid rand sub inp h =
     (case authorize sub ''webhook:create'' None of
        Some e \<Rightarrow> (h, Inl e)
      | None \<Rightarrow>
          if ci_name inp = '''' then (h, Inl (ErrText ''webhook name is required''))
          else if ci_url inp = '''' then (h, Inl (ErrText ''webhook URL is required''))
          else case validate_url ou (ci_url inp) of
            Some e \<Rightarrow> (h, Inl ErrSSRFBlocked)
          | None \<Rightarrow>
             (let sec = generate_secret rand;
                  (h, w) = hook_create now uuid \<lparr>wh_id = uuid, wh_tenant = (case sub of None \<Rightarrow> '''' | Some s \<Rightarrow> sub_user s),
                     wh_name = ci_name inp, wh_url = ci_url inp, wh_descr = ci_descr inp, wh_secret = sec,
                     wh_active = (case ci_active inp of None \<Rightarrow> True | Some a \<Rightarrow> a),
                     wh_types = (if ci_types inp = [] then [''*''] else ci_types inp), wh_created = zero_time,
                     wh_updated = zero_time, wh_last = None, wh_status = '''', wh_failures = 0\<rparr> h
              in (hook_log now sub ''webhook.created'' ''webhook'' (wh_id w) (hook_details w) h, Inr (w, sec))))"

definition own_filter :: "subject option \<Rightarrow> string \<Rightarrow> string" where
  "own_filter sub tid = (case sub of None \<Rightarrow> tid | Some s \<Rightarrow> if \<not> has_permission s ''*'' then sub_user s else tid)"

definition list_endpoints :: "subject option \<Rightarrow> webhook_filter \<Rightarrow> hooks \<Rightarrow> (endpoint list \<times> int) result" where
  "list_endpoints sub f h =
     (case authorize sub ''webhook:read'' None of
        Some e \<Rightarrow> Inl e
      | None \<Rightarrow> hook_list (f\<lparr>wf_tenant := own_filter sub (wf_tenant f)\<rparr>) h)"

text \<open>The permission, the lookup and the tenant check the operations on one endpoint start with.\<close>

definition own_endpoint :: "subject option \<Rightarrow> string \<Rightarrow> string \<Rightarrow> hooks \<Rightarrow> endpoint result" where
  "own_endpoint sub action wid h =
     (case authorize sub action None of
        Some e \<Rightarrow> Inl e
      | None \<Rightarrow> (case hook_get wid h of
          Inl e \<Rightarrow> Inl e
        | Inr w \<Rightarrow> (case sub of
             None \<Rightarrow> Inl Panic
           | Some s \<Rightarrow> if \<not> has_permission s ''*'' \<and> wh_tenant w \<noteq> sub_user s then Inl ErrUnauthorizedTenant else Inr w)))"

definition get_endpoint :: "subject option \<Rightarrow> string \<Rightarrow> hooks \<Rightarrow> endpoint result" where
  "get_endpoint sub wid h = own_endpoint sub ''webhook:read'' wid h"

record update_hook_input =
  ui_name :: "string option"
  ui_url :: "string option"
  ui_descr :: "string option"
  ui_types :: "string list"
  ui_active :: "bool option"

definition given :: "string option \<Rightarrow> bool" where
  "given s \<longleftrightarrow> s \<noteq> None \<and> s \<noteq> Some ''''"

definition update_endpoint ::
  "outside \<Rightarrow> gtime \<Rightarrow> subject option \<Rightarrow> string \<Rightarrow> update_hook_input \<Rightarrow> hooks \<Rightarrow> hooks \<times> endpoint result" where
  "update_endpoint ou now sub wid inp h =
     (case own_endpoint sub ''webhook:update'' wid h of
        Inl e \<Rightarrow> (h, Inl e)
      | Inr w \<Rightarrow>
          let w = (if given (ui_name inp) then w\<lparr>wh_name := the (ui_name inp)\<rparr> else w)
          in if given (ui_url inp) \<and> validate_url ou (the (ui_url inp)) \<noteq> None then (h, Inl ErrSSRFBlocked)
             else let w = (if given (ui_url inp) then w\<lparr>wh_url := the (ui_url inp)\<rparr> else w);
                      w = (case ui_descr inp of None \<Rightarrow> w | Some d \<Rightarrow> w\<lparr>wh_descr := d\<rparr>);
                      w = (case ui_active inp of None \<Rightarrow> w | Some a \<Rightarrow> w\<lparr>wh_active := a\<rparr>);
                      w = (if ui_types inp \<noteq> [] then w\<lparr>wh_types := ui_types inp\<rparr> else w)
                  in case hook_update now w h of
                       (h, Inl e) \<Rightarrow> (h, Inl e)
                     | (h, Inr w) \<Rightarrow>
                         (hook_log now sub ''webhook.updated'' ''webhook'' (wh_id w) (hook_details w) h, Inr w))"

definition delete_endpoint :: "gtime \<Rightarrow> subject option \<Rightarrow> string \<Rightarrow> hooks \<Rightarrow> hooks \<times> go_error option" where
  "delete_endpoint now sub wid h =
     (case own_endpoint sub ''webhook:delete'' wid h of
        Inl e \<Rightarrow> (h, Some e)
      | Inr w \<Rightarrow> (case hook_delete wid h of
          (h, Some e) \<Rightarrow> (h, Some e)
        | (h, None) \<Rightarrow> (hook_log now sub ''webhook.deleted'' ''webhook'' wid
              [(''name'', GStr (wh_name w)), (''url'', GStr (wh_url w))] h, None)))"

definition rotate_secret :: "gtime \<Rightarrow> string \<Rightarrow> subject option \<Rightarrow> string \<Rightarrow> hooks \<Rightarrow> hooks \<times> string result" where
  "rotate_secret now rand sub wid h =
     (case own_endpoint sub ''webhook:rotate'' wid h of
        Inl e \<Rightarrow> (h, Inl e)
      | Inr w \<Rightarrow>
          let w = rotate_endpoint_secret now rand w; sec = wh_secret w
          in case hook_update now w h of
               (h, Inl e) \<Rightarrow> (h, Inl e)
             | (h, Inr w) \<Rightarrow> (hook_log now sub ''webhook.rotate_secret'' ''webhook'' (wh_id w)
                   [(''name'', GStr (wh_name w)), (''url'', GStr (wh_url w))] h, Inr sec))"

definition list_deliveries :: "subject option \<Rightarrow> delivery_filter \<Rightarrow> hooks \<Rightarrow> (delivery list \<times> int) result" where
  "list_deliveries sub f h =
     (case authorize sub ''webhook:read'' None of
        Some e \<Rightarrow> Inl e
      | None \<Rightarrow> delivery_list (f\<lparr>df_tenant := own_filter sub (df_tenant f)\<rparr>) h)"

section \<open>The dispatcher\<close>

definition max_delivery_attempts :: int where
  "max_delivery_attempts = 6"

definition retry_intervals :: "duration list" where
  "retry_intervals = [0, 5 * second, 30 * second, 5 * minute, 30 * minute, 2 * hour]"

text \<open>
  What one delivery attempt meets: the clock, the new identifier, the random part of the
  waiting time, the JSON text of the event (\<open>None\<close> when it cannot be encoded), the answer of
  the HTTP client (an error text or a status code) and the response time.
\<close>

record attempt =
  at_now :: gtime
  at_uuid :: string
  at_jitter :: duration
  at_body :: "string option"
  at_http :: "string + int"
  at_ms :: int

text \<open>\<open>handleFailure\<close>; an index outside the intervals is a panic, and so is a random number below zero.\<close>

definition failed_delivery :: "attempt \<Rightarrow> int \<Rightarrow> delivery \<Rightarrow> delivery result" where
  "failed_delivery att code d =
     (if 400 \<le> code \<and> code < 500 \<and> code \<noteq> 408 \<and> code \<noteq> 429 then Inr (d\<lparr>dv_status := DDeadLetter\<rparr>)
      else if max_delivery_attempts \<le> dv_attempt d then Inr (d\<lparr>dv_status := DDeadLetter\<rparr>)
      else if dv_attempt d \<le> 0 then Inl Panic
      else Inr (d\<lparr>dv_status := DPending,
                  dv_next := Some (at_now att + (retry_intervals ! nat (dv_attempt d) + at_jitter att))\<rparr>))"

definition request_of :: "(string \<Rightarrow> string \<Rightarrow> string) \<Rightarrow> gtime \<Rightarrow> endpoint \<Rightarrow> bus_event \<Rightarrow> string \<Rightarrow> http_request" where
  "request_of mac now w e body =
     (let ts = now div second
      in \<lparr>hr_url = wh_url w,
          hr_headers = [(''Content-Type'', ''application/json''), (''User-Agent'', ''Aurora-Webhook-Dispatcher/1.0''),
            (''X-Aurora-Event-ID'', be_id e), (''X-Aurora-Event-Type'', be_type e), (''X-Aurora-Timestamp'', show_int ts),
            (''X-Aurora-Signature'', ''sha256='' @ sign_payload mac (wh_secret w) ts body)],
          hr_body = body\<rparr>)"

definition new_delivery :: "gtime \<Rightarrow> string \<Rightarrow> endpoint \<Rightarrow> bus_event \<Rightarrow> int \<Rightarrow> delivery" where
  "new_delivery now uuid w e n = \<lparr>dv_id = uuid, dv_event = be_id e, dv_hook = wh_id w, dv_tenant = wh_tenant w,
     dv_type = be_type e, dv_attempt = n, dv_status = DPending, dv_http = 0, dv_ms = 0, dv_error = '''', dv_next = None,
     dv_delivered = None, dv_created = now\<rparr>"

definition keep :: "attempt \<Rightarrow> delivery \<Rightarrow> hooks \<Rightarrow> hooks" where
  "keep att d h = delivery_create (at_now att) (at_uuid att) d h"

text \<open>The end of a failed attempt: \<open>handleFailure\<close>, the new record and the error.\<close>

definition give_up ::
  "attempt \<Rightarrow> endpoint \<Rightarrow> int \<Rightarrow> go_error \<Rightarrow> delivery \<Rightarrow> hooks \<Rightarrow> hooks \<times> (delivery \<times> go_error option) result" where
  "give_up att w code err d h =
     (let h = fst (update_delivery_stats (at_now att) (wh_id w) ''failure'' True h)
      in case failed_delivery att code d of
           Inl p \<Rightarrow> (h, Inl p)
         | Inr d \<Rightarrow> (keep att d h, Inr (d, Some err)))"

definition deliver ::
  "outside \<Rightarrow> (string \<Rightarrow> string \<Rightarrow> string) \<Rightarrow> bool \<Rightarrow> attempt \<Rightarrow> endpoint \<Rightarrow> bus_event \<Rightarrow> int \<Rightarrow> hooks \<Rightarrow> hooks \<times> (delivery \<times> go_error option) result" where
  "deliver ou mac skip att w e n h =
     (let d = new_delivery (at_now att) (at_uuid att) w e n
      in if \<not> skip \<and> validate_url ou (wh_url w) \<noteq> None then
           let d = d\<lparr>dv_status := DDeadLetter, dv_error := ''SSRF blocked''\<rparr>
           in (fst (update_delivery_stats (at_now att) (wh_id w) ''blocked'' True (keep att d h)), Inr (d, validate_url ou (wh_url w)))
         else case at_body att of
           None \<Rightarrow> let d = d\<lparr>dv_status := DDeadLetter, dv_error := ''serialization error''\<rparr>
                   in (keep att d h, Inr (d, Some (ErrText ''serialization error'')))
         | Some body \<Rightarrow>
             if ou_url ou (wh_url w) = None then
               let d = d\<lparr>dv_status := DDeadLetter, dv_error := ''invalid request''\<rparr>
               in (keep att d h, Inr (d, Some (ErrText ''invalid request'')))
             else
               let h = h\<lparr>hk_sent := hk_sent h @ [request_of mac (at_now att) w e body]\<rparr>;
                   d = d\<lparr>dv_ms := at_ms att\<rparr>
               in case at_http att of
                    Inl msg \<Rightarrow> give_up att w 0 (ErrText msg) (d\<lparr>dv_error := msg\<rparr>) h
                  | Inr code \<Rightarrow>
                      let d = d\<lparr>dv_http := code\<rparr>
                      in if 200 \<le> code \<and> code < 300 then
                           let d = d\<lparr>dv_status := DDelivered, dv_delivered := Some (at_now att)\<rparr>
                           in (fst (update_delivery_stats (at_now att) (wh_id w) ''success'' False (keep att d h)), Inr (d, None))
                         else give_up att w code (ErrText (''webhook delivery failed with status '' @ show_int code))
                                (d\<lparr>dv_error := ''endpoint returned HTTP '' @ show_int code\<rparr>) h)"

text \<open>
  The goroutines that \<open>DispatchEvent\<close> starts, one per endpoint, as the list of their
  arguments; each of them runs \<open>deliver\<close> with the first attempt.
\<close>

definition dispatch_event :: "string list \<Rightarrow> bus_event \<Rightarrow> hooks \<Rightarrow> (endpoint \<times> bus_event \<times> int) list" where
  "dispatch_event ks e h =
     map (\<lambda>w. (w, e, 1)) (filter (\<lambda>w. wh_tenant w = be_tenant e) (list_subscribed ks (be_type e) h))"

definition test_event :: "gtime \<Rightarrow> string \<Rightarrow> endpoint \<Rightarrow> bus_event" where
  "test_event now uuid w = \<lparr>be_id = uuid, be_tenant = wh_tenant w, be_type = ''webhook.test'', be_rtype = ''webhook'',
     be_rid = wh_id w, be_actor = ''user'', be_time = now,
     be_payload = [(''message'', GStr ''Project Aurora Webhook Verification Ping''), (''url'', GStr (wh_url w))],
     be_meta = [], be_version = ''1.0''\<rparr>"

definition test_webhook ::
  "outside \<Rightarrow> (string \<Rightarrow> string \<Rightarrow> string) \<Rightarrow> bool \<Rightarrow> attempt \<Rightarrow> string \<Rightarrow> endpoint \<Rightarrow> hooks \<Rightarrow> hooks \<times> (delivery \<times> go_error option) result" where
  "test_webhook ou mac skip att uuid w h = deliver ou mac skip att w (test_event (at_now att) uuid w) 1 h"

definition test_endpoint ::
  "outside \<Rightarrow> (string \<Rightarrow> string \<Rightarrow> string) \<Rightarrow> bool \<Rightarrow> attempt \<Rightarrow> string \<Rightarrow> subject option \<Rightarrow> string \<Rightarrow> hooks \<Rightarrow> hooks \<times> (delivery \<times> go_error option) result" where
  "test_endpoint ou mac skip att uuid sub wid h =
     (case own_endpoint sub ''webhook:test'' wid h of
        Inl e \<Rightarrow> (h, Inl e)
      | Inr w \<Rightarrow> (case test_webhook ou mac skip att uuid w h of
          (h, Inl e) \<Rightarrow> (h, Inl e)
        | (h, Inr (d, err)) \<Rightarrow> (hook_log (at_now att) sub ''webhook.tested'' ''webhook'' (wh_id w)
              [(''name'', GStr (wh_name w)), (''status'', GStr (case dv_status d of DPending \<Rightarrow> ''pending''
                 | DDelivered \<Rightarrow> ''delivered'' | DFailed \<Rightarrow> ''failed'' | DDeadLetter \<Rightarrow> ''dead_letter''))] h, Inr (d, err))))"

text \<open>The event a retry is made from: the delivery keeps neither its content nor its resource.\<close>

definition retry_event :: "delivery \<Rightarrow> bus_event" where
  "retry_event d = \<lparr>be_id = dv_event d, be_tenant = dv_tenant d, be_type = dv_type d, be_rtype = '''', be_rid = '''',
     be_actor = '''', be_time = dv_created d, be_payload = [], be_meta = [], be_version = ''1.0''\<rparr>"

text \<open>One delivery of a retry pass; the goroutine it starts is taken to run at once.\<close>

definition retry_one ::
  "outside \<Rightarrow> (string \<Rightarrow> string \<Rightarrow> string) \<Rightarrow> bool \<Rightarrow> attempt \<Rightarrow> delivery \<Rightarrow> hooks \<Rightarrow> hooks" where
  "retry_one ou mac skip att d h =
     (case hook_get (dv_hook d) h of
        Inl e \<Rightarrow> fst (delivery_update (d\<lparr>dv_status := DDeadLetter, dv_error := ''webhook endpoint no longer active''\<rparr>) h)
      | Inr w \<Rightarrow>
          if \<not> wh_active w
          then fst (delivery_update (d\<lparr>dv_status := DDeadLetter, dv_error := ''webhook endpoint no longer active''\<rparr>) h)
          else case deliver ou mac skip att w (retry_event d) (dv_attempt d + 1) h of
                 (h, Inl e) \<Rightarrow> h
               | (h, Inr (n, err)) \<Rightarrow> fst (delivery_update (d\<lparr>dv_attempt := dv_attempt n, dv_status := dv_status n,
                     dv_http := dv_http n, dv_ms := dv_ms n, dv_error := dv_error n, dv_next := dv_next n,
                     dv_delivered := dv_delivered n\<rparr>) h))"

definition process_pending_retries ::
  "outside \<Rightarrow> (string \<Rightarrow> string \<Rightarrow> string) \<Rightarrow> bool \<Rightarrow> string list \<Rightarrow> gtime \<Rightarrow> attempt list \<Rightarrow> hooks \<Rightarrow> hooks" where
  "process_pending_retries ou mac skip ks now ats h =
     foldl (\<lambda>h (att, d). retry_one ou mac skip att d h) h (zip ats (list_pending_retries ks now 20 h))"

end
