(* ===== verification/Webhook_Delivery.thy ===== *)
theory Webhook_Delivery
  imports Webhooks
begin

text \<open>
  What the webhook subsystem guarantees: which events reach which endpoint, that receivers can
  check the signature, that no request is made to an internal address, that attempts are
  bounded; and how failed retries multiply.
\<close>

section \<open>Patterns\<close>

lemma matches_pattern_iff:
  "matches_pattern p t \<longleftrightarrow> p = ''*'' \<or> p = t \<or> (\<exists>q r. p = q @ ''.*'' \<and> t = q @ ''.'' @ r)"
proof (cases "\<exists>q. p = q @ ''.*''")
  case True
  then obtain q where p: "p = q @ ''.*''" by blast
  have "has_suffix p ''.*''" by (auto simp: has_suffix_iff p)
  moreover have "trim_suffix p ''.*'' = q" unfolding p by (rule trim_suffix_append)
  ultimately show ?thesis by (auto simp: matches_pattern_def p has_prefix_iff)
next
  case False
  then have "\<not> has_suffix p ''.*''" by (simp add: has_suffix_iff)
  with False show ?thesis by (auto simp: matches_pattern_def)
qed

text \<open>
  Webhook endpoints and handlers of the event bus read patterns alike: an active endpoint
  is subscribed to an event type exactly if one of its patterns would match on the bus, and a
  pattern matches exactly if it is a star, the type itself, or a prefix of whole dotted names
  followed by a star.
\<close>

theorem subscription_matches_bus:
  "subscribes_to w t = (wh_active w \<and> (\<exists>p \<in> set (wh_types w). matches_pattern p t)) \<and>
   (matches_pattern p t \<longleftrightarrow> p = ''*'' \<or> p = t \<or> (\<exists>q r. p = q @ ''.*'' \<and> t = q @ ''.'' @ r))"
proof
  have "type_matches t p = matches_pattern p t" for p by (simp add: type_matches_def matches_pattern_def)
  then show "subscribes_to w t = (wh_active w \<and> (\<exists>p \<in> set (wh_types w). matches_pattern p t))"
    by (simp add: subscribes_to_def list_ex_iff)
qed (rule matches_pattern_iff)

section \<open>Signatures\<close>

lemma quot_second: "0 \<le> d \<Longrightarrow> quot d second = d div second"
  by (rule quot_nonneg) (simp_all add: second_def)

lemma seconds_uminus: "seconds (- d) = - seconds d"
proof -
  define q r where "q = quot d second" and "r = d - quot d second * second"
  have q: "quot (- d) second = - q" by (simp add: q_def quot_def second_def)
  then have r: "- d - quot (- d) second * second = - r" by (simp add: q_def r_def)
  have "seconds (- d) = rnd (rnd (- of_int q) + rnd (rnd (- of_int r) / rnd (of_int second)))"
    unfolding seconds_def f_add_def f_div_def f_of_int_def r by (simp add: q)
  also have "\<dots> = rnd (- (rnd (of_int q) + rnd (rnd (of_int r) / rnd (of_int second))))"
    by (simp add: rnd_uminus)
  also have "\<dots> = - seconds d"
    unfolding rnd_uminus seconds_def f_add_def f_div_def f_of_int_def by (simp add: q_def r_def)
  finally show ?thesis .
qed

lemma seconds_mono:
  assumes "0 \<le> d" and "d \<le> t" and "t \<le> max_int64"
  shows "seconds d \<le> seconds t"
proof -
  have form: "seconds x = rnd (of_int (x div second) + rnd (of_int (x mod second) / 1000000000))"
    if "0 \<le> x" "x \<le> max_int64" for x
  proof -
    have "x div second < 2 ^ 53" "0 \<le> x div second" using that by (simp_all add: second_def max_int64_def)
    moreover have "x mod second < 2 ^ 53" "0 \<le> x mod second" by (simp_all add: second_def mod_less_divisor [THEN less_trans] pos_mod_bound [THEN less_trans])
    moreover have "x - x div second * second = x mod second" by (simp add: minus_div_mult_eq_mod)
    ultimately show ?thesis
      using that by (simp add: seconds_def quot_second f_add_def f_div_def f_of_int_small second_def)
  qed
  have frac: "rnd (of_int (x mod second) / 1000000000) \<le> 1" for x
  proof -
    have "(of_int (x mod second) :: rat) \<le> 1000000000" by (simp add: second_def pos_mod_bound less_imp_le)
    then have "rnd (of_int (x mod second) / 1000000000) \<le> rnd 1" by (intro rnd_mono) simp
    also have "rnd 1 = 1" using rnd_of_int_small [of 1] by simp
    finally show ?thesis .
  qed
  have nn: "0 \<le> rnd (of_int (t mod second) / 1000000000)"
    by (rule rnd_nonneg) (simp add: second_def)
  show ?thesis
  proof (cases "d div second = t div second")
    case True
    then have "d mod second \<le> t mod second"
      using assms(2) by (metis add_le_cancel_left mult_div_mod_eq)
    then have "rnd (of_int (d mod second) / 1000000000) \<le> rnd (of_int (t mod second) / 1000000000)"
      by (intro rnd_mono) (simp add: divide_right_mono)
    then show ?thesis using assms True by (simp add: form) (intro rnd_mono, simp)
  next
    case False
    then have "d div second + 1 \<le> t div second" using assms(2) by (simp add: second_def zdiv_mono1 order_less_le)
    then have "(of_int (d div second) + 1 :: rat) \<le> of_int (t div second)" by (metis of_int_1 of_int_add of_int_le_iff)
    then show ?thesis using assms frac [of d] nn by (simp add: form) (intro rnd_mono, linarith)
  qed
qed

lemma seconds_abs:
  assumes "\<bar>d\<bar> \<le> t" and "t \<le> max_int64"
  shows "\<bar>seconds d\<bar> \<le> seconds t"
proof (cases "0 \<le> d")
  case True
  then have "0 \<le> seconds d" using seconds_mono [of 0 d] assms by (simp add: seconds_def quot_def f_add_def f_div_def f_of_int_def)
  then show ?thesis using seconds_mono [of d t] assms True by simp
next
  case False
  then have "0 \<le> seconds (- d)" using seconds_mono [of 0 "- d"] assms by (simp add: seconds_def quot_def f_add_def f_div_def f_of_int_def)
  then show ?thesis using seconds_mono [of "- d" t] assms False by (simp add: seconds_uminus)
qed

text \<open>
  C35. Receivers can check what they get: the signature header of a delivery verifies with the
  secret of the endpoint, the timestamp and the body of the same request at every moment within
  the tolerance of the receiver, whatever the keyed hash function is.
\<close>

theorem delivery_signature_verifies:
  assumes "r = request_of mac now w e body"
    and "\<bar>now' - now div second * second\<bar> \<le> tolerance" and "tolerance \<le> max_int64"
  shows "\<exists>sig. map_of (hr_headers r) ''X-Aurora-Signature'' = Some sig
     \<and> map_of (hr_headers r) ''X-Aurora-Timestamp'' = Some (show_int (now div second))
     \<and> verify_signature mac now' (wh_secret w) sig (now div second) (hr_body r) tolerance"
proof -
  have "time_sub now' (now div second * second) = now' - now div second * second"
    using assms(2,3) by (intro time_sub_small) (simp_all add: min_int64_def max_int64_def)
  then have "\<not> seconds tolerance < \<bar>seconds (time_sub now' (now div second * second))\<bar>"
    using seconds_abs [OF assms(2,3)] by simp
  then have "verify_signature mac now' (wh_secret w) (''sha256='' @ sign_payload mac (wh_secret w) (now div second) body)
      (now div second) body tolerance"
    by (simp add: verify_signature_def has_prefix_def Let_def)
  moreover have "map_of (hr_headers r) ''X-Aurora-Signature'' =
      Some (''sha256='' @ sign_payload mac (wh_secret w) (now div second) body)"
    "map_of (hr_headers r) ''X-Aurora-Timestamp'' = Some (show_int (now div second))" "hr_body r = body"
    by (simp_all add: assms(1) request_of_def Let_def)
  ultimately show ?thesis by simp
qed

definition hook1 :: endpoint where
  "hook1 = \<lparr>wh_id = ''w1'', wh_tenant = ''alice'', wh_name = ''ci'', wh_url = ''https://hooks.example.com'', wh_descr = '''',
     wh_secret = ''whsec_k'', wh_active = True, wh_types = [''instance.*''], wh_created = 0, wh_updated = 0, wh_last = None,
     wh_status = '''', wh_failures = 0\<rparr>"

theorem delivery_signature_verifies_witness:
  "\<exists>sig. verify_signature (\<lambda>k m. k @ m) (1700000003 * second) ''whsec_k'' sig 1700000000 ''{}'' (300 * second)"
proof -
  have "\<exists>sig. map_of (hr_headers (request_of (\<lambda>k m. k @ m) (1700000000 * second) hook1 ping ''{}'')) ''X-Aurora-Signature'' = Some sig
     \<and> map_of (hr_headers (request_of (\<lambda>k m. k @ m) (1700000000 * second) hook1 ping ''{}'')) ''X-Aurora-Timestamp''
         = Some (show_int (1700000000 * second div second))
     \<and> verify_signature (\<lambda>k m. k @ m) (1700000003 * second) (wh_secret hook1) sig (1700000000 * second div second)
         (hr_body (request_of (\<lambda>k m. k @ m) (1700000000 * second) hook1 ping ''{}'')) (300 * second)"
    by (rule delivery_signature_verifies [OF refl]) (simp_all add: second_def max_int64_def)
  then show ?thesis by (auto simp: hook1_def request_of_def Let_def second_def)
qed

section \<open>Tenants\<close>

text \<open>
  Webhooks are isolated by tenant: whoever holds no wildcard permission can neither read,
  change, delete, test nor rotate the secret of an endpoint of somebody else, and leaves the
  state as it was; the endpoints and deliveries listed to a user are the user's own; and an
  event is handed only to active endpoints of its tenant that are subscribed to its type.
\<close>

theorem webhook_tenant_isolation:
  assumes "hk_eps h wid = Some w" and "wh_tenant w \<noteq> sub_user s" and "\<not> has_permission s ''*''" and "sub_user s \<noteq> ''''"
  shows "(\<exists>x. get_endpoint (Some s) wid h = Inl x)
     \<and> (\<exists>x. update_endpoint ou now (Some s) wid inp h = (h, Inl x))
     \<and> (\<exists>x. delete_endpoint now (Some s) wid h = (h, Some x))
     \<and> (\<exists>x. rotate_secret now rand (Some s) wid h = (h, Inl x))
     \<and> (\<exists>x. test_endpoint ou mac skip att uuid (Some s) wid h = (h, Inl x))
     \<and> (\<forall>ws n. list_endpoints (Some s) lf h = Inr (ws, n) \<longrightarrow> (\<forall>v \<in> set ws. wh_tenant v = sub_user s))
     \<and> (\<forall>ds n. list_deliveries (Some s) df h = Inr (ds, n) \<longrightarrow> (\<forall>d \<in> set ds. dv_tenant d = sub_user s))
     \<and> (\<forall>(v, e', n) \<in> set (dispatch_event ks e h). wh_tenant v = be_tenant e \<and> subscribes_to v (be_type e) \<and> e' = e)"
proof -
  have "\<exists>x. own_endpoint (Some s) a wid h = Inl x" for a
    using assms(1-3) by (simp add: own_endpoint_def hook_get_def split: option.splits)
  then obtain x where o: "\<And>a. own_endpoint (Some s) a wid h = Inl (x a)" by metis
  have l: "\<forall>v \<in> set ws. wh_tenant v = sub_user s" if "list_endpoints (Some s) lf h = Inr (ws, n)" for ws n
    using that assms(3,4)
    by (cases "wf_active lf") (auto simp: list_endpoints_def own_filter_def hook_list_def Let_def
        split: option.splits sum.splits dest!: slice_page_subset)
  have m: "\<forall>d \<in> set ds. dv_tenant d = sub_user s" if "list_deliveries (Some s) df h = Inr (ds, n)" for ds n
    using that assms(3,4)
    by (cases "df_status df") (auto simp: list_deliveries_def own_filter_def delivery_list_def Let_def
        split: option.splits sum.splits dest!: slice_page_subset)
  show ?thesis
    using l m
    by (simp add: get_endpoint_def update_endpoint_def delete_endpoint_def rotate_secret_def test_endpoint_def o)
      (auto simp: dispatch_event_def list_subscribed_def)
qed

definition one_hook :: hooks where
  "one_hook = \<lparr>hk_eps = [''w1'' \<mapsto> hook1], hk_eorder = [''w1''], hk_dels = Map.empty, hk_dorder = [], hk_sent = [],
     hk_trails = empty_trails\<rparr>"

definition mallory :: subject where
  "mallory = \<lparr>sub_type = ''user'', sub_id = ''m'', sub_user = ''mallory'', sub_username = ''m'', sub_email = '''',
     sub_roles = [''user''], sub_permissions = [''webhook:read'', ''webhook:rotate''], sub_scopes = []\<rparr>"

theorem webhook_tenant_isolation_witness:
  "\<exists>x. rotate_secret 5 ''r'' (Some mallory) ''w1'' one_hook = (one_hook, Inl x)"
proof -
  have "hk_eps one_hook ''w1'' = Some hook1" "wh_tenant hook1 \<noteq> sub_user mallory" "sub_user mallory \<noteq> ''''"
    by (simp_all add: one_hook_def hook1_def mallory_def)
  moreover have "\<not> has_permission mallory ''*''" by code_simp
  ultimately show ?thesis using webhook_tenant_isolation [of one_hook "''w1''" hook1 mallory] by blast
qed

section \<open>The guard at every delivery\<close>

lemma validate_urlD:
  assumes "validate_url ou url = None"
  shows "\<exists>sch host ips. ou_url ou url = Some (sch, host) \<and> ou_lookup ou (to_lower host) = Some ips \<and> ips \<noteq> []
    \<and> (\<forall>x \<in> set ips. \<not> internal x)"
  using assms
  by (auto simp: validate_url_def Let_def list_ex_iff prohibited_internal split: option.splits list.splits if_splits
      prod.splits)

lemma keep_sent [simp]: "hk_sent (keep att d h) = hk_sent h"
  by (simp add: keep_def delivery_create_def Let_def)

lemma stats_keep [simp]:
  "hk_sent (fst (update_delivery_stats now wid st f h)) = hk_sent h"
  "hk_dels (fst (update_delivery_stats now wid st f h)) = hk_dels h"
  by (simp_all add: update_delivery_stats_def split: option.splits)

text \<open>
  C15. A delivery sends a request only to a URL that passed the guard at that moment, so that
  the host name of the URL resolves to addresses outside the internal ranges only; the request
  goes to the URL of the endpoint, and a delivery that is blocked ends as a dead letter that is
  never retried.
\<close>

theorem delivery_is_guarded:
  assumes "deliver ou mac False att w e n h = (h', r)"
  shows "hk_sent h' = hk_sent h \<or>
    (\<exists>body sch host ips. hk_sent h' = hk_sent h @ [request_of mac (at_now att) w e body]
       \<and> ou_url ou (wh_url w) = Some (sch, host) \<and> ou_lookup ou (to_lower host) = Some ips \<and> ips \<noteq> []
       \<and> (\<forall>x \<in> set ips. \<not> internal x))"
    (is "?same \<or> ?sent")
proof (cases "validate_url ou (wh_url w)")
  case None
  then show ?thesis
    using assms validate_urlD [OF None]
    by (auto simp: deliver_def give_up_def Let_def split: option.splits sum.splits if_splits)
next
  case (Some err)
  then show ?thesis using assms by (auto simp: deliver_def Let_def)
qed

definition failing :: attempt where
  "failing = \<lparr>at_now = 100 * second, at_uuid = ''d2'', at_jitter = 0, at_body = Some ''{}'', at_http = Inl ''timeout'', at_ms = 9\<rparr>"

lemma sample_url: "ou_url sample_outside u = Some (''https'', ''hooks.example.com'')"
  by (simp add: sample_outside_def)

lemma hook1_passes: "validate_url sample_outside (wh_url hook1) = None"
proof -
  have i: "\<not> internal (mapped4 (word4 [93, 184, 216, 34]))"
    using octets_word4 [of 93 184 216 34] by (simp add: internal_def internal4_def)
  have "\<not> list_ex (\<lambda>f. ''hooks.example.com'' = f) prohibited_hostnames" "\<not> list_ex (has_suffix ''hooks.example.com'') prohibited_suffixes"
    "to_lower ''https'' = ''https''" "to_lower ''hooks.example.com'' = ''hooks.example.com''" by code_simp+
  then show ?thesis using i by (simp add: validate_url_def sample_outside_def prohibited_internal)
qed

theorem delivery_is_guarded_witness:
  "hk_sent (fst (deliver sample_outside (\<lambda>k m. m) False failing hook1 ping 1 one_hook)) \<noteq> [] \<and>
   (\<exists>ips. ou_lookup sample_outside ''hooks.example.com'' = Some ips \<and> (\<forall>x \<in> set ips. \<not> internal x))"
proof -
  let ?r = "deliver sample_outside (\<lambda>k m. m) False failing hook1 ping 1 one_hook"
  have s: "hk_sent (fst ?r) \<noteq> []"
    by (simp add: deliver_def give_up_def Let_def hook1_passes failing_def sample_url one_hook_def failed_delivery_def new_delivery_def max_delivery_attempts_def)
  have l: "to_lower ''hooks.example.com'' = ''hooks.example.com''" by code_simp
  obtain h' r where d: "?r = (h', r)" by force
  have u: "ou_url sample_outside (wh_url hook1) = Some (''https'', ''hooks.example.com'')" by (simp add: sample_outside_def)
  have "hk_sent h' \<noteq> hk_sent one_hook" using s d by (simp add: one_hook_def)
  with delivery_is_guarded [OF d] u l have "\<exists>ips. ou_lookup sample_outside ''hooks.example.com'' = Some ips \<and> (\<forall>x \<in> set ips. \<not> internal x)"
    by (metis option.inject prod.inject)
  with s show ?thesis by blast
qed

section \<open>Attempts\<close>

definition attempt_ok :: "delivery \<Rightarrow> bool" where
  "attempt_ok d \<longleftrightarrow> 1 \<le> dv_attempt d \<and> dv_attempt d \<le> 6 \<and> (dv_status d = DPending \<longrightarrow> dv_attempt d < 6)"

definition deliveries_ok :: "hooks \<Rightarrow> bool" where
  "deliveries_ok h \<longleftrightarrow> (\<forall>k d. hk_dels h k = Some d \<longrightarrow> dv_id d = k \<and> attempt_ok d)"

text \<open>One delivery stores one record, the one it returns, up to the identifier and the time.\<close>

lemma failed_delivery_ok:
  assumes "1 \<le> dv_attempt d" and "dv_attempt d \<le> 6"
  shows "\<exists>d'. failed_delivery att code d = Inr d' \<and> dv_attempt d' = dv_attempt d \<and> attempt_ok d' \<and> dv_id d' = dv_id d"
  using assms by (auto simp: failed_delivery_def attempt_ok_def max_delivery_attempts_def)

lemma keep_dels:
  "\<exists>d'. hk_dels (keep att d h) = (hk_dels h)(dv_id d' \<mapsto> d') \<and> dv_attempt d' = dv_attempt d \<and> dv_status d' = dv_status d"
proof -
  let ?d = "if dv_id d = '''' then d\<lparr>dv_id := at_uuid att\<rparr> else d"
  show ?thesis
    by (rule exI [of _ "if dv_created ?d = zero_time then ?d\<lparr>dv_created := at_now att\<rparr> else ?d"])
      (simp add: keep_def delivery_create_def Let_def)
qed

lemma keep_ok: "deliveries_ok h \<Longrightarrow> attempt_ok d \<Longrightarrow> deliveries_ok (keep att d h)"
  using keep_dels [of att d h] by (auto simp: deliveries_ok_def attempt_ok_def split: if_splits)

lemma deliver_ok:
  assumes "deliveries_ok h" and "1 \<le> n" and "n \<le> 6" and "deliver ou mac skip att w e n h = (h', r)"
  shows "deliveries_ok h' \<and> (\<exists>d err. r = Inr (d, err) \<and> attempt_ok d \<and> dv_attempt d = n)"
proof -
  have s: "deliveries_ok (h\<lparr>hk_sent := xs\<rparr>) = deliveries_ok h" for h xs by (simp add: deliveries_ok_def)
  have t: "deliveries_ok (fst (update_delivery_stats now wid st f h)) = deliveries_ok h" for now wid st f h
    by (simp add: deliveries_ok_def)
  have n: "dv_attempt (new_delivery now u w e n) = n" for now u by (simp add: new_delivery_def)
  have f: "\<exists>d'. failed_delivery att code d = Inr d' \<and> dv_attempt d' = n \<and> attempt_ok d'" if "dv_attempt d = n" for code d
    using failed_delivery_ok [of d att code] that assms(2,3) by auto
  have a: "attempt_ok d" if "dv_attempt d = n" "dv_status d \<noteq> DPending" for d
    using that assms(2,3) by (simp add: attempt_ok_def)
  show ?thesis
  proof (cases "\<not> skip \<and> validate_url ou (wh_url w) \<noteq> None \<or> at_body att = None \<or> ou_url ou (wh_url w) = None")
    case True
    then show ?thesis using assms(1,4)
      by (auto simp: deliver_def Let_def t n a keep_ok split: if_splits option.splits)
  next
    case False
    then obtain body where b: "at_body att = Some body" by auto
    define h1 where "h1 = h\<lparr>hk_sent := hk_sent h @ [request_of mac (at_now att) w e body]\<rparr>"
    have h1: "deliveries_ok h1" using assms(1) by (simp add: h1_def s)
    have give: ?thesis if "dv_attempt d = n" "give_up att w code err d h1 = (h', r)" for code err d
    proof -
      note g = that
      obtain d' where d': "failed_delivery att code d = Inr d'" "dv_attempt d' = n" "attempt_ok d'" using f [OF g(1)] by blast
      have "r = Inr (d', Some err)"
        "h' = keep att d' (fst (update_delivery_stats (at_now att) (wh_id w) ''failure'' True h1))"
        using g(2) unfolding give_up_def Let_def d'(1) by simp_all
      with h1 d'(2,3) show ?thesis by (simp add: t keep_ok)
    qed
    let ?d = "new_delivery (at_now att) (at_uuid att) w e n\<lparr>dv_ms := at_ms att\<rparr>"
    note eq = assms(4) [unfolded deliver_def Let_def b option.case, folded h1_def]
    show ?thesis
    proof (cases "at_http att")
      case (Inl msg)
      show ?thesis by (rule give [of "?d\<lparr>dv_error := msg\<rparr>" 0 "ErrText msg"]) (use eq False Inl n in auto)
    next
      case (Inr code)
      show ?thesis
      proof (cases "200 \<le> code \<and> code < 300")
        case True
        with eq False Inr have "h' = fst (update_delivery_stats (at_now att) (wh_id w) ''success'' False
            (keep att (?d\<lparr>dv_http := code, dv_status := DDelivered, dv_delivered := Some (at_now att)\<rparr>) h1))"
          "r = Inr (?d\<lparr>dv_http := code, dv_status := DDelivered, dv_delivered := Some (at_now att)\<rparr>, None)" by auto
        then show ?thesis using h1 by (simp add: t n a keep_ok)
      next
        case c: False
        show ?thesis
          by (rule give [of "?d\<lparr>dv_http := code, dv_error := ''endpoint returned HTTP '' @ show_int code\<rparr>" code
              "ErrText (''webhook delivery failed with status '' @ show_int code)"])
            (use eq False c Inr n in auto)
      qed
    qed
  qed
qed

text \<open>
  Deliveries as steps: a first attempt for any endpoint and event, and one retry of a delivery
  that is due. The requests of the service do not touch deliveries.
\<close>

inductive hook_step :: "hooks \<Rightarrow> hooks \<Rightarrow> bool" where
  first: "hook_step h (fst (deliver ou mac skip att w e 1 h))"
| retry: "hk_dels h (dv_id d) = Some d \<Longrightarrow> due now d \<Longrightarrow> hook_step h (retry_one ou mac skip att d h)"
| service: "hk_dels h' = hk_dels h \<Longrightarrow> hook_step h h'"

lemma delivery_update_ok:
  assumes "deliveries_ok h" and "attempt_ok d"
  shows "deliveries_ok (fst (delivery_update d h))"
  using assms by (auto simp: delivery_update_def deliveries_ok_def attempt_ok_def split: option.splits)

lemma retry_one_ok:
  assumes "deliveries_ok h" and "hk_dels h (dv_id d) = Some d" and "due now d"
  shows "deliveries_ok (retry_one ou mac skip att d h)"
proof -
  have d: "1 \<le> dv_attempt d" "dv_attempt d < 6" using assms by (auto simp: deliveries_ok_def attempt_ok_def due_def)
  have dead: "deliveries_ok (fst (delivery_update (d\<lparr>dv_status := DDeadLetter, dv_error := m\<rparr>) h))" for m
    using assms(1) d by (intro delivery_update_ok) (simp_all add: attempt_ok_def)
  show ?thesis
  proof (cases "hook_get (dv_hook d) h")
    case (Inl e)
    with dead show ?thesis by (simp add: retry_one_def)
  next
    case (Inr w)
    show ?thesis
    proof (cases "wh_active w")
      case False
      with Inr dead show ?thesis by (simp add: retry_one_def)
    next
      case True
      obtain h1 r where dl: "deliver ou mac skip att w (retry_event d) (dv_attempt d + 1) h = (h1, r)" by force
      from deliver_ok [OF assms(1) _ _ dl] d obtain n err where n: "deliveries_ok h1" "r = Inr (n, err)" "attempt_ok n" by auto
      show ?thesis
        using Inr True dl n by (auto simp: retry_one_def attempt_ok_def intro!: delivery_update_ok)
    qed
  qed
qed

interpretation delivery_attempts: invariant_machine hook_step deliveries_ok
proof unfold_locales
  fix h h' assume "deliveries_ok h" and "hook_step h h'"
  from this(2,1) show "deliveries_ok h'"
  proof cases
    case (first ou mac skip att w e)
    obtain h1 r where "deliver ou mac skip att w e 1 h = (h1, r)" by force
    with deliver_ok [OF \<open>deliveries_ok h\<close> _ _ this] first show ?thesis by simp
  next
    case (retry d now ou mac skip att)
    with \<open>deliveries_ok h\<close> show ?thesis by (simp add: retry_one_ok)
  next
    case service
    with \<open>deliveries_ok h\<close> show ?thesis by (simp add: deliveries_ok_def)
  qed
qed


definition first_try :: hooks where
  "first_try = fst (deliver sample_outside (\<lambda>k m. m) False (failing\<lparr>at_uuid := ''d1'', at_now := 90 * second\<rparr>) hook1 ping 1 one_hook)"

lemma first_try_state:
  "\<exists>d. hk_dels first_try ''d1'' = Some d \<and> dv_id d = ''d1'' \<and> dv_hook d = ''w1'' \<and> dv_attempt d = 1
     \<and> due (95 * second) d \<and> (\<exists>w. hk_eps first_try ''w1'' = Some w \<and> wh_id w = ''w1'' \<and> wh_active w \<and> wh_url w = wh_url hook1)"
proof -
  have "validate_url sample_outside ''https://hooks.example.com'' = None"
    using hook1_passes by (simp add: hook1_def)
  then show ?thesis
    by (auto simp: first_try_def deliver_def give_up_def Let_def sample_url failing_def one_hook_def hook1_def failed_delivery_def
      new_delivery_def max_delivery_attempts_def keep_def delivery_create_def update_delivery_stats_def due_def
      retry_intervals_def second_def zero_time_def)
qed


text \<open>
  Failed retries multiply: a retry stores a new delivery record and also copies the outcome
  into the old one. When it fails again, both are pending, for the same event, endpoint, attempt
  and time, so the next pass makes two requests, and every further failure doubles their number.
\<close>

theorem failed_retry_doubles:
  assumes "hk_dels h (dv_id d) = Some d" and "dv_id d \<noteq> at_uuid att" and "at_uuid att \<noteq> ''''"
    and "hk_eps h (dv_hook d) = Some w" and "wh_id w = dv_hook d" and "wh_active w"
    and "validate_url ou (wh_url w) = None" and "at_body att = Some body"
    and "at_http att = Inl msg" and "1 \<le> dv_attempt d" and "dv_attempt d < 5"
  shows "\<exists>d1 d2 t. hk_dels (retry_one ou mac False att d h) (dv_id d) = Some d1
     \<and> hk_dels (retry_one ou mac False att d h) (at_uuid att) = Some d2
     \<and> due t d1 \<and> due t d2 \<and> dv_event d1 = dv_event d \<and> dv_event d2 = dv_event d
     \<and> dv_hook d1 = dv_hook d \<and> dv_hook d2 = dv_hook d
     \<and> dv_attempt d1 = dv_attempt d + 1 \<and> dv_attempt d2 = dv_attempt d + 1"
proof -
  obtain sch host where u: "ou_url ou (wh_url w) = Some (sch, host)" using validate_urlD [OF assms(7)] by auto
  have f: "failed_delivery att 0 (d'::delivery) = Inr (d'\<lparr>dv_status := DPending,
      dv_next := Some (at_now att + (retry_intervals ! nat (dv_attempt d') + at_jitter att))\<rparr>)"
    if "dv_attempt d' = dv_attempt d + 1" for d'
    using that assms(10,11) by (simp add: failed_delivery_def max_delivery_attempts_def)
  show ?thesis
    using assms u
    by (auto simp: retry_one_def hook_get_def deliver_def give_up_def Let_def f new_delivery_def keep_def delivery_create_def
      delivery_update_def retry_event_def due_def)
qed

theorem failed_retry_doubles_witness:
  "\<exists>d d1 d2. hk_dels first_try ''d1'' = Some d
     \<and> hk_dels (retry_one sample_outside (\<lambda>k m. m) False failing d first_try) ''d1'' = Some d1
     \<and> hk_dels (retry_one sample_outside (\<lambda>k m. m) False failing d first_try) ''d2'' = Some d2
     \<and> dv_attempt d1 = 2 \<and> dv_attempt d2 = 2 \<and> dv_event d1 = dv_event d2"
proof -
  obtain d w where d: "hk_dels first_try ''d1'' = Some d" "dv_id d = ''d1''" "dv_hook d = ''w1''" "dv_attempt d = 1"
    "hk_eps first_try ''w1'' = Some w" "wh_id w = ''w1''" "wh_active w" "wh_url w = wh_url hook1"
    using first_try_state by blast
  have "at_uuid failing = ''d2''" "at_body failing = Some ''{}''" "at_http failing = Inl ''timeout''"
    by (simp_all add: failing_def)
  then show ?thesis
    using failed_retry_doubles [of first_try d failing w sample_outside "''{}''" "''timeout''" "\<lambda>k m. m"] d hook1_passes
    by fastforce
qed

end
