(* ===== verification/Go_Calendar.thy ===== *)
theory Go_Calendar
  imports Aurora_Prelude
begin

text \<open>
  \<open>Time.AddDate\<close> of the Go library in UTC, which the subscription periods rest on. Years are
  counted from March, so that the leap day is the last of its year: \<open>year_start y\<close> is the number
  of days before the first of March of year \<open>y\<close>, \<open>month_start mp\<close> the number of days of that year
  before its month \<open>mp\<close> (0 is March, 11 is February). As in Go a day beyond the end of the new
  month runs over into the next one: 31 January plus one month is 2 or 3 March.
\<close>

definition year_start :: "int \<Rightarrow> int" where
  "year_start y = 365 * y + y div 4 - y div 100 + y div 400"

definition month_start :: "int \<Rightarrow> int" where
  "month_start mp = (153 * mp + 2) div 5"

text \<open>The number of days between 1 March of year 0 and the Unix epoch.\<close>

definition epoch_days :: int where
  "epoch_days = 719468"

definition days_of_date :: "int \<Rightarrow> int \<Rightarrow> int \<Rightarrow> int" where
  "days_of_date y mp d = year_start y + month_start mp + d - epoch_days"

text \<open>The average year estimates the year of a day up to one.\<close>

definition year_of_day :: "int \<Rightarrow> int" where
  "year_of_day n =
     (let y = 400 * n div 146097
      in if n < year_start y then y - 1 else if year_start (y + 1) \<le> n then y + 1 else y)"

definition month_of_day :: "int \<Rightarrow> int" where
  "month_of_day doy = (5 * doy + 2) div 153"

definition date_of_days :: "int \<Rightarrow> int \<times> int \<times> int" where
  "date_of_days n =
     (let n = n + epoch_days; y = year_of_day n; doy = n - year_start y; mp = month_of_day doy
      in (y, mp, doy - month_start mp))"

definition add_date :: "int \<Rightarrow> int \<Rightarrow> gtime \<Rightarrow> gtime" where
  "add_date years months t =
     (let (y, mp, d) = date_of_days (t div day); m = 12 * (y + years) + mp + months
      in days_of_date (m div 12) (m mod 12) d * day + t mod day)"

section \<open>The calendar is consistent\<close>

lemma year_start_scaled:
  "400 * year_start y = 146097 * y - 100 * (y mod 4) + 4 * (y mod 100) - y mod 400"
proof -
  have aux: "400 * (365 * y + a - b + c) = 146097 * y - 100 * r + 4 * s - u"
    if "4 * a + r = y" "100 * b + s = y" "400 * c + u = y" for a b c r s u :: int
  proof -
    have "400 * (365 * y + a - b + c) = 146000 * y + 100 * (4 * a) - 4 * (100 * b) + 400 * c" by simp
    also have "\<dots> = 146000 * y + 100 * (y - r) - 4 * (y - s) + (y - u)"
    proof -
      have "4 * a = y - r" "100 * b = y - s" "400 * c = y - u" using that by simp_all
      then show ?thesis by (simp only:)
    qed
    finally show ?thesis by simp
  qed
  show ?thesis unfolding year_start_def by (rule aux) simp_all
qed

lemma year_start_bounds:
  "146097 * y - 699 \<le> 400 * year_start y" "400 * year_start y \<le> 146097 * y + 396"
proof -
  have aux: "146097 * y - 699 \<le> 146097 * y - 100 * a + 4 * b - c \<and> 146097 * y - 100 * a + 4 * b - c \<le> 146097 * y + 396"
    if "0 \<le> a" "a < 4" "0 \<le> b" "b < 100" "0 \<le> c" "c < 400" for a b c :: int
    using that by linarith
  show "146097 * y - 699 \<le> 400 * year_start y" "400 * year_start y \<le> 146097 * y + 396"
    using aux [of "y mod 4" "y mod 100" "y mod 400"] unfolding year_start_scaled by simp_all
qed

lemma div_step:
  assumes "0 < (k::int)"
  shows "(y + 1) div k = y div k + (if k dvd y + 1 then 1 else 0)"
proof (cases "k dvd y + 1")
  case True
  then obtain q where q: "y + 1 = k * q" by (elim dvdE)
  have "y div k = q - 1" by (rule int_div_pos_eq [of _ _ _ "k - 1"]) (use q assms in \<open>simp_all add: algebra_simps\<close>)
  with True q assms show ?thesis by simp
next
  case False
  have "y mod k + 1 \<noteq> k"
  proof
    assume "y mod k + 1 = k"
    then have "y + 1 = k * (y div k) + k" using mult_div_mod_eq [of k y] by linarith
    then have "y + 1 = k * (y div k + 1)" by (simp add: algebra_simps)
    with False show False by simp
  qed
  moreover have "y mod k < k" using assms by simp
  ultimately have "y mod k + 1 < k" by simp
  then have "(y + 1) div k = y div k"
    by (intro int_div_pos_eq [of _ _ _ "y mod k + 1"]) (use assms in \<open>simp_all add: add.assoc [symmetric]\<close>)
  with False show ?thesis by simp
qed

lemma year_length: "year_start (y + 1) = year_start y + 365 \<or> year_start (y + 1) = year_start y + 366"
proof -
  have "(4::int) dvd 100" "(100::int) dvd 400" by simp_all
  then have "(100 dvd y + 1 \<longrightarrow> 4 dvd y + 1) \<and> (400 dvd y + 1 \<longrightarrow> 100 dvd y + 1)" by (meson dvd_trans)
  then show ?thesis unfolding year_start_def by (simp add: div_step)
qed

lemma year_of_day_bounds: "year_start (year_of_day n) \<le> n" "n < year_start (year_of_day n + 1)"
proof -
  let ?y = "400 * n div 146097"
  have m: "146097 * ?y \<le> 400 * n" "400 * n < 146097 * ?y + 146097" by simp_all
  have "400 * year_start (?y - 1) \<le> 400 * n" using year_start_bounds(2) [of "?y - 1"] m by simp
  moreover have "400 * n < 400 * year_start (?y + 1 + 1)" using year_start_bounds(1) [of "?y + 1 + 1"] m by simp
  ultimately show "year_start (year_of_day n) \<le> n" "n < year_start (year_of_day n + 1)"
    by (auto simp: year_of_day_def Let_def)
qed

lemma month_of_day_bounds:
  assumes "0 \<le> doy" "doy \<le> 365"
  shows "0 \<le> month_of_day doy" "month_of_day doy \<le> 11" "month_start (month_of_day doy) \<le> doy"
proof -
  define mp where "mp = month_of_day doy"
  have b: "153 * mp \<le> 5 * doy + 2" "5 * doy + 2 < 153 * mp + 153"
    by (simp_all add: mp_def month_of_day_def)
  have "5 * month_start mp \<le> 153 * mp + 2" by (simp add: month_start_def)
  with b(1) have "month_start mp \<le> doy" by linarith
  with b assms show "0 \<le> month_of_day doy" "month_of_day doy \<le> 11" "month_start (month_of_day doy) \<le> doy"
    unfolding mp_def [symmetric] by linarith+
qed

lemma month_length:
  "month_start (mp + 1) = month_start mp + 30 \<or> month_start (mp + 1) = month_start mp + 31"
proof -
  have aux: "y = x + 30 \<or> y = x + 31"
    if "5 * x \<le> n" "n < 5 * x + 5" "5 * y \<le> n + 153" "n + 153 < 5 * y + 5" for x y n :: int
    using that by arith
  show ?thesis unfolding month_start_def by (rule aux [of _ "153 * mp + 2"]) simp_all
qed

lemma date_of_days_inverse:
  assumes "date_of_days n = (y, mp, d)"
  shows "days_of_date y mp d = n" "0 \<le> mp" "mp \<le> 11" "0 \<le> d"
proof -
  let ?n = "n + epoch_days"
  let ?doy = "?n - year_start (year_of_day ?n)"
  have y: "y = year_of_day ?n" and mp: "mp = month_of_day ?doy" and d: "d = ?doy - month_start mp"
    using assms by (auto simp: date_of_days_def Let_def)
  have b: "0 \<le> ?doy" "?doy \<le> 365"
    using year_of_day_bounds [of ?n] year_length [of "year_of_day ?n"] by linarith+
  show "days_of_date y mp d = n" by (simp add: days_of_date_def y d)
  show "0 \<le> mp" "mp \<le> 11" "0 \<le> d" using month_of_day_bounds [OF b] by (simp_all add: mp d)
qed

lemma add_date_zero [simp]: "add_date 0 0 t = t"
proof -
  obtain y mp d where e: "date_of_days (t div day) = (y, mp, d)" by (cases "date_of_days (t div day)") auto
  note i = date_of_days_inverse [OF e]
  have "(12 * y + mp) div 12 = y" "(12 * y + mp) mod 12 = mp" using i by auto
  then show ?thesis using i(1) by (simp add: add_date_def e)
qed

lemma whole_days:
  assumes "a \<le> D - t div day \<and> D - t div day \<le> b"
  shows "t + a * day \<le> D * day + t mod day \<and> D * day + t mod day \<le> t + b * day"
proof -
  have "0 < day" by (simp add: day_def hour_def minute_def second_def)
  with assms have "a * day \<le> (D - t div day) * day" "(D - t div day) * day \<le> b * day"
    by (simp_all add: mult_right_mono)
  moreover have "D * day + t mod day = t + (D - t div day) * day"
    by (simp add: left_diff_distrib minus_div_mult_eq_mod [symmetric])
  ultimately show ?thesis by simp
qed

text \<open>One month is 28 to 31 days long, and one year 365 or 366.\<close>

lemma add_month_bounds: "t + 28 * day \<le> add_date 0 1 t \<and> add_date 0 1 t \<le> t + 31 * day"
proof -
  obtain y mp d where e: "date_of_days (t div day) = (y, mp, d)" by (cases "date_of_days (t div day)") auto
  note i = date_of_days_inverse [OF e]
  let ?y = "(12 * y + mp + 1) div 12" and ?m = "(12 * y + mp + 1) mod 12"
  have "28 \<le> days_of_date ?y ?m d - t div day \<and> days_of_date ?y ?m d - t div day \<le> 31"
  proof (cases "mp = 11")
    case True
    then have "?y = y + 1" "?m = 0" by auto
    then show ?thesis using i(1) year_length [of y] True by (auto simp: days_of_date_def month_start_def add.commute)
  next
    case False
    with i(2,3) have "?y = y" "?m = mp + 1" by presburger+
    then show ?thesis using i(1) month_length [of mp] by (auto simp: days_of_date_def)
  qed
  then show ?thesis using whole_days [where D = "days_of_date ?y ?m d"] by (simp add: add_date_def e Let_def)
qed

lemma add_year_bounds: "t + 365 * day \<le> add_date 1 0 t \<and> add_date 1 0 t \<le> t + 366 * day"
proof -
  obtain y mp d where e: "date_of_days (t div day) = (y, mp, d)" by (cases "date_of_days (t div day)") auto
  note i = date_of_days_inverse [OF e]
  have ym: "(12 * y + 12 + mp) div 12 = y + 1" "(12 * y + 12 + mp) mod 12 = mp"
    using i(2,3) by presburger+
  have "365 \<le> days_of_date (y + 1) mp d - t div day \<and> days_of_date (y + 1) mp d - t div day \<le> 366"
    using i(1) year_length [of y] by (auto simp: days_of_date_def)
  then show ?thesis
    using whole_days [where D = "days_of_date (y + 1) mp d"] by (simp add: add_date_def e ym Let_def)
qed

text \<open>31 January 2024 plus one month is 2 March; 31 March 2026 minus one month is 3 March.\<close>

lemma add_date_runs_over: "add_date 0 1 (19753 * day) = 19784 * day" "add_date 0 (- 1) (20543 * day) = 20515 * day"
  by code_simp+

end
