(* ===== verification/Billing_Service.thy ===== *)
theory Billing_Service
  imports Quota Domain_Events Identity Float64 Go_Calendar
begin

text \<open>
  Metering, invoices, payments and the billing service: \<open>internal/domain/billing\<close> (\<open>usage.go\<close>,
  \<open>invoice.go\<close>), \<open>internal/infra/memory/usage_repo.go\<close>, \<open>internal/infra/memory/invoice_repo.go\<close>
  and \<open>internal/app/billing\<close> (\<open>meter.go\<close>, \<open>invoice.go\<close>, \<open>payment.go\<close>, \<open>service.go\<close>). Quantities
  are \<open>float64\<close>, amounts are \<open>int64\<close> in minor units. The text of an overage line, which formats
  floating point numbers, is the argument \<open>desc\<close>, and the arrangement that \<open>sort.Slice\<close> gives to a
  listing is \<open>srt\<close>. A float that is converted to an integer is assumed to fit, as the conversion
  of Go does, and an error that is wrapped on its way up is the error it wraps. A payment is made
  by the simulated provider, the only one of the repository.
\<close>

section \<open>Usage records\<close>

datatype meta = MInt int | MFloat f64

record usage_record =
  ur_id :: string
  ur_tenant :: string
  ur_rtype :: string
  ur_rid :: string
  ur_metric :: metric
  ur_quantity :: f64
  ur_unit :: string
  ur_start :: gtime
  ur_end :: gtime
  ur_key :: string
  ur_meta :: "(string \<times> meta) list"
  ur_created :: gtime

record usage_aggregate =
  ag_tenant :: string
  ag_start :: gtime
  ag_end :: gtime
  ag_metrics :: "metric \<rightharpoonup> f64"

section \<open>Invoices and payments\<close>

datatype invoice_status = InvDraft | InvOpen | InvPaid | InvVoid | InvUncollectible

record invoice_line =
  li_id :: string
  li_invoice :: string
  li_desc :: string
  li_metric :: "metric option"
  li_quantity :: f64
  li_price :: int
  li_total :: int

record invoice =
  iv_id :: string
  iv_tenant :: string
  iv_sub :: string
  iv_currency :: string
  iv_subtotal :: int
  iv_tax :: int
  iv_total :: int
  iv_status :: invoice_status
  iv_start :: gtime
  iv_end :: gtime
  iv_due :: gtime
  iv_paid :: "gtime option"
  iv_key :: string
  iv_lines :: "invoice_line list"
  iv_created :: gtime

record payment =
  pm_id :: string
  pm_key :: string
  pm_amount :: int
  pm_currency :: string
  pm_status :: string
  pm_failure :: string
  pm_created :: gtime

record ledger =
  lg_billing :: billing
  lg_usage :: "string \<rightharpoonup> usage_record"
  lg_ukeys :: "string \<Rightarrow> bool"
  lg_invoices :: "string \<rightharpoonup> invoice"
  lg_ikeys :: "string \<rightharpoonup> string"
  lg_customers :: "string \<rightharpoonup> string"
  lg_payments :: "string \<rightharpoonup> payment"
  lg_pkeys :: "string \<rightharpoonup> string"
  lg_trails :: trails

definition invoice_validate :: "invoice \<Rightarrow> go_error option" where
  "invoice_validate v =
     (if iv_tenant v = '''' then Some ErrInvalidInvoiceState
      else if iv_currency v = '''' then Some ErrInvalidInvoiceState
      else if iv_subtotal v < 0 \<or> iv_tax v < 0 \<or> iv_total v < 0 then Some ErrInvalidInvoiceState
      else if wrap64 (iv_subtotal v + iv_tax v) \<noteq> iv_total v then Some ErrInvalidInvoiceState
      else None)"

section \<open>Repositories\<close>

definition record_usage :: "gtime \<Rightarrow> string \<Rightarrow> usage_record \<Rightarrow> ledger \<Rightarrow> ledger" where
  "record_usage now uuid u l =
     (if ur_key u \<noteq> '''' \<and> lg_ukeys l (ur_key u) then l
      else let l = (if ur_key u \<noteq> '''' then l\<lparr>lg_ukeys := (lg_ukeys l)(ur_key u := True)\<rparr> else l);
               u = (if ur_id u = '''' then u\<lparr>ur_id := uuid\<rparr> else u);
               u = (if ur_created u = zero_time then u\<lparr>ur_created := now\<rparr> else u)
           in l\<lparr>lg_usage := (lg_usage l)(ur_id u \<mapsto> u)\<rparr>)"

definition overlaps :: "string \<Rightarrow> gtime \<Rightarrow> gtime \<Rightarrow> usage_record \<Rightarrow> bool" where
  "overlaps tid from to u \<longleftrightarrow> ur_tenant u = tid \<and> \<not> (ur_end u < from \<or> to < ur_start u)"

definition add_usage :: "usage_record \<Rightarrow> (metric \<rightharpoonup> f64) \<Rightarrow> (metric \<rightharpoonup> f64)" where
  "add_usage u ms = ms(ur_metric u \<mapsto> f_add (case ms (ur_metric u) of None \<Rightarrow> 0 | Some x \<Rightarrow> x) (ur_quantity u))"

definition get_aggregate :: "string list \<Rightarrow> string \<Rightarrow> gtime \<Rightarrow> gtime \<Rightarrow> ledger \<Rightarrow> usage_aggregate" where
  "get_aggregate ks tid from to l =
     \<lparr>ag_tenant = tid, ag_start = from, ag_end = to,
      ag_metrics = fold add_usage (filter (overlaps tid from to) (vals (lg_usage l) ks)) Map.empty\<rparr>"

definition usage_by_tenant ::
  "(usage_record list \<Rightarrow> usage_record list) \<Rightarrow> string list \<Rightarrow> string \<Rightarrow> int \<Rightarrow> int \<Rightarrow> ledger \<Rightarrow> usage_record list result" where
  "usage_by_tenant srt ks tid limit offset l =
     slice_page offset limit (srt (filter (\<lambda>u. ur_tenant u = tid) (vals (lg_usage l) ks)))"

text \<open>Identifiers of new lines are drawn by the function \<open>lid\<close>.\<close>

definition number_lines :: "(nat \<Rightarrow> string) \<Rightarrow> string \<Rightarrow> invoice_line list \<Rightarrow> invoice_line list" where
  "number_lines lid vid ls =
     map (\<lambda>(i, li). (if li_id li = '''' then li\<lparr>li_id := lid i\<rparr> else li)\<lparr>li_invoice := vid\<rparr>) (enumerate 0 ls)"

definition invoice_by_key :: "string \<Rightarrow> ledger \<Rightarrow> invoice option" where
  "invoice_by_key key l = (case lg_ikeys l key of None \<Rightarrow> None | Some vid \<Rightarrow> lg_invoices l vid)"

definition invoice_create :: "gtime \<Rightarrow> string \<Rightarrow> (nat \<Rightarrow> string) \<Rightarrow> invoice \<Rightarrow> ledger \<Rightarrow> ledger \<times> invoice" where
  "invoice_create now uuid lid v l =
     (case (if iv_key v \<noteq> '''' then invoice_by_key (iv_key v) l else None) of
        Some old \<Rightarrow> (l, old)
      | None \<Rightarrow>
          let v = (if iv_id v = '''' then v\<lparr>iv_id := uuid\<rparr> else v);
              v = (if iv_created v = zero_time then v\<lparr>iv_created := now\<rparr> else v);
              v = v\<lparr>iv_lines := number_lines lid (iv_id v) (iv_lines v)\<rparr>;
              l = l\<lparr>lg_invoices := (lg_invoices l)(iv_id v \<mapsto> v)\<rparr>
          in (if iv_key v \<noteq> '''' then l\<lparr>lg_ikeys := (lg_ikeys l)(iv_key v \<mapsto> iv_id v)\<rparr> else l, v))"

definition invoice_get :: "string \<Rightarrow> ledger \<Rightarrow> invoice result" where
  "invoice_get vid l = (case lg_invoices l vid of None \<Rightarrow> Inl ErrInvoiceNotFound | Some v \<Rightarrow> Inr v)"

definition invoice_get_by_key :: "string \<Rightarrow> ledger \<Rightarrow> invoice result" where
  "invoice_get_by_key key l =
     (case lg_ikeys l key of None \<Rightarrow> Inl ErrInvoiceNotFound | Some vid \<Rightarrow> invoice_get vid l)"

definition invoices_by_tenant ::
  "(invoice list \<Rightarrow> invoice list) \<Rightarrow> string list \<Rightarrow> string \<Rightarrow> int \<Rightarrow> int \<Rightarrow> ledger \<Rightarrow> invoice list result" where
  "invoices_by_tenant srt ks tid limit offset l =
     slice_page offset limit (srt (filter (\<lambda>v. iv_tenant v = tid) (vals (lg_invoices l) ks)))"

definition invoice_list_all ::
  "(invoice list \<Rightarrow> invoice list) \<Rightarrow> string list \<Rightarrow> int \<Rightarrow> int \<Rightarrow> ledger \<Rightarrow> invoice list result" where
  "invoice_list_all srt ks limit offset l = slice_page offset limit (srt (vals (lg_invoices l) ks))"

definition invoice_update_status ::
  "string \<Rightarrow> invoice_status \<Rightarrow> gtime option \<Rightarrow> ledger \<Rightarrow> ledger \<times> go_error option" where
  "invoice_update_status vid status paid l =
     (case lg_invoices l vid of
        None \<Rightarrow> (l, Some ErrInvoiceNotFound)
      | Some v \<Rightarrow> (l\<lparr>lg_invoices := (lg_invoices l)(vid \<mapsto> v\<lparr>iv_status := status,
            iv_paid := (case paid of None \<Rightarrow> iv_paid v | Some t \<Rightarrow> Some t)\<rparr>)\<rparr>, None))"

section \<open>The simulated payment provider\<close>

definition create_customer :: "string \<Rightarrow> string \<Rightarrow> ledger \<Rightarrow> ledger \<times> string" where
  "create_customer uuid tid l =
     (case lg_customers l tid of
        Some c \<Rightarrow> (l, c)
      | None \<Rightarrow> let c = ''cus_'' @ take 12 uuid in (l\<lparr>lg_customers := (lg_customers l)(tid \<mapsto> c)\<rparr>, c))"

definition payment_by_key :: "string \<Rightarrow> ledger \<Rightarrow> payment option" where
  "payment_by_key key l = (case lg_pkeys l key of None \<Rightarrow> None | Some pid \<Rightarrow> lg_payments l pid)"

definition create_payment :: "gtime \<Rightarrow> string \<Rightarrow> string \<Rightarrow> int \<Rightarrow> string \<Rightarrow> ledger \<Rightarrow> ledger \<times> payment" where
  "create_payment now uuid key amount currency l =
     (case (if key \<noteq> '''' then payment_by_key key l else None) of
        Some p \<Rightarrow> (l, p)
      | None \<Rightarrow>
          let p = \<lparr>pm_id = ''pay_'' @ take 12 uuid, pm_key = key, pm_amount = amount, pm_currency = currency,
                   pm_status = ''succeeded'', pm_failure = '''', pm_created = now\<rparr>;
              l = l\<lparr>lg_payments := (lg_payments l)(pm_id p \<mapsto> p)\<rparr>
          in (if key \<noteq> '''' then l\<lparr>lg_pkeys := (lg_pkeys l)(key \<mapsto> pm_id p)\<rparr> else l, p))"

definition refund :: "string \<Rightarrow> int \<Rightarrow> ledger \<Rightarrow> ledger \<times> go_error option" where
  "refund pid amount l =
     (case lg_payments l pid of
        None \<Rightarrow> (l, Some (ErrText (''payment '' @ pid @ '' not found'')))
      | Some p \<Rightarrow> (l\<lparr>lg_payments := (lg_payments l)(pid \<mapsto> p\<lparr>pm_status := ''refunded''\<rparr>)\<rparr>, None))"

definition get_payment_status :: "string \<Rightarrow> ledger \<Rightarrow> payment result" where
  "get_payment_status pid l =
     (case lg_payments l pid of None \<Rightarrow> Inl (ErrText (''payment '' @ pid @ '' not found'')) | Some p \<Rightarrow> Inr p)"

section \<open>Metering\<close>

text \<open>\<open>Duration.Hours\<close>.\<close>

definition hours :: "duration \<Rightarrow> f64" where
  "hours d = f_add (f_of_int (quot d hour)) (f_div (f_of_int (d - quot d hour * hour)) (f_of_int hour))"

definition gib_of :: "int \<Rightarrow> f64" where
  "gib_of n = f_div (f_of_int n) 1073741824"

definition bucket_text :: "string \<Rightarrow> string \<Rightarrow> gtime \<Rightarrow> gtime \<Rightarrow> string" where
  "bucket_text pre rid from to = pre @ rid @ ''-'' @ show_int (from div second) @ ''-'' @ show_int (to div second)"

definition usage_entry ::
  "string \<Rightarrow> string \<Rightarrow> string \<Rightarrow> metric \<Rightarrow> f64 \<Rightarrow> string \<Rightarrow> gtime \<Rightarrow> gtime \<Rightarrow> string \<Rightarrow> (string \<times> meta) list \<Rightarrow> usage_record" where
  "usage_entry tid rtype rid m q u from to key mt = \<lparr>ur_id = '''', ur_tenant = tid, ur_rtype = rtype, ur_rid = rid,
     ur_metric = m, ur_quantity = q, ur_unit = u, ur_start = from, ur_end = to, ur_key = key, ur_meta = mt,
     ur_created = zero_time\<rparr>"

definition record_instance_usage ::
  "gtime \<Rightarrow> string \<Rightarrow> string \<Rightarrow> string \<Rightarrow> string \<Rightarrow> string \<Rightarrow> int \<Rightarrow> int \<Rightarrow> int \<Rightarrow> gtime \<Rightarrow> gtime \<Rightarrow> ledger \<Rightarrow> ledger" where
  "record_instance_usage now u1 u2 u3 tid iid vcpu mem sto from to l =
     (let h = hours (time_sub to from)
      in if h \<le> 0 then l
         else let key = bucket_text ''inst-'' iid from to;
                  l = record_usage now u1 (usage_entry tid ''instance'' iid VCPUHours (f_mul (f_of_int vcpu) h) ''vCPU-hours''
                        from to (key @ ''-vcpu'') [(''vcpu'', MInt vcpu), (''hours'', MFloat h)]) l;
                  l = record_usage now u2 (usage_entry tid ''instance'' iid RAMGBHours (f_mul (gib_of mem) h) ''GB-hours''
                        from to (key @ ''-ram'') [(''memoryBytes'', MInt mem), (''hours'', MFloat h)]) l
              in record_usage now u3 (usage_entry tid ''instance'' iid StorageGBMonths
                   (f_div (f_mul (gib_of sto) h) 730) ''GB-months'' from to (key @ ''-storage'')
                   [(''storageBytes'', MInt sto), (''hours'', MFloat h)]) l)"

definition record_volume_usage ::
  "gtime \<Rightarrow> string \<Rightarrow> string \<Rightarrow> string \<Rightarrow> int \<Rightarrow> gtime \<Rightarrow> gtime \<Rightarrow> ledger \<Rightarrow> ledger" where
  "record_volume_usage now uuid tid vid sto from to l =
     (let h = hours (time_sub to from)
      in if h \<le> 0 then l
         else record_usage now uuid (usage_entry tid ''volume'' vid StorageGBMonths (f_div (f_mul (gib_of sto) h) 730)
                ''GB-months'' from to (bucket_text ''vol-'' vid from to)
                [(''storageBytes'', MInt sto), (''hours'', MFloat h)]) l)"

definition record_network_egress ::
  "gtime \<Rightarrow> string \<Rightarrow> string \<Rightarrow> string \<Rightarrow> int \<Rightarrow> gtime \<Rightarrow> gtime \<Rightarrow> ledger \<Rightarrow> ledger" where
  "record_network_egress now uuid tid iid egress from to l =
     (if egress \<le> 0 then l
      else record_usage now uuid (usage_entry tid ''instance'' iid NetworkEgressGB (gib_of egress) ''GB'' from to
             (bucket_text ''net-'' iid from to) [(''egressBytes'', MInt egress)]) l)"

section \<open>Invoice generation\<close>

text \<open>
  One overage: the line with its cost when the actual quantity exceeds the included one. The
  rounding up of the quantity is exact, since the ceiling of a double is a double.
\<close>

definition overage ::
  "(metric \<Rightarrow> f64 \<Rightarrow> f64 \<Rightarrow> string) \<Rightarrow> string \<Rightarrow> metric \<Rightarrow> int \<Rightarrow> f64 \<Rightarrow> f64 \<Rightarrow> invoice_line list" where
  "overage desc lid m price included actual =
     (if included < actual
      then [\<lparr>li_id = lid, li_invoice = '''', li_desc = desc m included actual, li_metric = Some m,
             li_quantity = f_sub actual included, li_price = price,
             li_total = wrap64 (\<lceil>f_sub actual included\<rceil> * price)\<rparr>]
      else [])"

definition used :: "usage_aggregate \<Rightarrow> metric \<Rightarrow> f64" where
  "used a m = (case ag_metrics a m of None \<Rightarrow> 0 | Some x \<Rightarrow> x)"

fun cycle_text :: "cycle \<Rightarrow> string" where
  "cycle_text Monthly = ''monthly''"
| "cycle_text Yearly = ''yearly''"
| "cycle_text (OtherCycle s) = s"

definition base_price :: "subscription \<Rightarrow> plan \<Rightarrow> int" where
  "base_price s p = (if sb_cycle s = Yearly then pl_yearly p else pl_monthly p)"

definition nominal_hours :: "subscription \<Rightarrow> f64" where
  "nominal_hours s = (if sb_cycle s = Yearly then 8760 else 730)"

definition invoice_lines ::
  "(metric \<Rightarrow> f64 \<Rightarrow> f64 \<Rightarrow> string) \<Rightarrow> (nat \<Rightarrow> string) \<Rightarrow> subscription \<Rightarrow> plan \<Rightarrow> usage_aggregate \<Rightarrow> invoice_line list" where
  "invoice_lines desc lid s p a =
     \<lparr>li_id = lid 0, li_invoice = '''',
      li_desc = ''Subscription Tier: '' @ pl_name p @ '' ('' @ cycle_text (sb_cycle s) @ '')'', li_metric = None,
      li_quantity = 1, li_price = base_price s p, li_total = base_price s p\<rparr>
     # overage desc (lid 1) VCPUHours 1 (f_mul (f_of_int (pl_inc_vcpu p)) (nominal_hours s)) (used a VCPUHours)
     @ overage desc (lid 2) RAMGBHours 1 (f_mul (f_div (f_of_int (pl_inc_mem p)) 1024) (nominal_hours s)) (used a RAMGBHours)
     @ overage desc (lid 3) StorageGBMonths 8 (f_div (f_of_int (pl_inc_storage p)) 1024) (used a StorageGBMonths)
     @ overage desc (lid 4) NetworkEgressGB 1 (f_of_int (pl_inc_bandwidth p)) (used a NetworkEgressGB)"

definition subtotal :: "invoice_line list \<Rightarrow> int" where
  "subtotal ls = foldl (\<lambda>t li. wrap64 (t + li_total li)) 0 ls"

definition tax_of :: "f64 \<Rightarrow> int \<Rightarrow> int" where
  "tax_of percent amount = (if 0 < percent then math_round (f_mul (f_of_int amount) (f_div percent 100)) else 0)"

text \<open>What one generation draws: the clock, the identifiers and the order of the usage records.\<close>

record invoice_draw =
  id_now :: gtime
  id_invoice :: string
  id_lines :: "nat \<Rightarrow> string"
  id_payment :: string
  id_usage :: "string list"

text \<open>The check for an earlier invoice of the same key, and the rest of \<open>GenerateInvoice\<close>.\<close>

definition earlier_invoice :: "string \<Rightarrow> ledger \<Rightarrow> invoice option" where
  "earlier_invoice key l =
     (if key \<noteq> '''' then (case invoice_get_by_key key l of Inl e \<Rightarrow> None | Inr v \<Rightarrow> Some v) else None)"

definition draft_invoice ::
  "(metric \<Rightarrow> f64 \<Rightarrow> f64 \<Rightarrow> string) \<Rightarrow> f64 \<Rightarrow> invoice_draw \<Rightarrow> string \<Rightarrow> gtime \<Rightarrow> gtime \<Rightarrow> string \<Rightarrow> subscription \<Rightarrow> plan
     \<Rightarrow> usage_aggregate \<Rightarrow> invoice" where
  "draft_invoice desc tax d tid from to key s p a =
     (let ls = invoice_lines desc (id_lines d) s p a; st = subtotal ls; tx = tax_of tax st
      in \<lparr>iv_id = id_invoice d, iv_tenant = tid, iv_sub = sb_id s, iv_currency = pl_currency p, iv_subtotal = st,
          iv_tax = tx, iv_total = wrap64 (st + tx), iv_status = InvOpen, iv_start = from, iv_end = to,
          iv_due = id_now d + 14 * day, iv_paid = None, iv_key = key, iv_lines = ls, iv_created = id_now d\<rparr>)"

definition pay_invoice :: "bool \<Rightarrow> invoice_draw \<Rightarrow> invoice \<Rightarrow> ledger \<Rightarrow> ledger \<times> invoice" where
  "pay_invoice has_provider d v l =
     (if has_provider \<and> 0 < iv_total v
      then let (l, p) = create_payment (id_now d) (id_payment d) (''pay-'' @ iv_id v) (iv_total v) (iv_currency v) l
           in (l, if pm_status p = ''succeeded'' then v\<lparr>iv_status := InvPaid, iv_paid := Some (id_now d)\<rparr> else v)
      else if iv_total v = 0 then (l, v\<lparr>iv_status := InvPaid, iv_paid := Some (id_now d)\<rparr>)
      else (l, v))"

definition compile_invoice ::
  "(metric \<Rightarrow> f64 \<Rightarrow> f64 \<Rightarrow> string) \<Rightarrow> bool \<Rightarrow> f64 \<Rightarrow> invoice_draw \<Rightarrow> string \<Rightarrow> gtime \<Rightarrow> gtime \<Rightarrow> string \<Rightarrow> ledger
     \<Rightarrow> ledger \<times> invoice result" where
  "compile_invoice desc has_provider tax d tid from to key l =
     (case sub_by_tenant tid (lg_billing l) of
        Inl e \<Rightarrow> (l, Inl e)
      | Inr s \<Rightarrow> (case plan_get (sb_plan s) (lg_billing l) of
          Inl e \<Rightarrow> (l, Inl e)
        | Inr p \<Rightarrow>
            let v = draft_invoice desc tax d tid from to key s p (get_aggregate (id_usage d) tid from to l)
            in case invoice_validate v of
                 Some e \<Rightarrow> (l, Inl e)
               | None \<Rightarrow> let (l, v) = pay_invoice has_provider d v l;
                             (l, v) = invoice_create (id_now d) (id_invoice d) (id_lines d) v l
                         in (l, Inr v)))"

definition generate_invoice ::
  "(metric \<Rightarrow> f64 \<Rightarrow> f64 \<Rightarrow> string) \<Rightarrow> bool \<Rightarrow> f64 \<Rightarrow> invoice_draw \<Rightarrow> string \<Rightarrow> gtime \<Rightarrow> gtime \<Rightarrow> string \<Rightarrow> ledger
     \<Rightarrow> ledger \<times> invoice result" where
  "generate_invoice desc has_provider tax d tid from to key l =
     (case earlier_invoice key l of
        Some v \<Rightarrow> (l, Inr v)
      | None \<Rightarrow> compile_invoice desc has_provider tax d tid from to key l)"

section \<open>The service\<close>

definition billing_log :: "gtime \<Rightarrow> subject option \<Rightarrow> string \<Rightarrow> string \<Rightarrow> string \<Rightarrow> gobj \<Rightarrow> ledger \<Rightarrow> ledger" where
  "billing_log now sub action rtype rid details l =
     l\<lparr>lg_trails := log_audit now (empty_log\<lparr>
        al_actor := (case sub of None \<Rightarrow> None | Some s \<Rightarrow> if sub_user s \<noteq> '''' then Some (sub_user s) else None),
        al_action := action, al_rtype := rtype, al_rid := (if rid \<noteq> '''' then Some rid else None),
        al_details := details, al_severity := ''info'', al_created := now\<rparr>) (lg_trails l)\<rparr>"

record plan_req =
  rq_name :: string
  rq_slug :: string
  rq_desc :: string
  rq_currency :: string
  rq_monthly :: int
  rq_yearly :: int
  rq_inc_vcpu :: int
  rq_inc_mem :: int
  rq_inc_storage :: int
  rq_inc_ipv4 :: int
  rq_inc_snapshots :: int
  rq_inc_backups :: int
  rq_inc_bandwidth :: int
  rq_max_instances :: int
  rq_max_vcpu :: int
  rq_max_mem :: int
  rq_max_storage :: int
  rq_features :: "string list"

record update_plan_req = plan_req +
  rq_active :: bool

text \<open>The fields both requests copy into a plan.\<close>

definition fill_plan :: "'a plan_req_scheme \<Rightarrow> plan \<Rightarrow> plan" where
  "fill_plan rq p = p\<lparr>pl_name := rq_name rq, pl_slug := rq_slug rq, pl_desc := rq_desc rq,
     pl_currency := rq_currency rq, pl_monthly := rq_monthly rq, pl_yearly := rq_yearly rq,
     pl_inc_vcpu := rq_inc_vcpu rq, pl_inc_mem := rq_inc_mem rq, pl_inc_storage := rq_inc_storage rq,
     pl_inc_ipv4 := rq_inc_ipv4 rq, pl_inc_snapshots := rq_inc_snapshots rq, pl_inc_backups := rq_inc_backups rq,
     pl_inc_bandwidth := rq_inc_bandwidth rq, pl_max_instances := rq_max_instances rq,
     pl_max_vcpu := rq_max_vcpu rq, pl_max_mem := rq_max_mem rq, pl_max_storage := rq_max_storage rq,
     pl_features := rq_features rq\<rparr>"

definition blank_plan :: plan where
  "blank_plan = \<lparr>pl_id = '''', pl_name = '''', pl_slug = '''', pl_desc = '''', pl_currency = '''', pl_monthly = 0,
     pl_yearly = 0, pl_inc_vcpu = 0, pl_inc_mem = 0, pl_inc_storage = 0, pl_inc_ipv4 = 0, pl_inc_snapshots = 0,
     pl_inc_backups = 0, pl_inc_bandwidth = 0, pl_max_instances = 0, pl_max_vcpu = 0, pl_max_mem = 0,
     pl_max_storage = 0, pl_features = [], pl_active = False, pl_created = zero_time, pl_updated = zero_time\<rparr>"

definition create_plan ::
  "gtime \<Rightarrow> string \<Rightarrow> string list \<Rightarrow> subject option \<Rightarrow> plan_req \<Rightarrow> ledger \<Rightarrow> ledger \<times> plan result" where
  "create_plan now uuid ks sub rq l =
     (case authorize sub ''billing:plans'' None of
        Some e \<Rightarrow> (l, Inl e)
      | None \<Rightarrow>
          (case plan_validate ((fill_plan rq blank_plan)\<lparr>pl_id := uuid, pl_active := True\<rparr>) of
             (p, Some e) \<Rightarrow> (l, Inl e)
           | (p, None) \<Rightarrow>
               (case plan_create now uuid ks p (lg_billing l) of
                  (b, Inl e) \<Rightarrow> (l\<lparr>lg_billing := b\<rparr>, Inl e)
                | (b, Inr p) \<Rightarrow> (billing_log now sub ''billing:plan:create'' ''plan'' (pl_id p)
                     [(''name'', GStr (pl_name p)), (''slug'', GStr (pl_slug p))] (l\<lparr>lg_billing := b\<rparr>), Inr p))))"

definition update_plan ::
  "gtime \<Rightarrow> string list \<Rightarrow> subject option \<Rightarrow> string \<Rightarrow> update_plan_req \<Rightarrow> ledger \<Rightarrow> ledger \<times> plan result" where
  "update_plan now ks sub pid rq l =
     (case authorize sub ''billing:plans'' None of
        Some e \<Rightarrow> (l, Inl e)
      | None \<Rightarrow> (case plan_get pid (lg_billing l) of
          Inl e \<Rightarrow> (l, Inl e)
        | Inr p \<Rightarrow>
            (case plan_validate ((fill_plan rq p)\<lparr>pl_active := rq_active rq\<rparr>) of
               (p, Some e) \<Rightarrow> (l, Inl e)
             | (p, None) \<Rightarrow>
                 (case plan_update now ks p (lg_billing l) of
                    (b, Inl e) \<Rightarrow> (l\<lparr>lg_billing := b\<rparr>, Inl e)
                  | (b, Inr p) \<Rightarrow> (billing_log now sub ''billing:plan:update'' ''plan'' (pl_id p)
                       [(''slug'', GStr (pl_slug p)), (''active'', GBool (pl_active p))] (l\<lparr>lg_billing := b\<rparr>), Inr p)))))"

definition deactivate_plan ::
  "gtime \<Rightarrow> string list \<Rightarrow> subject option \<Rightarrow> string \<Rightarrow> ledger \<Rightarrow> ledger \<times> go_error option" where
  "deactivate_plan now ks sub pid l =
     (case authorize sub ''billing:plans'' None of
        Some e \<Rightarrow> (l, Some e)
      | None \<Rightarrow> (case plan_get pid (lg_billing l) of
          Inl e \<Rightarrow> (l, Some e)
        | Inr p \<Rightarrow>
            (case plan_update now ks (p\<lparr>pl_active := False\<rparr>) (lg_billing l) of
               (b, Inl e) \<Rightarrow> (l\<lparr>lg_billing := b\<rparr>, Some e)
             | (b, Inr p) \<Rightarrow>
                 (billing_log now sub ''billing:plan:deactivate'' ''plan'' pid [] (l\<lparr>lg_billing := b\<rparr>), None))))"

definition list_plans :: "bool \<Rightarrow> string list \<Rightarrow> ledger \<Rightarrow> plan list" where
  "list_plans active_only ks l = plan_list active_only ks (lg_billing l)"

definition get_plan :: "string \<Rightarrow> ledger \<Rightarrow> plan result" where
  "get_plan pid l = plan_get pid (lg_billing l)"

text \<open>The subject of a request that was authorized is there.\<close>

definition tenant_of :: "subject option \<Rightarrow> string" where
  "tenant_of sub = (case sub of None \<Rightarrow> '''' | Some s \<Rightarrow> sub_user s)"

definition period_end :: "cycle \<Rightarrow> gtime \<Rightarrow> gtime" where
  "period_end c now = (if c = Yearly then add_date 1 0 now else add_date 0 1 now)"

definition has_active_subscription :: "string \<Rightarrow> ledger \<Rightarrow> bool" where
  "has_active_subscription tid l =
     (case sub_by_tenant tid (lg_billing l) of Inl e \<Rightarrow> False | Inr s \<Rightarrow> sb_status s = SubActive)"

definition subscribe_plan ::
  "gtime \<Rightarrow> string \<Rightarrow> subject option \<Rightarrow> string \<Rightarrow> cycle \<Rightarrow> ledger \<Rightarrow> ledger \<times> subscription result" where
  "subscribe_plan now uuid sub pid c l =
     (case authorize sub ''billing:manage'' None of
        Some e \<Rightarrow> (l, Inl e)
      | None \<Rightarrow> (case plan_get pid (lg_billing l) of
          Inl e \<Rightarrow> (l, Inl e)
        | Inr p \<Rightarrow>
            if \<not> pl_active p then (l, Inl ErrPlanInactive)
            else if has_active_subscription (tenant_of sub) l then (l, Inl ErrSubscriptionAlreadyExists)
            else let s = \<lparr>sb_id = uuid, sb_tenant = tenant_of sub, sb_plan = pl_id p, sb_status = SubActive,
                          sb_cycle = c, sb_start = now, sb_end = period_end c now, sb_cancel_at_end = False,
                          sb_created = now, sb_updated = now\<rparr>
                 in case sub_validate s of
                      Some e \<Rightarrow> (l, Inl e)
                    | None \<Rightarrow>
                        let (b, s) = sub_create now uuid s (lg_billing l)
                        in (billing_log now sub ''billing:subscription:create'' ''subscription'' (sb_id s)
                              [(''planId'', GStr (pl_id p)), (''planName'', GStr (pl_name p)),
                               (''billingCycle'', GStr (cycle_text (sb_cycle s)))] (l\<lparr>lg_billing := b\<rparr>), Inr s)))"

text \<open>\<open>OtherCycle ''''\<close> is the omitted cycle of the request.\<close>

definition change_plan ::
  "gtime \<Rightarrow> subject option \<Rightarrow> string \<Rightarrow> cycle \<Rightarrow> ledger \<Rightarrow> ledger \<times> subscription result" where
  "change_plan now sub pid c l =
     (case authorize sub ''billing:manage'' None of
        Some e \<Rightarrow> (l, Inl e)
      | None \<Rightarrow> (case sub_by_tenant (tenant_of sub) (lg_billing l) of
          Inl e \<Rightarrow> (l, Inl e)
        | Inr s \<Rightarrow> (case plan_get pid (lg_billing l) of
            Inl e \<Rightarrow> (l, Inl e)
          | Inr p \<Rightarrow>
              if \<not> pl_active p then (l, Inl ErrPlanInactive)
              else let old = sb_plan s;
                       s = s\<lparr>sb_plan := pl_id p\<rparr>;
                       s = (if c \<noteq> OtherCycle '''' then s\<lparr>sb_cycle := c\<rparr> else s);
                       s = s\<lparr>sb_updated := now\<rparr>
                   in case sub_update now s (lg_billing l) of
                        (b, Inl e) \<Rightarrow> (l\<lparr>lg_billing := b\<rparr>, Inl e)
                      | (b, Inr s) \<Rightarrow>
                          (billing_log now sub ''billing:subscription:change'' ''subscription'' (sb_id s)
                             [(''oldPlanId'', GStr old), (''newPlanId'', GStr (pl_id p)), (''planName'', GStr (pl_name p))]
                             (l\<lparr>lg_billing := b\<rparr>), Inr s))))"

definition cancel_subscription :: "gtime \<Rightarrow> subject option \<Rightarrow> ledger \<Rightarrow> ledger \<times> go_error option" where
  "cancel_subscription now sub l =
     (case authorize sub ''billing:manage'' None of
        Some e \<Rightarrow> (l, Some e)
      | None \<Rightarrow> (case sub_by_tenant (tenant_of sub) (lg_billing l) of
          Inl e \<Rightarrow> (l, Some e)
        | Inr s \<Rightarrow>
            (case sub_update now (s\<lparr>sb_cancel_at_end := True, sb_status := SubCanceled, sb_updated := now\<rparr>)
                    (lg_billing l) of
               (b, Inl e) \<Rightarrow> (l\<lparr>lg_billing := b\<rparr>, Some e)
             | (b, Inr s) \<Rightarrow> (billing_log now sub ''billing:subscription:cancel'' ''subscription'' (sb_id s) []
                   (l\<lparr>lg_billing := b\<rparr>), None))))"

definition get_subscription ::
  "string list \<Rightarrow> subject option \<Rightarrow> ledger \<Rightarrow> (subscription option \<times> plan) result" where
  "get_subscription ks sub l =
     (case authorize sub ''billing:read'' None of
        Some e \<Rightarrow> Inl e
      | None \<Rightarrow> (case sub_by_tenant (tenant_of sub) (lg_billing l) of
          Inl e \<Rightarrow> (case plan_list True ks (lg_billing l) of
                     [] \<Rightarrow> Inl ErrSubscriptionNotFound | p # _ \<Rightarrow> Inr (None, p))
        | Inr s \<Rightarrow> (case plan_get (sb_plan s) (lg_billing l) of
                     Inl e \<Rightarrow> Inl e | Inr p \<Rightarrow> Inr (Some s, p))))"

definition get_quotas ::
  "string list \<Rightarrow> subject option \<Rightarrow> ledger \<Rightarrow> ((metric \<rightharpoonup> quota) \<times> plan) result" where
  "get_quotas ks sub l =
     (case authorize sub ''billing:read'' None of
        Some e \<Rightarrow> Inl e
      | None \<Rightarrow> get_tenant_quotas ks (tenant_of sub) (lg_billing l))"

definition get_aggregate_usage :: "string list \<Rightarrow> string \<Rightarrow> gtime \<Rightarrow> gtime \<Rightarrow> ledger \<Rightarrow> usage_aggregate" where
  "get_aggregate_usage ks tid from to l = get_aggregate ks tid from to l"

text \<open>The local time of the process is taken to be UTC.\<close>

definition get_usage ::
  "gtime \<Rightarrow> string list \<Rightarrow> subject option \<Rightarrow> gtime \<Rightarrow> gtime \<Rightarrow> ledger \<Rightarrow> usage_aggregate result" where
  "get_usage now ks sub from to l =
     (case authorize sub ''billing:read'' None of
        Some e \<Rightarrow> Inl e
      | None \<Rightarrow>
          let from = (if from = zero_time then add_date 0 (- 1) now else from);
              to = (if to = zero_time then now else to)
          in Inr (get_aggregate_usage ks (tenant_of sub) from to l))"

definition list_invoices ::
  "(invoice list \<Rightarrow> invoice list) \<Rightarrow> string list \<Rightarrow> subject option \<Rightarrow> int \<Rightarrow> int \<Rightarrow> ledger \<Rightarrow> invoice list result" where
  "list_invoices srt ks sub limit offset l =
     (case authorize sub ''billing:read'' None of
        Some e \<Rightarrow> Inl e
      | None \<Rightarrow> invoices_by_tenant srt ks (tenant_of sub) limit offset l)"

definition get_invoice :: "subject option \<Rightarrow> string \<Rightarrow> ledger \<Rightarrow> invoice result" where
  "get_invoice sub vid l =
     (case authorize sub ''billing:read'' None of
        Some e \<Rightarrow> Inl e
      | None \<Rightarrow> (case invoice_get vid l of
          Inl e \<Rightarrow> Inl e
        | Inr v \<Rightarrow> (case sub of
             None \<Rightarrow> Inl Panic
           | Some s \<Rightarrow>
               if \<not> has_permission s ''*'' \<and> \<not> has_role s ''admin'' \<and> \<not> has_role s ''superadmin''
                  \<and> iv_tenant v \<noteq> sub_user s
               then Inl ErrInvoiceNotFound else Inr v)))"

definition list_all_subscriptions :: "string list \<Rightarrow> subject option \<Rightarrow> ledger \<Rightarrow> subscription list result" where
  "list_all_subscriptions ks sub l =
     (case authorize sub ''billing:admin'' None of
        Some e \<Rightarrow> Inl e
      | None \<Rightarrow> Inr (sub_list ks (lg_billing l)))"

definition list_all_invoices ::
  "(invoice list \<Rightarrow> invoice list) \<Rightarrow> string list \<Rightarrow> subject option \<Rightarrow> int \<Rightarrow> int \<Rightarrow> ledger \<Rightarrow> invoice list result" where
  "list_all_invoices srt ks sub limit offset l =
     (case authorize sub ''billing:admin'' None of
        Some e \<Rightarrow> Inl e
      | None \<Rightarrow> invoice_list_all srt ks limit offset l)"

definition void_invoice :: "gtime \<Rightarrow> subject option \<Rightarrow> string \<Rightarrow> ledger \<Rightarrow> ledger \<times> go_error option" where
  "void_invoice now sub vid l =
     (case authorize sub ''billing:admin'' None of
        Some e \<Rightarrow> (l, Some e)
      | None \<Rightarrow> (case invoice_update_status vid InvVoid None l of
          (l, Some e) \<Rightarrow> (l, Some e)
        | (l, None) \<Rightarrow> (billing_log now sub ''billing:invoice:void'' ''invoice'' vid [] l, None)))"

definition regen_key :: "string \<Rightarrow> gtime \<Rightarrow> gtime \<Rightarrow> string" where
  "regen_key tid from to = ''regen-'' @ tid @ ''-'' @ show_int (from div second) @ ''-'' @ show_int (to div second)"

fun invoice_status_text :: "invoice_status \<Rightarrow> string" where
  "invoice_status_text InvDraft = ''draft''"
| "invoice_status_text InvOpen = ''open''"
| "invoice_status_text InvPaid = ''paid''"
| "invoice_status_text InvVoid = ''void''"
| "invoice_status_text InvUncollectible = ''uncollectible''"

text \<open>The engine of the service is created with a tax of zero.\<close>

definition regenerate_invoice ::
  "(metric \<Rightarrow> f64 \<Rightarrow> f64 \<Rightarrow> string) \<Rightarrow> bool \<Rightarrow> invoice_draw \<Rightarrow> subject option \<Rightarrow> string \<Rightarrow> gtime \<Rightarrow> gtime \<Rightarrow> ledger
     \<Rightarrow> ledger \<times> invoice result" where
  "regenerate_invoice desc has_provider d sub tid from to l =
     (case authorize sub ''billing:admin'' None of
        Some e \<Rightarrow> (l, Inl e)
      | None \<Rightarrow> (case generate_invoice desc has_provider 0 d tid from to (regen_key tid from to) l of
          (l, Inl e) \<Rightarrow> (l, Inl e)
        | (l, Inr v) \<Rightarrow> (billing_log (id_now d) sub ''billing:invoice:create'' ''invoice'' (iv_id v)
              [(''tenantId'', GStr tid), (''totalMinor'', GInt (iv_total v)), (''status'', GStr (invoice_status_text (iv_status v)))] l,
            Inr v)))"

end
