(* ===== verification/Billing_Books.thy ===== *)
theory Billing_Books
  imports Billing_Service
begin

text \<open>
  What the billing service guarantees of its books: invoices add up and are paid in full, an
  invoice once issued keeps its amounts under every sequence of operations, one key never
  charges twice, usage is metered once per window, and invoices are closed to other tenants.
  The exceptions are usage on the border of two periods, which both bill, and a voided invoice,
  which cannot be generated anew.
\<close>

section \<open>Amounts\<close>

lemma subtotal_snoc: "foldl (\<lambda>t li. wrap64 (t + li_total li)) t ls = wrap64 (t + sum_list (map li_total ls))" if "int64 t"
  using that
proof (induction ls arbitrary: t)
  case (Cons li ls)
  then show ?case by (simp add: wrap64_add_left add.assoc)
qed simp

lemma subtotal_sum: "subtotal ls = wrap64 (sum_list (map li_total ls))"
  unfolding subtotal_def by (subst subtotal_snoc) (simp_all add: int64_def min_int64_def max_int64_def)

lemma wrap64_sum_exact:
  assumes "int64 a" "int64 b" "0 \<le> a" "0 \<le> b" "0 \<le> wrap64 (a + b)"
  shows "wrap64 (a + b) = a + b"
proof (rule ccontr)
  assume n: "wrap64 (a + b) \<noteq> a + b"
  then have "\<not> int64 (a + b)" by (meson wrap64_id)
  with assms have "9223372036854775808 \<le> a + b" "a + b < 18446744073709551616"
    by (auto simp: int64_def min_int64_def max_int64_def)
  then have "(a + b + 9223372036854775808) mod 18446744073709551616 = a + b - 9223372036854775808"
    by (simp add: mod_pos_geq mod_pos_pos_trivial)
  with assms(5) \<open>a + b < 18446744073709551616\<close> show False by (simp add: wrap64_def)
qed

lemma number_lines_simps [simp]:
  "map li_total (number_lines lid vid ls) = map li_total ls"
  "li \<in> set (number_lines lid vid ls) \<Longrightarrow> li_invoice li = vid"
  by (auto simp: number_lines_def enumerate_eq_zip zip_map_fst_snd intro!: nth_equalityI split: if_splits)

section \<open>Issued invoices\<close>

text \<open>An invoice once issued changes its status and its date of payment at most.\<close>

definition settled :: "invoice \<Rightarrow> invoice \<Rightarrow> bool" where
  "settled v v' \<longleftrightarrow> v' = v\<lparr>iv_status := iv_status v', iv_paid := iv_paid v'\<rparr>"

definition keeps_invoices :: "ledger \<Rightarrow> ledger \<Rightarrow> bool" where
  "keeps_invoices l l' \<longleftrightarrow>
     (\<forall>vid v. lg_invoices l vid = Some v \<longrightarrow> (\<exists>v'. lg_invoices l' vid = Some v' \<and> settled v v'))
     \<and> (\<forall>key vid. lg_ikeys l key = Some vid \<and> lg_invoices l vid \<noteq> None \<longrightarrow> lg_ikeys l' key = Some vid)"

lemma settled_refl [simp]: "settled v v"
  by (simp add: settled_def)

lemma settled_trans: "settled u v \<Longrightarrow> settled v w \<Longrightarrow> settled u w"
  by (cases u; cases v; cases w) (simp add: settled_def)

lemma keeps_refl [simp]: "keeps_invoices l l"
  by (auto simp: keeps_invoices_def)

lemma keepsD:
  assumes "keeps_invoices l l'"
  shows "lg_invoices l vid = Some v \<Longrightarrow> \<exists>v'. lg_invoices l' vid = Some v' \<and> settled v v'"
    "lg_ikeys l key = Some vid \<Longrightarrow> lg_invoices l vid \<noteq> None \<Longrightarrow> lg_ikeys l' key = Some vid"
  using assms unfolding keeps_invoices_def by blast+

lemma keeps_trans: "keeps_invoices l l' \<Longrightarrow> keeps_invoices l' l'' \<Longrightarrow> keeps_invoices l l''"
proof -
  assume a: "keeps_invoices l l'" and b: "keeps_invoices l' l''"
  show ?thesis unfolding keeps_invoices_def
  proof (intro conjI allI impI; (elim conjE)?)
    fix vid v
    assume "lg_invoices l vid = Some v"
    then obtain v' v'' where "settled v v'" "lg_invoices l'' vid = Some v''" "settled v' v''"
      by (meson keepsD(1) [OF a] keepsD(1) [OF b])
    then show "\<exists>v''. lg_invoices l'' vid = Some v'' \<and> settled v v''" by (blast intro: settled_trans)
  next
    fix key vid
    assume k: "lg_ikeys l key = Some vid" and "lg_invoices l vid \<noteq> None"
    then obtain v where v: "lg_invoices l vid = Some v" by blast
    then have "lg_invoices l' vid \<noteq> None" using keepsD(1) [OF a] by blast
    then show "lg_ikeys l'' key = Some vid" using keepsD(2) [OF b] keepsD(2) [OF a k] v by simp
  qed
qed

lemma keeps_same:
  assumes "lg_invoices l' = lg_invoices l" and "lg_ikeys l' = lg_ikeys l"
  shows "keeps_invoices l l'"
  using assms by (auto simp: keeps_invoices_def)

lemma billing_log_keeps [simp]:
  "lg_invoices (billing_log now sub a t r d l) = lg_invoices l" "lg_ikeys (billing_log now sub a t r d l) = lg_ikeys l"
  "lg_billing (billing_log now sub a t r d l) = lg_billing l" "lg_pkeys (billing_log now sub a t r d l) = lg_pkeys l"
  "lg_payments (billing_log now sub a t r d l) = lg_payments l" "lg_usage (billing_log now sub a t r d l) = lg_usage l"
  by (simp_all add: billing_log_def)

lemma create_payment_keeps [simp]:
  "lg_invoices (fst (create_payment now u k a c l)) = lg_invoices l"
  "lg_ikeys (fst (create_payment now u k a c l)) = lg_ikeys l"
  by (auto simp: create_payment_def Let_def split: option.splits)

lemma pay_invoice_keeps [simp]:
  "lg_invoices (fst (pay_invoice hp d v l)) = lg_invoices l" "lg_ikeys (fst (pay_invoice hp d v l)) = lg_ikeys l"
  by (simp_all add: pay_invoice_def case_prod_beta)

lemma pay_invoice_settles: "settled v (snd (pay_invoice hp d v l))"
  by (cases v) (auto simp: pay_invoice_def settled_def split: prod.splits)

lemma record_usage_keeps [simp]:
  "lg_invoices (record_usage now u r l) = lg_invoices l" "lg_ikeys (record_usage now u r l) = lg_ikeys l"
  by (simp_all add: record_usage_def Let_def)

lemma invoice_create_keeps:
  assumes "iv_id v \<noteq> ''''" and "lg_invoices l (iv_id v) = None"
  shows "keeps_invoices l (fst (invoice_create now uuid lid v l))"
  using assms
  by (auto simp: keeps_invoices_def invoice_create_def invoice_by_key_def Let_def split: option.splits if_splits)

definition fresh_draw :: "invoice_draw \<Rightarrow> ledger \<Rightarrow> bool" where
  "fresh_draw d l \<longleftrightarrow> id_invoice d \<noteq> '''' \<and> lg_invoices l (id_invoice d) = None
     \<and> lg_pkeys l (''pay-'' @ id_invoice d) = None"

lemma draft_invoice_simps [simp]:
  "iv_id (draft_invoice desc tax d tid from to key s p a) = id_invoice d"
  "iv_key (draft_invoice desc tax d tid from to key s p a) = key"
  "iv_tenant (draft_invoice desc tax d tid from to key s p a) = tid"
  by (simp_all add: draft_invoice_def Let_def)

lemma settledD:
  assumes "settled v v'"
  shows "iv_id v' = iv_id v" "iv_key v' = iv_key v" "iv_tenant v' = iv_tenant v" "iv_lines v' = iv_lines v"
    "iv_subtotal v' = iv_subtotal v" "iv_tax v' = iv_tax v" "iv_total v' = iv_total v" "iv_created v' = iv_created v"
    "iv_currency v' = iv_currency v"
  using assms by (cases v; cases v'; simp add: settled_def)+

section \<open>What one generation issues\<close>

lemma pay_invoice_paid:
  assumes "pay_invoice hp d v l = (l', v')" and "lg_pkeys l (''pay-'' @ iv_id v) = None" and "iv_status v = InvOpen"
    and "0 \<le> iv_total v"
  shows "iv_status v' = InvPaid \<longleftrightarrow> hp \<or> iv_total v = 0"
    and "hp \<Longrightarrow> 0 < iv_total v \<Longrightarrow> \<exists>p. payment_by_key (''pay-'' @ iv_id v) l' = Some p \<and> pm_amount p = iv_total v
      \<and> pm_currency p = iv_currency v \<and> pm_status p = ''succeeded''"
  using assms by (auto simp: pay_invoice_def create_payment_def payment_by_key_def Let_def split: if_splits)

lemma invoice_create_pays [simp]:
  "lg_pkeys (fst (invoice_create now uuid lid v l)) = lg_pkeys l"
  "lg_payments (fst (invoice_create now uuid lid v l)) = lg_payments l"
  by (auto simp: invoice_create_def Let_def split: option.splits)

lemma payment_by_key_cong:
  "lg_pkeys l = lg_pkeys l' \<Longrightarrow> lg_payments l = lg_payments l' \<Longrightarrow> payment_by_key key l = payment_by_key key l'"
  by (simp add: payment_by_key_def split: option.split)

lemma invoice_create_new:
  assumes "invoice_create now uuid lid v l = (l', v')" and "iv_key v \<noteq> '''' \<Longrightarrow> invoice_by_key (iv_key v) l = None"
    and "iv_id v \<noteq> ''''"
  shows "lg_invoices l' (iv_id v) = Some v'" "iv_key v \<noteq> '''' \<Longrightarrow> lg_ikeys l' (iv_key v) = Some (iv_id v)"
    "\<exists>c. v' = v\<lparr>iv_created := c, iv_lines := number_lines lid (iv_id v) (iv_lines v)\<rparr>"
  using assms by (cases v; auto simp: invoice_create_def Let_def split: if_splits)+

lemma earlier_invoice_None:
  assumes "earlier_invoice key l = None" and "key \<noteq> ''''"
  shows "invoice_by_key key l = None"
  using assms
  by (auto simp: earlier_invoice_def invoice_get_by_key_def invoice_get_def invoice_by_key_def split: option.splits sum.splits)

lemma earlier_invoice_Some:
  "earlier_invoice key l = Some v \<longleftrightarrow> key \<noteq> '''' \<and> (\<exists>vid. lg_ikeys l key = Some vid \<and> lg_invoices l vid = Some v)"
  by (auto simp: earlier_invoice_def invoice_get_by_key_def invoice_get_def split: option.splits sum.splits)

text \<open>The steps of a generation that succeeds.\<close>

lemma compile_invoiceE:
  assumes "compile_invoice desc hp tax d tid from to key l = (l', Inr v)"
  obtains s p w l1 w1 where "sub_by_tenant tid (lg_billing l) = Inr s" "plan_get (sb_plan s) (lg_billing l) = Inr p"
    "iv_id w = id_invoice d" "iv_key w = key"
    "w = draft_invoice desc tax d tid from to key s p (get_aggregate (id_usage d) tid from to l)"
    "invoice_validate w = None" "pay_invoice hp d w l = (l1, w1)"
    "invoice_create (id_now d) (id_invoice d) (id_lines d) w1 l1 = (l', v)"
  using assms by (auto simp: compile_invoice_def Let_def split: sum.splits option.splits prod.splits)

lemma compile_keeps:
  assumes "fresh_draw d l"
  shows "keeps_invoices l (fst (compile_invoice desc hp tax d tid from to key l))"
proof (cases "snd (compile_invoice desc hp tax d tid from to key l)")
  case (Inl e)
  then have "fst (compile_invoice desc hp tax d tid from to key l) = l"
    by (auto simp: compile_invoice_def Let_def split: sum.splits option.splits prod.splits)
  then show ?thesis by simp
next
  case (Inr v)
  then obtain l' where c: "compile_invoice desc hp tax d tid from to key l = (l', Inr v)" by (metis prod.collapse)
  from c obtain w l1 w1 where w: "iv_id w = id_invoice d" "pay_invoice hp d w l = (l1, w1)"
    "invoice_create (id_now d) (id_invoice d) (id_lines d) w1 l1 = (l', v)"
    by (elim compile_invoiceE)
  have l1: "lg_invoices l1 = lg_invoices l" "lg_ikeys l1 = lg_ikeys l" and "settled w w1"
    using pay_invoice_keeps [of hp d w l] pay_invoice_settles [of w hp d l] w(2) by simp_all
  with w(1) assms have "keeps_invoices l1 l'"
    using invoice_create_keeps [of w1 l1 "id_now d" "id_invoice d" "id_lines d"] w(3)
    by (simp add: settledD fresh_draw_def)
  with l1 c show ?thesis by (auto simp: keeps_invoices_def)
qed

lemma generate_keeps:
  "fresh_draw d l \<Longrightarrow> keeps_invoices l (fst (generate_invoice desc hp tax d tid from to key l))"
  by (simp add: generate_invoice_def compile_keeps split: option.split)

lemma compile_files:
  assumes "compile_invoice desc hp tax d tid from to key l = (l', Inr v)" and "earlier_invoice key l = None"
    and "fresh_draw d l"
  shows "iv_id v = id_invoice d" "lg_invoices l' (iv_id v) = Some v" "key \<noteq> [] \<Longrightarrow> lg_ikeys l' key = Some (iv_id v)"
proof -
  from assms(1) obtain w l1 w1 where w: "iv_id w = id_invoice d" "iv_key w = key" "pay_invoice hp d w l = (l1, w1)"
    "invoice_create (id_now d) (id_invoice d) (id_lines d) w1 l1 = (l', v)"
    by (elim compile_invoiceE)
  have s: "settled w w1" and l1: "lg_invoices l1 = lg_invoices l" "lg_ikeys l1 = lg_ikeys l"
    using pay_invoice_keeps [of hp d w l] pay_invoice_settles [of w hp d l] w(3) by simp_all
  have k: "iv_key w1 \<noteq> [] \<Longrightarrow> invoice_by_key (iv_key w1) l1 = None"
    using earlier_invoice_None [OF assms(2)] l1 w(2) settledD(2) [OF s] by (simp add: invoice_by_key_def split: option.splits)
  have i: "iv_id w1 = id_invoice d" "iv_id w1 \<noteq> []" using w(1) settledD(1) [OF s] assms(3) by (simp_all add: fresh_draw_def)
  note new = invoice_create_new [OF w(4) k i(2)]
  show v: "iv_id v = id_invoice d" using new(3) i(1) by auto
  show "lg_invoices l' (iv_id v) = Some v" "key \<noteq> [] \<Longrightarrow> lg_ikeys l' key = Some (iv_id v)"
    using new(1,2) i(1) v settledD(2) [OF s] w(2) by simp_all
qed

lemma generate_new:
  "earlier_invoice key l = None \<Longrightarrow>
     generate_invoice desc hp tax d tid from to key l = compile_invoice desc hp tax d tid from to key l"
  by (simp add: generate_invoice_def)

lemma generate_files:
  assumes "generate_invoice desc hp tax d tid from to key l = (l', Inr v)" and "key \<noteq> []" and "fresh_draw d l"
  shows "\<exists>vid. lg_ikeys l' key = Some vid \<and> lg_invoices l' vid = Some v"
proof (cases "earlier_invoice key l")
  case (Some v0)
  with assms(1) have "l' = l" "v0 = v" by (simp_all add: generate_invoice_def)
  with Some show ?thesis by (auto simp: earlier_invoice_Some)
next
  case None
  then show ?thesis using compile_files [OF assms(1) [unfolded generate_new [OF None]] None assms(3)] assms(2) by blast
qed

section \<open>Histories\<close>

text \<open>
  Everything the service, the metering engine and the payment provider do to the books. A
  generation draws identifiers that are not in use.
\<close>

inductive ledger_step :: "ledger \<Rightarrow> ledger \<Rightarrow> bool" where
  usage: "ledger_step l (record_usage now uuid u l)"
| generate: "fresh_draw d l \<Longrightarrow> ledger_step l (fst (generate_invoice desc hp tax d tid from to key l))"
| regenerate: "fresh_draw d l \<Longrightarrow> ledger_step l (fst (regenerate_invoice desc hp d sub tid from to l))"
| void: "ledger_step l (fst (void_invoice now sub vid l))"
| status: "ledger_step l (fst (invoice_update_status vid st paid l))"
| refund: "ledger_step l (fst (refund pid amount l))"
| customer: "ledger_step l (fst (create_customer uuid tid l))"
| new_plan: "ledger_step l (fst (create_plan now uuid ks sub rq l))"
| edit_plan: "ledger_step l (fst (update_plan now ks sub pid urq l))"
| drop_plan: "ledger_step l (fst (deactivate_plan now ks sub pid l))"
| subscribe: "ledger_step l (fst (subscribe_plan now uuid sub pid c l))"
| change: "ledger_step l (fst (change_plan now sub pid c l))"
| cancel: "ledger_step l (fst (cancel_subscription now sub l))"

lemma update_status_keeps: "keeps_invoices l (fst (invoice_update_status vid st paid l))"
  by (auto simp: invoice_update_status_def keeps_invoices_def settled_def split: option.splits)

lemma keeps_log: "keeps_invoices l l' \<Longrightarrow> keeps_invoices l (billing_log now sub a t r d l')"
  by (simp add: keeps_invoices_def)

lemma regenerate_keeps:
  assumes "fresh_draw d l"
  shows "keeps_invoices l (fst (regenerate_invoice desc hp d sub tid from to l))"
  using generate_keeps [OF assms, of desc hp 0 tid "from" to "regen_key tid from to"]
  by (auto simp: regenerate_invoice_def keeps_log split: option.splits prod.splits sum.splits)

lemma void_keeps: "keeps_invoices l (fst (void_invoice now sub vid l))"
  using update_status_keeps [of l vid InvVoid None]
  by (auto simp: void_invoice_def keeps_log split: option.splits prod.splits)

lemma plan_ops_keep:
  "keeps_invoices l (fst (create_plan now uuid ks sub rq l))"
  "keeps_invoices l (fst (update_plan now ks sub pid urq l))"
  "keeps_invoices l (fst (deactivate_plan now ks sub pid l))"
  "keeps_invoices l (fst (subscribe_plan now uuid sub pid c l))"
  "keeps_invoices l (fst (change_plan now sub pid c l))"
  "keeps_invoices l (fst (cancel_subscription now sub l))"
  by (auto intro!: keeps_same simp: create_plan_def update_plan_def deactivate_plan_def subscribe_plan_def
      change_plan_def cancel_subscription_def Let_def split: option.splits prod.splits sum.splits)

lemma payment_ops_keep:
  "keeps_invoices l (fst (refund pid amount l))" "keeps_invoices l (fst (create_customer uuid tid l))"
  by (auto intro!: keeps_same simp: refund_def create_customer_def Let_def split: option.splits)

lemma ledger_step_keeps: "ledger_step l l' \<Longrightarrow> keeps_invoices l l'"
  by (induction rule: ledger_step.induct)
    (simp_all add: keeps_same generate_keeps regenerate_keeps void_keeps update_status_keeps payment_ops_keep plan_ops_keep)

lemma history_keeps: "ledger_step\<^sup>*\<^sup>* l l' \<Longrightarrow> keeps_invoices l l'"
  by (induction rule: rtranclp_induct) (auto intro: keeps_trans ledger_step_keeps)

section \<open>A sample ledger\<close>

definition sample_sub :: subscription where
  "sample_sub = \<lparr>sb_id = ''s1'', sb_tenant = ''t1'', sb_plan = ''plan-starter'', sb_status = SubActive, sb_cycle = Monthly,
     sb_start = 0, sb_end = 31 * day, sb_cancel_at_end = False, sb_created = 0, sb_updated = 0\<rparr>"

definition sample_ledger :: ledger where
  "sample_ledger = \<lparr>lg_billing = fst (sub_create 0 ''s1'' sample_sub (new_billing 0)), lg_usage = Map.empty,
     lg_ukeys = (\<lambda>_. False), lg_invoices = Map.empty, lg_ikeys = Map.empty, lg_customers = Map.empty,
     lg_payments = Map.empty, lg_pkeys = Map.empty, lg_trails = empty_trails\<rparr>"

definition sample_draw :: "string \<Rightarrow> invoice_draw" where
  "sample_draw vid = \<lparr>id_now = 40 * day, id_invoice = vid, id_lines = (\<lambda>i. ''line''), id_payment = ''0123456789abcdef'',
     id_usage = []\<rparr>"

definition sample_issue :: "ledger \<times> invoice result" where
  "sample_issue = generate_invoice (\<lambda>m i a. []) True 100 (sample_draw ''inv-1'') ''t1'' 0 (31 * day) ''k1'' sample_ledger"

definition customer :: "string \<Rightarrow> subject" where
  "customer uid = \<lparr>sub_type = ''user'', sub_id = uid, sub_user = uid, sub_username = uid, sub_email = [], sub_roles = [''user''],
     sub_permissions = [''billing:read'', ''billing:manage''], sub_scopes = []\<rparr>"

definition billing_admin :: subject where
  "billing_admin = (customer ''root'')\<lparr>sub_roles := [''superadmin'']\<rparr>"

lemma sample_fresh: "fresh_draw (sample_draw ''inv-1'') sample_ledger"
  by code_simp

lemma sample_unbilled: "earlier_invoice key sample_ledger = None"
  by (simp add: earlier_invoice_def invoice_get_by_key_def sample_ledger_def)

text \<open>Without usage an invoice has the base line only.\<close>

lemma overage_unused: "0 \<le> included \<Longrightarrow> overage desc lid m price included 0 = []"
  by (simp add: overage_def)

lemma invoice_lines_unused:
  assumes "ag_metrics a = Map.empty" "0 \<le> pl_inc_vcpu p" "0 \<le> pl_inc_mem p" "0 \<le> pl_inc_storage p" "0 \<le> pl_inc_bandwidth p"
  shows "invoice_lines desc lid s p a = [\<lparr>li_id = lid 0, li_invoice = [],
      li_desc = ''Subscription Tier: '' @ pl_name p @ '' ('' @ cycle_text (sb_cycle s) @ '')'', li_metric = None,
      li_quantity = 1, li_price = base_price s p, li_total = base_price s p\<rparr>]"
  using assms
  by (simp add: invoice_lines_def used_def overage_unused f_mul_def f_div_def f_of_int_def nominal_hours_def rnd_nonneg)

lemma sample_ledger_plan: "sub_by_tenant ''t1'' (lg_billing sample_ledger) = Inr sample_sub"
  "plan_get ''plan-starter'' (lg_billing sample_ledger) = Inr (hd (default_plans 0))"
  by (simp_all add: sub_by_tenant_def sub_get_def plan_get_def sample_ledger_def sub_create_def new_billing_def
      default_plans_def sample_sub_def Let_def)

lemma sample_tax: "tax_of 100 500 = 500"
  using f_of_int_small [of 500] rnd_of_int_small [of 500] rnd_of_int_small [of 1]
  by (simp add: tax_of_def f_div_def f_mul_def math_round_def)

lemma sample_run:
  assumes "0 \<le> tax_of tax 500" and "tax_of tax 500 \<le> 1000"
  obtains l v where "generate_invoice (\<lambda>m i a. []) True tax (sample_draw ''inv-1'') ''t1'' 0 to key sample_ledger = (l, Inr v)"
    "iv_id v = ''inv-1''" "iv_subtotal v = 500" "iv_tax v = tax_of tax 500" "lg_invoices l ''inv-1'' = Some v"
proof -
  let ?d = "sample_draw ''inv-1''"
  let ?w = "draft_invoice (\<lambda>m i a. []) tax ?d ''t1'' 0 to key sample_sub (hd (default_plans 0))
    (get_aggregate [] ''t1'' 0 to sample_ledger)"
  have "iv_lines ?w = [\<lparr>li_id = ''line'', li_invoice = [], li_desc = ''Subscription Tier: Starter Developer (monthly)'',
      li_metric = None, li_quantity = 1, li_price = 500, li_total = 500\<rparr>]"
    by (simp add: draft_invoice_def Let_def invoice_lines_unused get_aggregate_def sample_draw_def default_plans_def
        sample_sub_def base_price_def)
  moreover have "iv_subtotal ?w = subtotal (iv_lines ?w)" "iv_tax ?w = tax_of tax (iv_subtotal ?w)"
    "iv_total ?w = wrap64 (iv_subtotal ?w + iv_tax ?w)" "iv_currency ?w = ''EUR''"
    by (simp_all add: draft_invoice_def Let_def default_plans_def)
  ultimately have w: "iv_subtotal ?w = 500" "iv_tax ?w = tax_of tax 500" "invoice_validate ?w = None"
    using assms by (simp_all add: subtotal_def wrap64_def invoice_validate_def)
  obtain l1 w1 where py: "pay_invoice True ?d ?w sample_ledger = (l1, w1)" by fastforce
  obtain l2 v where cr: "invoice_create (40 * day) ''inv-1'' (\<lambda>i. ''line'') w1 l1 = (l2, v)" by fastforce
  have se: "settled ?w w1" and "lg_ikeys l1 = lg_ikeys sample_ledger"
    using pay_invoice_settles [of ?w True ?d sample_ledger] pay_invoice_keeps(2) [of True ?d ?w sample_ledger] py by simp_all
  then have ik: "lg_ikeys l1 = Map.empty" by (simp add: sample_ledger_def)
  have i: "iv_id w1 = ''inv-1''" by (simp add: settledD [OF se] sample_draw_def)
  have k: "invoice_by_key (iv_key w1) l1 = None" by (simp add: invoice_by_key_def ik)
  note new = invoice_create_new [OF cr k, unfolded i, simplified]
  have "compile_invoice (\<lambda>m i a. []) True tax ?d ''t1'' 0 to key sample_ledger = (l2, Inr v)"
    using w(3) py cr sample_ledger_plan by (simp add: compile_invoice_def sample_sub_def sample_draw_def Let_def)
  then have "generate_invoice (\<lambda>m i a. []) True tax ?d ''t1'' 0 to key sample_ledger = (l2, Inr v)"
    by (simp add: generate_new [OF sample_unbilled])
  moreover have "iv_subtotal v = 500" "iv_tax v = tax_of tax 500" "iv_id v = ''inv-1''"
    using new(3) w i by (auto simp: settledD(5,6) [OF se])
  ultimately show thesis using new(1) by (rule_tac that)
qed

lemma sample_issued:
  obtains v where "sample_issue = (fst sample_issue, Inr v)" "iv_id v = ''inv-1''" "iv_subtotal v = 500" "iv_tax v = 500"
    "lg_invoices (fst sample_issue) ''inv-1'' = Some v"
  by (rule sample_run [of 100 "31 * day" "''k1''"]) (auto simp: sample_tax sample_issue_def)

section \<open>Properties\<close>

lemma draft_amounts:
  assumes "w = draft_invoice desc tax d tid from to key s p a" and "invoice_validate w = None"
    and "int64 (tax_of tax (iv_subtotal w))"
  shows "iv_subtotal w = wrap64 (sum_list (map li_total (iv_lines w)))" "iv_total w = iv_subtotal w + iv_tax w"
    "iv_status w = InvOpen" "0 \<le> iv_total w" "iv_created w = id_now d"
proof -
  have e: "iv_subtotal w = subtotal (iv_lines w)" "iv_tax w = tax_of tax (iv_subtotal w)"
    "iv_total w = wrap64 (iv_subtotal w + iv_tax w)"
    by (simp_all add: assms(1) draft_invoice_def Let_def)
  have n: "0 \<le> iv_subtotal w" "0 \<le> iv_tax w" "0 \<le> iv_total w"
    using assms(2) by (auto simp: invoice_validate_def split: if_splits)
  have "int64 (iv_subtotal w)" by (simp add: e(1) subtotal_sum)
  then show "iv_total w = iv_subtotal w + iv_tax w"
    using wrap64_sum_exact n assms(3) unfolding e(2,3) by simp
  show "iv_subtotal w = wrap64 (sum_list (map li_total (iv_lines w)))" by (simp add: e(1) subtotal_sum)
  show "0 \<le> iv_total w" by fact
  show "iv_status w = InvOpen" "iv_created w = id_now d" by (simp_all add: assms(1) draft_invoice_def Let_def)
qed



text \<open>
  An invoice once issued is immutable: whatever the service, the metering and the payment
  provider do afterwards, the invoice is still there, and only its status and its date of
  payment can differ.
\<close>

theorem invoices_immutable:
  assumes "ledger_step\<^sup>*\<^sup>* l l'" and "lg_invoices l vid = Some v"
  shows "\<exists>st paid. lg_invoices l' vid = Some (v\<lparr>iv_status := st, iv_paid := paid\<rparr>)"
  using keepsD(1) [OF history_keeps [OF assms(1)] assms(2)] unfolding settled_def by metis

theorem invoices_immutable_witness:
  "\<exists>v st paid. lg_invoices (fst sample_issue) ''inv-1'' = Some v
     \<and> lg_invoices (fst (void_invoice 0 None ''inv-1'' (fst sample_issue))) ''inv-1'' = Some (v\<lparr>iv_status := st, iv_paid := paid\<rparr>)"
proof -
  obtain v where v: "lg_invoices (fst sample_issue) ''inv-1'' = Some v" by (rule sample_issued)
  have "ledger_step\<^sup>*\<^sup>* (fst sample_issue) (fst (void_invoice 0 None ''inv-1'' (fst sample_issue)))"
    by (blast intro: ledger_step.void)
  from invoices_immutable [OF this v] v show ?thesis by blast
qed

text \<open>
  C18. One key charges once: after an invoice was generated with a key, every later generation
  with that key, whatever happened in between and whatever tenant and period it asks for,
  returns that invoice and changes nothing.
\<close>

theorem invoice_key_charges_once:
  assumes "generate_invoice desc hp tax d tid from to key l = (l1, Inr v)" and "key \<noteq> ''''" and "fresh_draw d l"
    and "ledger_step\<^sup>*\<^sup>* l1 l2"
  shows "\<exists>st paid. generate_invoice desc' hp' tax' d' tid' from' to' key l2 = (l2, Inr (v\<lparr>iv_status := st, iv_paid := paid\<rparr>))"
proof -
  obtain vid where "lg_ikeys l1 key = Some vid" "lg_invoices l1 vid = Some v" using generate_files [OF assms(1-3)] by blast
  moreover note h = history_keeps [OF assms(4)]
  ultimately obtain v' where "lg_ikeys l2 key = Some vid" "lg_invoices l2 vid = Some v'" "settled v v'"
    using keepsD(1) [OF h] keepsD(2) [OF h] by fastforce
  then have "earlier_invoice key l2 = Some (v\<lparr>iv_status := iv_status v', iv_paid := iv_paid v'\<rparr>)"
    using assms(2) by (simp add: earlier_invoice_Some settled_def)
  then show ?thesis by (auto simp: generate_invoice_def)
qed

theorem invoice_key_charges_once_witness:
  "\<exists>v st paid. generate_invoice (\<lambda>m i a. []) True 100 (sample_draw ''inv-2'') ''t2'' 0 day ''k1'' (fst sample_issue)
     = (fst sample_issue, Inr (v\<lparr>iv_status := st, iv_paid := paid\<rparr>)) \<and> iv_id v = ''inv-1''"
proof -
  obtain v where v: "sample_issue = (fst sample_issue, Inr v)" "iv_id v = ''inv-1''" by (rule sample_issued)
  have k: "''k1'' \<noteq> []" by simp
  from invoice_key_charges_once [OF v(1) [unfolded sample_issue_def] k sample_fresh rtranclp.rtrancl_refl,
      folded sample_issue_def]
  have "\<exists>st paid. generate_invoice (\<lambda>m i a. []) True 100 (sample_draw ''inv-2'') ''t2'' 0 day ''k1'' (fst sample_issue)
     = (fst sample_issue, Inr (v\<lparr>iv_status := st, iv_paid := paid\<rparr>))" .
  with v(2) show ?thesis by blast
qed

lemma record_usage_done: "ur_key u \<noteq> [] \<Longrightarrow> lg_ukeys l (ur_key u) \<Longrightarrow> record_usage now uuid u l = l"
  by (simp add: record_usage_def)

lemma record_usage_marks:
  "lg_ukeys (record_usage now uuid u l) k \<longleftrightarrow> lg_ukeys l k \<or> (k = ur_key u \<and> k \<noteq> [])"
  by (auto simp: record_usage_def Let_def)

lemma usage_entry_key [simp]: "ur_key (usage_entry tid rt rid m q un from to key mt) = key"
  by (simp add: usage_entry_def)

lemma bucket_text_nonempty [simp]: "pre \<noteq> [] \<Longrightarrow> bucket_text pre rid from to \<noteq> []"
  by (simp add: bucket_text_def)

text \<open>
  Usage is metered once per window: recording the same window again, after any clock and
  identifier draws and even with other amounts, changes nothing.
\<close>

theorem metering_idempotent:
  "record_instance_usage now' a b c tid' iid vcpu' mem' sto' from to (record_instance_usage now u1 u2 u3 tid iid vcpu mem sto from to l)
     = record_instance_usage now u1 u2 u3 tid iid vcpu mem sto from to l
   \<and> record_volume_usage now' a tid' vid sto' from to (record_volume_usage now u1 tid vid sto from to l)
     = record_volume_usage now u1 tid vid sto from to l
   \<and> record_network_egress now' a tid' iid eg from to (record_network_egress now u1 tid iid eg from to l)
     = record_network_egress now u1 tid iid eg from to l"
  by (simp add: record_instance_usage_def record_volume_usage_def record_network_egress_def Let_def record_usage_done
      record_usage_marks)

text \<open>
  A customer sees only its own invoices: a subject that is neither an administrator nor
  holds every permission gets no other invoice, by identifier or in a listing.
\<close>

theorem invoice_tenant_isolation:
  assumes "\<not> has_permission s ''*''" and "\<not> has_role s ''admin''" and "\<not> has_role s ''superadmin''"
    and "\<And>xs. set (srt xs) \<subseteq> set xs"
  shows "(\<forall>v. get_invoice (Some s) vid l = Inr v \<longrightarrow> iv_tenant v = sub_user s)
    \<and> (\<forall>vs. list_invoices srt ks (Some s) limit offset l = Inr vs \<longrightarrow> (\<forall>v\<in>set vs. iv_tenant v = sub_user s))"
proof (intro conjI allI impI ballI)
  fix v
  assume "get_invoice (Some s) vid l = Inr v"
  with assms(1-3) show "iv_tenant v = sub_user s"
    by (auto simp: get_invoice_def split: option.splits sum.splits if_splits)
next
  fix vs v
  assume "list_invoices srt ks (Some s) limit offset l = Inr vs" and v: "v \<in> set vs"
  then have "slice_page offset limit (srt (filter (\<lambda>v. iv_tenant v = sub_user s) (vals (lg_invoices l) ks))) = Inr vs"
    by (simp add: list_invoices_def invoices_by_tenant_def tenant_of_def split: option.splits)
  with v assms(4) [of "filter (\<lambda>v. iv_tenant v = sub_user s) (vals (lg_invoices l) ks)"]
  show "iv_tenant v = sub_user s" by (fastforce dest: slice_page_subset)
qed

theorem invoice_tenant_isolation_witness:
  "(\<forall>v. get_invoice (Some (customer ''t2'')) ''inv-1'' (fst sample_issue) = Inr v \<longrightarrow> iv_tenant v = ''t2'')
    \<and> (\<forall>vs. list_invoices rev [''inv-1''] (Some (customer ''t2'')) 0 0 (fst sample_issue) = Inr vs
         \<longrightarrow> (\<forall>v\<in>set vs. iv_tenant v = ''t2''))"
  using invoice_tenant_isolation [of "customer ''t2''" rev "''inv-1''" "fst sample_issue" "[''inv-1'']" 0 0]
  by (simp add: customer_def has_permission_iff is_superadmin_iff)

text \<open>
  Subscribing to an active plan gives the tenant an active subscription that starts now and
  ends after a calendar month (28 to 31 days) or year (365 or 366 days); it is the tenant's
  subscription from then on, and subscribing again is refused without effect.
\<close>

theorem subscription_period:
  assumes "subscribe_plan now uuid (Some s) pid c l = (l', Inr sb)" and "uuid \<noteq> []"
  shows "sb_status sb = SubActive \<and> sb_tenant sb = sub_user s \<and> sb_start sb = now
    \<and> (c = Monthly \<and> now + 28 * day \<le> sb_end sb \<and> sb_end sb \<le> now + 31 * day
       \<or> c = Yearly \<and> now + 365 * day \<le> sb_end sb \<and> sb_end sb \<le> now + 366 * day)
    \<and> sub_by_tenant (sub_user s) (lg_billing l') = Inr sb
    \<and> subscribe_plan now' uuid' (Some s) pid c' l' = (l', Inl ErrSubscriptionAlreadyExists)"
proof -
  from assms(1) obtain p where p: "authorize (Some s) ''billing:manage'' None = None" "plan_get pid (lg_billing l) = Inr p"
    "pl_active p"
    by (auto simp: subscribe_plan_def split: option.splits sum.splits if_splits)
  define s0 where "s0 = \<lparr>sb_id = uuid, sb_tenant = sub_user s, sb_plan = pl_id p, sb_status = SubActive,
    sb_cycle = c, sb_start = now, sb_end = period_end c now, sb_cancel_at_end = False, sb_created = now, sb_updated = now\<rparr>"
  have v: "sub_validate s0 = None" and b: "lg_billing l' = fst (sub_create now uuid s0 (lg_billing l))" and
    sb: "sb = snd (sub_create now uuid s0 (lg_billing l))"
    using assms(1) p by (auto simp: subscribe_plan_def tenant_of_def s0_def Let_def split: option.splits if_splits prod.splits)
  have sb0: "sb = s0" using assms(2) by (simp add: sb sub_create_def s0_def Let_def)
  have t: "sub_by_tenant (sub_user s) (lg_billing l') = Inr sb"
    using assms(2) by (simp add: sb0 b sub_by_tenant_def sub_get_def sub_create_def s0_def Let_def)
  have pl: "plan_get pid (lg_billing l') = Inr p"
    using p(2) by (simp add: b plan_get_def sub_create_def Let_def)
  have "c = Monthly \<or> c = Yearly" using v by (auto simp: sub_validate_def s0_def split: if_splits)
  then show ?thesis
    using add_month_bounds [of now] add_year_bounds [of now] t p pl
    by (auto simp: sb0 s0_def period_end_def subscribe_plan_def has_active_subscription_def tenant_of_def)
qed

theorem subscription_period_witness:
  "\<exists>sb. snd (subscribe_plan (19753 * day) ''s2'' (Some (customer ''t2'')) ''plan-pro'' Monthly sample_ledger) = Inr sb
     \<and> sb_end sb \<le> 19784 * day"
proof -
  let ?r = "subscribe_plan (19753 * day) ''s2'' (Some (customer ''t2'')) ''plan-pro'' Monthly sample_ledger"
  have "\<not> isl (snd ?r)" by code_simp
  then obtain sb where sb: "?r = (fst ?r, Inr sb)" by (metis prod.collapse sum.collapse(2))
  have "''s2'' \<noteq> []" by simp
  from subscription_period [OF sb this] have "sb_end sb \<le> 19784 * day" by auto
  moreover have "snd ?r = Inr sb" using sb by (metis snd_conv)
  ultimately show ?thesis by blast
qed

text \<open>
  Usage on the border of two billing periods is billed in both: a record that contains the
  moment where one period ends and the next begins is counted with its whole quantity in either
  aggregate.
\<close>

theorem boundary_usage_counted_twice:
  assumes "lg_usage l = [uid \<mapsto> u]" and "ur_start u \<le> t" and "t \<le> ur_end u" and "a \<le> t" and "t \<le> b"
  shows "used (get_aggregate [uid] (ur_tenant u) a t l) (ur_metric u) = rnd (ur_quantity u)
    \<and> used (get_aggregate [uid] (ur_tenant u) t b l) (ur_metric u) = rnd (ur_quantity u)"
  using assms by (simp add: used_def get_aggregate_def overlaps_def add_usage_def f_add_def)

theorem boundary_usage_counted_twice_witness:
  "let u = usage_entry ''t1'' ''volume'' ''v1'' StorageGBMonths 20 ''GB-months'' (30 * day) (32 * day) [] [];
       l = sample_ledger\<lparr>lg_usage := [''r1'' \<mapsto> u]\<rparr>
   in used (get_aggregate [''r1''] ''t1'' 0 (31 * day) l) StorageGBMonths = 20
    \<and> used (get_aggregate [''r1''] ''t1'' (31 * day) (62 * day) l) StorageGBMonths = 20"
proof -
  let ?u = "usage_entry ''t1'' ''volume'' ''v1'' StorageGBMonths 20 ''GB-months'' (30 * day) (32 * day) [] []"
  let ?l = "sample_ledger\<lparr>lg_usage := [''r1'' \<mapsto> ?u]\<rparr>"
  have "0 < day" by code_simp
  then show ?thesis
    using boundary_usage_counted_twice [of ?l "''r1''" ?u "31 * day" 0 "62 * day"] rnd_of_int_small [of 20]
    by (simp add: usage_entry_def)
qed

text \<open>
  A voided invoice is never replaced: generating the invoice of the same tenant and period
  again after it was voided returns the voided invoice.
\<close>

theorem voided_invoice_returned:
  assumes "regenerate_invoice desc hp d sub tid from to l = (l1, Inr v)"
    and "earlier_invoice (regen_key tid from to) l = None" and "fresh_draw d l"
    and "void_invoice now sub (iv_id v) l1 = (l2, None)"
  shows "snd (regenerate_invoice desc' hp' d' sub tid from to l2) = Inr (v\<lparr>iv_status := InvVoid\<rparr>)"
proof -
  let ?k = "regen_key tid from to"
  have k: "?k \<noteq> []" by (simp add: regen_key_def)
  from assms(1) obtain l0 where g: "generate_invoice desc hp 0 d tid from to ?k l = (l0, Inr v)"
    and l1: "lg_invoices l1 = lg_invoices l0" "lg_ikeys l1 = lg_ikeys l0" and au: "authorize sub ''billing:admin'' None = None"
    by (auto simp: regenerate_invoice_def split: option.splits prod.splits sum.splits)
  obtain vid where f: "lg_ikeys l0 ?k = Some vid" "lg_invoices l0 vid = Some v"
    using generate_files [OF g k assms(3)] by blast
  have vid: "vid = iv_id v"
    using compile_files(3) [OF g [unfolded generate_new [OF assms(2)]] assms(2,3) k] f(1) by simp
  have "lg_ikeys l2 = lg_ikeys l1" "lg_invoices l2 vid = Some (v\<lparr>iv_status := InvVoid, iv_paid := iv_paid v\<rparr>)"
    using assms(4) f(2) l1 vid by (auto simp: void_invoice_def invoice_update_status_def au split: option.splits)
  then have "earlier_invoice ?k l2 = Some (v\<lparr>iv_status := InvVoid\<rparr>)"
    using f(1) l1 k by (simp add: earlier_invoice_Some)
  then show ?thesis by (simp add: regenerate_invoice_def generate_invoice_def au)
qed

theorem voided_invoice_returned_witness:
  "\<exists>v. snd (regenerate_invoice (\<lambda>m i a. []) True (sample_draw ''inv-2'') (Some billing_admin) ''t1'' 0 day
      (fst (void_invoice 0 (Some billing_admin) ''inv-1''
        (fst (regenerate_invoice (\<lambda>m i a. []) True (sample_draw ''inv-1'') (Some billing_admin) ''t1'' 0 day sample_ledger)))))
     = Inr v \<and> iv_status v = InvVoid"
proof -
  let ?r = "regenerate_invoice (\<lambda>m i a. []) True (sample_draw ''inv-1'') (Some billing_admin) ''t1'' 0 day sample_ledger"
  have au: "authorize (Some billing_admin) ''billing:admin'' None = None"
    by (simp add: authorize_def billing_admin_def customer_def)
  have t: "tax_of 0 500 = 0" by (simp add: tax_of_def)
  obtain l v where g: "generate_invoice (\<lambda>m i a. []) True 0 (sample_draw ''inv-1'') ''t1'' 0 day (regen_key ''t1'' 0 day) sample_ledger
      = (l, Inr v)" and v: "iv_id v = ''inv-1''" "lg_invoices l ''inv-1'' = Some v"
    using sample_run [of 0 day "regen_key ''t1'' 0 day"] t by (metis order_refl zero_le_numeral)
  obtain l1 where r: "?r = (l1, Inr v)" and l1: "lg_invoices l1 ''inv-1'' = Some v"
    using g v(2) by (simp add: regenerate_invoice_def au)
  obtain l2 where vo: "void_invoice 0 (Some billing_admin) (iv_id v) l1 = (l2, None)"
    using l1 v(1) by (simp add: void_invoice_def au invoice_update_status_def)
  from voided_invoice_returned [OF r sample_unbilled sample_fresh vo]
  show ?thesis using r vo v(1) by simp
qed

end
