(* ===== verification/Command_Wire.thy ===== *)
theory Command_Wire
  imports Node_Service Scheduler
begin

text \<open>
  The gRPC gateway of the nodes: \<open>internal/transport/grpc/gateway.go\<close>. It enrolls nodes, opens
  their streams, hands their messages to the node service, and writes the commands of the
  services, whose payload is an untyped map, as typed messages of the protocol. JSON is the
  pair of arguments \<open>js\<close> (encoding) and \<open>unjs\<close> (decoding); the outcome of writing to a stream
  is the argument \<open>wr\<close>. The payloads of the services have no floating-point values. An error is the status code of the reply with the error behind it.
\<close>

section \<open>Reading a payload\<close>

text \<open>The verb \<open>%v\<close>; the entries of a map are written in the order of their keys.\<close>

fun str_less :: "string \<Rightarrow> string \<Rightarrow> bool" where
  "str_less xs [] = False"
| "str_less [] (y # ys) = True"
| "str_less (x # xs) (y # ys) =
     ((of_char x :: nat) < of_char y \<or> (x = y \<and> str_less xs ys))"

fun insert_entry :: "string \<times> string \<Rightarrow> (string \<times> string) list \<Rightarrow> (string \<times> string) list" where
  "insert_entry e [] = [e]"
| "insert_entry e (f # fs) = (if str_less (fst f) (fst e) then f # insert_entry e fs else e # f # fs)"

fun spaced :: "string list \<Rightarrow> string" where
  "spaced [] = ''''"
| "spaced [s] = s"
| "spaced (s # t # ss) = s @ '' '' @ spaced (t # ss)"

fun fmt_v :: "gval \<Rightarrow> string" where
  "fmt_v GNil = ''<nil>''"
| "fmt_v (GStr s) = s"
| "fmt_v (GBool b) = (if b then ''true'' else ''false'')"
| "fmt_v (GInt i) = show_int i"
| "fmt_v (GList vs) = ''['' @ spaced (map fmt_v vs) @ '']''"
| "fmt_v (GObj m) =
     ''map['' @ spaced (map (\<lambda>(k, s). k @ '':'' @ s) (foldr insert_entry (map (\<lambda>(k, v). (k, fmt_v v)) m) [])) @ '']''"

definition at_key :: "gobj \<Rightarrow> string \<Rightarrow> gval" where
  "at_key m k = (case map_of m k of None \<Rightarrow> GNil | Some v \<Rightarrow> v)"

definition text_at :: "gobj \<Rightarrow> string \<Rightarrow> string" where
  "text_at m k = fmt_v (at_key m k)"

fun to_int :: "gval \<Rightarrow> int" where
  "to_int (GInt i) = i"
| "to_int _ = 0"

fun to_int64 :: "gval \<Rightarrow> int" where
  "to_int64 (GInt i) = i"
| "to_int64 _ = 0"

fun to_bool :: "gval \<Rightarrow> bool" where
  "to_bool (GBool b) = b"
| "to_bool _ = False"

text \<open>The conversion \<open>int32\<close>.\<close>

definition wrap32 :: "int \<Rightarrow> int" where
  "wrap32 x = (x + 2147483648) mod 4294967296 - 2147483648"

section \<open>Messages to a node\<close>

text \<open>The arguments are the fields of the protocol messages, in their order there.\<close>

datatype server_payload =
    PingCommand string
  | CollectTelemetryCommand bool
  | ApplyNodeConfigCommand string
  | RebootNodeCommand int string
  | CreateInstanceCommand string string string int int int string string bool
  | StartInstanceCommand string string
  | StopInstanceCommand string string bool
  | RestartInstanceCommand string string bool
  | DeleteInstanceCommand string string bool
  | UpdateInstanceSpecCommand string string int int int
  | GetInstanceMetricsCommand string string
  | ConfigureNetworkCommand string string string string string string string string int
  | ApplyFirewallRulesCommand string string "gobj list"
  | CreateVolumeCommand string string string int string
  | ResizeVolumeCommand string string string int
  | AttachVolumeCommand string string string string string bool
  | DetachVolumeCommand string string string
  | DeleteVolumeCommand string string string
  | CreateVolumeSnapshotCommand string string string string
  | RestoreVolumeSnapshotCommand string string string string
  | DeleteVolumeSnapshotCommand string string string string
  | HeartbeatAck int gtime string int

record server_message =
  sm_corr :: string
  sm_time :: gtime
  sm_version :: string
  sm_payload :: server_payload

definition wire_payload :: "(gval \<Rightarrow> string) \<Rightarrow> string \<Rightarrow> gobj \<Rightarrow> server_payload result" where
  "wire_payload js ty m =
     (let t = text_at m; n = (\<lambda>k. to_int64 (at_key m k)); b = (\<lambda>k. to_bool (at_key m k))
      in if ty = ''ping'' then Inr (PingCommand (if at_key m ''msg'' \<noteq> GNil then t ''msg'' else ''''))
      else if ty = ''collect_telemetry'' then Inr (CollectTelemetryCommand True)
      else if ty = ''apply_config'' then Inr (ApplyNodeConfigCommand (js (GObj m)))
      else if ty = ''reboot'' then Inr (RebootNodeCommand 5 ''maintenance'')
      else if ty = ''create_instance'' then
        Inr (CreateInstanceCommand (t ''instance_id'') (t ''name'') (t ''type'') (wrap32 (to_int (at_key m ''cpu_cores'')))
               (n ''memory_bytes'') (n ''storage_bytes'') (t ''image'') (js (at_key m ''config'')) (b ''start_after_create''))
      else if ty = ''start_instance'' then Inr (StartInstanceCommand (t ''instance_id'') (t ''name''))
      else if ty = ''stop_instance'' then Inr (StopInstanceCommand (t ''instance_id'') (t ''name'') (b ''force''))
      else if ty = ''restart_instance'' then Inr (RestartInstanceCommand (t ''instance_id'') (t ''name'') (b ''force''))
      else if ty = ''delete_instance'' then Inr (DeleteInstanceCommand (t ''instance_id'') (t ''name'') (b ''force''))
      else if ty = ''update_instance_spec'' then
        Inr (UpdateInstanceSpecCommand (t ''instance_id'') (t ''name'') (wrap32 (to_int (at_key m ''cpu_cores'')))
               (n ''memory_bytes'') (n ''storage_bytes''))
      else if ty = ''get_instance_metrics'' then Inr (GetInstanceMetricsCommand (t ''instance_id'') (t ''name''))
      else if ty = ''configure_network'' then
        Inr (ConfigureNetworkCommand (t ''instance_id'') (t ''instance_name'') (t ''interface_name'') (t ''ipv4_address'')
               (t ''ipv4_gateway'') (t ''ipv6_address'') (t ''ipv6_gateway'') (t ''mac_address'')
               (wrap32 (to_int (at_key m ''vlan_id''))))
      else if ty = ''apply_firewall_rules'' then
        Inr (ApplyFirewallRulesCommand (t ''instance_id'') (t ''instance_name'') [])
      else if ty = ''create_volume'' then
        Inr (CreateVolumeCommand (t ''volume_id'') (t ''pool_name'') (t ''volume_name'') (n ''size_bytes'') (t ''content_type''))
      else if ty = ''resize_volume'' then
        Inr (ResizeVolumeCommand (t ''volume_id'') (t ''pool_name'') (t ''volume_name'') (n ''new_size_bytes''))
      else if ty = ''attach_volume'' then
        Inr (AttachVolumeCommand (t ''instance_id'') (t ''instance_name'') (t ''pool_name'') (t ''volume_name'')
               (t ''mount_path'') (b ''read_only''))
      else if ty = ''detach_volume'' then
        Inr (DetachVolumeCommand (t ''instance_id'') (t ''instance_name'') (t ''volume_name''))
      else if ty = ''delete_volume'' then
        Inr (DeleteVolumeCommand (t ''volume_id'') (t ''pool_name'') (t ''volume_name''))
      else if ty = ''create_volume_snapshot'' then
        Inr (CreateVolumeSnapshotCommand (t ''volume_id'') (t ''pool_name'') (t ''volume_name'') (t ''snapshot_name''))
      else if ty = ''restore_volume_snapshot'' then
        Inr (RestoreVolumeSnapshotCommand (t ''volume_id'') (t ''pool_name'') (t ''volume_name'') (t ''snapshot_name''))
      else if ty = ''delete_volume_snapshot'' then
        Inr (DeleteVolumeSnapshotCommand (t ''volume_id'') (t ''pool_name'') (t ''volume_name'') (t ''snapshot_name''))
      else Inl (ErrText (''unsupported command type: '' @ ty)))"

definition wire_message :: "(gval \<Rightarrow> string) \<Rightarrow> gtime \<Rightarrow> command \<Rightarrow> server_message result" where
  "wire_message js now c =
     map_sum id (\<lambda>p. \<lparr>sm_corr = cmd_corr c, sm_time = now, sm_version = ''aurora.v1'', sm_payload = p\<rparr>)
       (wire_payload js (cmd_type c) (cmd_payload c))"

text \<open>\<open>Send\<close> of the stream: what is written, and the error it returns.\<close>

definition grpc_send ::
  "(gval \<Rightarrow> string) \<Rightarrow> (server_message \<Rightarrow> go_error option) \<Rightarrow> gtime \<Rightarrow> command \<Rightarrow> server_message list \<times> go_error option" where
  "grpc_send js wr now c =
     (case wire_message js now c of Inl e \<Rightarrow> ([], Some e) | Inr msg \<Rightarrow> ([msg], wr msg))"

definition send_to_node ::
  "(server_message \<Rightarrow> go_error option) \<Rightarrow> string \<Rightarrow> server_message \<Rightarrow> node_hub \<Rightarrow> go_error option" where
  "send_to_node wr nid msg h =
     (case get_connection nid h of None \<Rightarrow> Some ErrNodeOffline | Some strm \<Rightarrow> wr msg)"

section \<open>Enrollment\<close>

record capabilities =
  cp_cpu :: int
  cp_mem :: int
  cp_storage :: int
  cp_incus :: bool
  cp_kvm :: bool
  cp_os :: string
  cp_arch :: string

definition enroll_caps :: "capabilities option \<Rightarrow> gobj" where
  "enroll_caps oc =
     (case oc of
        None \<Rightarrow> []
      | Some c \<Rightarrow> [(''cpu_cores'', GInt (cp_cpu c)), (''total_memory_bytes'', GInt (cp_mem c)),
          (''total_storage_bytes'', GInt (cp_storage c)), (''incus_supported'', GBool (cp_incus c)),
          (''kvm_supported'', GBool (cp_kvm c)), (''os_distribution'', GStr (cp_os c)), (''architecture'', GStr (cp_arch c))])"

datatype grpc_code = InvalidArgument | Unauthenticated | AlreadyExists | PermissionDenied | Internal | Closed

definition enroll_code :: "go_error \<Rightarrow> grpc_code" where
  "enroll_code e =
     (if e = ErrEnrollmentTokenInvalid then Unauthenticated
      else if e = ErrEnrollmentTokenExpired then Unauthenticated
      else if e = ErrEnrollmentTokenUsed then AlreadyExists
      else if e = ErrInvalidCSR then InvalidArgument else Internal)"

definition grpc_enroll ::
  "(string \<Rightarrow> string) \<Rightarrow> pki \<Rightarrow> gtime \<Rightarrow> string \<Rightarrow> string \<Rightarrow> string \<Rightarrow> string \<Rightarrow> string \<Rightarrow> capabilities option \<Rightarrow> node_hub \<Rightarrow>
   node_hub \<times> (grpc_code + string \<times> string \<times> string \<times> string \<times> int)" where
  "grpc_enroll sha ca now uuid token name fqdn csr caps h =
     (if token = '''' then (h, Inl InvalidArgument)
      else if csr = '''' then (h, Inl InvalidArgument)
      else case enroll_node sha ca now uuid token name fqdn csr (Some (enroll_caps caps)) h of
             (h, Inl e) \<Rightarrow> (h, Inl (enroll_code e))
           | (h, Inr (nid, cert, rootca, interval)) \<Rightarrow> (h, Inr (nid, cert, rootca, ''127.0.0.1:8443'', wrap32 interval)))"

section \<open>Messages of a node\<close>

datatype node_message =
    ReadyEvent string
  | Heartbeat int "capabilities option"
  | CommandResult string bool string string
  | ConsoleSessionMessage string

definition heartbeat_caps :: "capabilities option \<Rightarrow> gobj" where
  "heartbeat_caps oc =
     (case oc of
        None \<Rightarrow> []
      | Some c \<Rightarrow> [(''cpu_cores'', GInt (cp_cpu c)), (''total_memory_bytes'', GInt (cp_mem c)),
          (''total_storage_bytes'', GInt (cp_storage c))])"

text \<open>The result is the new state, what is sent back, and what goes to the console router.\<close>

definition handle_node_message ::
  "(string \<Rightarrow> gobj option) \<Rightarrow> gtime \<Rightarrow> string \<Rightarrow> string \<Rightarrow> node_message \<Rightarrow> node_hub \<Rightarrow>
   node_hub \<times> server_message list \<times> string list" where
  "handle_node_message unjs now nid corr msg h =
     (case msg of
        ReadyEvent v \<Rightarrow> (h, [], [])
      | Heartbeat sn caps \<Rightarrow>
          (fst (process_heartbeat now nid (Some (heartbeat_caps caps)) h),
           [\<lparr>sm_corr = corr, sm_time = now, sm_version = ''aurora.v1'',
             sm_payload = HeartbeatAck sn now ''NODE_STATUS_ONLINE'' 10\<rparr>], [])
      | CommandResult rcorr ok err json \<Rightarrow>
          (handle_command_result
             \<lparr>cr_corr = rcorr, cr_success = ok, cr_error = err,
              cr_payload = (if json \<noteq> '''' then (case unjs json of None \<Rightarrow> [] | Some m \<Rightarrow> m) else []),
              cr_completed = now\<rparr> h, [], [])
      | ConsoleSessionMessage m \<Rightarrow> (h, [], [m]))"

text \<open>A stream until its registration, and its deferred end.\<close>

definition open_tunnel ::
  "pki \<Rightarrow> gtime \<Rightarrow> string option \<Rightarrow> nat \<Rightarrow> node_hub \<Rightarrow> node_hub \<times> (grpc_code + string)" where
  "open_tunnel ca now cert strm h =
     (case cert of
        None \<Rightarrow> (h, Inl Unauthenticated)
      | Some pem \<Rightarrow> (case authenticate ca pem h of
          Inl e \<Rightarrow> (h, Inl (if e = ErrNodeRevoked then PermissionDenied else Unauthenticated))
        | Inr n \<Rightarrow> (case on_stream_connected now (nd_id n) strm h of
            (h, Some e) \<Rightarrow> (h, Inl Internal)
          | (h, None) \<Rightarrow> (h, Inr (nd_id n)))))"

definition close_tunnel :: "gtime \<Rightarrow> string \<Rightarrow> node_hub \<Rightarrow> node_hub" where
  "close_tunnel now nid h = on_stream_disconnected now nid h"

definition stream_tunnel ::
  "pki \<Rightarrow> (string \<Rightarrow> gobj option) \<Rightarrow> gtime \<Rightarrow> string option \<Rightarrow> nat \<Rightarrow> (string \<times> node_message) list \<Rightarrow> node_hub \<Rightarrow>
   node_hub \<times> grpc_code" where
  "stream_tunnel ca unjs now cert strm msgs h =
     (case open_tunnel ca now cert strm h of
        (h, Inl e) \<Rightarrow> (h, e)
      | (h, Inr nid) \<Rightarrow>
          (close_tunnel now nid (fold (\<lambda>(corr, m) h. fst (handle_node_message unjs now nid corr m h)) msgs h), Closed))"

section \<open>Properties\<close>

lemma live_node_Inr:
  "live_node nid h = Inr n \<longleftrightarrow> node_get nid (nh_store h) = Inr n \<and> nd_status n \<noteq> NRevoked"
  by (auto simp: live_node_def split: sum.splits)

lemma connected_effect:
  assumes "nodes_wf (nh_store h)" and "node_get nid (nh_store h) = Inr n" and "nd_status n \<noteq> NRevoked"
  shows "get_connection nid (fst (on_stream_connected now nid strm h)) = Some strm"
    "nodes_wf (nh_store (fst (on_stream_connected now nid strm h)))"
    "\<exists>n'. node_get nid (nh_store (fst (on_stream_connected now nid strm h))) = Inr n' \<and> nd_status n' \<noteq> NRevoked
      \<and> nd_maintenance n' = nd_maintenance n"
proof -
  have l: "live_node nid h = Inr n" using assms by (simp add: live_node_Inr)
  show "get_connection nid (fst (on_stream_connected now nid strm h)) = Some strm"
    by (simp add: on_stream_connected_def l Let_def get_connection_def register_connection_def node_log_def)
  show "nodes_wf (nh_store (fst (on_stream_connected now nid strm h)))"
    using assms(1) by (simp add: on_stream_connected_def l Let_def node_log_def register_connection_def update_status_def
        modify_node_wf keeps_keys_def)
  show "\<exists>n'. node_get nid (nh_store (fst (on_stream_connected now nid strm h))) = Inr n' \<and> nd_status n' \<noteq> NRevoked
      \<and> nd_maintenance n' = nd_maintenance n"
    using assms by (simp add: on_stream_connected_def l Let_def node_log_def register_connection_def update_status_def
        modify_node_get)
qed

text \<open>
  A node that reconnects before its old stream has ended loses the new one: the deferred end
  of the old stream removes whatever connection the node has and reports it offline, although
  the new stream is open.
\<close>

theorem stale_disconnect_drops_live_stream:
  assumes "nodes_wf (nh_store h)" and "node_get nid (nh_store h) = Inr n" and "nd_status n \<noteq> NRevoked"
    and "h2 = fst (on_stream_connected t2 nid new (fst (on_stream_connected t1 nid old h)))"
  shows "get_connection nid h2 = Some new \<and> get_connection nid (close_tunnel t3 nid h2) = None
    \<and> (\<exists>n'. node_get nid (nh_store (close_tunnel t3 nid h2)) = Inr n' \<and> nd_status n' = NOffline)"
proof -
  let ?h1 = "fst (on_stream_connected t1 nid old h)"
  note c1 = connected_effect [OF assms(1-3), of t1 old]
  obtain n1 where n1: "node_get nid (nh_store ?h1) = Inr n1" "nd_status n1 \<noteq> NRevoked" using c1(3) by blast
  note c2 = connected_effect [OF c1(2) n1, of t2 new, folded assms(4)]
  obtain n2 where n2: "node_get nid (nh_store h2) = Inr n2" "nd_status n2 \<noteq> NRevoked" using c2(3) by blast
  have "node_get nid (nh_store (close_tunnel t3 nid h2)) = Inr (n2\<lparr>nd_status := NOffline, nd_updated := t3\<rparr>)"
    using n2 c2(2) by (simp add: close_tunnel_def on_stream_disconnected_def Let_def unregister_connection_def node_log_def
        update_status_def modify_node_get)
  moreover have "get_connection nid (close_tunnel t3 nid h2) = None"
    using n2 by (simp add: close_tunnel_def on_stream_disconnected_def Let_def unregister_connection_def node_log_def
        get_connection_def)
  ultimately show ?thesis using c2(1) by simp
qed

text \<open>A node that enrolled on another architecture and without hardware virtualisation.\<close>

definition arm_caps :: capabilities where
  "arm_caps = \<lparr>cp_cpu = 8, cp_mem = 16 * gib, cp_storage = 100 * gib, cp_incus = True, cp_kvm = False,
     cp_os = ''debian'', cp_arch = ''aarch64''\<rparr>"

definition arm_node :: node where
  "arm_node = (new_node 0 ''n1'' ''loc'' ''arm1'' ''arm1.example'' ''fp1'' (Some (enroll_caps (Some arm_caps))))\<lparr>nd_status := NOnline\<rparr>"

definition arm_hub :: node_hub where
  "arm_hub = new_hub\<lparr>nh_store := fst (node_create arm_node empty_nodes)\<rparr>"

lemma arm_hub_wf: "nodes_wf (nh_store arm_hub)"
  unfolding arm_hub_def using empty_nodes_wf
  by (simp add: node_create_wf arm_node_def new_node_def empty_nodes_def)

lemma arm_hub_get: "node_get ''n1'' (nh_store arm_hub) = Inr arm_node" "nd_status arm_node \<noteq> NRevoked"
  by (simp_all add: arm_hub_def node_create_def empty_nodes_def node_get_def deref_def arm_node_def new_node_def Let_def)

theorem stale_disconnect_drops_live_stream_witness:
  "let h2 = fst (on_stream_connected 2 ''n1'' 22 (fst (on_stream_connected 1 ''n1'' 11 arm_hub)))
   in get_connection ''n1'' h2 = Some 22 \<and> get_connection ''n1'' (close_tunnel 3 ''n1'' h2) = None"
  using stale_disconnect_drops_live_stream [OF arm_hub_wf arm_hub_get refl, of 2 22 1 11 3] by (simp add: Let_def)

text \<open>
  The first heartbeat of a node erases what the scheduler knew of it: whatever the node
  reported at its enrollment, afterwards it counts as a machine of the default architecture with
  hardware virtualisation.
\<close>

theorem heartbeat_forgets_architecture:
  assumes "nodes_wf (nh_store h)" and "node_get nid (nh_store h) = Inr n" and "nd_status n \<noteq> NRevoked"
  shows "\<exists>n'. node_get nid (nh_store (fst (handle_node_message unjs now nid corr (Heartbeat sn caps) h))) = Inr n'
    \<and> node_arch n' = ''x86_64'' \<and> \<not> kvm_missing n'"
proof -
  have l: "live_node nid h = Inr n" using assms by (simp add: live_node_Inr)
  have "node_get nid (nh_store (fst (handle_node_message unjs now nid corr (Heartbeat sn caps) h)))
    = Inr (n\<lparr>nd_heartbeat := Some now, nd_caps := Some (heartbeat_caps caps), nd_updated := now\<rparr>)"
    using assms by (simp add: handle_node_message_def process_heartbeat_def l update_heartbeat_def modify_node_get
        case_prod_beta)
  then show ?thesis by (simp add: node_arch_def kvm_missing_def heartbeat_caps_def get_str_def get_bool_def split: option.split)
qed

theorem heartbeat_forgets_architecture_witness:
  "node_arch arm_node = ''aarch64'' \<and> kvm_missing arm_node
   \<and> (\<exists>n'. node_get ''n1'' (nh_store (fst (handle_node_message (\<lambda>_. None) 5 ''n1'' ''c'' (Heartbeat 1 (Some arm_caps)) arm_hub))) = Inr n'
        \<and> node_arch n' = ''x86_64'' \<and> \<not> kvm_missing n')"
proof (intro conjI)
  show "node_arch arm_node = ''aarch64''" "kvm_missing arm_node" by code_simp+
qed (rule heartbeat_forgets_architecture [OF arm_hub_wf arm_hub_get])

text \<open>
  A stream is opened only for a node whose certificate verifies, names a node of the store
  that is not revoked and has this fingerprint; the stream is then the connection of that node.
\<close>

theorem tunnel_is_authenticated:
  assumes "open_tunnel ca now cert strm h = (h', Inr nid)"
  shows "\<exists>pem k fp n. cert = Some pem \<and> verify_cert ca pem = Inr (k, fp) \<and> node_get k (nh_store h) = Inr n
    \<and> nd_status n \<noteq> NRevoked \<and> nd_fp n = fp \<and> nid = nd_id n \<and> get_connection nid h' = Some strm"
proof -
  from assms obtain pem n where c: "cert = Some pem" "authenticate ca pem h = Inr n" "nid = nd_id n"
    "on_stream_connected now (nd_id n) strm h = (h', None)"
    by (auto simp: open_tunnel_def split: option.splits sum.splits prod.splits)
  have "get_connection nid h' = Some strm"
    using c(3,4) by (auto simp: on_stream_connected_def Let_def get_connection_def register_connection_def node_log_def
        split: sum.splits)
  with c show ?thesis by (auto simp: authenticate_def split: sum.splits prod.splits if_splits)
qed

definition arm_pki :: pki where
  "arm_pki = \<lparr>sign_csr = (\<lambda>_ _ _ _. Inl ErrInvalidCSR), verify_cert = (\<lambda>c. if c = ''pem1'' then Inr (''n1'', ''fp1'') else Inl ErrCertMismatch),
     ca_cert = ''ca''\<rparr>"

theorem tunnel_is_authenticated_witness:
  "\<exists>n. snd (open_tunnel arm_pki 1 (Some ''pem1'') 7 arm_hub) = Inr ''n1'' \<and> node_get ''n1'' (nh_store arm_hub) = Inr n
     \<and> nd_status n \<noteq> NRevoked \<and> get_connection ''n1'' (fst (open_tunnel arm_pki 1 (Some ''pem1'') 7 arm_hub)) = Some 7"
proof -
  let ?r = "open_tunnel arm_pki 1 (Some ''pem1'') 7 arm_hub"
  have "snd ?r = Inr ''n1''" by code_simp
  then have r: "?r = (fst ?r, Inr ''n1'')" by (metis prod.collapse)
  from tunnel_is_authenticated [OF this] have "get_connection ''n1'' (fst ?r) = Some 7" by blast
  with arm_hub_get \<open>snd ?r = Inr ''n1''\<close> show ?thesis by blast
qed

end
