(* ===== verification/Network_Service.thy ===== *)
theory Network_Service
  imports Compute_Service Command_Wire
begin

text \<open>
  Firewall rules and network configuration: \<open>internal/domain/network\<close>,
  \<open>internal/infra/memory/firewall_repo.go\<close> and \<open>internal/app/network/service.go\<close>. The order that
  \<open>sort.Slice\<close> gives to rules of equal priority is part of the argument \<open>srt\<close>.
\<close>

section \<open>Rules and their repository\<close>

record firewall_rule =
  fw_id :: string
  fw_inst :: string
  fw_direction :: string
  fw_action :: string
  fw_protocol :: string
  fw_ports :: string
  fw_source :: string
  fw_dest :: string
  fw_priority :: int
  fw_created :: gtime
  fw_updated :: gtime

record network =
  nw_region :: region
  nw_rules :: "string \<rightharpoonup> firewall_rule"

definition rule_resource :: "firewall_rule \<Rightarrow> resource" where
  "rule_resource f = \<lparr>res_type = ''firewall_rule'', res_id = fw_id f, res_owner = '''', res_location = ''''\<rparr>"

definition rule_create :: "gtime \<Rightarrow> string \<Rightarrow> firewall_rule \<Rightarrow> network \<Rightarrow> network \<times> firewall_rule" where
  "rule_create now uuid f n =
     (let f = (if fw_id f = '''' then f\<lparr>fw_id := uuid\<rparr> else f);
          f = f\<lparr>fw_created := now, fw_updated := now\<rparr>
      in (n\<lparr>nw_rules := (nw_rules n)(fw_id f \<mapsto> f)\<rparr>, f))"

definition rule_get :: "string \<Rightarrow> network \<Rightarrow> firewall_rule result" where
  "rule_get fid n = (case nw_rules n fid of None \<Rightarrow> Inl ErrFirewallRuleNotFound | Some f \<Rightarrow> Inr f)"

definition rules_by_instance ::
  "(firewall_rule list \<Rightarrow> firewall_rule list) \<Rightarrow> string list \<Rightarrow> string \<Rightarrow> network \<Rightarrow> firewall_rule list" where
  "rules_by_instance srt ks iid n = srt (filter (\<lambda>f. fw_inst f = iid) (vals (nw_rules n) ks))"

definition drop_rules :: "string \<Rightarrow> (string \<rightharpoonup> firewall_rule) \<Rightarrow> (string \<rightharpoonup> firewall_rule)" where
  "drop_rules iid m = (\<lambda>k. case m k of None \<Rightarrow> None | Some f \<Rightarrow> if fw_inst f = iid then None else Some f)"

text \<open>The rules are stamped in place; the argument \<open>uid\<close> draws the missing identifiers.\<close>

definition stamp_rules :: "gtime \<Rightarrow> (nat \<Rightarrow> string) \<Rightarrow> string \<Rightarrow> firewall_rule list \<Rightarrow> firewall_rule list" where
  "stamp_rules now uid iid fs =
     map (\<lambda>(i, f). (if fw_id f = '''' then f\<lparr>fw_id := uid i\<rparr> else f)\<lparr>fw_inst := iid, fw_created := now, fw_updated := now\<rparr>)
       (enumerate 0 fs)"

definition replace_instance_rules ::
  "gtime \<Rightarrow> (nat \<Rightarrow> string) \<Rightarrow> string \<Rightarrow> firewall_rule list \<Rightarrow> network \<Rightarrow> network \<times> firewall_rule list" where
  "replace_instance_rules now uid iid fs n =
     (let fs = stamp_rules now uid iid fs
      in (n\<lparr>nw_rules := fold (\<lambda>f m. m(fw_id f \<mapsto> f)) fs (drop_rules iid (nw_rules n))\<rparr>, fs))"

definition rule_delete :: "string \<Rightarrow> network \<Rightarrow> network \<times> go_error option" where
  "rule_delete fid n =
     (if nw_rules n fid = None then (n, Some ErrFirewallRuleNotFound)
      else (n\<lparr>nw_rules := (nw_rules n)(fid := None)\<rparr>, None))"

definition delete_by_instance :: "string \<Rightarrow> network \<Rightarrow> network" where
  "delete_by_instance iid n = n\<lparr>nw_rules := drop_rules iid (nw_rules n)\<rparr>"

section \<open>The service\<close>

record rule_input =
  ri_direction :: string
  ri_action :: string
  ri_protocol :: string
  ri_ports :: string
  ri_source :: string
  ri_dest :: string
  ri_priority :: int

definition or_default :: "string \<Rightarrow> string \<Rightarrow> string" where
  "or_default d s = (if s = '''' then d else s)"

definition rule_of_input :: "gtime \<Rightarrow> string \<Rightarrow> string \<Rightarrow> nat \<Rightarrow> rule_input \<Rightarrow> firewall_rule result" where
  "rule_of_input now uuid iid i inp =
     (let dir = to_lower (ri_direction inp)
      in if dir \<noteq> ''inbound'' \<and> dir \<noteq> ''outbound''
         then Inl (ErrText (''rule #'' @ show_int (int i + 1) @ '' has invalid direction: '' @ ri_direction inp))
         else let act = to_lower (ri_action inp)
         in if act \<noteq> ''allow'' \<and> act \<noteq> ''drop''
         then Inl (ErrText (''rule #'' @ show_int (int i + 1) @ '' has invalid action: '' @ ri_action inp))
         else let proto = or_default ''tcp'' (to_lower (ri_protocol inp))
         in if proto \<noteq> ''tcp'' \<and> proto \<noteq> ''udp'' \<and> proto \<noteq> ''icmp'' \<and> proto \<noteq> ''all'' then Inl ErrInvalidProtocol
         else Inr \<lparr>fw_id = uuid, fw_inst = iid, fw_direction = dir, fw_action = act, fw_protocol = proto,
                   fw_ports = or_default ''any'' (ri_ports inp), fw_source = or_default ''0.0.0.0/0'' (ri_source inp),
                   fw_dest = or_default ''0.0.0.0/0'' (ri_dest inp),
                   fw_priority = (if ri_priority inp \<le> 0 then 100 + int i * 10 else ri_priority inp),
                   fw_created = now, fw_updated = now\<rparr>)"

fun rules_of_inputs :: "gtime \<Rightarrow> (nat \<Rightarrow> string) \<Rightarrow> string \<Rightarrow> nat \<Rightarrow> rule_input list \<Rightarrow> firewall_rule list result" where
  "rules_of_inputs now uid iid i [] = Inr []"
| "rules_of_inputs now uid iid i (inp # inps) =
     (case rule_of_input now (uid i) iid i inp of
        Inl e \<Rightarrow> Inl e
      | Inr f \<Rightarrow> (case rules_of_inputs now uid iid (Suc i) inps of Inl e \<Rightarrow> Inl e | Inr fs \<Rightarrow> Inr (f # fs)))"

definition network_log :: "gtime \<Rightarrow> string \<Rightarrow> subject option \<Rightarrow> string \<Rightarrow> network \<Rightarrow> network" where
  "network_log now action sub iid n = n\<lparr>nw_region := (nw_region n)\<lparr>rg_cloud := (rg_cloud (nw_region n))\<lparr>cl_hub :=
     (cl_hub (rg_cloud (nw_region n)))\<lparr>nh_trails := log_audit now (empty_log\<lparr>al_action := action,
        al_actor := Some (user_of sub), al_rtype := ''instance'', al_rid := Some iid, al_created := now\<rparr>)
        (nh_trails (cl_hub (rg_cloud (nw_region n))))\<rparr>\<rparr>\<rparr>\<rparr>"

text \<open>The lookup and the permission the operations start with.\<close>

definition net_instance :: "subject option \<Rightarrow> string \<Rightarrow> string \<Rightarrow> network \<Rightarrow> inst result" where
  "net_instance sub action iid n =
     (case inst_get iid (rg_insts (nw_region n)) of
        Inl e \<Rightarrow> Inl ErrInstanceNotFound
      | Inr i \<Rightarrow> (case authorize sub action (Some (inst_resource i)) of Some e \<Rightarrow> Inl e | None \<Rightarrow> Inr i))"

definition firewall_payload :: "string \<Rightarrow> inst \<Rightarrow> firewall_rule list \<Rightarrow> gobj" where
  "firewall_payload iid i fs =
     [(''instance_id'', GStr iid), (''instance_name'', GStr (in_name i)), (''rules_count'', GInt (int (length fs)))]"

definition apply_firewall_rules ::
  "gtime \<Rightarrow> reply \<Rightarrow> string \<Rightarrow> (nat \<Rightarrow> string) \<Rightarrow> subject option \<Rightarrow> string \<Rightarrow> rule_input list \<Rightarrow> network \<Rightarrow>
   network \<times> firewall_rule list result" where
  "apply_firewall_rules now rp corr uid sub iid inps n =
     (case net_instance sub ''instance:update'' iid n of
        Inl e \<Rightarrow> (n, Inl e)
      | Inr i \<Rightarrow> (case rules_of_inputs now uid iid 0 inps of
          Inl e \<Rightarrow> (n, Inl e)
        | Inr fs \<Rightarrow>
            let (n, fs) = replace_instance_rules now uid iid fs n;
                n = (if in_node i \<noteq> ''''
                     then n\<lparr>nw_region := fst (ask_node now rp corr (in_node i) ''apply_firewall_rules''
                            (firewall_payload iid i fs) (nw_region n))\<rparr>
                     else n)
            in (network_log now ''instance:firewall:update'' sub iid n, Inr fs)))"

definition list_firewall_rules ::
  "(firewall_rule list \<Rightarrow> firewall_rule list) \<Rightarrow> string list \<Rightarrow> subject option \<Rightarrow> string \<Rightarrow> network \<Rightarrow> firewall_rule list result" where
  "list_firewall_rules srt ks sub iid n =
     (case net_instance sub ''instance:read'' iid n of
        Inl e \<Rightarrow> Inl e | Inr i \<Rightarrow> Inr (rules_by_instance srt ks iid n))"

record net_config =
  nc_iface :: string
  nc_ipv4 :: string
  nc_gw4 :: string
  nc_ipv6 :: string
  nc_gw6 :: string
  nc_mac :: string
  nc_vlan :: int

definition network_payload :: "string \<Rightarrow> inst \<Rightarrow> net_config \<Rightarrow> gobj" where
  "network_payload iid i c =
     [(''instance_id'', GStr iid), (''instance_name'', GStr (in_name i)),
      (''interface_name'', GStr (or_default ''eth0'' (nc_iface c))), (''ipv4_address'', GStr (or_default (in_ipv4 i) (nc_ipv4 c))),
      (''ipv4_gateway'', GStr (nc_gw4 c)), (''ipv6_address'', GStr (or_default (in_ipv6 i) (nc_ipv6 c))),
      (''ipv6_gateway'', GStr (nc_gw6 c)), (''mac_address'', GStr (nc_mac c)), (''vlan_id'', GInt (nc_vlan c))]"

definition configure_network ::
  "gtime \<Rightarrow> reply \<Rightarrow> string \<Rightarrow> subject option \<Rightarrow> string \<Rightarrow> net_config \<Rightarrow> network \<Rightarrow> network \<times> go_error option" where
  "configure_network now rp corr sub iid c n =
     (case net_instance sub ''instance:update'' iid n of
        Inl e \<Rightarrow> (n, Some e)
      | Inr i \<Rightarrow>
          let r = (nw_region n)\<lparr>rg_insts := fst (inst_update_status now (in_id i) (in_status i)
                     (or_default (in_ipv4 i) (nc_ipv4 c)) (or_default (in_ipv6 i) (nc_ipv6 c)) (rg_insts (nw_region n)))\<rparr>;
              (r, e) = (if in_node i \<noteq> ''''
                        then (case ask_node now rp corr (in_node i) ''configure_network'' (network_payload iid i c) r of
                                (r, Inl e) \<Rightarrow> (r, Some e) | (r, Inr _) \<Rightarrow> (r, None))
                        else (r, None))
          in case e of
               Some e \<Rightarrow> (n\<lparr>nw_region := r\<rparr>, Some e)
             | None \<Rightarrow> (network_log now ''instance:network:configure'' sub iid (n\<lparr>nw_region := r\<rparr>), None))"

section \<open>Properties\<close>

lemma network_log_rules [simp]: "nw_rules (network_log now a sub iid n) = nw_rules n"
  by (simp add: network_log_def)

lemma stamp_rules_ids:
  "length (stamp_rules now uid iid fs) = length fs"
  "i < length fs \<Longrightarrow> fw_id (stamp_rules now uid iid fs ! i) = (if fw_id (fs ! i) = [] then uid i else fw_id (fs ! i))"
  "f \<in> set (stamp_rules now uid iid fs) \<Longrightarrow> fw_inst f = iid"
  by (auto simp: stamp_rules_def nth_enumerate_eq split: if_splits)

lemma rules_of_inputs_ids:
  "rules_of_inputs now uid iid k inps = Inr fs \<Longrightarrow> map fw_id fs = map uid [k..<k + length inps] \<and> length fs = length inps"
proof (induction inps arbitrary: k fs)
  case (Cons inp inps)
  from Cons.prems obtain f gs where f: "rule_of_input now (uid k) iid k inp = Inr f"
    "rules_of_inputs now uid iid (Suc k) inps = Inr gs" "fs = f # gs"
    by (auto split: sum.splits)
  have "fw_id f = uid k" using f(1) by (auto simp: rule_of_input_def Let_def split: if_splits)
  with Cons.IH [OF f(2)] f(3) show ?case by (simp add: upt_conv_Cons del: upt_Suc)
qed simp

lemma fold_put_rules:
  assumes "distinct (map fw_id fs)"
  shows "fold (\<lambda>f m. m(fw_id f \<mapsto> f)) fs m k = Some g
    \<longleftrightarrow> g \<in> set fs \<and> fw_id g = k \<or> k \<notin> fw_id ` set fs \<and> m k = Some g"
  using assms
proof (induction fs arbitrary: m)
  case (Cons f fs)
  then show ?case by (auto simp: image_iff)
qed simp

lemma drop_rules_Some: "drop_rules iid m k = Some f \<longleftrightarrow> m k = Some f \<and> fw_inst f \<noteq> iid"
  by (auto simp: drop_rules_def split: option.splits)

text \<open>What a successful application stores.\<close>

lemma apply_firewall_stored:
  assumes "apply_firewall_rules now rp corr uid sub iid inps n = (n', Inr fs)"
    and "inj uid" and "\<And>i. uid i \<noteq> []"
  shows "distinct (map fw_id fs)" "\<forall>f\<in>set fs. fw_inst f = iid \<and> (\<exists>i. fw_id f = uid i)"
    "nw_rules n' = fold (\<lambda>f m. m(fw_id f \<mapsto> f)) fs (drop_rules iid (nw_rules n))"
proof -
  obtain gs where g: "rules_of_inputs now uid iid 0 inps = Inr gs" and fs: "fs = stamp_rules now uid iid gs"
    and r: "nw_rules n' = fold (\<lambda>f m. m(fw_id f \<mapsto> f)) fs (drop_rules iid (nw_rules n))"
    using assms(1)
    by (auto simp: apply_firewall_rules_def replace_instance_rules_def Let_def split: sum.splits if_splits)
  have ids: "map fw_id fs = map uid [0..<length inps]"
  proof (rule nth_equalityI)
    note gi = rules_of_inputs_ids [OF g]
    then show "length (map fw_id fs) = length (map uid [0..<length inps])" by (simp add: fs stamp_rules_ids(1))
    fix i
    assume i: "i < length (map fw_id fs)"
    then have "i < length gs" by (simp add: fs stamp_rules_ids(1))
    moreover from gi this have "fw_id (gs ! i) = uid i" by (metis add_0 length_map nth_map nth_upt)
    ultimately show "map fw_id fs ! i = map uid [0..<length inps] ! i"
      using i gi by (simp add: fs stamp_rules_ids assms(3))
  qed
  show "distinct (map fw_id fs)" using assms(2) by (simp add: ids distinct_map inj_on_def inj_def)
  have "fw_id f \<in> set (map uid [0..<length inps])" if "f \<in> set fs" for f using that ids by (metis image_eqI set_map)
  then show "\<forall>f\<in>set fs. fw_inst f = iid \<and> (\<exists>i. fw_id f = uid i)"
    using stamp_rules_ids(3) fs by fastforce
  show "nw_rules n' = fold (\<lambda>f m. m(fw_id f \<mapsto> f)) fs (drop_rules iid (nw_rules n))" by (rule r)
qed

text \<open>
  C40. Applying firewall rules replaces the rules of the instance by exactly the given ones and
  leaves those of every other instance alone: a later listing returns exactly them, and the lists
  of other instances are as before.
\<close>

theorem firewall_rules_replaced:
  assumes "apply_firewall_rules now rp corr uid sub iid inps n = (n', Inr fs)"
    and "inj uid" and "\<And>i. uid i \<noteq> []" and "\<And>i. nw_rules n (uid i) = None"
    and "\<And>xs. set (srt xs) = set xs" and "iterates (nw_rules n) ks" and "iterates (nw_rules n') ks'"
  shows "set (rules_by_instance srt ks' iid n') = set fs
    \<and> (j \<noteq> iid \<longrightarrow> set (rules_by_instance srt ks' j n') = set (rules_by_instance srt ks j n))"
proof -
  note st = apply_firewall_stored [OF assms(1-3)]
  have m: "nw_rules n' k = Some f \<longleftrightarrow> f \<in> set fs \<and> fw_id f = k \<or> nw_rules n k = Some f \<and> fw_inst f \<noteq> iid" for k f
    unfolding st(3) using st(2) assms(4) by (auto simp: fold_put_rules [OF st(1)] drop_rules_Some)
  have v: "f \<in> set (rules_by_instance srt ks x w) \<longleftrightarrow> fw_inst f = x \<and> (\<exists>k. nw_rules w k = Some f)"
    if "iterates (nw_rules w) ks" for f ks x w
    using that by (auto simp: rules_by_instance_def assms(5) set_vals iterates_def)
  show ?thesis using st(2) by (auto simp: v [OF assms(6)] v [OF assms(7)] m)
qed

text \<open>A machine without a node, its owner, and a rule of its own before.\<close>

definition net_vm :: inst where
  "net_vm = \<lparr>in_id = ''i1'', in_user = ''alice'', in_node = [], in_name = ''web'', in_type = Container, in_status = IStopped,
     in_cpu = 1, in_mem = gib, in_storage = gib, in_image = ''img'', in_ipv4 = [], in_ipv6 = [], in_config = [],
     in_created = 0, in_updated = 0\<rparr>"

definition net_owner :: "string \<Rightarrow> subject" where
  "net_owner u = \<lparr>sub_type = ''user'', sub_id = u, sub_user = u, sub_username = u, sub_email = [], sub_roles = [''user''],
     sub_permissions = [''instance:read'', ''instance:update''], sub_scopes = []\<rparr>"

definition ssh_input :: rule_input where
  "ssh_input = \<lparr>ri_direction = ''Inbound'', ri_action = ''allow'', ri_protocol = [], ri_ports = ''22'', ri_source = [],
     ri_dest = [], ri_priority = 0\<rparr>"

definition tally :: "nat \<Rightarrow> string" where
  "tally i = replicate (Suc i) (CHR ''r'')"

definition sample_net :: network where
  "sample_net = \<lparr>nw_region = (sample_region sample_billing)\<lparr>rg_insts := fst (inst_create net_vm empty_insts)\<rparr>,
     nw_rules = Map.empty\<rparr>"

abbreviation apply_ssh :: "network \<times> firewall_rule list result" where
  "apply_ssh \<equiv> apply_firewall_rules 1 \<lparr>rp_sent = None, rp_results = []\<rparr> ''c'' tally (Some (net_owner ''alice'')) ''i1''
     [ssh_input] sample_net"

lemma tally_inj: "inj tally" "tally i \<noteq> []"
  by (auto simp: tally_def inj_def)

theorem firewall_rules_replaced_witness:
  "\<exists>fs. snd apply_ssh = Inr fs \<and> set (rules_by_instance id [''r''] ''i1'' (fst apply_ssh)) = set fs \<and> fs \<noteq> []"
proof -
  have a: "case snd apply_ssh of Inr [f] \<Rightarrow> fw_id f = ''r'' | _ \<Rightarrow> False" by code_simp
  then obtain fs where s: "apply_ssh = (fst apply_ssh, Inr fs)" "fs \<noteq> []" "map fw_id fs = [''r'']"
    by (auto split: sum.splits list.splits simp: prod_eq_iff)
  note st = apply_firewall_stored [OF s(1) tally_inj]
  have e: "nw_rules sample_net = Map.empty" by (simp add: sample_net_def)
  obtain f where f: "fs = [f]" "fw_id f = ''r''" using s(3) by auto
  have "nw_rules (fst apply_ssh) = [''r'' \<mapsto> f]"
    unfolding st(3) by (auto simp: f e drop_rules_def)
  then have i: "iterates (nw_rules (fst apply_ssh)) [''r'']" by (simp add: iterates_def)
  have i0: "iterates (nw_rules sample_net) []" by (simp add: e)
  have "set (rules_by_instance id [''r''] ''i1'' (fst apply_ssh)) = set fs"
    using firewall_rules_replaced [OF s(1) tally_inj _ _ i0 i, of id "''i1''"] by (simp add: e)
  with s show ?thesis by (metis snd_conv)
qed

text \<open>
  The rules never reach the node: whatever rules are applied, the message the gateway writes
  for the command names the instance and carries no rule.
\<close>

theorem firewall_rules_never_sent:
  "wire_payload js ''apply_firewall_rules'' (firewall_payload iid i fs) = Inr (ApplyFirewallRulesCommand iid (in_name i) [])"
  by (simp add: wire_payload_def firewall_payload_def text_at_def at_key_def)

text \<open>
  The network of an instance is closed to strangers: whoever is neither staff nor the owner
  can neither read nor replace its rules nor configure its interfaces, and nothing changes.
\<close>

theorem network_tenant_isolation:
  assumes "inst_get iid (rg_insts (nw_region n)) = Inr i" and "stranger s (in_user i)"
  shows "fst (apply_firewall_rules now rp corr uid (Some s) iid inps n) = n
    \<and> denied (snd (apply_firewall_rules now rp corr uid (Some s) iid inps n))
    \<and> denied (list_firewall_rules srt ks (Some s) iid n)
    \<and> fst (configure_network now rp corr (Some s) iid c n) = n
    \<and> refused (snd (configure_network now rp corr (Some s) iid c n))"
proof -
  have "stranger s (res_owner (inst_resource i))" using assms(2) by (simp add: inst_resource_def)
  then have d: "\<exists>e. net_instance (Some s) a iid n = Inl e \<and> access_error e" for a
    using authorize_stranger [of s "inst_resource i" a] assms(1) by (auto simp: net_instance_def)
  from d [of "''instance:update''"] d [of "''instance:read''"] show ?thesis
    by (auto simp: apply_firewall_rules_def list_firewall_rules_def configure_network_def denied_def refused_def)
qed

theorem network_tenant_isolation_witness:
  "denied (list_firewall_rules id [] (Some (net_owner ''mallory'')) ''i1'' sample_net)"
proof -
  have g: "inst_get ''i1'' (rg_insts (nw_region sample_net)) = Inr net_vm"
    by (simp add: sample_net_def inst_create_def empty_insts_def inst_get_def inst_deref_def net_vm_def Let_def)
  have "stranger (net_owner ''mallory'') (in_user net_vm)"
    by (simp add: stranger_def net_owner_def net_vm_def is_superadmin_iff is_admin_or_operator_def)
  from network_tenant_isolation [OF g this] show ?thesis by blast
qed

end
