(* ===== verification/Migration_Service.thy ===== *)
theory Migration_Service
  imports Compute_Service Command_Wire
begin

text \<open>
  Migration and evacuation: \<open>internal/domain/migration/migration.go\<close>,
  \<open>internal/infra/memory/migration_repo.go\<close>, \<open>internal/app/migration/service.go\<close> and
  \<open>internal/app/evacuation/service.go\<close>. \<open>Migrate\<close> returns the record and leaves the work to a
  goroutine, the operation \<open>execute_migration\<close>; the replies of the nodes and the correlation
  identifiers are functions of the command type, as one execution sends each type at most once.
  The event and audit sinks are those of \<open>main.go\<close>, present.
  The repositories and the scheduler in memory return no error of their own.
\<close>

section \<open>Data\<close>

datatype mig_status =
    MigPending | MigValidating | MigReserving | MigTransferring | MigVerifying | MigCompleted | MigFailed | MigCanceled
  | MigRolledBack

definition mig_terminal :: "mig_status \<Rightarrow> bool" where
  "mig_terminal s \<longleftrightarrow> s = MigCompleted \<or> s = MigFailed \<or> s = MigCanceled \<or> s = MigRolledBack"

datatype mig_type = MigLive | MigCold | MigOther string

record preflight =
  pf_arch :: bool
  pf_image :: bool
  pf_storage :: bool
  pf_network :: bool
  pf_healthy :: bool
  pf_cpu_ok :: bool
  pf_mem_ok :: bool
  pf_storage_ok :: bool
  pf_reason :: string

definition passed :: "preflight \<Rightarrow> bool" where
  "passed p \<longleftrightarrow> pf_arch p \<and> pf_image p \<and> pf_storage p \<and> pf_network p \<and> pf_healthy p \<and> pf_cpu_ok p \<and> pf_mem_ok p
     \<and> pf_storage_ok p \<and> pf_reason p = ''''"

record migration =
  mg_id :: string
  mg_tenant :: string
  mg_inst :: string
  mg_source :: string
  mg_dest :: string
  mg_type :: mig_type
  mg_status :: mig_status
  mg_preflight :: preflight
  mg_progress :: int
  mg_transferred :: int
  mg_total :: int
  mg_error :: string
  mg_started :: "gtime option"
  mg_completed :: "gtime option"
  mg_created :: gtime
  mg_updated :: gtime

definition migration_resource :: "migration \<Rightarrow> resource" where
  "migration_resource m = \<lparr>res_type = ''migration'', res_id = mg_id m, res_owner = mg_tenant m, res_location = ''''\<rparr>"

record movement =
  mv_region :: region
  mv_migs :: "string \<rightharpoonup> migration"

section \<open>Repository\<close>

definition mig_create :: "gtime \<Rightarrow> string \<Rightarrow> migration \<Rightarrow> movement \<Rightarrow> movement \<times> migration" where
  "mig_create now uuid m v =
     (let m = (if mg_id m = '''' then m\<lparr>mg_id := uuid\<rparr> else m);
          m = (if mg_created m = zero_time then m\<lparr>mg_created := now\<rparr> else m);
          m = m\<lparr>mg_updated := now\<rparr>
      in (v\<lparr>mv_migs := (mv_migs v)(mg_id m \<mapsto> m)\<rparr>, m))"

definition mig_get :: "string \<Rightarrow> movement \<Rightarrow> migration result" where
  "mig_get mid v = (case mv_migs v mid of None \<Rightarrow> Inl ErrMigrationNotFound | Some m \<Rightarrow> Inr m)"

definition active_for_instance :: "string list \<Rightarrow> string \<Rightarrow> movement \<Rightarrow> migration option" where
  "active_for_instance ks iid v =
     List.find (\<lambda>m. mg_inst m = iid \<and> \<not> mig_terminal (mg_status m)) (vals (mv_migs v) ks)"

record mig_filter =
  mf_tenant :: string
  mf_inst :: string
  mf_source :: string
  mf_dest :: string
  mf_status :: "mig_status option"
  mf_limit :: int
  mf_offset :: int

definition mig_matches :: "mig_filter \<Rightarrow> migration \<Rightarrow> bool" where
  "mig_matches f m \<longleftrightarrow> (mf_tenant f = '''' \<or> mg_tenant m = mf_tenant f) \<and> (mf_inst f = '''' \<or> mg_inst m = mf_inst f)
     \<and> (mf_source f = '''' \<or> mg_source m = mf_source f) \<and> (mf_dest f = '''' \<or> mg_dest m = mf_dest f)
     \<and> (mf_status f = None \<or> mf_status f = Some (mg_status m))"

definition mig_list ::
  "(migration list \<Rightarrow> migration list) \<Rightarrow> string list \<Rightarrow> mig_filter \<Rightarrow> movement \<Rightarrow> (migration list \<times> int) result" where
  "mig_list srt ks f v =
     (let ms = srt (filter (mig_matches f) (vals (mv_migs v) ks))
      in map_sum id (\<lambda>page. (page, int (length ms))) (slice_page (mf_offset f) (mf_limit f) ms))"

definition mig_update_status ::
  "gtime \<Rightarrow> string \<Rightarrow> mig_status \<Rightarrow> int \<Rightarrow> string \<Rightarrow> movement \<Rightarrow> movement \<times> go_error option" where
  "mig_update_status now mid s progress err v =
     (case mv_migs v mid of
        None \<Rightarrow> (v, Some ErrMigrationNotFound)
      | Some m \<Rightarrow>
          let m = m\<lparr>mg_status := s, mg_progress := progress, mg_error := err, mg_updated := now\<rparr>;
              m = (if s = MigTransferring \<and> mg_started m = None then m\<lparr>mg_started := Some now\<rparr> else m);
              m = (if mig_terminal s \<and> mg_completed m = None then m\<lparr>mg_completed := Some now\<rparr> else m)
          in (v\<lparr>mv_migs := (mv_migs v)(mid \<mapsto> m)\<rparr>, None))"

definition mig_update_progress ::
  "gtime \<Rightarrow> string \<Rightarrow> int \<Rightarrow> int \<Rightarrow> int \<Rightarrow> movement \<Rightarrow> movement \<times> go_error option" where
  "mig_update_progress now mid progress transferred whole v =
     (case mv_migs v mid of
        None \<Rightarrow> (v, Some ErrMigrationNotFound)
      | Some m \<Rightarrow> (v\<lparr>mv_migs := (mv_migs v)(mid \<mapsto> m\<lparr>mg_progress := progress, mg_transferred := transferred,
                       mg_total := whole, mg_updated := now\<rparr>)\<rparr>, None))"

section \<open>Preflight\<close>

definition plain_request :: "inst \<Rightarrow> string list \<Rightarrow> placement_request" where
  "plain_request i excl =
     \<lparr>pr_name = '''', pr_type = in_type i, pr_cpu = in_cpu i, pr_mem = in_mem i, pr_storage = in_storage i, pr_arch = '''',
      pr_location = '''', pr_preferred = '''', pr_exclude = excl, pr_features = []\<rparr>"

definition declared_arch :: "node \<Rightarrow> string" where
  "declared_arch n = (case nd_caps n of None \<Rightarrow> ''''
     | Some caps \<Rightarrow> (case get_str caps ''architecture'' of None \<Rightarrow> '''' | Some a \<Rightarrow> a))"

definition bool_text :: "bool \<Rightarrow> string" where
  "bool_text b = (if b then ''true'' else ''false'')"

definition blank_preflight :: "bool \<Rightarrow> preflight" where
  "blank_preflight healthy = \<lparr>pf_arch = True, pf_image = True, pf_storage = True, pf_network = True, pf_healthy = healthy,
     pf_cpu_ok = False, pf_mem_ok = False, pf_storage_ok = False, pf_reason = ''''\<rparr>"

definition capacity_check :: "string \<Rightarrow> inst \<Rightarrow> candidate list \<Rightarrow> preflight \<Rightarrow> preflight" where
  "capacity_check dest i cs p =
     (case List.find (\<lambda>c. nd_id (cd_node c) = dest) cs of
        None \<Rightarrow> p
      | Some c \<Rightarrow>
          let p = p\<lparr>pf_cpu_ok := f_of_int (in_cpu i) \<le> cd_cpu c, pf_mem_ok := in_mem i \<le> wrap64 (cd_mem c * mib),
                    pf_storage_ok := in_storage i \<le> wrap64 (cd_storage c * gib)\<rparr>
          in if \<not> cd_eligible c then p\<lparr>pf_reason := cd_reason c\<rparr> else p)"

definition preflight_check :: "string list \<Rightarrow> string list \<Rightarrow> string \<Rightarrow> string \<Rightarrow> region \<Rightarrow> preflight result" where
  "preflight_check nks iks iid dest r =
     (case inst_get iid (rg_insts r) of
        Inl e \<Rightarrow> Inl e
      | Inr i \<Rightarrow>
     (case node_get dest (nh_store (cl_hub (rg_cloud r))) of
        Inl e \<Rightarrow> Inl e
      | Inr dn \<Rightarrow>
          let p = blank_preflight (is_schedulable dn)
          in if \<not> is_schedulable dn
             then Inr (p\<lparr>pf_reason := ''destination node '' @ nd_name dn @ '' is not schedulable (status: ''
                     @ status_text (nd_status dn) @ '', maintenance: '' @ bool_text (nd_maintenance dn) @ '', drain: ''
                     @ bool_text (nd_drain dn) @ '')''\<rparr>)
             else let clash = (case node_get (in_node i) (nh_store (cl_hub (rg_cloud r))) of
                                 Inl e \<Rightarrow> None
                               | Inr sn \<Rightarrow>
                                   if nd_caps sn \<noteq> None \<and> nd_caps dn \<noteq> None \<and> declared_arch sn \<noteq> '''' \<and> declared_arch dn \<noteq> ''''
                                      \<and> declared_arch sn \<noteq> declared_arch dn
                                   then Some (declared_arch sn, declared_arch dn) else None)
                  in case clash of
                       Some (a, b) \<Rightarrow> Inr (p\<lparr>pf_arch := False,
                          pf_reason := ''architecture mismatch (source: '' @ a @ '', destination: '' @ b @ '')''\<rparr>)
                     | None \<Rightarrow> Inr (capacity_check dest i
                          (evaluate_candidates nks iks (plain_request i []) (nh_store (cl_hub (rg_cloud r))) (rg_insts r)) p)))"

section \<open>Starting a migration\<close>

text \<open>The check the operations share: no subject and superadmins pass.\<close>

definition mig_access :: "subject option \<Rightarrow> string \<Rightarrow> resource \<Rightarrow> go_error option" where
  "mig_access sub action res =
     (case sub of None \<Rightarrow> None | Some s \<Rightarrow> if is_superadmin s then None else authorize sub action (Some res))"

record mig_orders =
  mo_nodes :: "string list"
  mo_insts :: "string list"
  mo_migs :: "string list"

definition new_migration :: "gtime \<Rightarrow> string \<Rightarrow> inst \<Rightarrow> string \<Rightarrow> mig_type option \<Rightarrow> preflight \<Rightarrow> migration" where
  "new_migration now uuid i dest ty p =
     \<lparr>mg_id = uuid, mg_tenant = in_user i, mg_inst = in_id i, mg_source = in_node i, mg_dest = dest,
      mg_type = (case ty of None \<Rightarrow> MigCold | Some t \<Rightarrow> t), mg_status = MigReserving, mg_preflight = p, mg_progress = 0,
      mg_transferred = 0, mg_total = 0, mg_error = [], mg_started = None, mg_completed = None, mg_created = now,
      mg_updated = now\<rparr>"

definition migrate ::
  "(candidate list \<Rightarrow> candidate list) \<Rightarrow> mig_orders \<Rightarrow> gtime \<Rightarrow> string \<Rightarrow> subject option \<Rightarrow> string \<Rightarrow> string \<Rightarrow> mig_type option \<Rightarrow>
   movement \<Rightarrow> movement \<times> (migration \<times> inst) result" where
  "migrate srt ord now uuid sub iid dest ty v =
     (let r = mv_region v
      in case inst_get iid (rg_insts r) of
        Inl e \<Rightarrow> (v, Inl e)
      | Inr i \<Rightarrow>
     (case mig_access sub ''migration:manage'' (inst_resource i) of
        Some e \<Rightarrow> (v, Inl e)
      | None \<Rightarrow>
          if active_for_instance (mo_migs ord) (in_id i) v \<noteq> None then (v, Inl ErrMigrationInProgress)
          else (case (if dest = ''''
                      then map_sum id (\<lambda>d. nd_id (dc_node d)) (select_node srt (mo_nodes ord) (mo_insts ord)
                             (plain_request i [in_node i]) (nh_store (cl_hub (rg_cloud r))) (rg_insts r))
                      else Inr dest) of
                  Inl e \<Rightarrow> (v, Inl e)
                | Inr dest \<Rightarrow>
                    if dest = in_node i
                    then (v, Inl (ErrText ''destination node must be different from source node''))
                    else (case preflight_check (mo_nodes ord) (mo_insts ord) (in_id i) dest r of
                            Inl e \<Rightarrow> (v, Inl e)
                          | Inr p \<Rightarrow>
                              if \<not> passed p then (v, Inl ErrPreflightCheckFailed)
                              else let (v, m) = mig_create now uuid (new_migration now uuid i dest ty p) v
                                   in (v, Inr (m, i))))))"

section \<open>Executing a migration\<close>

definition mig_command :: "string \<Rightarrow> inst \<Rightarrow> gobj" where
  "mig_command ty i =
     (if ty = ''stop_instance'' then [(''instanceName'', GStr (in_name i)), (''force'', GBool False)]
      else if ty = ''create_instance'' then
        [(''instanceName'', GStr (in_name i)), (''instanceType'', GStr (type_text (in_type i))), (''cpuCores'', GInt (in_cpu i)),
         (''memoryBytes'', GInt (in_mem i)), (''storageBytes'', GInt (in_storage i)), (''image'', GStr (in_image i)),
         (''startAfterCreate'', GBool (in_status i = IRunning))]
      else if ty = ''start_instance'' then [(''instanceName'', GStr (in_name i))]
      else [(''instanceName'', GStr (in_name i)), (''force'', GBool True)])"

text \<open>
  The execution runs under the background context, which has no deadline: \<open>SendCommand\<close> to a
  connected node waits for the result of this command, and without one it never returns. That is
  the outcome \<open>None\<close>, with the state as it is during the wait.
\<close>

definition mig_ask ::
  "gtime \<Rightarrow> (string \<Rightarrow> reply) \<Rightarrow> (string \<Rightarrow> string) \<Rightarrow> string \<Rightarrow> string \<Rightarrow> inst \<Rightarrow> movement \<Rightarrow>
   movement \<times> command_result result option" where
  "mig_ask now rps corr nid ty i v =
     (let r = mv_region v;
          (h, x) = (case send_command now (corr ty) (rp_sent (rps ty)) nid
                       \<lparr>cmd_corr = corr ty, cmd_type = ty, cmd_payload = mig_command ty i, cmd_created = zero_time\<rparr>
                       (cl_hub (rg_cloud r)) of
                      (h, Inl err) \<Rightarrow> (h, Some (Inl err))
                    | (h, Inr (k, strm)) \<Rightarrow> dispatch_finish k None (fold handle_command_result (rp_results (rps ty)) h))
      in (v\<lparr>mv_region := r\<lparr>rg_cloud := (rg_cloud r)\<lparr>cl_hub := h\<rparr>\<rparr>\<rparr>, x))"

definition mig_trail :: "gtime \<Rightarrow> migration \<Rightarrow> inst \<Rightarrow> movement \<Rightarrow> movement" where
  "mig_trail now m i v =
     (let d = [(''migrationId'', GStr (mg_id m)), (''sourceNodeId'', GStr (mg_source m)), (''destNodeId'', GStr (mg_dest m))];
          h = cl_hub (rg_cloud (mv_region v));
          t = publish \<lparr>ev_tenant = in_user i, ev_type = ''instance.migrated'', ev_rtype = ''instance'', ev_rid = in_id i,
                ev_actor = '''', ev_payload = d\<rparr> (nh_trails h);
          t = log_audit now (empty_log\<lparr>al_actor := Some (in_user i), al_action := ''instance.migrated'', al_rtype := ''instance'',
                al_rid := Some (in_id i), al_details := d, al_created := now\<rparr>) t
      in v\<lparr>mv_region := (mv_region v)\<lparr>rg_cloud := (rg_cloud (mv_region v))\<lparr>cl_hub := h\<lparr>nh_trails := t\<rparr>\<rparr>\<rparr>\<rparr>)"

text \<open>The parts of an execution; the flag says whether the part returned.\<close>

definition stop_source ::
  "gtime \<Rightarrow> (string \<Rightarrow> reply) \<Rightarrow> (string \<Rightarrow> string) \<Rightarrow> migration \<Rightarrow> inst \<Rightarrow> movement \<Rightarrow> movement \<times> bool" where
  "stop_source now rps corr m i v =
     (let v = fst (mig_update_status now (mg_id m) MigTransferring 20 '''' v)
      in if mg_type m = MigCold \<and> in_status i = IRunning
         then let (v, x) = mig_ask now rps corr (mg_source m) ''stop_instance'' i v in (v, x \<noteq> None)
         else (v, True))"

definition roll_back ::
  "gtime \<Rightarrow> (string \<Rightarrow> reply) \<Rightarrow> (string \<Rightarrow> string) \<Rightarrow> string \<Rightarrow> migration \<Rightarrow> inst \<Rightarrow> movement \<Rightarrow> movement \<times> bool" where
  "roll_back now rps corr msg m i v =
     (let v = fst (mig_update_status now (mg_id m) MigRolledBack 0 msg v)
      in if in_status i = IRunning
         then let (v, x) = mig_ask now rps corr (mg_source m) ''start_instance'' i v in (v, x \<noteq> None)
         else (v, True))"

definition move_over ::
  "gtime \<Rightarrow> (string \<Rightarrow> reply) \<Rightarrow> (string \<Rightarrow> string) \<Rightarrow> migration \<Rightarrow> inst \<Rightarrow> movement \<Rightarrow> movement \<times> bool" where
  "move_over now rps corr m i v =
     (let v = fst (mig_update_status now (mg_id m) MigVerifying 80 '''' v);
          is = fst (inst_update_node now (in_id i) (mg_dest m) (rg_insts (mv_region v)));
          is = (if in_status i = IRunning then fst (inst_update_status now (in_id i) IRunning (in_ipv4 i) (in_ipv6 i) is) else is);
          v = v\<lparr>mv_region := (mv_region v)\<lparr>rg_insts := is\<rparr>\<rparr>
      in case mig_ask now rps corr (mg_source m) ''delete_instance'' i v of
           (v, None) \<Rightarrow> (v, False)
         | (v, Some x) \<Rightarrow> (mig_trail now m i (fst (mig_update_status now (mg_id m) MigCompleted 100 '''' v)), True))"

definition execute_migration ::
  "gtime \<Rightarrow> (string \<Rightarrow> reply) \<Rightarrow> (string \<Rightarrow> string) \<Rightarrow> (go_error \<Rightarrow> string) \<Rightarrow> migration \<Rightarrow> inst \<Rightarrow> movement \<Rightarrow> movement \<times> bool" where
  "execute_migration now rps corr msg m i v =
     (case stop_source now rps corr m i v of
        (v, False) \<Rightarrow> (v, False)
      | (v, True) \<Rightarrow>
          let v = fst (mig_update_progress now (mg_id m) 50 (quot (in_storage i) 2) (in_storage i) v)
          in case mig_ask now rps corr (mg_dest m) ''create_instance'' i v of
               (v, None) \<Rightarrow> (v, False)
             | (v, Some (Inl e)) \<Rightarrow> roll_back now rps corr (msg e) m i v
             | (v, Some (Inr res)) \<Rightarrow> move_over now rps corr m i v)"

definition get_migration :: "subject option \<Rightarrow> string \<Rightarrow> movement \<Rightarrow> migration result" where
  "get_migration sub mid v =
     (case mig_get mid v of
        Inl e \<Rightarrow> Inl e
      | Inr m \<Rightarrow> (case mig_access sub ''migration:read'' (migration_resource m) of Some e \<Rightarrow> Inl e | None \<Rightarrow> Inr m))"

definition list_migrations ::
  "(migration list \<Rightarrow> migration list) \<Rightarrow> string list \<Rightarrow> subject option \<Rightarrow> mig_filter \<Rightarrow> movement \<Rightarrow> (migration list \<times> int) result" where
  "list_migrations srt ks sub f v =
     mig_list srt ks (case sub of None \<Rightarrow> f | Some s \<Rightarrow> if is_superadmin s then f else f\<lparr>mf_tenant := sub_user s\<rparr>) v"

section \<open>Evacuation\<close>

definition mv_hub :: "(node_hub \<Rightarrow> node_hub) \<Rightarrow> movement \<Rightarrow> movement" where
  "mv_hub f v = v\<lparr>mv_region := (mv_region v)\<lparr>rg_cloud := (rg_cloud (mv_region v))\<lparr>cl_hub := f (cl_hub (rg_cloud (mv_region v)))\<rparr>\<rparr>\<rparr>"

definition drain_node :: "gtime \<Rightarrow> subject option \<Rightarrow> string \<Rightarrow> bool \<Rightarrow> movement \<Rightarrow> movement \<times> go_error option" where
  "drain_node now sub nid drain v =
     (case node_get nid (nh_store (cl_hub (rg_cloud (mv_region v)))) of
        Inl e \<Rightarrow> (v, Some e)
      | Inr n \<Rightarrow>
     (case mig_access sub ''node:drain'' (node_resource n) of
        Some e \<Rightarrow> (v, Some e)
      | None \<Rightarrow>
     (case update_drain_mode now nid drain (nh_store (cl_hub (rg_cloud (mv_region v)))) of
        (st, Some e) \<Rightarrow> (mv_hub (\<lambda>h. h\<lparr>nh_store := st\<rparr>) v, Some e)
      | (st, None) \<Rightarrow>
          let v = mv_hub (\<lambda>h. h\<lparr>nh_store := st\<rparr>) v
          in case sub of
               None \<Rightarrow> (v, Some Panic)
             | Some s \<Rightarrow> (mv_hub (\<lambda>h. h\<lparr>nh_trails := log_audit now (empty_log\<lparr>al_actor := Some (sub_user s),
                   al_action := ''node.drain_mode_updated'', al_rtype := ''node'', al_rid := Some nid,
                   al_details := [(''drainMode'', GBool drain)], al_created := now\<rparr>) (nh_trails h)\<rparr>) v, None))))"

record evacuation =
  ec_node :: string
  ec_total :: int
  ec_migrated :: int
  ec_failed :: int
  ec_migs :: "(migration \<times> inst) list"
  ec_errors :: "(string \<times> string \<times> go_error) list"

text \<open>The loop over the instances of the node; \<open>uid\<close> draws the identifiers of the migrations.\<close>

fun evacuate_loop ::
  "(candidate list \<Rightarrow> candidate list) \<Rightarrow> (nat \<Rightarrow> mig_orders) \<Rightarrow> gtime \<Rightarrow> (nat \<Rightarrow> string) \<Rightarrow> subject option \<Rightarrow> string \<Rightarrow> nat \<Rightarrow>
   inst list \<Rightarrow> evacuation \<Rightarrow> movement \<Rightarrow> movement \<times> evacuation" where
  "evacuate_loop srt ord now uid sub dest k [] ec v = (v, ec)"
| "evacuate_loop srt ord now uid sub dest k (i # is) ec v =
     (if in_status i = IDeleted then evacuate_loop srt ord now uid sub dest (Suc k) is ec v
      else case migrate srt (ord k) now (uid k) sub (in_id i) dest (Some MigCold) v of
             (v, Inl e) \<Rightarrow> evacuate_loop srt ord now uid sub dest (Suc k) is
                (ec\<lparr>ec_failed := ec_failed ec + 1, ec_errors := ec_errors ec @ [(in_name i, in_id i, e)]\<rparr>) v
           | (v, Inr m) \<Rightarrow> evacuate_loop srt ord now uid sub dest (Suc k) is
                (ec\<lparr>ec_migrated := ec_migrated ec + 1, ec_migs := ec_migs ec @ [m]\<rparr>) v)"

definition evacuate_node ::
  "(candidate list \<Rightarrow> candidate list) \<Rightarrow> (nat \<Rightarrow> mig_orders) \<Rightarrow> string list \<Rightarrow> gtime \<Rightarrow> (nat \<Rightarrow> string) \<Rightarrow> subject option \<Rightarrow>
   string \<Rightarrow> string \<Rightarrow> movement \<Rightarrow> movement \<times> evacuation result" where
  "evacuate_node srt ord iks now uid sub nid dest v =
     (case node_get nid (nh_store (cl_hub (rg_cloud (mv_region v)))) of
        Inl e \<Rightarrow> (v, Inl e)
      | Inr n \<Rightarrow>
     (case mig_access sub ''node:evacuate'' (node_resource n) of
        Some e \<Rightarrow> (v, Inl e)
      | None \<Rightarrow>
          let v = mv_hub (\<lambda>h. h\<lparr>nh_store := fst (update_drain_mode now nid True (nh_store h))\<rparr>) v;
              is = inst_by_node nid iks (rg_insts (mv_region v));
              (v, ec) = evacuate_loop srt ord now uid sub dest 0 is
                \<lparr>ec_node = nid, ec_total = int (length is), ec_migrated = 0, ec_failed = 0, ec_migs = [], ec_errors = []\<rparr> v
          in (mv_hub (\<lambda>h. h\<lparr>nh_trails := publish \<lparr>ev_tenant = ''system'', ev_type = ''node.evacuated'', ev_rtype = ''node'',
                ev_rid = nid, ev_actor = '''', ev_payload = [(''totalWorkloads'', GInt (ec_total ec)),
                  (''migratedCount'', GInt (ec_migrated ec)), (''failedCount'', GInt (ec_failed ec))]\<rparr> (nh_trails h)\<rparr>) v, Inr ec)))"

end
