(* ===== verification/Migration_Safety.thy ===== *)
theory Migration_Safety
  imports Migration_Service Node_Gateway
begin

text \<open>
  What migrations guarantee: an execution ends with the instance on one node, the old or the new,
  and the record saying which; an instance has one active migration at most; a destination was
  schedulable and had the capacity when the migration started; an evacuation accounts for every
  instance. The exceptions: an execution waits for a silent node for ever and blocks the instance,
  nothing is reserved, and the commands of a migration name their fields differently from the
  gateway, which sends messages without name and size.
\<close>

section \<open>Frame lemmas\<close>

lemma mig_update_region [simp]:
  "mv_region (fst (mig_update_status now mid s p e v)) = mv_region v"
  "mv_region (fst (mig_update_progress now mid p t w v)) = mv_region v"
  by (simp_all add: mig_update_status_def mig_update_progress_def Let_def split: option.splits)

lemma mig_ask_keeps [simp]:
  "mv_migs (fst (mig_ask now rps corr nid ty i v)) = mv_migs v"
  "rg_insts (mv_region (fst (mig_ask now rps corr nid ty i v))) = rg_insts (mv_region v)"
  by (simp_all add: mig_ask_def Let_def case_prod_beta)

lemma mig_trail_keeps [simp]:
  "mv_migs (mig_trail now m i v) = mv_migs v" "rg_insts (mv_region (mig_trail now m i v)) = rg_insts (mv_region v)"
  by (simp_all add: mig_trail_def Let_def)

lemma mv_hub_keeps [simp]:
  "mv_migs (mv_hub f v) = mv_migs v" "rg_insts (mv_region (mv_hub f v)) = rg_insts (mv_region v)"
  by (simp_all add: mv_hub_def)

text \<open>Both updates change one record, and neither its instance nor its ends.\<close>

definition same_move :: "migration \<Rightarrow> migration \<Rightarrow> bool" where
  "same_move m m' \<longleftrightarrow> mg_id m' = mg_id m \<and> mg_inst m' = mg_inst m \<and> mg_source m' = mg_source m \<and> mg_dest m' = mg_dest m"

lemma same_move_refl [simp]: "same_move m m"
  by (simp add: same_move_def)

lemma same_move_trans: "same_move a b \<Longrightarrow> same_move b c \<Longrightarrow> same_move a c"
  by (simp add: same_move_def)

lemma mig_update_status_at:
  assumes "mv_migs v mid = Some m"
  shows "\<exists>m'. mv_migs (fst (mig_update_status now mid s p e v)) = (mv_migs v)(mid \<mapsto> m') \<and> same_move m m'
    \<and> mg_status m' = s \<and> mg_progress m' = p \<and> mg_error m' = e \<and> (mig_terminal s \<longrightarrow> mg_completed m' \<noteq> None)"
  by (rule exI [of _ "the (mv_migs (fst (mig_update_status now mid s p e v)) mid)"])
    (use assms in \<open>auto simp: mig_update_status_def Let_def same_move_def\<close>)

lemma mig_update_progress_at:
  assumes "mv_migs v mid = Some m"
  shows "\<exists>m'. mv_migs (fst (mig_update_progress now mid p t w v)) = (mv_migs v)(mid \<mapsto> m') \<and> same_move m m'
    \<and> mg_status m' = mg_status m"
  by (rule exI [of _ "the (mv_migs (fst (mig_update_progress now mid p t w v)) mid)"])
    (use assms in \<open>simp add: mig_update_progress_def same_move_def\<close>)

lemma mig_update_absent:
  assumes "mv_migs v mid = None"
  shows "mv_migs (fst (mig_update_status now mid s p e v)) = mv_migs v"
    "mv_migs (fst (mig_update_progress now mid p t w v)) = mv_migs v"
  using assms by (simp_all add: mig_update_status_def mig_update_progress_def)

section \<open>Waiting for a node\<close>

text \<open>A command is silent when it is sent and no result for it comes back.\<close>

definition silent :: "(string \<Rightarrow> reply) \<Rightarrow> (string \<Rightarrow> string) \<Rightarrow> string \<Rightarrow> bool" where
  "silent rps corr ty \<longleftrightarrow> rp_sent (rps ty) = None \<and> corr ty \<notin> cr_corr ` set (rp_results (rps ty))"

lemma handled_keeps [simp]:
  "nh_conns (fold handle_command_result rs h) = nh_conns h" "nh_store (fold handle_command_result rs h) = nh_store h"
  by (induction rs arbitrary: h) (simp_all add: handle_command_result_def split: option.splits)

lemma send_command_keeps:
  assumes "send_command now k sent nid c h = (h', x)"
  shows "nh_conns h' = nh_conns h" "nh_store h' = nh_store h"
  using assms by (auto simp: send_command_def dispatch_start_def Let_def split: sum.splits option.splits)

lemma finish_keeps:
  assumes "dispatch_finish k ctx h = (h', x)"
  shows "nh_conns h' = nh_conns h" "nh_store h' = nh_store h"
  using assms by (auto simp: dispatch_finish_def Let_def split: option.splits)

lemma mig_ask_hub:
  "nh_conns (cl_hub (rg_cloud (mv_region (fst (mig_ask now rps corr nid ty i v))))) = nh_conns (cl_hub (rg_cloud (mv_region v)))"
  "nh_store (cl_hub (rg_cloud (mv_region (fst (mig_ask now rps corr nid ty i v))))) = nh_store (cl_hub (rg_cloud (mv_region v)))"
  by (auto simp: mig_ask_def Let_def send_command_keeps finish_keeps split: prod.splits sum.splits
      dest: send_command_keeps finish_keeps)

lemma sent_pending:
  assumes "send_command now q sent nid \<lparr>cmd_corr = q, cmd_type = ty, cmd_payload = p, cmd_created = t\<rparr> h = (h', Inr (k, strm))"
  shows "k = q \<and> nh_pending h' q = Some None \<and> sent = None"
  using assms
  by (auto simp: send_command_def dispatch_start_def fill_command_def Let_def split: sum.splits option.splits if_splits)

lemma finish_awaits:
  assumes "nh_pending h k = Some None"
  shows "snd (dispatch_finish k None (fold handle_command_result rs h)) = None \<longleftrightarrow> k \<notin> cr_corr ` set rs"
  by (auto simp: dispatch_finish_def handled_results [OF assms] Let_def find_None_iff find_Some_iff image_iff split: option.splits)

lemma mig_ask_returns:
  assumes "\<not> silent rps corr ty"
  shows "snd (mig_ask now rps corr nid ty i v) \<noteq> None"
proof -
  obtain h x where s: "send_command now (corr ty) (rp_sent (rps ty)) nid \<lparr>cmd_corr = corr ty, cmd_type = ty,
      cmd_payload = mig_command ty i, cmd_created = zero_time\<rparr> (cl_hub (rg_cloud (mv_region v))) = (h, x)" by fastforce
  show ?thesis
  proof (cases x)
    case (Inl e)
    then show ?thesis by (simp add: mig_ask_def s Let_def)
  next
    case (Inr ks)
    obtain k strm where ks: "ks = (k, strm)" by fastforce
    from sent_pending [OF s [unfolded Inr ks]] have p: "k = corr ty" "nh_pending h (corr ty) = Some None" "rp_sent (rps ty) = None"
      by auto
    have "snd (mig_ask now rps corr nid ty i v) = snd (dispatch_finish (corr ty) None (fold handle_command_result (rp_results (rps ty)) h))"
      by (simp add: mig_ask_def s Inr ks p(1) Let_def case_prod_beta)
    then show ?thesis using assms finish_awaits [OF p(2), of "rp_results (rps ty)"] p(3) by (simp add: silent_def)
  qed
qed

lemma mig_ask_waits:
  assumes "silent rps corr ty" and "live_node nid (cl_hub (rg_cloud (mv_region v))) = Inr n"
    and "nh_conns (cl_hub (rg_cloud (mv_region v))) nid = Some conn"
  shows "snd (mig_ask now rps corr nid ty i v) = None"
proof -
  obtain h k strm where s: "send_command now (corr ty) (rp_sent (rps ty)) nid \<lparr>cmd_corr = corr ty, cmd_type = ty,
      cmd_payload = mig_command ty i, cmd_created = zero_time\<rparr> (cl_hub (rg_cloud (mv_region v))) = (h, Inr (k, strm))"
    using assms by (auto simp: send_command_def dispatch_start_def silent_def Let_def)
  from sent_pending [OF s] have p: "k = corr ty" "nh_pending h (corr ty) = Some None" by auto
  have "snd (mig_ask now rps corr nid ty i v) = snd (dispatch_finish (corr ty) None (fold handle_command_result (rp_results (rps ty)) h))"
    by (simp add: mig_ask_def s p(1) Let_def case_prod_beta)
  then show ?thesis using assms(1) finish_awaits [OF p(2), of "rp_results (rps ty)"] by (simp add: silent_def)
qed

section \<open>The execution\<close>

text \<open>The state in which the destination is asked.\<close>

definition before_create :: "gtime \<Rightarrow> (string \<Rightarrow> reply) \<Rightarrow> (string \<Rightarrow> string) \<Rightarrow> migration \<Rightarrow> inst \<Rightarrow> movement \<Rightarrow> movement" where
  "before_create now rps corr m i v =
     fst (mig_update_progress now (mg_id m) 50 (quot (in_storage i) 2) (in_storage i) (fst (stop_source now rps corr m i v)))"

lemma execute_migration_alt:
  "execute_migration now rps corr msg m i v =
     (if \<not> snd (stop_source now rps corr m i v) then (fst (stop_source now rps corr m i v), False)
      else case mig_ask now rps corr (mg_dest m) ''create_instance'' i (before_create now rps corr m i v) of
             (v, None) \<Rightarrow> (v, False)
           | (v, Some (Inl e)) \<Rightarrow> roll_back now rps corr (msg e) m i v
           | (v, Some (Inr res)) \<Rightarrow> move_over now rps corr m i v)"
  by (simp add: execute_migration_def before_create_def Let_def case_prod_beta split: bool.splits)

lemma stop_source_frame: "rg_insts (mv_region (fst (stop_source now rps corr m i v))) = rg_insts (mv_region v)"
  by (simp add: stop_source_def Let_def case_prod_beta)

lemma stop_source_hub:
  "nh_conns (cl_hub (rg_cloud (mv_region (fst (stop_source now rps corr m i v))))) = nh_conns (cl_hub (rg_cloud (mv_region v)))"
  "nh_store (cl_hub (rg_cloud (mv_region (fst (stop_source now rps corr m i v))))) = nh_store (cl_hub (rg_cloud (mv_region v)))"
  by (simp_all add: stop_source_def Let_def case_prod_beta mig_ask_hub)

lemma stop_source_returns: "\<not> silent rps corr ''stop_instance'' \<Longrightarrow> snd (stop_source now rps corr m i v)"
  using mig_ask_returns by (auto simp: stop_source_def Let_def case_prod_beta)

lemma stop_source_at:
  assumes "mv_migs v (mg_id m) = Some m0"
  shows "\<exists>m'. mv_migs (fst (stop_source now rps corr m i v)) = (mv_migs v)(mg_id m \<mapsto> m') \<and> same_move m0 m'
    \<and> mg_status m' = MigTransferring"
  using mig_update_status_at [OF assms, of now MigTransferring 20 "[]"] by (auto simp: stop_source_def Let_def case_prod_beta)

lemma before_create_frame:
  "rg_insts (mv_region (before_create now rps corr m i v)) = rg_insts (mv_region v)"
  by (simp add: before_create_def stop_source_frame)

lemma before_create_hub:
  "cl_hub (rg_cloud (mv_region (before_create now rps corr m i v))) = cl_hub (rg_cloud (mv_region (fst (stop_source now rps corr m i v))))"
  by (simp add: before_create_def)

lemma before_create_at:
  assumes "mv_migs v (mg_id m) = Some m0"
  shows "\<exists>m'. mv_migs (before_create now rps corr m i v) = (mv_migs v)(mg_id m \<mapsto> m') \<and> same_move m0 m'
    \<and> mg_status m' = MigTransferring"
proof -
  let ?s = "fst (stop_source now rps corr m i v)"
  obtain m1 where m1: "mv_migs ?s = (mv_migs v)(mg_id m \<mapsto> m1)" "same_move m0 m1" "mg_status m1 = MigTransferring"
    using stop_source_at [OF assms] by metis
  then have "mv_migs ?s (mg_id m) = Some m1" by simp
  from mig_update_progress_at [OF this, of now 50 "quot (in_storage i) 2" "in_storage i"] obtain m2 where
    "mv_migs (before_create now rps corr m i v) = (mv_migs ?s)(mg_id m \<mapsto> m2)" "same_move m1 m2" "mg_status m2 = mg_status m1"
    by (auto simp: before_create_def)
  with m1 show ?thesis by (auto intro: same_move_trans)
qed

lemma roll_back_at:
  assumes "mv_migs v (mg_id m) = Some m0"
  shows "\<exists>m'. mv_migs (fst (roll_back now rps corr e m i v)) = (mv_migs v)(mg_id m \<mapsto> m') \<and> same_move m0 m'
    \<and> mg_status m' = MigRolledBack \<and> mg_completed m' \<noteq> None"
  using mig_update_status_at [OF assms, of now MigRolledBack 0 e]
  by (auto simp: roll_back_def Let_def mig_terminal_def case_prod_beta)

lemma roll_back_frame: "rg_insts (mv_region (fst (roll_back now rps corr e m i v))) = rg_insts (mv_region v)"
  by (simp add: roll_back_def Let_def case_prod_beta)

lemma roll_back_returns: "\<not> silent rps corr ''start_instance'' \<Longrightarrow> snd (roll_back now rps corr e m i v)"
  using mig_ask_returns by (auto simp: roll_back_def Let_def case_prod_beta)

text \<open>The state in which the source is told to delete its copy.\<close>

definition handed_over :: "gtime \<Rightarrow> migration \<Rightarrow> inst \<Rightarrow> movement \<Rightarrow> movement" where
  "handed_over now m i v =
     (let v = fst (mig_update_status now (mg_id m) MigVerifying 80 [] v);
          is = fst (inst_update_node now (in_id i) (mg_dest m) (rg_insts (mv_region v)))
      in v\<lparr>mv_region := (mv_region v)\<lparr>rg_insts :=
           (if in_status i = IRunning then fst (inst_update_status now (in_id i) IRunning (in_ipv4 i) (in_ipv6 i) is) else is)\<rparr>\<rparr>)"

lemma move_over_alt:
  "move_over now rps corr m i v =
     (case mig_ask now rps corr (mg_source m) ''delete_instance'' i (handed_over now m i v) of
        (v, None) \<Rightarrow> (v, False)
      | (v, Some x) \<Rightarrow> (mig_trail now m i (fst (mig_update_status now (mg_id m) MigCompleted 100 [] v)), True))"
  by (simp add: move_over_def handed_over_def Let_def)

lemma handed_over_at:
  assumes "mv_migs v (mg_id m) = Some m0"
  shows "\<exists>m'. mv_migs (handed_over now m i v) = (mv_migs v)(mg_id m \<mapsto> m') \<and> same_move m0 m' \<and> mg_status m' = MigVerifying"
  using mig_update_status_at [OF assms, of now MigVerifying 80 "[]"] by (auto simp: handed_over_def Let_def)

lemma move_over_at:
  assumes "mv_migs v (mg_id m) = Some m0"
  shows "\<exists>m'. mv_migs (fst (move_over now rps corr m i v)) = (mv_migs v)(mg_id m \<mapsto> m') \<and> same_move m0 m'
    \<and> (snd (move_over now rps corr m i v) \<longrightarrow> mg_status m' = MigCompleted \<and> mg_progress m' = 100 \<and> mg_completed m' \<noteq> None)"
proof -
  obtain m1 where m1: "mv_migs (handed_over now m i v) = (mv_migs v)(mg_id m \<mapsto> m1)" "same_move m0 m1"
    using handed_over_at [OF assms] by metis
  obtain w x where a: "mig_ask now rps corr (mg_source m) ''delete_instance'' i (handed_over now m i v) = (w, x)" by fastforce
  have w: "mv_migs w = (mv_migs v)(mg_id m \<mapsto> m1)"
    using mig_ask_keeps(1) [of now rps corr "mg_source m" "''delete_instance''" i "handed_over now m i v"] a m1(1) by simp
  then have w': "mv_migs w (mg_id m) = Some m1" by simp
  show ?thesis
  proof (cases x)
    case None
    then show ?thesis using w m1(2) by (auto simp: move_over_alt a)
  next
    case (Some r)
    then show ?thesis using mig_update_status_at [OF w', of now MigCompleted 100 "[]"] m1(2) w
      by (auto simp: move_over_alt a mig_terminal_def intro: same_move_trans)
  qed
qed

lemma move_over_returns: "\<not> silent rps corr ''delete_instance'' \<Longrightarrow> snd (move_over now rps corr m i v)"
  using mig_ask_returns [of rps corr "''delete_instance''" now "mg_source m" i "handed_over now m i v"]
  by (auto simp: move_over_alt case_prod_beta split: option.splits)

lemma update_node_effect:
  assumes "insts_ok st"
  shows "insts_ok (fst (inst_update_node now iid nid st))"
    "inst_get k (fst (inst_update_node now iid nid st)) =
      (if k = iid then map_sum id (\<lambda>j. j\<lparr>in_node := nid, in_updated := now\<rparr>) (inst_get k st) else inst_get k st)"
  unfolding inst_update_node_def using modify_inst_effect(1,2) [OF assms] by simp_all

lemma update_status_effect:
  assumes "insts_ok st"
  shows "inst_get k (fst (inst_update_status now iid s v4 v6 st)) =
      (if k = iid then map_sum id (\<lambda>j. j\<lparr>in_status := s, in_ipv4 := (if v4 \<noteq> [] then v4 else in_ipv4 j),
         in_ipv6 := (if v6 \<noteq> [] then v6 else in_ipv6 j), in_updated := now\<rparr>) (inst_get k st) else inst_get k st)"
  unfolding inst_update_status_def using modify_inst_effect(2) [OF assms] by simp

lemma move_over_insts:
  assumes "insts_ok (rg_insts (mv_region v))"
  shows "inst_get k (rg_insts (mv_region (fst (move_over now rps corr m i v)))) =
    (if k = in_id i
     then map_sum id (\<lambda>j. if in_status i = IRunning
        then j\<lparr>in_node := mg_dest m, in_status := IRunning, in_ipv4 := (if in_ipv4 i \<noteq> [] then in_ipv4 i else in_ipv4 j),
               in_ipv6 := (if in_ipv6 i \<noteq> [] then in_ipv6 i else in_ipv6 j), in_updated := now\<rparr>
        else j\<lparr>in_node := mg_dest m, in_updated := now\<rparr>) (inst_get k (rg_insts (mv_region v)))
     else inst_get k (rg_insts (mv_region v)))"
proof -
  have "rg_insts (mv_region (fst (move_over now rps corr m i v))) = rg_insts (mv_region (handed_over now m i v))"
    by (auto simp: move_over_alt case_prod_beta split: option.splits)
  then show ?thesis
    by (cases "inst_get k (rg_insts (mv_region v))") (auto simp: handed_over_def Let_def update_node_effect [OF assms]
      update_status_effect [OF update_node_effect(1) [OF assms]])
qed

text \<open>Every execution changes its own record only, whether it returns or not.\<close>

lemma execute_at:
  assumes "mv_migs v (mg_id m) = Some m0"
  shows "\<exists>m'. mv_migs (fst (execute_migration now rps corr msg m i v)) = (mv_migs v)(mg_id m \<mapsto> m') \<and> same_move m0 m'"
proof (cases "snd (stop_source now rps corr m i v)")
  case False
  then show ?thesis using stop_source_at [OF assms, of now rps corr i] by (auto simp: execute_migration_alt)
next
  case s: True
  let ?b = "before_create now rps corr m i v"
  obtain w x where a: "mig_ask now rps corr (mg_dest m) ''create_instance'' i ?b = (w, x)" by fastforce
  have w: "mv_migs w = mv_migs ?b" using mig_ask_keeps(1) [of now rps corr "mg_dest m" "''create_instance''" i ?b] a by simp
  obtain m1 where m1: "mv_migs w = (mv_migs v)(mg_id m \<mapsto> m1)" "same_move m0 m1"
    using before_create_at [OF assms] w by metis
  then have m1': "mv_migs w (mg_id m) = Some m1" by simp
  have e: "execute_migration now rps corr msg m i v = (case x of None \<Rightarrow> (w, False)
      | Some (Inl e) \<Rightarrow> roll_back now rps corr (msg e) m i w | Some (Inr res) \<Rightarrow> move_over now rps corr m i w)"
    using s by (simp add: execute_migration_alt a)
  show ?thesis using m1 roll_back_at [OF m1', of now rps corr _ i] move_over_at [OF m1', of now rps corr i]
    by (auto simp: e split: option.splits sum.splits) (metis fun_upd_upd same_move_trans)+
qed

section \<open>Properties\<close>


lemma active_found:
  assumes "mv_migs v a = Some m" and "mg_inst m = iid" and "\<not> mig_terminal (mg_status m)" and "a \<in> set ks"
  shows "active_for_instance ks iid v \<noteq> None"
  using assms by (auto simp: active_for_instance_def find_None_iff set_vals)

text \<open>
  A silent destination blocks an instance for good: the execution waits for the answer without
  a deadline and never returns, the record stays in its transfer, and every later request to
  migrate the instance fails because a migration is in progress.
\<close>

theorem silent_destination_blocks:
  assumes "mv_migs v (mg_id m) = Some m0" and "silent rps corr ''create_instance''" and "\<not> silent rps corr ''stop_instance''"
    and "live_node (mg_dest m) (cl_hub (rg_cloud (mv_region v))) = Inr n"
    and "nh_conns (cl_hub (rg_cloud (mv_region v))) (mg_dest m) = Some conn"
    and "inst_get iid (rg_insts (mv_region v)) = Inr j" and "mg_inst m0 = in_id j" and "mg_id m \<in> set (mo_migs ord)"
    and "mig_access sub ''migration:manage'' (inst_resource j) = None"
  shows "\<exists>v' m'. execute_migration now rps corr msg m i v = (v', False) \<and> mv_migs v' (mg_id m) = Some m'
    \<and> mg_status m' = MigTransferring \<and> migrate srt ord now' uuid sub iid dest ty v' = (v', Inl ErrMigrationInProgress)"
proof -
  let ?b = "before_create now rps corr m i v"
  have "live_node (mg_dest m) (cl_hub (rg_cloud (mv_region ?b))) = Inr n"
    using assms(4) by (simp add: live_node_def before_create_hub stop_source_hub)
  moreover have "nh_conns (cl_hub (rg_cloud (mv_region ?b))) (mg_dest m) = Some conn"
    using assms(5) by (simp add: before_create_hub stop_source_hub)
  ultimately have "snd (mig_ask now rps corr (mg_dest m) ''create_instance'' i ?b) = None" by (rule mig_ask_waits [OF assms(2)])
  then obtain w where a: "mig_ask now rps corr (mg_dest m) ''create_instance'' i ?b = (w, None)" by (metis prod.collapse)
  obtain m1 where m1: "mv_migs ?b = (mv_migs v)(mg_id m \<mapsto> m1)" "same_move m0 m1" "mg_status m1 = MigTransferring"
    using before_create_at [OF assms(1)] by metis
  have w: "mv_migs w (mg_id m) = Some m1" "inst_get iid (rg_insts (mv_region w)) = Inr j"
    using mig_ask_keeps [of now rps corr "mg_dest m" "''create_instance''" i ?b] a m1(1) before_create_frame assms(6) by simp_all
  have "active_for_instance (mo_migs ord) (in_id j) w \<noteq> None"
    by (rule active_found [OF w(1)]) (use m1 assms(7,8) in \<open>simp_all add: same_move_def mig_terminal_def\<close>)
  then have "migrate srt ord now' uuid sub iid dest ty w = (w, Inl ErrMigrationInProgress)"
    using w(2) assms(9) by (simp add: migrate_def Let_def)
  then show ?thesis using stop_source_returns [OF assms(3), of now m i v] w(1) m1(3) by (simp add: execute_migration_alt a)
qed

section \<open>One migration at a time\<close>

definition one_active :: "movement \<Rightarrow> bool" where
  "one_active v \<longleftrightarrow> (\<forall>a m. mv_migs v a = Some m \<longrightarrow> mg_id m = a)
     \<and> (\<forall>a b m n. mv_migs v a = Some m \<and> mv_migs v b = Some n \<and> \<not> mig_terminal (mg_status m)
          \<and> \<not> mig_terminal (mg_status n) \<and> mg_inst m = mg_inst n \<longrightarrow> a = b)"

text \<open>
  The steps: a request, handled on its own; an execution of an unfinished record up to its return or
  to where it waits forever; and, for executions that overlap, each single write of one.
\<close>

inductive move_step :: "movement \<Rightarrow> movement \<Rightarrow> bool" where
  start: "iterates (mv_migs v) (mo_migs ord) \<Longrightarrow> mv_migs v uuid = None \<Longrightarrow> uuid \<noteq> [] \<Longrightarrow>
     move_step v (fst (migrate srt ord now uuid sub iid dest ty v))"
| run: "mv_migs v (mg_id m) = Some m0 \<Longrightarrow> \<not> mig_terminal (mg_status m0) \<Longrightarrow>
     move_step v (fst (execute_migration now rps corr msg m i v))"
| status: "mv_migs v mid = Some m0 \<Longrightarrow> \<not> mig_terminal (mg_status m0) \<Longrightarrow>
     move_step v (fst (mig_update_status now mid s p e v))"
| progress: "move_step v (fst (mig_update_progress now mid p t w v))"
| drain: "move_step v (fst (drain_node now sub nid b v))"

text \<open>What starting a migration does.\<close>

lemma migrate_cases:
  obtains e where "migrate srt ord now uuid sub iid dest ty v = (v, Inl e)"
  | m i where "migrate srt ord now uuid sub iid dest ty v = (v\<lparr>mv_migs := (mv_migs v)(mg_id m \<mapsto> m)\<rparr>, Inr (m, i))"
    "inst_get iid (rg_insts (mv_region v)) = Inr i" "mig_access sub ''migration:manage'' (inst_resource i) = None"
    "active_for_instance (mo_migs ord) (in_id i) v = None" "uuid \<noteq> [] \<Longrightarrow> mg_id m = uuid" "mg_inst m = in_id i"
    "mg_source m = in_node i" "mg_dest m \<noteq> in_node i" "mg_status m = MigReserving" "mg_tenant m = in_user i"
    "preflight_check (mo_nodes ord) (mo_insts ord) (in_id i) (mg_dest m) (mv_region v) = Inr (mg_preflight m)"
    "passed (mg_preflight m)" "dest \<noteq> [] \<Longrightarrow> mg_dest m = dest"
proof (cases "inst_get iid (rg_insts (mv_region v))")
  case (Inl e)
  then show ?thesis by (intro that(1)) (simp add: migrate_def)
next
  case i: (Inr i)
  define goal where "goal = (if dest = [] then map_sum id (\<lambda>d. nd_id (dc_node d)) (select_node srt (mo_nodes ord) (mo_insts ord)
      (plain_request i [in_node i]) (nh_store (cl_hub (rg_cloud (mv_region v)))) (rg_insts (mv_region v))) else Inr dest)"
  show ?thesis
  proof (cases "mig_access sub ''migration:manage'' (inst_resource i) = None
      \<and> active_for_instance (mo_migs ord) (in_id i) v = None")
    case False
    then show ?thesis by (cases "mig_access sub ''migration:manage'' (inst_resource i)") (auto intro!: that(1) simp: migrate_def i)
  next
    case ok: True
    have mg: "migrate srt ord now uuid sub iid dest ty v = (case goal of Inl e \<Rightarrow> (v, Inl e) | Inr dn \<Rightarrow>
        if dn = in_node i then (v, Inl (ErrText ''destination node must be different from source node''))
        else case preflight_check (mo_nodes ord) (mo_insts ord) (in_id i) dn (mv_region v) of Inl e \<Rightarrow> (v, Inl e)
          | Inr p \<Rightarrow> if \<not> passed p then (v, Inl ErrPreflightCheckFailed)
              else let (v, m) = mig_create now uuid (new_migration now uuid i dn ty p) v in (v, Inr (m, i)))"
      using ok by (simp add: migrate_def i goal_def Let_def)
    show ?thesis
    proof (cases "\<exists>dn p. goal = Inr dn \<and> dn \<noteq> in_node i
        \<and> preflight_check (mo_nodes ord) (mo_insts ord) (in_id i) dn (mv_region v) = Inr p \<and> passed p")
      case False
      then show ?thesis by (intro that(1) [of "projl (snd (migrate srt ord now uuid sub iid dest ty v))"])
          (auto simp: mg split: sum.splits)
    next
      case True
      then obtain dn p where dp: "goal = Inr dn" "dn \<noteq> in_node i" "passed p"
        "preflight_check (mo_nodes ord) (mo_insts ord) (in_id i) dn (mv_region v) = Inr p" by blast
      define m where "m = snd (mig_create now uuid (new_migration now uuid i dn ty p) v)"
      have m: "mg_inst m = in_id i" "mg_source m = in_node i" "mg_dest m = dn" "mg_status m = MigReserving"
        "mg_tenant m = in_user i" "mg_preflight m = p" "mg_id m = uuid"
        by (simp_all add: m_def mig_create_def new_migration_def Let_def)
      have "migrate srt ord now uuid sub iid dest ty v = (v\<lparr>mv_migs := (mv_migs v)(mg_id m \<mapsto> m)\<rparr>, Inr (m, i))"
        by (simp add: mg dp m_def mig_create_def Let_def)
      moreover have "dest \<noteq> [] \<Longrightarrow> dn = dest" using dp(1) by (simp add: goal_def)
      ultimately show ?thesis using that(2) [of m i] i ok dp m by simp
    qed
  qed
qed

lemma active_None:
  assumes "active_for_instance ks iid v = None" and "iterates (mv_migs v) ks" and "mv_migs v a = Some m" and "mg_inst m = iid"
  shows "mig_terminal (mg_status m)"
  using assms by (auto simp: active_for_instance_def find_None_iff set_vals iterates_def)

lemma migrate_one_active:
  assumes "one_active v" and "iterates (mv_migs v) (mo_migs ord)" and "mv_migs v uuid = None" and "uuid \<noteq> []"
  shows "one_active (fst (migrate srt ord now uuid sub iid dest ty v))"
proof (cases rule: migrate_cases [of srt ord now uuid sub iid dest ty v])
  case (1 e)
  then show ?thesis using assms(1) by simp
next
  case (2 m i)
  note t = active_None [OF 2(4) assms(2)]
  have k: "mg_id m = uuid" using 2(5) assms(4) by simp
  have f: "fst (migrate srt ord now uuid sub iid dest ty v) = v\<lparr>mv_migs := (mv_migs v)(uuid \<mapsto> m)\<rparr>" using 2(1) k by simp
  have keys: "mv_migs v a = Some n \<Longrightarrow> mg_id n = a" for a n using assms(1) by (simp add: one_active_def)
  have uniq: "mv_migs v a = Some n \<Longrightarrow> mv_migs v b = Some n' \<Longrightarrow> \<not> mig_terminal (mg_status n) \<Longrightarrow>
      \<not> mig_terminal (mg_status n') \<Longrightarrow> mg_inst n = mg_inst n' \<Longrightarrow> a = b" for a b n n'
    using assms(1) unfolding one_active_def by blast
  show ?thesis unfolding f one_active_def using k keys uniq t 2(6)
    by (auto split: if_splits)
qed

lemma one_active_update:
  assumes "one_active v" and "mv_migs v' = (mv_migs v)(mid \<mapsto> m')" and "mv_migs v mid = Some m0" and "same_move m0 m'"
    and "\<not> mig_terminal (mg_status m0) \<or> mg_status m' = mg_status m0"
  shows "one_active v'"
proof -
  have from_v: "\<exists>n0. mv_migs v a = Some n0 \<and> mg_id n = mg_id n0 \<and> mg_inst n = mg_inst n0
      \<and> (mig_terminal (mg_status n0) \<longrightarrow> mig_terminal (mg_status n))" if "mv_migs v' a = Some n" for a n
    using that assms(2-5) by (auto simp: same_move_def split: if_splits)
  show ?thesis unfolding one_active_def
  proof (intro conjI allI impI)
    fix a n
    assume "mv_migs v' a = Some n"
    then show "mg_id n = a" using from_v [of a n] assms(1) by (auto simp: one_active_def)
  next
    fix a b n k
    assume x: "mv_migs v' a = Some n \<and> mv_migs v' b = Some k \<and> \<not> mig_terminal (mg_status n)
      \<and> \<not> mig_terminal (mg_status k) \<and> mg_inst n = mg_inst k"
    then obtain n0 k0 where "mv_migs v a = Some n0 \<and> mv_migs v b = Some k0 \<and> \<not> mig_terminal (mg_status n0)
      \<and> \<not> mig_terminal (mg_status k0) \<and> mg_inst n0 = mg_inst k0"
      using from_v [of a n] from_v [of b k] by auto
    then show "a = b" using assms(1) unfolding one_active_def by blast
  qed
qed

lemma drain_keeps: "mv_migs (fst (drain_node now sub nid b v)) = mv_migs v"
  by (auto simp: drain_node_def Let_def split: sum.splits option.splits prod.splits)

lemma one_active_cong: "mv_migs v' = mv_migs v \<Longrightarrow> one_active v \<Longrightarrow> one_active v'"
  by (simp add: one_active_def)

lemma progress_one_active:
  assumes "one_active v"
  shows "one_active (fst (mig_update_progress now mid p t w v))"
proof (cases "mv_migs v mid")
  case None
  then show ?thesis using one_active_cong [OF _ assms] mig_update_absent(2) by metis
next
  case (Some m0)
  from mig_update_progress_at [OF this] show ?thesis using one_active_update [OF assms _ Some] by metis
qed

interpretation movements: invariant_machine move_step one_active
proof
  fix v w
  assume inv: "one_active v" and "move_step v w"
  from this(2) show "one_active w"
  proof cases
    case (start ord uuid srt now sub iid dest ty)
    then show ?thesis using migrate_one_active inv by simp
  next
    case (run m m0 now rps corr msg i)
    from execute_at [OF run(2)] show ?thesis using one_active_update [OF inv _ run(2)] run(1,3) by metis
  next
    case (status mid m0 now s p e)
    from mig_update_status_at [OF status(2)] show ?thesis using one_active_update [OF inv _ status(2)] status(1,3) by metis
  next
    case (progress now mid p t w)
    then show ?thesis using progress_one_active [OF inv] by simp
  next
    case (drain now sub nid b)
    then show ?thesis using one_active_cong [OF drain_keeps inv] by simp
  qed
qed

text \<open>
  C13. An instance has at most one active migration: after every sequence of requests, drains and
  executions, also of executions that overlap or never return, two unfinished records of one
  instance are the same record.
\<close>

theorem one_active_migration:
  assumes "move_step\<^sup>*\<^sup>* v v'" and "mv_migs v = Map.empty" and "mv_migs v' a = Some m" and "mv_migs v' b = Some n"
    and "mg_inst m = mg_inst n" and "\<not> mig_terminal (mg_status m)" and "\<not> mig_terminal (mg_status n)"
  shows "a = b"
proof -
  have "one_active v" using assms(2) by (simp add: one_active_def)
  then have "one_active v'" by (rule movements.steps_keep [OF assms(1)])
  with assms show ?thesis unfolding one_active_def by blast
qed

section \<open>The destination\<close>

lemma rejected_reason: "\<not> cd_eligible (evaluate_placement req al n) \<Longrightarrow> cd_reason (evaluate_placement req al n) \<noteq> []"
  by (auto simp: evaluate_placement_def evaluate_capacity_def reject_def blank_def Let_def split: if_splits)

lemma capacity_check_passed:
  assumes "passed (capacity_check dest i cs p)" and "pf_cpu_ok p = False"
  obtains c where "c \<in> set cs" "nd_id (cd_node c) = dest" "cd_eligible c \<or> cd_reason c = []"
proof -
  from assms obtain c where c: "List.find (\<lambda>c. nd_id (cd_node c) = dest) cs = Some c"
    by (cases "List.find (\<lambda>c. nd_id (cd_node c) = dest) cs") (auto simp: capacity_check_def passed_def)
  then have "c \<in> set cs" "nd_id (cd_node c) = dest" by (auto simp: find_Some_iff)
  moreover have "cd_eligible c \<or> cd_reason c = []"
    using assms(1) c by (auto simp: capacity_check_def passed_def Let_def split: if_splits)
  ultimately show ?thesis by (rule that)
qed

lemma preflight_passed:
  assumes "preflight_check nks iks iid dest r = Inr p" and "passed p"
  obtains i dn where "inst_get iid (rg_insts r) = Inr i" "node_get dest (nh_store (cl_hub (rg_cloud r))) = Inr dn"
    "is_schedulable dn" "p = capacity_check dest i (evaluate_candidates nks iks (plain_request i [])
       (nh_store (cl_hub (rg_cloud r))) (rg_insts r)) (blank_preflight True)"
  using assms
  by (auto simp: preflight_check_def Let_def passed_def blank_preflight_def split: sum.splits if_splits option.splits prod.splits)

lemma preflight_fits:
  assumes "preflight_check nks iks iid dest r = Inr p" and "passed p" and "nodes_wf (nh_store (cl_hub (rg_cloud r)))"
    and "inst_get iid (rg_insts r) = Inr i"
  shows "\<exists>n. node_get dest (nh_store (cl_hub (rg_cloud r))) = Inr n \<and> admissible (plain_request i []) n
    \<and> fits (plain_request i []) (node_allocations (inst_list_all iks (rg_insts r)) (nd_id n)) n"
proof -
  let ?ns = "nh_store (cl_hub (rg_cloud r))"
  let ?al = "node_allocations (inst_list_all iks (rg_insts r))"
  obtain dn where dn: "node_get dest ?ns = Inr dn" and p: "p = capacity_check dest i
      (evaluate_candidates nks iks (plain_request i []) ?ns (rg_insts r)) (blank_preflight True)"
    using preflight_passed [OF assms(1,2)] assms(4) by (metis sum.inject(2))
  obtain c where c: "c \<in> set (evaluate_candidates nks iks (plain_request i []) ?ns (rg_insts r))" "nd_id (cd_node c) = dest"
    "cd_eligible c \<or> cd_reason c = []"
    using capacity_check_passed [OF assms(2) [unfolded p]] by (auto simp: blank_preflight_def)
  then obtain n where n: "n \<in> set (node_list nks ?ns)" "c = evaluate_placement (plain_request i []) ?al n"
    by (auto simp: evaluate_candidates_def)
  with c have e: "admissible (plain_request i []) n" "fits (plain_request i []) (?al (nd_id n)) n" "nd_id n = dest"
    using rejected_reason [of "plain_request i []" ?al n] by (auto simp: evaluate_placement_simps)
  obtain k where "node_get k ?ns = Inr n" using n(1) by (auto simp: node_list_get map_filter_def split: sum.splits)
  moreover have "nd_id n = k" using node_get_wf [OF assms(3)] calculation by blast
  ultimately show ?thesis using e by blast
qed

text \<open>
  C38. A migration starts only towards another node that exists, is schedulable, supports the type
  of the instance and has room for it beside everything recorded there, and only for a subject
  allowed to manage the instance.
\<close>

theorem migration_destination_sound:
  assumes "migrate srt ord now uuid sub iid dest ty v = (v', Inr (m, i))"
    and "nodes_wf (nh_store (cl_hub (rg_cloud (mv_region v))))" and "insts_ok (rg_insts (mv_region v))"
  shows "inst_get iid (rg_insts (mv_region v)) = Inr i \<and> mg_source m = in_node i \<and> mg_dest m \<noteq> in_node i
    \<and> (\<exists>n. node_get (mg_dest m) (nh_store (cl_hub (rg_cloud (mv_region v)))) = Inr n \<and> is_schedulable n
         \<and> \<not> (in_type i = VirtualMachine \<and> kvm_missing n)
         \<and> fits (plain_request i []) (node_allocations (inst_list_all (mo_insts ord) (rg_insts (mv_region v))) (nd_id n)) n)
    \<and> (\<forall>s. sub = Some s \<longrightarrow> is_superadmin s \<or> authorize sub ''migration:manage'' (Some (inst_resource i)) = None)"
proof (cases rule: migrate_cases [of srt ord now uuid sub iid dest ty v])
  case (1 e)
  with assms(1) show ?thesis by simp
next
  case (2 m' i')
  then have eq: "m' = m" "i' = i" using assms(1) by simp_all
  have "in_id i = iid" using 2(2) eq inst_get_cases [OF assms(3), of iid] by fastforce
  with 2 eq have g: "inst_get (in_id i) (rg_insts (mv_region v)) = Inr i" by simp
  from preflight_fits [OF 2(11,12) [unfolded eq] assms(2) g] 2 eq show ?thesis
    by (auto simp: admissible_def plain_request_def mig_access_def split: option.splits if_splits)
qed

text \<open>
  A migration reserves nothing: although its record says that it is reserving, every later
  preflight check has the same outcome as before, so that several migrations started in a row can
  all be promised the same room.
\<close>

theorem migration_reserves_nothing:
  assumes "migrate srt ord now uuid sub iid dest ty v = (v', Inr (m, i))"
  shows "mg_status m = MigReserving
    \<and> preflight_check nks iks jid d (mv_region v') = preflight_check nks iks jid d (mv_region v)"
  using assms by (cases rule: migrate_cases [of srt ord now uuid sub iid dest ty v]) auto

section \<open>The commands on the wire\<close>

text \<open>
  The commands of the compute service arrive as they were meant: the message the gateway
  writes for a creation has the identifier, name, type, size, image, configuration and start flag
  of the instance, with a number of cores within 32 bits.
\<close>

theorem create_command_arrives:
  assumes "- 2147483648 \<le> in_cpu i" and "in_cpu i < 2147483648"
  shows "wire_payload js ''create_instance'' (create_payload i start) = Inr (CreateInstanceCommand (in_id i) (in_name i)
    (type_text (in_type i)) (in_cpu i) (in_mem i) (in_storage i) (in_image i) (js (GObj (in_config i))) start)"
  using assms by (simp add: wire_payload_def create_payload_def text_at_def at_key_def wrap32_def)

text \<open>
  The commands of a migration do not: the destination is asked to create an instance without
  identifier, name, type, cores, memory and storage, and the source to delete an instance without
  a name.
\<close>

theorem migration_commands_garbled:
  "wire_payload js ''create_instance'' (mig_command ''create_instance'' i) =
     Inr (CreateInstanceCommand ''<nil>'' ''<nil>'' ''<nil>'' 0 0 0 (in_image i) (js GNil) False)
   \<and> wire_payload js ''delete_instance'' (mig_command ''delete_instance'' i) = Inr (DeleteInstanceCommand ''<nil>'' ''<nil>'' True)
   \<and> wire_payload js ''stop_instance'' (mig_command ''stop_instance'' i) = Inr (StopInstanceCommand ''<nil>'' ''<nil>'' False)"
  by (simp add: wire_payload_def mig_command_def text_at_def at_key_def wrap32_def)

text \<open>
  An image is never synchronised through the gateway: it has no message for the command, so
  that nothing is written to the stream and the attempt fails.
\<close>

theorem image_sync_unsupported:
  "\<exists>e. grpc_send js wr now (sync_command corr im) = ([], Some e)"
  by (simp add: grpc_send_def wire_message_def wire_payload_def sync_command_def)

section \<open>Evacuation\<close>

definition accounted :: "inst list \<Rightarrow> evacuation \<Rightarrow> bool" where
  "accounted is ec \<longleftrightarrow> (\<forall>i\<in>set is. in_status i \<noteq> IDeleted \<longrightarrow>
     (\<exists>m j. (m, j) \<in> set (ec_migs ec) \<and> mg_inst m = in_id i) \<or> (\<exists>e. (in_name i, in_id i, e) \<in> set (ec_errors ec)))"

definition evac_books :: "inst list \<Rightarrow> evacuation \<Rightarrow> evacuation \<Rightarrow> bool" where
  "evac_books is ec ec' \<longleftrightarrow>
     ec_migrated ec' + ec_failed ec' = ec_migrated ec + ec_failed ec + int (length (filter (\<lambda>i. in_status i \<noteq> IDeleted) is))
     \<and> set (ec_migs ec) \<subseteq> set (ec_migs ec') \<and> set (ec_errors ec) \<subseteq> set (ec_errors ec') \<and> accounted is ec'"

lemma evac_books_skip: "in_status i = IDeleted \<Longrightarrow> evac_books is ec ec' \<Longrightarrow> evac_books (i # is) ec ec'"
  by (simp add: evac_books_def accounted_def)

lemma evac_books_fail:
  assumes "in_status i \<noteq> IDeleted"
    and "evac_books is (ec\<lparr>ec_failed := ec_failed ec + 1, ec_errors := ec_errors ec @ [(in_name i, in_id i, e)]\<rparr>) ec'"
  shows "evac_books (i # is) ec ec'"
  using assms by (auto simp: evac_books_def accounted_def)

lemma evac_books_move:
  assumes "in_status i \<noteq> IDeleted" and "mg_inst m = in_id i"
    and "evac_books is (ec\<lparr>ec_migrated := ec_migrated ec + 1, ec_migs := ec_migs ec @ [(m, j)]\<rparr>) ec'"
  shows "evac_books (i # is) ec ec'"
  using assms by (auto simp: evac_books_def accounted_def)

lemma evacuate_loop_accounts:
  assumes "insts_ok (rg_insts (mv_region v))" and "evacuate_loop srt ord now uid sub dest k is ec v = (v', ec')"
  shows "mv_region v' = mv_region v \<and> evac_books is ec ec'"
  using assms
proof (induction "is" arbitrary: k ec v)
  case Nil
  then show ?case by (simp add: evac_books_def accounted_def)
next
  case (Cons i "is")
  note ok = Cons.prems(1) and r = Cons.prems(2)
  show ?case
  proof (cases "in_status i = IDeleted")
    case True
    with r have "evacuate_loop srt ord now uid sub dest (Suc k) is ec v = (v', ec')" by simp
    from Cons.IH [OF ok this] evac_books_skip [OF True] show ?thesis by blast
  next
    case False
    show ?thesis
    proof (cases rule: migrate_cases [of srt "ord k" now "uid k" sub "in_id i" dest "Some MigCold" v])
      case (1 e)
      from r False 1 have "evacuate_loop srt ord now uid sub dest (Suc k) is
        (ec\<lparr>ec_failed := ec_failed ec + 1, ec_errors := ec_errors ec @ [(in_name i, in_id i, e)]\<rparr>) v = (v', ec')" by simp
      from Cons.IH [OF ok this] evac_books_fail [OF False] show ?thesis by blast
    next
      case (2 m j)
      let ?v = "v\<lparr>mv_migs := (mv_migs v)(mg_id m \<mapsto> m)\<rparr>"
      from r False 2(1) have l: "evacuate_loop srt ord now uid sub dest (Suc k) is
        (ec\<lparr>ec_migrated := ec_migrated ec + 1, ec_migs := ec_migs ec @ [(m, j)]\<rparr>) ?v = (v', ec')" by simp
      have ok': "insts_ok (rg_insts (mv_region ?v))" using ok by simp
      have "in_id j = in_id i" by (rule inst_get_cases [OF ok, of "in_id i"]) (use 2(2) in simp_all)
      with 2(6) have mi: "mg_inst m = in_id i" by simp
      note ih = Cons.IH [OF ok' l]
      have "evac_books (i # is) ec ec'" by (rule evac_books_move [OF False mi conjunct2 [OF ih]])
      with ih show ?thesis by simp
    qed
  qed
qed

text \<open>
  C39. An evacuation accounts for every workload: the node is marked as draining, the numbers of
  started and failed migrations add up to the instances on the node that are not deleted, and
  each of these instances has a migration or an error in the result.
\<close>

theorem evacuation_accounts:
  assumes "evacuate_node srt ord iks now uid sub nid dest v = (v', Inr ec)" and "insts_ok (rg_insts (mv_region v))"
    and "nodes_wf (nh_store (cl_hub (rg_cloud (mv_region v))))"
  shows "ec_migrated ec + ec_failed ec =
      int (length (filter (\<lambda>i. in_status i \<noteq> IDeleted) (inst_by_node nid iks (rg_insts (mv_region v)))))
    \<and> (\<forall>i\<in>set (inst_by_node nid iks (rg_insts (mv_region v))). in_status i \<noteq> IDeleted \<longrightarrow>
         (\<exists>m j. (m, j) \<in> set (ec_migs ec) \<and> mg_inst m = in_id i) \<or> (\<exists>e. (in_name i, in_id i, e) \<in> set (ec_errors ec)))
    \<and> (\<exists>n. node_get nid (nh_store (cl_hub (rg_cloud (mv_region v')))) = Inr n \<and> nd_drain n \<and> \<not> is_schedulable n)"
proof -
  define w where "w = mv_hub (\<lambda>h. h\<lparr>nh_store := fst (update_drain_mode now nid True (nh_store h))\<rparr>) v"
  define ins where "ins = inst_by_node nid iks (rg_insts (mv_region v))"
  define ec0 where "ec0 = \<lparr>ec_node = nid, ec_total = int (length ins), ec_migrated = 0, ec_failed = 0, ec_migs = [], ec_errors = []\<rparr>"
  from assms(1) obtain n where n: "node_get nid (nh_store (cl_hub (rg_cloud (mv_region v)))) = Inr n"
    by (auto simp: evacuate_node_def split: sum.splits)
  obtain u where l: "evacuate_loop srt ord now uid sub dest 0 ins ec0 w = (u, ec)"
    and st: "nh_store (cl_hub (rg_cloud (mv_region v'))) = nh_store (cl_hub (rg_cloud (mv_region u)))"
    using assms(1) n
    by (auto simp: evacuate_node_def Let_def w_def ec0_def ins_def mv_hub_def split: option.splits prod.splits)
  have ok: "insts_ok (rg_insts (mv_region w))" using assms(2) by (simp add: w_def)
  note acc = evacuate_loop_accounts [OF ok l]
  have "node_get nid (nh_store (cl_hub (rg_cloud (mv_region w)))) = Inr (n\<lparr>nd_drain := True,
      nd_status := (if nd_status n = NOnline then NDraining else nd_status n), nd_updated := now\<rparr>)"
    using n assms(3) by (simp add: w_def mv_hub_def update_drain_mode_def modify_node_get)
  then have "\<exists>n'. node_get nid (nh_store (cl_hub (rg_cloud (mv_region v')))) = Inr n' \<and> nd_drain n' \<and> \<not> is_schedulable n'"
    using st acc by (auto simp: is_schedulable_def)
  then show ?thesis using acc by (simp add: ec0_def ins_def accounted_def evac_books_def)
qed

section \<open>A sample cluster\<close>

definition plain_node :: "string \<Rightarrow> node" where
  "plain_node k = (new_node 0 k ''loc'' k k k None)\<lparr>nd_status := NOnline\<rparr>"

definition two_nodes :: node_store where
  "two_nodes = fst (node_create (plain_node ''n2'') (fst (node_create (plain_node ''n1'') empty_nodes)))"

definition moving_vm :: inst where
  "moving_vm = \<lparr>in_id = ''i1'', in_user = ''alice'', in_node = ''n1'', in_name = ''web'', in_type = Container,
     in_status = IStopped, in_cpu = 1, in_mem = gib, in_storage = gib, in_image = ''img'', in_ipv4 = [], in_ipv6 = [],
     in_config = [], in_created = 0, in_updated = 0\<rparr>"

definition sample_move :: movement where
  "sample_move = \<lparr>mv_region = (sample_region sample_billing)\<lparr>rg_cloud := \<lparr>cl_hub = new_hub\<lparr>nh_store := two_nodes,
        nh_conns := [''n1'' \<mapsto> \<lparr>ac_node = ''n1'', ac_at = 0, ac_sender = 1\<rparr>, ''n2'' \<mapsto> \<lparr>ac_node = ''n2'', ac_at = 0, ac_sender = 2\<rparr>]\<rparr>,
        cl_catalog = new_catalog 0\<rparr>,
      rg_insts := fst (inst_create moving_vm empty_insts)\<rparr>, mv_migs = Map.empty\<rparr>"

definition move_orders :: mig_orders where
  "move_orders = \<lparr>mo_nodes = [''n1'', ''n2''], mo_insts = [''i1''], mo_migs = []\<rparr>"

lemma sample_move_insts: "insts_ok (rg_insts (mv_region sample_move))" "inst_get ''i1'' (rg_insts (mv_region sample_move)) = Inr moving_vm"
  by (auto simp: sample_move_def inst_create_def empty_insts_def insts_ok_def inst_get_def inst_deref_def Let_def moving_vm_def
      split: if_splits)

lemma sample_move_nodes: "nodes_wf (nh_store (cl_hub (rg_cloud (mv_region sample_move))))"
proof -
  have "nodes_wf (fst (node_create (plain_node ''n1'') empty_nodes))"
    by (rule node_create_wf [OF conjunct1 [OF empty_nodes_wf]]) (simp add: empty_nodes_def)
  then have "nodes_wf two_nodes" unfolding two_nodes_def
    by (rule node_create_wf) (simp add: node_create_def empty_nodes_def plain_node_def new_node_def Let_def)
  then show ?thesis by (simp add: sample_move_def)
qed

lemma plain_node_room:
  "max_cpu (plain_node k) = 128" "max_mem (plain_node k) = 512 * gib" "max_storage (plain_node k) = 2000 * gib"
  by (simp_all add: max_cpu_def max_mem_def max_storage_def plain_node_def new_node_def f_mul_def f_of_int_def f_trunc_def gib_def Let_def)

lemma sample_nodes:
  "node_list [''n1'', ''n2''] two_nodes = [plain_node ''n1'', plain_node ''n2'']"
  "node_get ''n1'' two_nodes = Inr (plain_node ''n1'')" "node_get ''n2'' two_nodes = Inr (plain_node ''n2'')"
  by (simp_all add: two_nodes_def node_create_def empty_nodes_def plain_node_def new_node_def node_list_def node_get_def deref_def Let_def)

lemma sample_list: "inst_list_all [''i1''] (rg_insts (mv_region sample_move)) = [moving_vm]"
  by (simp add: sample_move_def inst_list_all_def inst_create_def empty_insts_def moving_vm_def Let_def)

lemma sample_allocation: "node_allocations [moving_vm] ''n2'' = no_allocation"
  by (simp add: node_allocations_def add_instance_def moving_vm_def Let_def)

lemma sample_evaluation:
  defines "c \<equiv> evaluate_placement (plain_request moving_vm []) (node_allocations [moving_vm]) (plain_node ''n2'')"
  shows "cd_eligible c" "cd_cpu c = 128" "cd_mem c = 512 * 1024" "cd_storage c = 2000" "cd_node c = plain_node ''n2''"
proof -
  have i: "nd_id (plain_node ''n2'') = ''n2''" "is_schedulable (plain_node ''n2'')"
    by (simp_all add: plain_node_def new_node_def is_schedulable_def Let_def)
  have f: "f_sub 128 (f_of_int 0) = 128" "f_of_int 1 = 1" 
    using rnd_of_int_small [of 128] f_of_int_small [of 0] f_of_int_small [of 1] by (simp_all add: f_sub_def)
  have c: "c = evaluate_capacity (plain_request moving_vm []) no_allocation (plain_node ''n2'')"
    unfolding c_def evaluate_placement_def i sample_allocation using i(2) by (simp add: plain_request_def moving_vm_def)
  show "cd_eligible c" "cd_cpu c = 128" "cd_mem c = 512 * 1024" "cd_storage c = 2000" "cd_node c = plain_node ''n2''"
    unfolding c evaluate_capacity_def plain_node_room Let_def
    by (simp_all add: f plain_request_def moving_vm_def no_allocation_def blank_def gib_def mib_def wrap64_def quot_def)
qed

lemma sample_preflight:
  "preflight_check [''n1'', ''n2''] [''i1''] ''i1'' ''n2'' (mv_region sample_move) = Inr (blank_preflight True\<lparr>pf_cpu_ok := True,
     pf_mem_ok := True, pf_storage_ok := True\<rparr>)"
proof -
  have st: "nh_store (cl_hub (rg_cloud (mv_region sample_move))) = two_nodes" by (simp add: sample_move_def)
  have s: "is_schedulable (plain_node ''n2'')" "nd_caps (plain_node k) = None" "nd_id (plain_node k) = k" for k
    by (simp_all add: plain_node_def new_node_def is_schedulable_def Let_def)
  have n: "in_node moving_vm = ''n1''" "in_cpu moving_vm = 1" "in_mem moving_vm = gib" "in_storage moving_vm = gib"
    by (simp_all add: moving_vm_def)
  have o: "cd_node (evaluate_placement req al k) = k" for req al k
    by (simp add: evaluate_placement_def evaluate_capacity_def reject_def blank_def Let_def)
  show ?thesis using sample_evaluation f_of_int_small [of 1]
    by (simp add: preflight_check_def sample_move_insts sample_nodes s st n evaluate_candidates_def sample_list capacity_check_def o
        blank_preflight_def gib_def mib_def wrap64_def Let_def)
qed

definition started :: migration where
  "started = new_migration 0 ''m1'' moving_vm ''n2'' None
     ((blank_preflight True)\<lparr>pf_cpu_ok := True, pf_mem_ok := True, pf_storage_ok := True\<rparr>)"

definition moving :: movement where
  "moving = sample_move\<lparr>mv_migs := [''m1'' \<mapsto> started]\<rparr>"

lemma started_simps:
  "mg_id started = ''m1''" "mg_inst started = ''i1''" "mg_dest started = ''n2''" "mg_source started = ''n1''"
  "mg_status started = MigReserving" "mg_tenant started = ''alice''"
  by (simp_all add: started_def new_migration_def moving_vm_def)

lemma sample_start:
  "migrate id move_orders 0 ''m1'' None ''i1'' ''n2'' None sample_move = (moving, Inr (started, moving_vm))"
proof -
  have "active_for_instance [] ''i1'' sample_move = None" "in_id moving_vm = ''i1''" "in_node moving_vm = ''n1''"
    by (simp_all add: active_for_instance_def moving_vm_def)
  moreover have "mv_migs sample_move = Map.empty" by (simp add: sample_move_def)
  ultimately show ?thesis
    by (simp add: migrate_def sample_move_insts mig_access_def move_orders_def sample_preflight mig_create_def moving_def
        started_def new_migration_def blank_preflight_def passed_def zero_time_def Let_def)
qed

definition answering :: "string \<Rightarrow> reply" where
  "answering ty = \<lparr>rp_sent = None, rp_results = [\<lparr>cr_corr = ty, cr_success = True, cr_error = '''', cr_payload = [], cr_completed = 0\<rparr>]\<rparr>"

definition mute :: "string \<Rightarrow> reply" where
  "mute ty = (if ty = ''create_instance'' then \<lparr>rp_sent = None, rp_results = []\<rparr> else answering ty)"

lemma answering_silent: "\<not> silent answering (\<lambda>ty. ty) ty" "silent mute (\<lambda>ty. ty) ty \<longleftrightarrow> ty = ''create_instance''"
  by (simp_all add: silent_def answering_def mute_def)

lemma moving_insts:
  "insts_ok (rg_insts (mv_region moving))" "inst_get (in_id moving_vm) (rg_insts (mv_region moving)) = Inr moving_vm"
  "mv_migs moving (mg_id started) = Some started"
  using sample_move_insts by (simp_all add: moving_def moving_vm_def started_simps)


theorem one_active_migration_witness:
  "move_step\<^sup>*\<^sup>* sample_move moving \<and> mv_migs sample_move = Map.empty
   \<and> {b. \<exists>n. mv_migs moving b = Some n \<and> mg_inst n = ''i1'' \<and> \<not> mig_terminal (mg_status n)} = {''m1''}"
proof -
  have e: "mv_migs sample_move = Map.empty" by (simp add: sample_move_def)
  have "move_step sample_move (fst (migrate id move_orders 0 ''m1'' None ''i1'' ''n2'' None sample_move))"
    by (rule move_step.start) (simp_all add: e iterates_def move_orders_def)
  then have st: "move_step\<^sup>*\<^sup>* sample_move moving" by (simp add: sample_start)
  have m: "mv_migs moving ''m1'' = Some started" "\<not> mig_terminal (mg_status started)"
    by (simp_all add: moving_def started_simps mig_terminal_def)
  have "b = ''m1''" if "mv_migs moving b = Some n" "mg_inst n = ''i1''" "\<not> mig_terminal (mg_status n)" for b n
    by (rule one_active_migration [OF st e that(1) m(1)]) (simp_all add: that m(2) started_simps(2))
  then have "{b. \<exists>n. mv_migs moving b = Some n \<and> mg_inst n = ''i1'' \<and> \<not> mig_terminal (mg_status n)} = {''m1''}"
    using m started_simps(2) by blast
  with st e show ?thesis by blast
qed

theorem silent_destination_blocks_witness:
  "\<exists>v' m'. execute_migration 1 mute (\<lambda>ty. ty) (\<lambda>_. []) started moving_vm moving = (v', False) \<and> mv_migs v' ''m1'' = Some m'
    \<and> mg_status m' = MigTransferring
    \<and> migrate id (move_orders\<lparr>mo_migs := [''m1'']\<rparr>) 2 ''m2'' None ''i1'' ''n2'' None v' = (v', Inl ErrMigrationInProgress)"
proof -
  have n: "live_node (mg_dest started) (cl_hub (rg_cloud (mv_region moving))) = Inr (plain_node ''n2'')"
    "nh_conns (cl_hub (rg_cloud (mv_region moving))) (mg_dest started) = Some \<lparr>ac_node = ''n2'', ac_at = 0, ac_sender = 2\<rparr>"
    using sample_nodes(3) by (simp_all add: live_node_def moving_def sample_move_def started_simps plain_node_def new_node_def Let_def)
  show ?thesis
    using silent_destination_blocks [OF moving_insts(3) _ _ n moving_insts(2), of mute "\<lambda>ty. ty" "move_orders\<lparr>mo_migs := [''m1'']\<rparr>" None
        1 "\<lambda>_. []" moving_vm id 2 "''m2''" "''n2''" None]
    by (simp add: answering_silent started_simps mig_access_def moving_vm_def)
qed

theorem migration_destination_sound_witness:
  "mg_source started = in_node moving_vm \<and> mg_dest started \<noteq> in_node moving_vm
    \<and> (\<exists>n. node_get ''n2'' (nh_store (cl_hub (rg_cloud (mv_region sample_move)))) = Inr n \<and> is_schedulable n)"
  using migration_destination_sound [OF sample_start sample_move_nodes sample_move_insts(1)] started_simps(3) by metis

theorem migration_reserves_nothing_witness:
  "mg_status started = MigReserving
    \<and> preflight_check [''n1'', ''n2''] [''i1''] ''i1'' ''n2'' (mv_region moving)
      = preflight_check [''n1'', ''n2''] [''i1''] ''i1'' ''n2'' (mv_region sample_move)"
  by (rule migration_reserves_nothing [OF sample_start])

theorem create_command_arrives_witness:
  "wire_payload (\<lambda>_. ''{}'') ''create_instance'' (create_payload moving_vm True) =
     Inr (CreateInstanceCommand ''i1'' ''web'' ''container'' 1 1073741824 1073741824 ''img'' ''{}'' True)"
  using create_command_arrives [of moving_vm "\<lambda>_. ''{}''" True] by (simp add: moving_vm_def gib_def)

theorem evacuation_accounts_witness:
  "\<exists>v' ec. evacuate_node id (\<lambda>_. move_orders) [''i1''] 1 (\<lambda>_. ''m1'') None ''n1'' ''n2'' sample_move = (v', Inr ec)
    \<and> ec_migrated ec + ec_failed ec = 1"
proof -
  have "nh_store (cl_hub (rg_cloud (mv_region sample_move))) = two_nodes" by (simp add: sample_move_def)
  then have "\<exists>v' ec. evacuate_node id (\<lambda>_. move_orders) [''i1''] 1 (\<lambda>_. ''m1'') None ''n1'' ''n2'' sample_move = (v', Inr ec)"
    by (simp add: evacuate_node_def sample_nodes mig_access_def Let_def case_prod_beta)
  then obtain v' ec where e: "evacuate_node id (\<lambda>_. move_orders) [''i1''] 1 (\<lambda>_. ''m1'') None ''n1'' ''n2'' sample_move = (v', Inr ec)"
    by blast
  have "inst_by_node ''n1'' [''i1''] (rg_insts (mv_region sample_move)) = [moving_vm]"
    by (simp add: inst_by_node_def sample_list moving_vm_def)
  then have "ec_migrated ec + ec_failed ec = 1"
    using evacuation_accounts [OF e sample_move_insts(1) sample_move_nodes] by (simp add: moving_vm_def)
  with e show ?thesis by blast
qed

end
