(* ===== verification/Spec2Isabelle.thy ===== *)
theory Spec2Isabelle
  imports RateLimit Job_Engine Ipam Node_Gateway Guest_Files Account_Security Monitoring Storage_Safety Webhook_Delivery Billing_Books
    Network_Service Migration_Safety
begin

text \<open>
  Aurora is a control plane for virtual machines and containers. A server keeps the state of
  tenants, nodes, instances, addresses, storage, quotas and jobs; agents on the hypervisor nodes
  hold a stream to it and execute its commands. This development models the core of the server,
  the Go code under \<open>src/internal\<close>, at the level of its domain types (\<open>domain\<close>), services
  (\<open>app\<close>) and in-memory repositories (\<open>infra/memory\<close>), and proves what makes it correct. Where
  the code does not do what it means to, a theorem says so.

  \<^bold>\<open>Parts and how they interact.\<close> A request is authenticated by the middleware (API key or
  access token), which yields a subject; a service asks the authorizer about the subject, then
  reads and writes its repositories, sends commands to nodes over the connection manager,
  records audit entries and publishes events. Creating an instance runs through the quota
  engine, the scheduler, the template service, the instance repository and the dispatcher. The
  health supervisor, the job engine, the event bus and the webhook dispatcher work in the
  background.

  \<^bold>\<open>Theories and sources.\<close>
  \<^item> \<open>Aurora_Prelude\<close>, \<open>Go_Errors\<close>, \<open>Float64\<close>, \<open>Ipv4\<close>: Go's integers, times, strings, maps, errors,
    double precision arithmetic and the part of package \<open>net\<close> the program uses; the locale
    \<open>invariant_machine\<close> of invariants over step relations.
  \<^item> \<open>Identity\<close>: \<open>domain/identity/user.go\<close>, \<open>app/authz/authorizer.go\<close>; locale \<open>authorizer\<close>.
  \<^item> \<open>Account_Store\<close>, \<open>Auth_Service\<close>, \<open>Api_Access\<close>: users, roles, sessions and keys
    (\<open>domain/identity\<close>, \<open>infra/memory/memory_repos.go\<close>), login, second factor and refresh
    rotation (\<open>app/auth/service.go\<close>, \<open>app/account\<close>, \<open>infra/jwt\<close>, \<open>infra/totp\<close>), API keys and request
    authentication (\<open>app/apikeys\<close>, \<open>transport/http/middleware.go\<close>); \<open>Session_Security\<close> and
    \<open>Account_Security\<close> hold their properties over all sequences of requests.
  \<^item> \<open>Audit_Trail\<close>, \<open>Domain_Events\<close>: the hash chain of \<open>domain/audit/audit.go\<close>, and the trails of
    audit entries and events the services leave.
  \<^item> \<open>RateLimit\<close>: \<open>app/ratelimit\<close>, \<open>infra/memory/ratelimit_repo.go\<close>; locale \<open>limiter\<close>.
  \<^item> \<open>Job_Store\<close>, \<open>Job_Engine\<close>: \<open>domain/job\<close>, \<open>infra/memory/job_repo.go\<close>, \<open>app/job/engine.go\<close>.
  \<^item> \<open>Ipam\<close>: \<open>domain/ipam\<close>, \<open>infra/memory/ipam_repo.go\<close>, \<open>app/ipam/service.go\<close>.
  \<^item> \<open>Node_Store\<close>, \<open>Node_Service\<close>, \<open>Node_Health\<close>, \<open>Node_Gateway\<close>: \<open>domain/node\<close>,
    \<open>infra/memory/node_repo.go\<close>, \<open>app/node\<close>, \<open>app/nodehealth/supervisor.go\<close>.
  \<^item> \<open>Quota\<close>: plans, subscriptions and quotas (\<open>domain/billing\<close>, \<open>infra/memory/billing_repo.go\<close>,
    \<open>app/billing/quota.go\<close>); locale \<open>quota_port\<close>.
  \<^item> \<open>Billing_Service\<close>, \<open>Billing_Books\<close>: metering, invoices, payments and the billing service
    (\<open>domain/billing\<close>, \<open>infra/memory/usage_repo.go\<close>, \<open>infra/memory/invoice_repo.go\<close>, \<open>app/billing\<close>),
    over \<open>Go_Calendar\<close>, the calendar arithmetic of \<open>time.AddDate\<close>.
  \<^item> \<open>Instance_Store\<close>, \<open>Scheduler\<close>, \<open>Compute_Service\<close>, \<open>Guest_Path\<close>, \<open>Guest_Files\<close>: instances,
    placement and the compute service (\<open>domain/compute\<close>, \<open>domain/placement\<close>,
    \<open>infra/memory/instance_repo.go\<close>, \<open>app/scheduler\<close>, \<open>app/compute/service.go\<close>).
  \<^item> \<open>Cloud_Init\<close>, \<open>Template_Catalog\<close>, \<open>Template_Service\<close>: \<open>domain/template\<close>,
    \<open>infra/memory/template_repo.go\<close>, \<open>app/template/service.go\<close>, \<open>infra/imagesource\<close>.
  \<^item> \<open>Telemetry\<close>, \<open>Monitoring\<close>: \<open>infra/telemetry/ringbuffer.go\<close>, \<open>domain/monitoring\<close>,
    \<open>infra/memory/monitoring_repo.go\<close>, \<open>app/monitoring/service.go\<close>; locale \<open>bounded_history\<close>.
  \<^item> \<open>Storage_Service\<close>, \<open>Storage_Safety\<close>: \<open>domain/storage\<close>, \<open>infra/memory/storage_repo.go\<close>,
    \<open>app/storage/service.go\<close>.
  \<^item> \<open>Event_Bus\<close>: \<open>app/events/bus.go\<close>, \<open>infra/memory/event_repo.go\<close>.
  \<^item> \<open>Ssrf_Guard\<close>, \<open>Webhooks\<close>, \<open>Webhook_Delivery\<close>: \<open>infra/ssrf/ssrf.go\<close>, \<open>domain/webhook\<close>,
    \<open>infra/memory/webhook_repo.go\<close>, \<open>app/webhook/service.go\<close>, \<open>infra/webhooks/dispatcher.go\<close>.
  \<^item> \<open>Command_Wire\<close>: the gRPC gateway of the nodes, \<open>transport/grpc/gateway.go\<close>.
  \<^item> \<open>Network_Service\<close>: \<open>domain/network\<close>, \<open>infra/memory/firewall_repo.go\<close>, \<open>app/network/service.go\<close>.
  \<^item> \<open>Migration_Service\<close>, \<open>Migration_Safety\<close>: \<open>domain/migration\<close>, \<open>infra/memory/migration_repo.go\<close>,
    \<open>app/migration/service.go\<close>, \<open>app/evacuation/service.go\<close>.

  \<^bold>\<open>Conventions.\<close> A method is a function from arguments and state to the new state and its
  result; an error is the left summand of a result or a \<open>Some\<close>, named after the sentinel value of
  the source, and a wrapped error is the sentinel inside it. A method that holds its mutex is one
  atomic step. A service request runs without interleaving unless the theory splits it into
  steps, as \<open>Job_Engine\<close> (goroutines by their repository calls), \<open>Node_Health\<close> (listing and
  update of the supervisor), \<open>Session_Security\<close> (the check and the rotation of a refresh),
  \<open>Event_Bus\<close> (check and send of a publisher) and \<open>Migration_Safety\<close> (the writes of overlapping
  executions) do. Times are nanoseconds, \<open>now\<close> is the clock and the
  readings within one method are one instant; new identifiers and random values are arguments.
  The iteration order of a Go map is an argument, a list of keys constrained by \<open>iterates\<close> where
  it matters. Objects that several maps share live in a heap behind addresses; copies the code
  makes are values. Integers are \<open>int\<close> with \<open>wrap64\<close> where a sum can leave 64 bits, words for
  addresses. Text is ASCII. Messages of errors and logs are not modelled beyond their fixed part.

  \<^bold>\<open>Parameters\<close> stand for code outside the repository or for the world: SHA-256, HMAC, JSON
  encoding, X.509 signing and verification (\<open>pki\<close>), signing of tokens, password hashing,
  encryption and time codes (\<open>crypt\<close>), the text form of IPv6 addresses (\<open>v6_text\<close>), URL parsing
  and name resolution (\<open>outside\<close>), the order \<open>sort.Slice\<close> gives to equal scores, the replies of
  nodes and HTTP servers. What a theorem needs of one of them is a hypothesis of the theorem.

  \<^bold>\<open>What the lemmas show.\<close> Each component has a well-formedness invariant kept by every
  operation, often through an interpretation of \<open>invariant_machine\<close> on its step relation; the
  functional behaviour of its operations on every branch; isolation of tenants; and the findings
  as theorems on concrete behaviour. Termination: the address search of \<open>Ipam\<close> ends by the measure
  of the words left, the bucket loop of \<open>Telemetry\<close> is a partial function on 64-bit instants that
  is shown to return for every range; all other loops run over lists. No fuel is used.

  \<^bold>\<open>Not modelled.\<close> The PostgreSQL repositories (SQL text run by a database; the in-memory
  repositories implement the same interfaces), the HTTP and websocket transports and the set-up of
  the gRPC server, the node agent and its Incus driver, configuration, programs, generated code, cryptographic wrappers,
  diagnostics: input and output, or calls into libraries. Backups,
  notifications, reconciliation, recovery, key rotation, console tickets and the audit export are
  services that the development does not reach.
\<close>

end
